(* ===== verification/Go_Base.thy ===== *)
theory Go_Base
  imports "HOL-Library.Word" "HOL-Library.AList" "HOL-Library.Char_ord" "HOL-Library.List_Lexorder"
begin

text \<open>
  Prelude of the development: the types and the automation the component theories share.

  Go values are represented as follows.  A Go \<open>string\<close> is a byte sequence, here the type
  \<^typ>\<open>string\<close> of lists of 8-bit characters.  A \<open>byte\<close> is an \<^typ>\<open>8 word\<close>.  A rune is the
  natural number of its code point.  \<open>time.Time\<close> is the number of nanoseconds since Go's zero
  time (so \<open>IsZero\<close> is equality with 0), and a 64-bit signed integer is an \<^typ>\<open>int\<close> on which
  the wrap-around of an arithmetic operation is written out with \<open>int64\<close>.  A Go map is an
  association list (finite, with one fixed iteration order); an \<open>error\<close> is a value of
  \<open>go_error\<close>; a call that returns \<open>(T, error)\<close> is a value of \<open>go_error + T\<close>.
\<close>

section \<open>Collections of facts\<close>

named_theorems go_strings \<open>rewrite rules for the string functions of the Go library\<close>
named_theorems store_defs \<open>unfoldings of the store operations\<close>

section \<open>Types\<close>

type_synonym byte = "8 word"
type_synonym rune = nat
type_synonym time = int
type_synonym duration = int

datatype go_error =
    errRepositoryNotImplemented
  | errRepoNotFound
  | errRepoArchived
  | errRepoTokenInvalid
  | errRepoTokenForbidden
  | errRepoTokenNotFound
  | errRepoStorageNotFound
  | errIdempotencyConflict
  | errLFSObjectNotFound
  | errLFSObjectInvalid
  | errLFSObjectTooLarge
  | errMaxBytes
  | errGitDiffTooLarge
  | errGitRevisionNotFound
  | errGitDiffNoMergeBase
  | errOther string

fun error_text :: "go_error \<Rightarrow> string" where
  "error_text errRepositoryNotImplemented = ''repository not implemented''"
| "error_text errRepoNotFound = ''repo not found''"
| "error_text errRepoArchived = ''repo archived''"
| "error_text errRepoTokenInvalid = ''repo token invalid''"
| "error_text errRepoTokenForbidden = ''repo token forbidden''"
| "error_text errRepoTokenNotFound = ''repo token not found''"
| "error_text errRepoStorageNotFound = ''repo storage not found''"
| "error_text errIdempotencyConflict = ''idempotency key conflict''"
| "error_text errLFSObjectNotFound = ''lfs object not found''"
| "error_text errLFSObjectInvalid = ''lfs object invalid''"
| "error_text errLFSObjectTooLarge = ''lfs object too large''"
| "error_text errMaxBytes = ''http: request body too large''"
| "error_text errGitDiffTooLarge = ''git diff output exceeded size limit''"
| "error_text errGitRevisionNotFound = ''git revision not found''"
| "error_text errGitDiffNoMergeBase = ''git diff revisions do not share a merge base''"
| "error_text (errOther text) = text"

type_synonym 'a result = "go_error + 'a"

text \<open>
  One call of \<open>crypto/rand.Read\<close>: an error, or the bytes it fills the caller's buffer with.
\<close>
type_synonym rand_read = "(nat \<Rightarrow> byte) result"

section \<open>64-bit integers and durations\<close>

definition int64 :: "int \<Rightarrow> int" where
  "int64 x = signed_take_bit 63 x"

lemma int64_id: "- (2 ^ 63) \<le> x \<Longrightarrow> x < 2 ^ 63 \<Longrightarrow> int64 x = x"
  unfolding int64_def by (rule signed_take_bit_int_eq_self) simp_all

lemma int64_range: "- (2 ^ 63) \<le> int64 x \<and> int64 x < 2 ^ 63"
  unfolding int64_def
  using signed_take_bit_int_greater_eq_minus_exp [of 63 x] signed_take_bit_int_less_exp [of 63 x]
  by simp

abbreviation nanosecond :: duration where "nanosecond \<equiv> 1"
abbreviation second :: duration where "second \<equiv> 1000000000"
abbreviation minute :: duration where "minute \<equiv> 60 * second"
abbreviation hour :: duration where "hour \<equiv> 60 * minute"

definition time_IsZero :: "time \<Rightarrow> bool" where
  "time_IsZero t \<longleftrightarrow> t = 0"

section \<open>Go maps\<close>

type_synonym ('k, 'v) gomap = "('k \<times> 'v) list"

lemma gomap_get_put [simp]: "map_of (AList.update k v m) = (map_of m)(k \<mapsto> v)"
  by (rule update_conv')

lemma gomap_get_delete [simp]: "map_of (AList.delete k m) = (map_of m)(k := None)"
  by (rule delete_conv')

lemma gomap_put_distinct [simp, intro]:
  "distinct (map fst m) \<Longrightarrow> distinct (map fst (AList.update k v m))"
  by (rule distinct_update)

lemma gomap_delete_distinct [simp, intro]:
  "distinct (map fst m) \<Longrightarrow> distinct (map fst (AList.delete k m))"
  by (rule distinct_delete)

text \<open>The values of a Go map, in the order a \<open>range\<close> loop visits them.\<close>

abbreviation gomap_values :: "('k, 'v) gomap \<Rightarrow> 'v list" where
  "gomap_values m \<equiv> map snd m"

lemma gomap_values_iff:
  "distinct (map fst m) \<Longrightarrow> v \<in> set (gomap_values m) \<longleftrightarrow> (\<exists>k. map_of m k = Some v)"
  by (force dest: map_of_SomeD)

end
