(* ===== verification/Go_Strings.thy ===== *)
theory Go_Strings
  imports Go_Base
begin

text \<open>
  The parts of Go's string library the sources use: UTF-8 decoding as a \<open>range\<close> loop over a
  string performs it, \<open>strings.TrimSpace\<close>, \<open>CutPrefix\<close>, \<open>CutSuffix\<close>, \<open>Cut\<close>, \<open>Contains\<close>,
  \<open>Split\<close>, \<open>Trim\<close>, \<open>TrimRight\<close> and \<open>ToLower\<close>.  The codecs are in \<open>Go_Codec\<close>.  The locale \<open>ascii_class\<close> carries the
  one fact every validator of the program rests on: a loop over the runes of a string that
  accepts ASCII characters only is a loop over its bytes.
\<close>

section \<open>UTF-8\<close>

abbreviation chr_nat :: "char \<Rightarrow> nat" where "chr_nat c \<equiv> of_char c"

definition rune_error :: rune where "rune_error = 0xFFFD"

definition utf8_cont :: "nat \<Rightarrow> bool" where
  "utf8_cont b \<longleftrightarrow> 0x80 \<le> b \<and> b \<le> 0xBF"

text \<open>The range of the second byte, which depends on the first (overlong forms, surrogates).\<close>

definition utf8_second :: "nat \<Rightarrow> nat \<Rightarrow> bool" where
  "utf8_second b0 b1 \<longleftrightarrow>
     (if b0 = 0xE0 then 0xA0 \<le> b1 \<and> b1 \<le> 0xBF
      else if b0 = 0xED then 0x80 \<le> b1 \<and> b1 \<le> 0x9F
      else if b0 = 0xF0 then 0x90 \<le> b1 \<and> b1 \<le> 0xBF
      else if b0 = 0xF4 then 0x80 \<le> b1 \<and> b1 \<le> 0x8F
      else utf8_cont b1)"

text \<open>\<open>utf8.DecodeRuneInString\<close>: the first rune and the number of bytes it takes.\<close>

definition utf8_rune2 :: "nat \<Rightarrow> nat \<Rightarrow> rune \<times> nat" where
  "utf8_rune2 b0 b1 =
     (if utf8_second b0 b1 then ((b0 mod 32) * 64 + b1 mod 64, 2) else (rune_error, 1))"

definition utf8_rune3 :: "nat \<Rightarrow> nat \<Rightarrow> nat \<Rightarrow> rune \<times> nat" where
  "utf8_rune3 b0 b1 b2 =
     (if utf8_second b0 b1 \<and> utf8_cont b2
      then ((b0 mod 16) * 4096 + (b1 mod 64) * 64 + b2 mod 64, 3) else (rune_error, 1))"

definition utf8_rune4 :: "nat \<Rightarrow> nat \<Rightarrow> nat \<Rightarrow> nat \<Rightarrow> rune \<times> nat" where
  "utf8_rune4 b0 b1 b2 b3 =
     (if utf8_second b0 b1 \<and> utf8_cont b2 \<and> utf8_cont b3
      then ((b0 mod 8) * 262144 + (b1 mod 64) * 4096 + (b2 mod 64) * 64 + b3 mod 64, 4)
      else (rune_error, 1))"

fun decode_rune :: "string \<Rightarrow> rune \<times> nat" where
  "decode_rune [] = (rune_error, 0)"
| "decode_rune (c # cs) =
     (let b0 = chr_nat c in
      if b0 < 0x80 then (b0, 1)
      else if b0 < 0xC2 \<or> 0xF4 < b0 then (rune_error, 1)
      else if b0 < 0xE0 then
        (case cs of c1 # _ \<Rightarrow> utf8_rune2 b0 (chr_nat c1) | _ \<Rightarrow> (rune_error, 1))
      else if b0 < 0xF0 then
        (case cs of
           c1 # c2 # _ \<Rightarrow> utf8_rune3 b0 (chr_nat c1) (chr_nat c2) | _ \<Rightarrow> (rune_error, 1))
      else
        (case cs of
           c1 # c2 # c3 # _ \<Rightarrow> utf8_rune4 b0 (chr_nat c1) (chr_nat c2) (chr_nat c3)
         | _ \<Rightarrow> (rune_error, 1)))"

declare decode_rune.simps(2) [simp del]

lemma decode_rune_ascii: "chr_nat c < 128 \<Longrightarrow> decode_rune (c # cs) = (chr_nat c, 1)"
  by (simp add: decode_rune.simps(2))

lemma utf8_rune_sizes:
  "1 \<le> snd (utf8_rune2 b0 b1)" "1 \<le> snd (utf8_rune3 b0 b1 b2)"
  "1 \<le> snd (utf8_rune4 b0 b1 b2 b3)"
  by (simp_all add: utf8_rune2_def utf8_rune3_def utf8_rune4_def)

lemma decode_rune_size: "1 \<le> snd (decode_rune (c # cs))"
  using utf8_rune_sizes
  by (auto simp: decode_rune.simps(2) Let_def simp del: One_nat_def split: list.split)

lemma mod_block:
  fixes b k m :: nat
  assumes "k * m \<le> b" "b < k * m + m"
  shows "b mod m = b - k * m"
proof -
  from assms have "b = k * m + (b - k * m)" and "b - k * m < m" by simp_all
  then show ?thesis by (metis mod_less mod_mult_self3)
qed

lemma utf8_rune2_ge: "0xC2 \<le> b0 \<Longrightarrow> b0 < 0xE0 \<Longrightarrow> 128 \<le> fst (utf8_rune2 b0 b1)"
proof -
  assume "0xC2 \<le> b0" "b0 < 0xE0"
  then have "2 \<le> b0 mod 32" by (simp add: mod_block [of 6])
  then show ?thesis by (simp add: utf8_rune2_def rune_error_def)
qed

lemma utf8_rune3_ge: "0xE0 \<le> b0 \<Longrightarrow> b0 < 0xF0 \<Longrightarrow> 128 \<le> fst (utf8_rune3 b0 b1 b2)"
proof (cases "b0 = 0xE0")
  case True
  then have "utf8_second b0 b1 \<longrightarrow> 32 \<le> b1 mod 64"
    by (auto simp: utf8_second_def mod_block [of 2])
  then show ?thesis by (auto simp: utf8_rune3_def rune_error_def)
next
  case False
  moreover assume "0xE0 \<le> b0" "b0 < 0xF0"
  ultimately have "1 \<le> b0 mod 16" by (simp add: mod_block [of 14])
  then show ?thesis by (simp add: utf8_rune3_def rune_error_def)
qed

lemma utf8_rune4_ge: "0xF0 \<le> b0 \<Longrightarrow> b0 \<le> 0xF4 \<Longrightarrow> 128 \<le> fst (utf8_rune4 b0 b1 b2 b3)"
proof (cases "b0 = 0xF0")
  case True
  then have "utf8_second b0 b1 \<longrightarrow> 16 \<le> b1 mod 64"
    by (auto simp: utf8_second_def mod_block [of 2])
  then show ?thesis by (auto simp: utf8_rune4_def rune_error_def)
next
  case False
  moreover assume "0xF0 \<le> b0" "b0 \<le> 0xF4"
  ultimately have "1 \<le> b0 mod 8" by (simp add: mod_block [of 30])
  then show ?thesis by (simp add: utf8_rune4_def rune_error_def)
qed

lemma decode_rune_non_ascii:
  assumes "128 \<le> chr_nat c"
  shows "128 \<le> fst (decode_rune (c # cs))"
proof -
  have err: "128 \<le> fst (rune_error, 1::nat)" by (simp add: rune_error_def)
  show ?thesis
    using assms utf8_rune2_ge utf8_rune3_ge utf8_rune4_ge err
    by (simp add: decode_rune.simps(2) Let_def not_less split: list.split)
qed

text \<open>\<open>for i, r := range s\<close>: the pairs of byte index and rune the loop visits.\<close>

function range_string :: "nat \<Rightarrow> string \<Rightarrow> (nat \<times> rune) list" where
  "range_string i [] = []"
| "range_string i (c # cs) =
     (let (r, n) = decode_rune (c # cs) in (i, r) # range_string (i + n) (drop n (c # cs)))"
  by pat_completeness auto
termination
proof (relation "measure (\<lambda>(i, s). length s)", goal_cases)
  case 1
  then show ?case by simp
next
  case (2 i c cs p r n)
  then have "1 \<le> n" using decode_rune_size [of c cs] by (metis snd_conv)
  then show ?case by simp
qed

declare range_string.simps(2) [simp del]

lemma range_string_ascii:
  "chr_nat c < 128 \<Longrightarrow> range_string i (c # cs) = (i, chr_nat c) # range_string (Suc i) cs"
  by (simp add: range_string.simps decode_rune_ascii)

lemma range_string_non_ascii:
  assumes "128 \<le> chr_nat c"
  obtains r rest where "range_string i (c # cs) = (i, r) # rest" and "128 \<le> r"
  using decode_rune_non_ascii [OF assms, of cs]
  by (cases "decode_rune (c # cs)") (auto simp: range_string.simps(2) intro: that)

abbreviation runes :: "string \<Rightarrow> rune list" where
  "runes s \<equiv> map snd (range_string 0 s)"

text \<open>
  A test on runes (and on their byte index) that accepts ASCII only: its loop over the runes
  is the loop over the bytes.
\<close>

locale ascii_class =
  fixes p :: "nat \<Rightarrow> rune \<Rightarrow> bool"
  assumes ascii_only: "p i r \<Longrightarrow> r < 128"
begin

lemma range_bytes:
  "list_all (\<lambda>(i, r). p i r) (range_string k s) \<longleftrightarrow>
     (\<forall>j < length s. p (k + j) (chr_nat (s ! j)))"
proof (induction s arbitrary: k)
  case Nil
  then show ?case by simp
next
  case (Cons c cs)
  show ?case
  proof (cases "chr_nat c < 128")
    case True
    then show ?thesis
      by (auto simp: range_string_ascii Cons.IH All_less_Suc2 simp flip: add_Suc)
  next
    case False
    then obtain r rest where rs: "range_string k (c # cs) = (k, r) # rest" and r: "128 \<le> r"
      using range_string_non_ascii [of c k cs] by (metis not_less)
    from r have "\<not> p k r" using ascii_only [of k r] by (meson not_less)
    moreover from False have "\<not> p (k + 0) (chr_nat ((c # cs) ! 0))"
      using ascii_only by auto
    ultimately show ?thesis unfolding rs by (auto simp del: add_0_right)
  qed
qed

lemma range_bytes_ascii:
  "list_all (\<lambda>(i, r). p i r) (range_string k s) \<Longrightarrow> c \<in> set s \<Longrightarrow> chr_nat c < 128"
  unfolding range_bytes using ascii_only by (metis in_set_conv_nth)

end

text \<open>The common case: a test that ignores the index.\<close>

locale char_class =
  fixes q :: "rune \<Rightarrow> bool"
  assumes class_ascii: "q r \<Longrightarrow> r < 128"

sublocale char_class \<subseteq> ascii_class "\<lambda>_. q"
  by unfold_locales (rule class_ascii)

context char_class
begin

lemma runes_bytes: "list_all q (runes s) \<longleftrightarrow> (\<forall>c \<in> set s. q (chr_nat c))"
proof -
  have "list_all q (runes s) \<longleftrightarrow> list_all (\<lambda>(i, r). q r) (range_string 0 s)"
    by (induction "range_string 0 s") (auto simp: list_all_iff)
  then show ?thesis
    unfolding range_bytes by (simp add: all_set_conv_all_nth)
qed

lemma runes_ascii_only: "list_all q (runes s) \<Longrightarrow> c \<in> set s \<Longrightarrow> chr_nat c < 128"
  unfolding runes_bytes by (blast intro: class_ascii)

end

section \<open>White space\<close>

text \<open>\<open>unicode.IsSpace\<close>.\<close>

definition is_space :: "rune \<Rightarrow> bool" where
  "is_space r \<longleftrightarrow>
     (0x09 \<le> r \<and> r \<le> 0x0D) \<or> r = 0x20 \<or> r = 0x85 \<or> r = 0xA0 \<or> r = 0x1680 \<or>
     (0x2000 \<le> r \<and> r \<le> 0x200A) \<or> r = 0x2028 \<or> r = 0x2029 \<or> r = 0x202F \<or>
     r = 0x205F \<or> r = 0x3000"

text \<open>\<open>utf8.DecodeLastRuneInString\<close> looks back over at most four bytes for the start of a rune.\<close>

definition rune_start :: "nat \<Rightarrow> bool" where
  "rune_start b \<longleftrightarrow> \<not> utf8_cont b"

definition decode_last_rune :: "string \<Rightarrow> rune \<times> nat" where
  "decode_last_rune s =
     (if s = [] then (rune_error, 0)
      else if chr_nat (last s) < 0x80 then (chr_nat (last s), 1)
      else case find (\<lambda>k. k \<le> length s \<and> rune_start (chr_nat (s ! (length s - k)))) [2, 3, 4] of
          None \<Rightarrow> (rune_error, 1)
        | Some k \<Rightarrow>
            (let (r, n) = decode_rune (drop (length s - k) s)
             in if n = k then (r, n) else (rune_error, 1)))"

lemma decode_last_rune_size: "s \<noteq> [] \<Longrightarrow> 1 \<le> snd (decode_last_rune s)"
  by (auto simp: decode_last_rune_def find_Some_iff less_Suc_eq split: option.splits prod.splits)

lemma decode_last_rune_ascii:
  "s \<noteq> [] \<Longrightarrow> chr_nat (last s) < 128 \<Longrightarrow> decode_last_rune s = (chr_nat (last s), 1)"
  by (simp add: decode_last_rune_def)

function trim_left_space :: "string \<Rightarrow> string" where
  "trim_left_space s =
     (if s = [] then []
      else let (r, n) = decode_rune s
           in if is_space r then trim_left_space (drop n s) else s)"
  by pat_completeness auto
termination
proof (relation "measure length", goal_cases)
  case 1
  then show ?case by simp
next
  case (2 s p r n)
  then obtain c cs where "s = c # cs" by (cases s) auto
  with 2 have "1 \<le> n" using decode_rune_size [of c cs] by (metis snd_conv)
  with 2 show ?case by simp
qed

function trim_right_space :: "string \<Rightarrow> string" where
  "trim_right_space s =
     (if s = [] then []
      else let (r, n) = decode_last_rune s
           in if is_space r then trim_right_space (take (length s - n) s) else s)"
  by pat_completeness auto
termination
proof (relation "measure length", goal_cases)
  case 1
  then show ?case by simp
next
  case (2 s p r n)
  then have "1 \<le> n" using decode_last_rune_size [of s] by (metis snd_conv)
  with 2 show ?case by simp
qed

declare trim_left_space.simps [simp del] trim_right_space.simps [simp del]

definition strings_TrimSpace :: "string \<Rightarrow> string" where
  "strings_TrimSpace s = trim_right_space (trim_left_space s)"

text \<open>A printing ASCII character: it is a rune of its own and no white space.\<close>

definition visible :: "char \<Rightarrow> bool" where
  "visible c \<longleftrightarrow> chr_nat c < 128 \<and> \<not> is_space (chr_nat c)"

lemma trim_left_space_visible: "visible c \<Longrightarrow> trim_left_space (c # cs) = c # cs"
  by (simp add: visible_def trim_left_space.simps [of "c # cs"] decode_rune_ascii)

lemma trim_right_space_visible: "s \<noteq> [] \<Longrightarrow> visible (last s) \<Longrightarrow> trim_right_space s = s"
  by (simp add: visible_def trim_right_space.simps [of s] decode_last_rune_ascii)

lemma TrimSpace_Nil [simp]: "strings_TrimSpace [] = []"
  by (simp add: strings_TrimSpace_def trim_left_space.simps [of "[]"]
      trim_right_space.simps [of "[]"])

lemma TrimSpace_visible:
  "s \<noteq> [] \<Longrightarrow> visible (hd s) \<Longrightarrow> visible (last s) \<Longrightarrow> strings_TrimSpace s = s"
  by (cases s) (simp_all add: strings_TrimSpace_def trim_left_space_visible trim_right_space_visible)

lemma TrimSpace_all_visible: "list_all visible s \<Longrightarrow> strings_TrimSpace s = s"
  by (cases "s = []") (auto simp: list_all_iff intro: TrimSpace_visible)

lemma trim_left_space_suffix: "\<exists>pre. s = pre @ trim_left_space s"
proof (induction s rule: trim_left_space.induct)
  case (1 s)
  show ?case
  proof (cases "s \<noteq> [] \<and> is_space (fst (decode_rune s))")
    case True
    obtain r n where rn: "decode_rune s = (r, n)" by (cases "decode_rune s")
    with True 1 [of "(r, n)" r n]
    obtain pre where pre: "drop n s = pre @ trim_left_space (drop n s)" by auto
    have "s = take n s @ drop n s" by simp
    with pre have "s = (take n s @ pre) @ trim_left_space (drop n s)" by simp
    moreover from True rn have "trim_left_space s = trim_left_space (drop n s)"
      by (simp add: trim_left_space.simps [of s])
    ultimately show ?thesis by metis
  next
    case False
    then have "trim_left_space s = s"
      by (auto simp: trim_left_space.simps [of s] split: prod.splits)
    then show ?thesis by simp
  qed
qed

lemma trim_right_space_prefix: "\<exists>post. s = trim_right_space s @ post"
proof (induction s rule: trim_right_space.induct)
  case (1 s)
  show ?case
  proof (cases "s \<noteq> [] \<and> is_space (fst (decode_last_rune s))")
    case True
    obtain r n where rn: "decode_last_rune s = (r, n)" by (cases "decode_last_rune s")
    let ?t = "take (length s - n) s"
    from rn True 1 [of "(r, n)" r n]
    obtain post where post: "?t = trim_right_space ?t @ post" by auto
    then have "s = trim_right_space ?t @ (post @ drop (length s - n) s)"
      by (metis append.assoc append_take_drop_id)
    moreover from True rn have "trim_right_space s = trim_right_space ?t"
      by (simp add: trim_right_space.simps [of s])
    ultimately show ?thesis by metis
  next
    case False
    then have "trim_right_space s = s"
      by (auto simp: trim_right_space.simps [of s] split: prod.splits)
    then show ?thesis by simp
  qed
qed

lemma TrimSpace_infix: "\<exists>pre post. s = pre @ strings_TrimSpace s @ post"
  unfolding strings_TrimSpace_def
  using trim_left_space_suffix [of s] trim_right_space_prefix [of "trim_left_space s"] by metis

lemma set_TrimSpace: "set (strings_TrimSpace s) \<subseteq> set s"
  using TrimSpace_infix [of s] by (metis Un_iff set_append subsetI)

lemma length_TrimSpace: "length (strings_TrimSpace s) \<le> length s"
  using TrimSpace_infix [of s] by (metis add_leD1 le_add2 le_refl length_append order_trans)

section \<open>Prefixes, suffixes, separators\<close>

definition strings_HasPrefix :: "string \<Rightarrow> string \<Rightarrow> bool" where
  "strings_HasPrefix s p \<longleftrightarrow> take (length p) s = p"

definition strings_HasSuffix :: "string \<Rightarrow> string \<Rightarrow> bool" where
  "strings_HasSuffix s p \<longleftrightarrow> length p \<le> length s \<and> drop (length s - length p) s = p"

definition strings_CutPrefix :: "string \<Rightarrow> string \<Rightarrow> string option" where
  "strings_CutPrefix s p = (if strings_HasPrefix s p then Some (drop (length p) s) else None)"

definition strings_CutSuffix :: "string \<Rightarrow> string \<Rightarrow> string option" where
  "strings_CutSuffix s p =
     (if strings_HasSuffix s p then Some (take (length s - length p) s) else None)"

text \<open>\<open>strings.Cut\<close>: the text before and after the first separator, and whether there is one.\<close>

fun strings_Cut :: "string \<Rightarrow> string \<Rightarrow> string \<times> string \<times> bool" where
  "strings_Cut [] sep = ([], [], sep = [])"
| "strings_Cut (c # cs) sep =
     (if strings_HasPrefix (c # cs) sep then ([], drop (length sep) (c # cs), True)
      else let (b, a, ok) = strings_Cut cs sep in (c # b, a, ok))"

fun strings_Contains :: "string \<Rightarrow> string \<Rightarrow> bool" where
  "strings_Contains [] sub \<longleftrightarrow> sub = []"
| "strings_Contains (c # cs) sub \<longleftrightarrow> strings_HasPrefix (c # cs) sub \<or> strings_Contains cs sub"

text \<open>\<open>strings.Split\<close> with a separator of one byte, the only kind the sources use.\<close>

fun strings_Split :: "char \<Rightarrow> string \<Rightarrow> string list" where
  "strings_Split x [] = [[]]"
| "strings_Split x (c # cs) =
     (if c = x then [] # strings_Split x cs
      else case strings_Split x cs of [] \<Rightarrow> [[c]] | p # ps \<Rightarrow> (c # p) # ps)"

definition strings_TrimRight :: "string \<Rightarrow> string \<Rightarrow> string" where
  "strings_TrimRight s cutset = rev (dropWhile (\<lambda>c. c \<in> set cutset) (rev s))"

definition strings_Trim :: "string \<Rightarrow> string \<Rightarrow> string" where
  "strings_Trim s cutset = strings_TrimRight (dropWhile (\<lambda>c. c \<in> set cutset) s) cutset"

lemma HasPrefix_iff: "strings_HasPrefix s p \<longleftrightarrow> (\<exists>r. s = p @ r)"
  unfolding strings_HasPrefix_def by (metis append_eq_conv_conj append_take_drop_id)

lemma HasSuffix_iff: "strings_HasSuffix s p \<longleftrightarrow> (\<exists>r. s = r @ p)"
  unfolding strings_HasSuffix_def
  by (metis append_take_drop_id append_eq_conv_conj diff_add_inverse2 le_add2 length_append)

lemma HasPrefix_append [go_strings]: "strings_HasPrefix (p @ r) p"
  by (simp add: HasPrefix_iff)

lemma CutPrefix_Some [go_strings]: "strings_CutPrefix s p = Some r \<longleftrightarrow> s = p @ r"
  by (auto simp: strings_CutPrefix_def HasPrefix_iff)

lemma CutPrefix_append [simp]: "strings_CutPrefix (p @ r) p = Some r"
  by (simp add: CutPrefix_Some)

lemma CutPrefix_case [go_strings]:
  "(case strings_CutPrefix s p of None \<Rightarrow> None | Some raw \<Rightarrow> if P raw then Some raw else None)
     = Some r \<longleftrightarrow> s = p @ r \<and> P r"
  by (auto simp: strings_CutPrefix_def HasPrefix_iff)

lemma CutSuffix_Some [go_strings]: "strings_CutSuffix s p = Some r \<longleftrightarrow> s = r @ p"
  by (auto simp: strings_CutSuffix_def HasSuffix_iff)

lemma CutSuffix_append [simp]: "strings_CutSuffix (r @ p) p = Some r"
  by (simp add: CutSuffix_Some)

lemma Contains_iff [go_strings]: "strings_Contains s sub \<longleftrightarrow> (\<exists>pre post. s = pre @ sub @ post)"
proof (induction s)
  case Nil
  then show ?case by auto
next
  case (Cons c cs)
  show ?case
  proof
    assume "strings_Contains (c # cs) sub"
    then consider r where "c # cs = sub @ r" | "strings_Contains cs sub"
      by (auto simp: HasPrefix_iff)
    then show "\<exists>pre post. c # cs = pre @ sub @ post"
    proof cases
      case 1
      then show ?thesis by (metis append_Nil)
    next
      case 2
      with Cons.IH show ?thesis by (metis append_Cons)
    qed
  next
    assume "\<exists>pre post. c # cs = pre @ sub @ post"
    then obtain pre post where eq: "c # cs = pre @ sub @ post" by blast
    show "strings_Contains (c # cs) sub"
    proof (cases pre)
      case Nil
      with eq have "strings_HasPrefix (c # cs) sub" unfolding HasPrefix_iff by auto
      then show ?thesis by simp
    next
      case (Cons d ds)
      with eq have "cs = ds @ sub @ post" by simp
      with Cons.IH show ?thesis by auto
    qed
  qed
qed

lemma Cut_found: "strings_Cut s sep = (b, a, True) \<Longrightarrow> s = b @ sep @ a"
  by (induction s arbitrary: b) (auto simp: HasPrefix_iff split: if_splits prod.splits)

lemma Cut_not_found: "strings_Cut s sep = (b, a, False) \<Longrightarrow> b = s \<and> a = [] \<and> \<not> strings_Contains s sep"
  by (induction s arbitrary: b) (auto split: if_splits prod.splits)

lemma Cut_contains: "snd (snd (strings_Cut s sep)) \<longleftrightarrow> strings_Contains s sep"
  by (induction s) (auto split: prod.splits)

text \<open>Cutting at one character finds its first occurrence.\<close>

lemma Cut_char: "x \<notin> set b \<Longrightarrow> strings_Cut (b @ x # a) [x] = (b, a, True)"
  by (induction b) (auto simp: strings_HasPrefix_def)

lemma Cut_char_before: "strings_Cut s [x] = (b, a, True) \<Longrightarrow> x \<notin> set b"
  by (induction s arbitrary: b) (auto simp: strings_HasPrefix_def split: if_splits prod.splits)

lemma Split_nonempty [simp]: "strings_Split x s \<noteq> []"
  by (induction s) (auto split: list.splits)

lemma Split_no_sep: "x \<notin> set s \<Longrightarrow> strings_Split x s = [s]"
  by (induction s) auto

lemma Split_parts: "p \<in> set (strings_Split x s) \<Longrightarrow> x \<notin> set p \<and> set p \<subseteq> set s"
proof (induction s arbitrary: p)
  case Nil
  then show ?case by simp
next
  case (Cons c cs)
  then show ?case by (fastforce split: if_splits list.splits)
qed

text \<open>Joining the parts with the separator gives the string back.\<close>

fun join_with :: "char \<Rightarrow> string list \<Rightarrow> string" where
  "join_with x [] = []"
| "join_with x [p] = p"
| "join_with x (p # q # ps) = p @ x # join_with x (q # ps)"

lemma join_Split: "join_with x (strings_Split x s) = s"
proof (induction s)
  case Nil
  then show ?case by simp
next
  case (Cons c cs)
  obtain p ps where sp: "strings_Split x cs = p # ps"
    using Split_nonempty by (meson neq_Nil_conv)
  with Cons.IH show ?case by (cases ps) auto
qed

lemma Split_append: "x \<notin> set p \<Longrightarrow> strings_Split x (p @ x # s) = p # strings_Split x s"
  by (induction p) auto

lemma Split_append_sep: "strings_Split x (s @ x # t) = strings_Split x s @ strings_Split x t"
proof (induction s)
  case Nil
  then show ?case by simp
next
  case (Cons c cs)
  then show ?case by (auto split: list.split)
qed

section \<open>Case mapping\<close>

text \<open>
  \<open>strings.ToLower\<close> maps the ASCII letters itself and takes the rest of the alphabet from the
  tables of package \<open>unicode\<close>; \<open>low\<close> stands for those tables (the lower case of a rune that is
  not ASCII).  An invalid byte becomes the replacement character.
\<close>

definition encode_rune :: "rune \<Rightarrow> string" where
  "encode_rune r =
     (if r < 0x80 then [char_of r]
      else if r < 0x800 then [char_of (0xC0 + r div 64), char_of (0x80 + r mod 64)]
      else if r < 0x10000 then
        [char_of (0xE0 + r div 4096), char_of (0x80 + r div 64 mod 64), char_of (0x80 + r mod 64)]
      else
        [char_of (0xF0 + r div 262144), char_of (0x80 + r div 4096 mod 64),
         char_of (0x80 + r div 64 mod 64), char_of (0x80 + r mod 64)])"

definition ascii_lower :: "rune \<Rightarrow> rune" where
  "ascii_lower r = (if 0x41 \<le> r \<and> r \<le> 0x5A then r + 32 else r)"

definition strings_ToLower :: "(rune \<Rightarrow> rune) \<Rightarrow> string \<Rightarrow> string" where
  "strings_ToLower low s =
     concat (map (\<lambda>r. encode_rune (if r < 128 then ascii_lower r else low r)) (runes s))"

lemma range_string_shift: "map snd (range_string i s) = map snd (range_string j s)"
proof (induction i s arbitrary: j rule: range_string.induct)
  case (1 i)
  then show ?case by simp
next
  case (2 i c cs)
  obtain r n where rn: "decode_rune (c # cs) = (r, n)" by (cases "decode_rune (c # cs)")
  with 2 [of "(r, n)" r n "j + n"] show ?case by (simp add: range_string.simps(2))
qed

lemma runes_ascii: "list_all (\<lambda>c. chr_nat c < 128) s \<Longrightarrow> runes s = map chr_nat s"
proof (induction s)
  case Nil
  then show ?case by simp
next
  case (Cons c cs)
  then show ?case
    using range_string_shift [of "Suc 0" cs 0] by (simp add: range_string_ascii)
qed

lemma encode_rune_ascii: "r < 128 \<Longrightarrow> encode_rune r = [char_of r]"
  by (simp add: encode_rune_def)

lemma ToLower_ascii:
  assumes "list_all (\<lambda>c. chr_nat c < 128) s"
  shows "strings_ToLower low s = map (\<lambda>c. char_of (ascii_lower (chr_nat c))) s"
proof -
  have "ascii_lower (chr_nat c) < 128" if "chr_nat c < 128" for c
    using that by (simp add: ascii_lower_def)
  with assms show ?thesis
    unfolding strings_ToLower_def runes_ascii [OF assms]
    by (induction s) (simp_all add: encode_rune_ascii)
qed

end
