(* ===== verification/Go_Codec.thy ===== *)
theory Go_Codec
  imports Go_Strings
begin

text \<open>
  The codecs of the Go library the sources use: lower-case hexadecimal (\<open>encoding/hex\<close>),
  unpadded URL-safe base64 (\<open>encoding/base64\<close>), decimal integers (\<open>strconv\<close>) and the
  RFC 3339 time format (\<open>time.Format\<close>), with their round trips.
\<close>

section \<open>Hexadecimal\<close>

definition hex_digit :: "nat \<Rightarrow> char" where
  "hex_digit n = (if n < 10 then char_of (48 + n) else char_of (87 + n))"

definition hex_value :: "char \<Rightarrow> nat" where
  "hex_value c = (if chr_nat c < 58 then chr_nat c - 48 else chr_nat c - 87)"

definition hex_byte :: "byte \<Rightarrow> string" where
  "hex_byte b = [hex_digit (unat b div 16), hex_digit (unat b mod 16)]"

definition hex_EncodeToString :: "byte list \<Rightarrow> string" where
  "hex_EncodeToString bs = concat (map hex_byte bs)"

lemma hex_value_digit: "n < 16 \<Longrightarrow> hex_value (hex_digit n) = n"
  by (auto simp: hex_value_def hex_digit_def)

lemma hex_digit_range:
  "n < 16 \<Longrightarrow> (48 \<le> chr_nat (hex_digit n) \<and> chr_nat (hex_digit n) \<le> 57) \<or>
    (97 \<le> chr_nat (hex_digit n) \<and> chr_nat (hex_digit n) \<le> 102)"
  by (auto simp: hex_digit_def)

lemma byte_nibbles: "unat (b :: byte) div 16 < 16"
  using unsigned_less [of b, where ?'a = nat] by (simp add: less_mult_imp_div_less)

lemma length_hex [simp]: "length (hex_EncodeToString bs) = 2 * length bs"
  by (induction bs) (simp_all add: hex_EncodeToString_def hex_byte_def)

lemma nth_hex:
  "i < 2 * length bs \<Longrightarrow> hex_EncodeToString bs ! i =
     (if even i then hex_digit (unat (bs ! (i div 2)) div 16)
      else hex_digit (unat (bs ! (i div 2)) mod 16))"
proof (induction bs arbitrary: i)
  case Nil
  then show ?case by simp
next
  case (Cons b bs)
  consider "i = 0" | "i = 1" | j where "i = Suc (Suc j)"
    by (metis One_nat_def not0_implies_Suc)
  then show ?case
  proof cases
    case 3
    with Cons show ?thesis by (simp add: hex_EncodeToString_def hex_byte_def)
  qed (simp_all add: hex_EncodeToString_def hex_byte_def)
qed

fun hex_decode :: "string \<Rightarrow> byte list" where
  "hex_decode (a # b # cs) = word_of_nat (16 * hex_value a + hex_value b) # hex_decode cs"
| "hex_decode _ = []"

lemma hex_roundtrip: "hex_decode (hex_EncodeToString bs) = bs"
proof (induction bs)
  case Nil
  then show ?case by (simp add: hex_EncodeToString_def)
next
  case (Cons b bs)
  have "16 * (unat b div 16) + unat b mod 16 = unat b" by simp
  with Cons show ?case
    by (simp add: hex_EncodeToString_def hex_byte_def hex_value_digit byte_nibbles)
qed

lemma hex_inject: "hex_EncodeToString xs = hex_EncodeToString ys \<longleftrightarrow> xs = ys"
  by (metis hex_roundtrip)

section \<open>Base64\<close>

definition base64url_digit :: "nat \<Rightarrow> char" where
  "base64url_digit n =
     (if n < 26 then char_of (65 + n)
      else if n < 52 then char_of (71 + n)
      else if n < 62 then char_of (n - 4)
      else if n = 62 then CHR ''-'' else CHR ''_'')"

definition base64url_value :: "char \<Rightarrow> nat" where
  "base64url_value c =
     (if chr_nat c = 45 then 62 else if chr_nat c = 95 then 63
      else if chr_nat c < 58 then chr_nat c + 4
      else if chr_nat c < 91 then chr_nat c - 65 else chr_nat c - 71)"

text \<open>\<open>base64.RawURLEncoding\<close>: three bytes give four digits, a rest of one byte two, of two three.\<close>

fun RawURLEncoding :: "byte list \<Rightarrow> string" where
  "RawURLEncoding (a # b # c # bs) =
     (let v = unat a * 65536 + unat b * 256 + unat c
      in base64url_digit (v div 262144) # base64url_digit (v div 4096 mod 64)
         # base64url_digit (v div 64 mod 64) # base64url_digit (v mod 64) # RawURLEncoding bs)"
| "RawURLEncoding [a, b] =
     (let v = unat a * 65536 + unat b * 256
      in [base64url_digit (v div 262144), base64url_digit (v div 4096 mod 64),
          base64url_digit (v div 64 mod 64)])"
| "RawURLEncoding [a] =
     (let v = unat a * 65536
      in [base64url_digit (v div 262144), base64url_digit (v div 4096 mod 64)])"
| "RawURLEncoding [] = []"

lemma base64url_value_digit: "n < 64 \<Longrightarrow> base64url_value (base64url_digit n) = n"
  by (auto simp: base64url_value_def base64url_digit_def)

text \<open>The decoder, for the round trip.\<close>

fun base64url_decode :: "string \<Rightarrow> byte list" where
  "base64url_decode (w # x # y # z # cs) =
     (let v = base64url_value w * 262144 + base64url_value x * 4096
            + base64url_value y * 64 + base64url_value z
      in word_of_nat (v div 65536) # word_of_nat (v div 256 mod 256) # word_of_nat (v mod 256)
         # base64url_decode cs)"
| "base64url_decode [w, x, y] =
     (let v = base64url_value w * 262144 + base64url_value x * 4096 + base64url_value y * 64
      in [word_of_nat (v div 65536), word_of_nat (v div 256 mod 256)])"
| "base64url_decode [w, x] =
     (let v = base64url_value w * 262144 + base64url_value x * 4096
      in [word_of_nat (v div 65536)])"
| "base64url_decode _ = []"

lemma horner64:
  fixes A B C D p q v :: nat
  assumes "A * 64 + B = q" "q * 64 + C = p" "p * 64 + D = v"
  shows "A * 262144 + B * 4096 + C * 64 + D = v"
  by (simp flip: assms)

lemma digits64:
  fixes v :: nat
  shows "v div 262144 * 262144 + v div 4096 mod 64 * 4096 + v div 64 mod 64 * 64 + v mod 64 = v"
proof -
  have "v div 4096 = v div 64 div 64" "v div 262144 = v div 64 div 64 div 64"
    by (simp_all flip: div_mult2_eq)
  then show ?thesis
    by (auto intro!: horner64 [of _ _ "v div 64 div 64" _ "v div 64"])
qed

lemma byte_less: "unat (b :: byte) < 256"
  using unsigned_less [of b, where ?'a = nat] by simp

lemma base64_group:
  fixes a b c :: byte
  defines "v \<equiv> unat a * 65536 + unat b * 256 + unat c"
  shows "v div 262144 < 64" and "v div 65536 = unat a" and "v div 256 mod 256 = unat b"
    and "v mod 256 = unat c"
proof -
  note byte_less [of a] byte_less [of b] byte_less [of c]
  then show "v div 262144 < 64" "v div 65536 = unat a"
    unfolding v_def by (simp_all add: div_less_iff_less_mult)
  have v: "v = unat c + 256 * (unat a * 256 + unat b)" unfolding v_def by simp
  then show "v mod 256 = unat c" using byte_less [of c] by (simp only: mod_mult_self2 mod_less)
  from v have "v div 256 = unat a * 256 + unat b" using byte_less [of c] by simp
  then show "v div 256 mod 256 = unat b" using byte_less [of b] by simp
qed

lemma base64_quad:
  assumes "v div 262144 < 64"
  shows "base64url_decode (base64url_digit (v div 262144) # base64url_digit (v div 4096 mod 64)
      # base64url_digit (v div 64 mod 64) # base64url_digit (v mod 64) # cs) =
    word_of_nat (v div 65536) # word_of_nat (v div 256 mod 256) # word_of_nat (v mod 256)
      # base64url_decode cs"
  using assms digits64 [of v] by (simp add: Let_def base64url_value_digit)

lemma base64_triple:
  assumes "v div 262144 < 64" "v mod 64 = 0"
  shows "base64url_decode [base64url_digit (v div 262144), base64url_digit (v div 4096 mod 64),
      base64url_digit (v div 64 mod 64)] = [word_of_nat (v div 65536), word_of_nat (v div 256 mod 256)]"
  using assms digits64 [of v] by (simp add: Let_def base64url_value_digit)

lemma base64_pair:
  assumes "v div 262144 < 64" "v mod 64 = 0" "v div 64 mod 64 = 0"
  shows "base64url_decode [base64url_digit (v div 262144), base64url_digit (v div 4096 mod 64)] =
    [word_of_nat (v div 65536)]"
  using assms digits64 [of v] by (simp add: Let_def base64url_value_digit)

lemma base64_roundtrip: "base64url_decode (RawURLEncoding bs) = bs"
proof (induction bs rule: RawURLEncoding.induct)
  case (1 a b c bs)
  then show ?case
    unfolding RawURLEncoding.simps Let_def base64_quad [OF base64_group(1)] base64_group
    by simp
next
  case (2 a b)
  let ?v = "unat a * 65536 + unat b * 256 + unat (0 :: byte)"
  have "?v mod 64 = 0" by (simp add: mod_eq_0_iff_dvd)
  from base64_triple [OF base64_group(1) this] show ?case
    unfolding RawURLEncoding.simps Let_def base64_group by simp
next
  case (3 a)
  let ?v = "unat a * 65536 + unat (0 :: byte) * 256 + unat (0 :: byte)"
  have "?v mod 64 = 0" "?v div 64 mod 64 = 0" by (simp_all add: mod_eq_0_iff_dvd)
  from base64_pair [OF base64_group(1) this] show ?case
    unfolding RawURLEncoding.simps Let_def base64_group by simp
next
  case 4
  then show ?case by simp
qed

lemma base64_inject: "RawURLEncoding xs = RawURLEncoding ys \<longleftrightarrow> xs = ys"
  by (metis base64_roundtrip)

section \<open>Decimal integers\<close>

definition dec_digit :: "nat \<Rightarrow> char" where
  "dec_digit n = char_of (48 + n)"

fun dec_digits :: "nat \<Rightarrow> string" where
  "dec_digits n = (if n < 10 then [dec_digit n] else dec_digits (n div 10) @ [dec_digit (n mod 10)])"

declare dec_digits.simps [simp del]

definition strconv_FormatInt :: "int \<Rightarrow> string" where
  "strconv_FormatInt i =
     (if i < 0 then CHR ''-'' # dec_digits (nat (- i)) else dec_digits (nat i))"

definition is_dec :: "char \<Rightarrow> bool" where
  "is_dec c \<longleftrightarrow> 48 \<le> chr_nat c \<and> chr_nat c \<le> 57"

fun parse_dec :: "nat \<Rightarrow> string \<Rightarrow> nat option" where
  "parse_dec acc [] = Some acc"
| "parse_dec acc (c # cs) =
     (if is_dec c then parse_dec (10 * acc + (chr_nat c - 48)) cs else None)"

text \<open>\<open>strconv.ParseInt(s, 10, 64)\<close>: \<^const>\<open>None\<close> is a syntax or range error.\<close>

definition strconv_ParseInt :: "string \<Rightarrow> int option" where
  "strconv_ParseInt s =
     (let (neg, ds) =
        (case s of
           c # cs \<Rightarrow> (if c = CHR ''+'' then (False, cs)
                       else if c = CHR ''-'' then (True, cs) else (False, s))
         | [] \<Rightarrow> (False, s))
      in if ds = [] then None
         else case parse_dec 0 ds of
                None \<Rightarrow> None
              | Some n \<Rightarrow>
                  (if neg then (if n \<le> 2 ^ 63 then Some (- int n) else None)
                   else (if n < 2 ^ 63 then Some (int n) else None)))"

lemma parse_dec_append:
  "parse_dec acc (xs @ ys) = Option.bind (parse_dec acc xs) (\<lambda>a. parse_dec a ys)"
  by (induction xs arbitrary: acc) auto

lemma chr_dec_digit: "n < 10 \<Longrightarrow> chr_nat (dec_digit n) = 48 + n"
  by (simp add: dec_digit_def)

lemma dec_digits_parse: "parse_dec 0 (dec_digits n) = Some n"
proof (induction n rule: dec_digits.induct)
  case (1 n)
  show ?case
  proof (cases "n < 10")
    case True
    then show ?thesis by (simp add: dec_digits.simps [of n] is_dec_def chr_dec_digit)
  next
    case False
    with 1 have "parse_dec 0 (dec_digits (n div 10)) = Some (n div 10)" by simp
    with False show ?thesis
      by (simp add: dec_digits.simps [of n] parse_dec_append is_dec_def chr_dec_digit)
  qed
qed

lemma dec_digits_hd: "\<exists>c cs. dec_digits n = c # cs \<and> is_dec c"
proof (induction n rule: dec_digits.induct)
  case (1 n)
  then show ?case
    by (cases "n < 10") (auto simp: dec_digits.simps [of n] is_dec_def chr_dec_digit)
qed

lemma ParseInt_FormatInt:
  assumes "- (2 ^ 63) \<le> i" "i < 2 ^ 63"
  shows "strconv_ParseInt (strconv_FormatInt i) = Some i"
proof (cases "i < 0")
  case True
  with assms have "nat (- i) \<le> 2 ^ 63" by simp
  moreover obtain c cs where "dec_digits (nat (- i)) = c # cs" using dec_digits_hd by blast
  ultimately show ?thesis
    using True dec_digits_parse [of "nat (- i)"]
    by (simp add: strconv_ParseInt_def strconv_FormatInt_def)
next
  case False
  with assms have "nat i < 2 ^ 63" by simp
  moreover obtain c cs where c: "dec_digits (nat i) = c # cs" "is_dec c"
    using dec_digits_hd by blast
  moreover from c have "c \<noteq> CHR ''+''" "c \<noteq> CHR ''-''" by (auto simp: is_dec_def)
  ultimately show ?thesis
    using False dec_digits_parse [of "nat i"]
    by (simp add: strconv_ParseInt_def strconv_FormatInt_def)
qed

lemma ParseInt_range: "strconv_ParseInt s = Some i \<Longrightarrow> - (2 ^ 63) \<le> i \<and> i < 2 ^ 63"
  by (auto simp: strconv_ParseInt_def split: list.splits if_splits option.splits)

section \<open>RFC 3339\<close>

definition pad_left :: "nat \<Rightarrow> string \<Rightarrow> string" where
  "pad_left n s = replicate (n - length s) (CHR ''0'') @ s"

text \<open>
  Year, month and day of a number of days since 1 January of year 1 in the proleptic Gregorian
  calendar; the year starts in March inside the computation, so that the leap day comes last.
\<close>

definition civil_from_days :: "int \<Rightarrow> int \<times> int \<times> int" where
  "civil_from_days days =
     (let z = days + 306;
          era = z div 146097;
          doe = z mod 146097;
          yoe = (doe - doe div 1460 + doe div 36524 - doe div 146096) div 365;
          doy = doe - (365 * yoe + yoe div 4 - yoe div 100);
          mp = (5 * doy + 2) div 153;
          d = doy - (153 * mp + 2) div 5 + 1;
          m = (if mp < 10 then mp + 3 else mp - 9);
          y = yoe + era * 400 + (if m \<le> 2 then 1 else 0)
      in (y, m, d))"

text \<open>
  \<open>t.Format(time.RFC3339)\<close> in a zone that is \<open>off\<close> seconds east of UTC at \<open>t\<close>.
\<close>

definition time_FormatRFC3339 :: "int \<Rightarrow> time \<Rightarrow> string" where
  "time_FormatRFC3339 off t =
     (let secs = t div second + off;
          (y, m, d) = civil_from_days (secs div 86400);
          sod = secs mod 86400;
          p2 = (\<lambda>i. pad_left 2 (strconv_FormatInt i));
          zone = (if off = 0 then ''Z''
                  else (if off < 0 then ''-'' else ''+'') @
                       p2 (\<bar>off\<bar> div 60 div 60) @ '':'' @ p2 (\<bar>off\<bar> div 60 mod 60))
      in pad_left 4 (strconv_FormatInt y) @ ''-'' @ p2 m @ ''-'' @ p2 d @ ''T'' @
         p2 (sod div 3600) @ '':'' @ p2 (sod div 60 mod 60) @ '':'' @ p2 (sod mod 60) @ zone)"

end
