(* ===== verification/Json.thy ===== *)
theory Json
  imports Go_Codec
begin

text \<open>
  The part of \<open>encoding/json\<close> the sources use: the text of a value as \<open>Marshal\<close> and \<open>Encoder\<close>
  write it (with HTML escaping), the grammar as the decoder's scanner accepts it (with its limit
  on nesting), string literals with their escapes and with invalid UTF-8 replaced, and the
  matching of object keys with the fields of a struct.  The main result is the round trip of
  values with ASCII strings.
\<close>

datatype json =
    JNull
  | JBool bool
  | JNum string
  | JStr string
  | JArr "json list"
  | JObj "(string \<times> json) list"

section \<open>Writing\<close>

definition hex4 :: "nat \<Rightarrow> string" where
  "hex4 n = [hex_digit (n div 4096 mod 16), hex_digit (n div 256 mod 16), hex_digit (n div 16 mod 16),
             hex_digit (n mod 16)]"

definition backslash :: char where "backslash = CHR 0x5C"
definition quote :: char where "quote = CHR 0x22"
definition open_brace :: char where "open_brace = CHR 0x7B"
definition close_brace :: char where "close_brace = CHR 0x7D"

definition escape_ascii :: "char \<Rightarrow> string" where
  "escape_ascii c =
     (let n = chr_nat c in
      if n = 92 \<or> n = 34 then [backslash, c]
      else if n = 8 then [backslash, CHR ''b'']
      else if n = 12 then [backslash, CHR ''f'']
      else if n = 10 then [backslash, CHR ''n'']
      else if n = 13 then [backslash, CHR ''r'']
      else if n = 9 then [backslash, CHR ''t'']
      else if n < 32 \<or> c = CHR ''<'' \<or> c = CHR ''>'' \<or> c = CHR ''&'' then backslash # CHR ''u'' # hex4 n
      else [c])"

function json_escape :: "string \<Rightarrow> string" where
  "json_escape [] = []"
| "json_escape (c # cs) =
     (let (r, n) = decode_rune (c # cs) in
      (if r < 128 then escape_ascii c
       else if r = rune_error \<and> n = 1 then backslash # CHR ''u'' # ''fffd''
       else if r = 0x2028 \<or> r = 0x2029 then backslash # CHR ''u'' # hex4 r
       else take n (c # cs)) @ json_escape (drop n (c # cs)))"
  by pat_completeness auto

termination
proof (relation "measure length")
  fix c cs x r n
  assume "x = decode_rune (c # cs)" "(r, n) = x"
  then have "n = snd (decode_rune (c # cs))" by (metis snd_conv)
  with decode_rune_size [of c cs] show "(drop n (c # cs), c # cs) \<in> measure length" by simp
qed simp

definition json_string :: "string \<Rightarrow> string" where
  "json_string s = quote # json_escape s @ [quote]"

fun json_text :: "json \<Rightarrow> string" where
  "json_text JNull = ''null''"
| "json_text (JBool b) = (if b then ''true'' else ''false'')"
| "json_text (JNum lit) = lit"
| "json_text (JStr s) = json_string s"
| "json_text (JArr vs) = CHR ''['' # join_with (CHR '','') (map json_text vs) @ '']''"
| "json_text (JObj ms) =
     open_brace #
       join_with (CHR '','') (map (\<lambda>(k, v). json_string k @ CHR '':'' # json_text v) ms) @
     [close_brace]"

definition json_int :: "int \<Rightarrow> json" where
  "json_int i = JNum (strconv_FormatInt i)"

section \<open>Reading\<close>

definition json_space :: "char \<Rightarrow> bool" where
  "json_space c \<longleftrightarrow> chr_nat c \<in> {9, 10, 13, 32}"

abbreviation skip_ws :: "string \<Rightarrow> string" where
  "skip_ws s \<equiv> dropWhile json_space s"

definition is_hex :: "char \<Rightarrow> bool" where
  "is_hex c \<longleftrightarrow> (let n = chr_nat c in 48 \<le> n \<and> n \<le> 57 \<or> 97 \<le> n \<and> n \<le> 102 \<or> 65 \<le> n \<and> n \<le> 70)"

definition hex_val :: "char \<Rightarrow> nat" where
  "hex_val c = (let n = chr_nat c in if n \<le> 57 then n - 48 else if n \<le> 70 then n - 55 else n - 87)"

text \<open>\<open>getu4\<close>: the four hexadecimal digits after \<open>\u\<close>.\<close>

fun get_u4 :: "string \<Rightarrow> (nat \<times> string) option" where
  "get_u4 (a # b # c # d # r) =
     (if is_hex a \<and> is_hex b \<and> is_hex c \<and> is_hex d
      then Some (hex_val a * 4096 + hex_val b * 256 + hex_val c * 16 + hex_val d, r) else None)"
| "get_u4 _ = None"

text \<open>After a high surrogate: the low one, if the text goes on with its escape.\<close>

definition low_surrogate :: "string \<Rightarrow> (nat \<times> string) option" where
  "low_surrogate s =
     (case s of
        x # u # r \<Rightarrow>
          (if x = backslash \<and> u = CHR ''u''
           then case get_u4 r of
                  Some (v, r') \<Rightarrow> if 0xDC00 \<le> v \<and> v < 0xE000 then Some (v, r') else None
                | None \<Rightarrow> None
           else None)
      | _ \<Rightarrow> None)"

definition unescape_u :: "string \<Rightarrow> (string \<times> string) option" where
  "unescape_u s =
     (case get_u4 s of
        None \<Rightarrow> None
      | Some (v, r) \<Rightarrow>
          (if 0xD800 \<le> v \<and> v < 0xE000 then
             (case (if v < 0xDC00 then low_surrogate r else None) of
                Some (v', r') \<Rightarrow> Some (encode_rune (0x10000 + (v - 0xD800) * 1024 + (v' - 0xDC00)), r')
              | None \<Rightarrow> Some (encode_rune rune_error, r))
           else Some (encode_rune v, r)))"

fun unescape :: "string \<Rightarrow> (string \<times> string) option" where
  "unescape [] = None"
| "unescape (e # s) =
     (if e = quote \<or> e = backslash \<or> e = CHR ''/'' then Some ([e], s)
      else if e = CHR ''b'' then Some ([CHR 0x08], s)
      else if e = CHR ''f'' then Some ([CHR 0x0C], s)
      else if e = CHR ''n'' then Some ([CHR 0x0A], s)
      else if e = CHR ''r'' then Some ([CHR 0x0D], s)
      else if e = CHR ''t'' then Some ([CHR 0x09], s)
      else if e = CHR ''u'' then unescape_u s
      else None)"

lemma get_u4_length: "get_u4 s = Some (v, r) \<Longrightarrow> length r < length s"
  by (cases s rule: get_u4.cases) (auto split: if_splits)

lemma low_surrogate_length: "low_surrogate s = Some (v, r) \<Longrightarrow> length r < length s"
  by (auto simp: low_surrogate_def split: list.splits if_splits option.splits dest!: get_u4_length)

lemma unescape_length: "unescape s = Some (x, r) \<Longrightarrow> length r < length s"
  by (cases s) (auto simp: unescape_u_def split: if_splits option.splits
      dest!: get_u4_length low_surrogate_length)

text \<open>The rest of a string literal after its opening quote: its value and what follows it.\<close>

function parse_str :: "string \<Rightarrow> (string \<times> string) option" where
  "parse_str [] = None"
| "parse_str (c # cs) =
     (if c = quote then Some ([], cs)
      else if c = backslash then
        (case unescape cs of
           None \<Rightarrow> None
         | Some (x, r) \<Rightarrow> map_option (apfst ((@) x)) (parse_str r))
      else if chr_nat c < 32 then None
      else (let (r, n) = decode_rune (c # cs)
            in map_option (apfst ((@) (encode_rune r))) (parse_str (drop n (c # cs)))))"
  by pat_completeness auto

termination
proof (relation "measure length")
  fix c cs x r n
  assume "x = decode_rune (c # cs)" "(r, n) = x"
  then have "n = snd (decode_rune (c # cs))" by (metis snd_conv)
  with decode_rune_size [of c cs] show "(drop n (c # cs), c # cs) \<in> measure length" by simp
qed (auto dest: unescape_length)

lemma parse_str_length: "parse_str s = Some (x, r) \<Longrightarrow> length r < length s"
proof (induction s arbitrary: x r rule: parse_str.induct)
  case (2 c cs)
  show ?case
  proof (cases "c = quote \<or> chr_nat c < 32 \<and> c \<noteq> backslash")
    case False
    then show ?thesis
      using 2 decode_rune_size [of c cs]
      by (fastforce split: if_splits option.splits prod.splits dest: unescape_length)
  qed (use 2(3) in \<open>auto split: if_splits\<close>)
qed simp

text \<open>Number literals.\<close>

definition scan_int :: "string \<Rightarrow> (string \<times> string) option" where
  "scan_int s =
     (case s of
        [] \<Rightarrow> None
      | c # cs \<Rightarrow>
          (if c = CHR ''0'' then Some ([c], cs)
           else if is_dec c then Some (takeWhile is_dec s, dropWhile is_dec s) else None))"

definition scan_digits1 :: "string \<Rightarrow> (string \<times> string) option" where
  "scan_digits1 s =
     (if takeWhile is_dec s = [] then None else Some (takeWhile is_dec s, dropWhile is_dec s))"

definition scan_frac :: "string \<Rightarrow> (string \<times> string) option" where
  "scan_frac s =
     (case s of
        c # cs \<Rightarrow> if c = CHR ''.'' then map_option (apfst ((#) c)) (scan_digits1 cs) else Some ([], s)
      | [] \<Rightarrow> Some ([], s))"

definition scan_exp :: "string \<Rightarrow> (string \<times> string) option" where
  "scan_exp s =
     (case s of
        c # cs \<Rightarrow>
          (if c = CHR ''e'' \<or> c = CHR ''E'' then
             (case cs of
                x # ds \<Rightarrow>
                  (if x = CHR ''+'' \<or> x = CHR ''-'' then map_option (apfst (\<lambda>l. c # x # l)) (scan_digits1 ds)
                   else map_option (apfst ((#) c)) (scan_digits1 cs))
              | [] \<Rightarrow> None)
           else Some ([], s))
      | [] \<Rightarrow> Some ([], s))"

definition scan_number :: "string \<Rightarrow> (string \<times> string) option" where
  "scan_number s =
     (let (sign, s1) = (case s of c # cs \<Rightarrow> if c = CHR ''-'' then ([c], cs) else ([], s) | [] \<Rightarrow> ([], s))
      in case scan_int s1 of
           None \<Rightarrow> None
         | Some (i, s2) \<Rightarrow>
             (case scan_frac s2 of
                None \<Rightarrow> None
              | Some (f, s3) \<Rightarrow>
                  (case scan_exp s3 of
                     None \<Rightarrow> None
                   | Some (e, s4) \<Rightarrow> Some (sign @ i @ f @ e, s4))))"

definition scan_literal :: "string \<Rightarrow> json \<Rightarrow> string \<Rightarrow> (json \<times> string) option" where
  "scan_literal lit v s = map_option (Pair v) (strings_CutPrefix s lit)"

text \<open>
  Values, the elements of an array after \<open>[\<close> and the members of an object after \<open>{\<close>.  The first
  argument is the number of levels that may still be opened.  The tests on lengths always hold
  (a value takes at least one byte); they make the recursion well-founded as it stands.
\<close>

lemma skip_ws_length: "length (skip_ws s) \<le> length s"
  by (rule length_dropWhile_le)

lemma skip_ws_Cons: "skip_ws s = c # r \<Longrightarrow> length r < length s"
  using skip_ws_length [of s] by simp

function (sequential)
  parse_value :: "nat \<Rightarrow> string \<Rightarrow> (json \<times> string) option" and
  parse_elems :: "nat \<Rightarrow> string \<Rightarrow> (json list \<times> string) option" and
  parse_members :: "nat \<Rightarrow> string \<Rightarrow> ((string \<times> json) list \<times> string) option"
where
  "parse_value d s =
     (case skip_ws s of
        [] \<Rightarrow> None
      | c # cs \<Rightarrow>
          (if c = open_brace then
             (if d = 0 then None
              else if skip_ws cs \<noteq> [] \<and> hd (skip_ws cs) = close_brace then Some (JObj [], tl (skip_ws cs))
              else map_option (apfst JObj) (parse_members (d - 1) cs))
           else if c = CHR ''['' then
             (if d = 0 then None
              else if skip_ws cs \<noteq> [] \<and> hd (skip_ws cs) = CHR '']'' then Some (JArr [], tl (skip_ws cs))
              else map_option (apfst JArr) (parse_elems (d - 1) cs))
           else if c = quote then map_option (apfst JStr) (parse_str cs)
           else if c = CHR ''t'' then scan_literal ''true'' (JBool True) (c # cs)
           else if c = CHR ''f'' then scan_literal ''false'' (JBool False) (c # cs)
           else if c = CHR ''n'' then scan_literal ''null'' JNull (c # cs)
           else map_option (apfst JNum) (scan_number (c # cs))))"
| "parse_elems d s =
     (case parse_value d s of
        None \<Rightarrow> None
      | Some (v, r) \<Rightarrow>
          (case skip_ws r of
             [] \<Rightarrow> None
           | c # cs \<Rightarrow>
               (if c = CHR '']'' then Some ([v], cs)
                else if c = CHR '','' \<and> length cs < length s
                then map_option (apfst ((#) v)) (parse_elems d cs)
                else None)))"
| "parse_members d s =
     (case skip_ws s of
        [] \<Rightarrow> None
      | q # cs \<Rightarrow>
          (if q \<noteq> quote then None
           else case parse_str cs of
                  None \<Rightarrow> None
                | Some (k, r) \<Rightarrow>
                    (case skip_ws r of
                       [] \<Rightarrow> None
                     | c # r' \<Rightarrow>
                         (if c \<noteq> CHR '':'' then None
                          else case parse_value d r' of
                                 None \<Rightarrow> None
                               | Some (v, r'') \<Rightarrow>
                                   (case skip_ws r'' of
                                      [] \<Rightarrow> None
                                    | e # es \<Rightarrow>
                                        (if e = close_brace then Some ([(k, v)], es)
                                         else if e = CHR '','' \<and> length es < length s
                                         then map_option (apfst ((#) (k, v))) (parse_members d es)
                                         else None))))))"
  by pat_completeness auto

termination
  by (relation "measure (case_sum (\<lambda>(d, s). 2 * length s)
        (case_sum (\<lambda>(d, s). 2 * length s + 1) (\<lambda>(d, s). 2 * length s + 1)))")
    (auto dest!: skip_ws_Cons parse_str_length)

declare parse_value.simps [simp del] parse_elems.simps [simp del] parse_members.simps [simp del]

definition maxNestingDepth :: nat where "maxNestingDepth = 10000"

text \<open>
  A text that is one value and white space: the first \<open>Decode\<close> succeeds and the second one
  reports the end of the input.
\<close>

definition json_single :: "string \<Rightarrow> json option" where
  "json_single s =
     (case parse_value maxNestingDepth s of
        Some (v, r) \<Rightarrow> if skip_ws r = [] then Some v else None
      | None \<Rightarrow> None)"

section \<open>Fields of a struct\<close>

text \<open>
  The simple case folding that matching of keys uses: the two runes outside ASCII that fold to
  ASCII letters are U+017F and U+212A; names of fields are ASCII.
\<close>

definition fold_rune :: "rune \<Rightarrow> rune" where
  "fold_rune r = (if r = 0x017F then chr_nat (CHR ''s'') else if r = 0x212A then chr_nat (CHR ''k'')
     else ascii_lower r)"

definition fold_name :: "string \<Rightarrow> rune list" where
  "fold_name s = map fold_rune (runes s)"

definition json_field :: "string list \<Rightarrow> string \<Rightarrow> string option" where
  "json_field names key =
     (if key \<in> set names then Some key else find (\<lambda>n. fold_name n = fold_name key) names)"

text \<open>Decoding of a member into a string or integer variable; \<open>null\<close> leaves it as it is.\<close>

definition json_to_string :: "json \<Rightarrow> string \<Rightarrow> string option" where
  "json_to_string v old = (case v of JNull \<Rightarrow> Some old | JStr s \<Rightarrow> Some s | _ \<Rightarrow> None)"

definition json_to_int :: "json \<Rightarrow> int \<Rightarrow> int option" where
  "json_to_int v old = (case v of JNull \<Rightarrow> Some old | JNum lit \<Rightarrow> strconv_ParseInt lit | _ \<Rightarrow> None)"

text \<open>
  Decoding of a value into a struct: each member, in order, updates the field its key names;
  \<open>null\<close> changes nothing, another value that is not an object is an error.
\<close>

fun json_members :: "(string \<Rightarrow> json \<Rightarrow> 'a \<Rightarrow> 'a option) \<Rightarrow> (string \<times> json) list \<Rightarrow> 'a \<Rightarrow> 'a option" where
  "json_members set_field [] a = Some a"
| "json_members set_field ((k, v) # ms) a =
     (case set_field k v a of None \<Rightarrow> None | Some a' \<Rightarrow> json_members set_field ms a')"

definition json_struct :: "(string \<Rightarrow> json \<Rightarrow> 'a \<Rightarrow> 'a option) \<Rightarrow> json \<Rightarrow> 'a \<Rightarrow> 'a option" where
  "json_struct set_field v a =
     (case v of JNull \<Rightarrow> Some a | JObj ms \<Rightarrow> json_members set_field ms a | _ \<Rightarrow> None)"

section \<open>Round trip\<close>

abbreviation ascii :: "string \<Rightarrow> bool" where
  "ascii s \<equiv> list_all (\<lambda>c. chr_nat c < 128) s"

lemma is_hex_digit: "n < 16 \<Longrightarrow> is_hex (hex_digit n) \<and> hex_val (hex_digit n) = n"
  by (auto simp: is_hex_def hex_val_def hex_digit_def Let_def)

lemma get_u4_hex4: "n < 128 \<Longrightarrow> get_u4 (hex4 n @ r) = Some (n, r)"
  using is_hex_digit [of 0] is_hex_digit [of "n div 16"] is_hex_digit [of "n mod 16"]
  by (simp add: hex4_def)

lemmas special_chars = quote_def backslash_def open_brace_def close_brace_def

lemma json_escape_ascii: "chr_nat c < 128 \<Longrightarrow> json_escape (c # cs) = escape_ascii c @ json_escape cs"
  by (simp add: decode_rune_ascii)

lemma append_single: "(@) [c] = (#) c"
  by (simp add: fun_eq_iff)

lemma parse_str_u:
  assumes "chr_nat c < 128"
  shows "parse_str (backslash # CHR ''u'' # hex4 (chr_nat c) @ r) = map_option (apfst ((#) c)) (parse_str r)"
  using assms by (simp add: special_chars unescape_u_def get_u4_hex4 encode_rune_ascii append_single)

lemma parse_str_plain:
  assumes "chr_nat c < 128" "32 \<le> chr_nat c" "c \<noteq> quote" "c \<noteq> backslash"
  shows "parse_str (c # r) = map_option (apfst ((#) c)) (parse_str r)"
  using assms by (simp add: decode_rune_ascii encode_rune_ascii append_single)

lemma chr_codes:
  "chr_nat c = 92 \<longleftrightarrow> c = CHR 0x5C" "chr_nat c = 34 \<longleftrightarrow> c = CHR 0x22" "chr_nat c = 8 \<longleftrightarrow> c = CHR 0x08"
  "chr_nat c = 12 \<longleftrightarrow> c = CHR 0x0C" "chr_nat c = 10 \<longleftrightarrow> c = CHR 0x0A" "chr_nat c = 13 \<longleftrightarrow> c = CHR 0x0D"
  "chr_nat c = 9 \<longleftrightarrow> c = CHR 0x09"
  using of_char_eq_iff [of c "CHR 0x5C"] of_char_eq_iff [of c "CHR 0x22"]
    of_char_eq_iff [of c "CHR 0x08"] of_char_eq_iff [of c "CHR 0x0C"] of_char_eq_iff [of c "CHR 0x0A"]
    of_char_eq_iff [of c "CHR 0x0D"] of_char_eq_iff [of c "CHR 0x09"] by simp_all

lemma parse_str_short:
  "c \<in> {CHR 0x5C, CHR 0x22, CHR 0x08, CHR 0x0C, CHR 0x0A, CHR 0x0D, CHR 0x09} \<Longrightarrow>
     parse_str (escape_ascii c @ r) = map_option (apfst ((#) c)) (parse_str r)"
  by (elim insertE emptyE; hypsubst; simp add: escape_ascii_def special_chars append_single)

lemma parse_str_escape_ascii:
  assumes "chr_nat c < 128"
  shows "parse_str (escape_ascii c @ r) = map_option (apfst ((#) c)) (parse_str r)"
proof (cases "c \<in> {CHR 0x5C, CHR 0x22, CHR 0x08, CHR 0x0C, CHR 0x0A, CHR 0x0D, CHR 0x09}")
  case True
  then show ?thesis by (rule parse_str_short)
next
  case False
  then have "escape_ascii c =
      (if chr_nat c < 32 \<or> c = CHR ''<'' \<or> c = CHR ''>'' \<or> c = CHR ''&''
       then backslash # CHR ''u'' # hex4 (chr_nat c) else [c])"
    by (simp add: escape_ascii_def chr_codes)
  moreover have "c \<noteq> quote" "c \<noteq> backslash" using False by (simp_all add: special_chars)
  ultimately show ?thesis
    using parse_str_u [OF assms, of r] parse_str_plain [OF assms, of r] by (simp del: parse_str.simps)
qed

lemma parse_str_escape: "ascii s \<Longrightarrow> parse_str (json_escape s @ quote # r) = Some (s, r)"
  by (induction s)
    (simp_all add: json_escape_ascii parse_str_escape_ascii del: json_escape.simps(2) parse_str.simps,
     simp add: parse_str.simps)

text \<open>What may follow a number, so that its literal ends there.\<close>

definition number_end :: "string \<Rightarrow> bool" where
  "number_end r \<longleftrightarrow> (case r of [] \<Rightarrow> True | c # _ \<Rightarrow> \<not> is_dec c \<and> c \<noteq> CHR ''.'' \<and> c \<noteq> CHR ''e'' \<and> c \<noteq> CHR ''E'')"

lemma dec_digits_all: "list_all is_dec (dec_digits n)"
proof (induction n rule: dec_digits.induct)
  case (1 n)
  then show ?case
    by (cases "n < 10") (simp_all add: dec_digits.simps [of n] is_dec_def chr_dec_digit)
qed

lemma dec_digits_lead: "n \<noteq> 0 \<Longrightarrow> hd (dec_digits n) \<noteq> CHR ''0''"
proof (induction n rule: dec_digits.induct)
  case (1 n)
  show ?case
  proof (cases "n < 10")
    case True
    with 1(2) have "chr_nat (dec_digit n) \<noteq> chr_nat (CHR ''0'')" by (simp add: chr_dec_digit)
    with True show ?thesis by (auto simp: dec_digits.simps [of n])
  next
    case False
    moreover obtain c cs where "dec_digits (n div 10) = c # cs" using dec_digits_hd by blast
    ultimately show ?thesis using 1(1) by (simp add: dec_digits.simps [of n])
  qed
qed

lemma takeWhile_all_stop:
  assumes "list_all P xs" "r = [] \<or> \<not> P (hd r)"
  shows "takeWhile P (xs @ r) = xs" "dropWhile P (xs @ r) = r"
  using assms by (induction xs) (cases r; auto)+

lemma scan_int_digits:
  assumes "number_end r"
  shows "scan_int (dec_digits n @ r) = Some (dec_digits n, r)"
proof -
  obtain c cs where c: "dec_digits n = c # cs" "is_dec c" using dec_digits_hd by blast
  have "c = CHR ''0'' \<Longrightarrow> n = 0" using dec_digits_lead [of n] c by auto
  moreover have "dec_digits 0 = ''0''" by code_simp
  moreover have "r = [] \<or> \<not> is_dec (hd r)" using assms by (auto simp: number_end_def split: list.splits)
  ultimately show ?thesis
    using takeWhile_all_stop [OF dec_digits_all, of r n] c
    by (cases "c = CHR ''0''") (auto simp: scan_int_def)
qed

lemma scan_tail: "number_end r \<Longrightarrow> scan_frac r = Some ([], r) \<and> scan_exp r = Some ([], r)"
  by (auto simp: number_end_def scan_frac_def scan_exp_def split: list.splits)

lemma scan_number_int:
  assumes "number_end r"
  shows "scan_number (strconv_FormatInt i @ r) = Some (strconv_FormatInt i, r)"
proof (cases "i < 0")
  case True
  then show ?thesis
    using scan_int_digits [OF assms, of "nat (- i)"] scan_tail [OF assms]
    by (simp add: scan_number_def strconv_FormatInt_def)
next
  case False
  obtain c cs where c: "dec_digits (nat i) = c # cs" "is_dec c" using dec_digits_hd by blast
  then have "c \<noteq> CHR ''-''" by (auto simp: is_dec_def)
  with False show ?thesis
    using scan_int_digits [OF assms, of "nat i"] scan_tail [OF assms] c(1)
    by (simp add: scan_number_def strconv_FormatInt_def)
qed

text \<open>Values whose strings are ASCII and whose numbers are integers, and their depth.\<close>

fun json_plain :: "json \<Rightarrow> bool" where
  "json_plain (JNum lit) = (\<exists>i. lit = strconv_FormatInt i)"
| "json_plain (JStr s) = ascii s"
| "json_plain (JArr vs) = list_all json_plain vs"
| "json_plain (JObj ms) = list_all (\<lambda>(k, v). ascii k \<and> json_plain v) ms"
| "json_plain _ = True"

fun json_depth :: "json \<Rightarrow> nat" where
  "json_depth (JArr vs) = Suc (foldr max (map json_depth vs) 0)"
| "json_depth (JObj ms) = Suc (foldr max (map (\<lambda>(k, v). json_depth v) ms) 0)"
| "json_depth _ = 0"

lemma parse_str_json_string:
  "ascii s \<Longrightarrow> json_string s @ r = quote # (json_escape s @ quote # r) \<and>
     parse_str (json_escape s @ quote # r) = Some (s, r)"
  by (simp add: json_string_def parse_str_escape)

lemma FormatInt_hd: "\<exists>c cs. strconv_FormatInt i = c # cs \<and> (is_dec c \<or> c = CHR ''-'')"
  using dec_digits_hd [of "nat i"] by (auto simp: strconv_FormatInt_def)

lemma not_space [simp]:
  "\<not> json_space quote" "\<not> json_space open_brace" "\<not> json_space close_brace"
  "\<not> json_space (CHR ''['')" "\<not> json_space (CHR '']'')" "\<not> json_space (CHR '','')"
  "\<not> json_space (CHR '':'')" "\<not> json_space (CHR ''t'')" "\<not> json_space (CHR ''f'')"
  "\<not> json_space (CHR ''n'')"
  by (simp_all add: json_space_def special_chars)

lemma chars_distinct [simp]:
  "quote \<noteq> open_brace" "quote \<noteq> CHR ''[''" "CHR ''['' \<noteq> open_brace" "CHR ''t'' \<noteq> open_brace"
  "CHR ''f'' \<noteq> open_brace" "CHR ''n'' \<noteq> open_brace" "CHR ''t'' \<noteq> quote" "CHR ''f'' \<noteq> quote"
  "CHR ''n'' \<noteq> quote" "CHR '','' \<noteq> close_brace" "close_brace \<noteq> CHR '',''" "quote \<noteq> close_brace"
  by (simp_all add: special_chars)

lemma parse_value_string:
  "ascii s \<Longrightarrow> parse_value d (json_string s @ r) = Some (JStr s, r)"
  by (simp add: parse_value.simps parse_str_json_string)

lemma parse_value_int:
  assumes "number_end r"
  shows "parse_value d (strconv_FormatInt i @ r) = Some (JNum (strconv_FormatInt i), r)"
proof -
  obtain c cs where c: "strconv_FormatInt i = c # cs" "is_dec c \<or> c = CHR ''-''"
    using FormatInt_hd by blast
  then have "\<not> json_space c" "c \<noteq> open_brace" "c \<noteq> CHR ''[''" "c \<noteq> quote" "c \<noteq> CHR ''t''"
    "c \<noteq> CHR ''f''" "c \<noteq> CHR ''n''"
    by (auto simp: is_dec_def json_space_def special_chars)
  with scan_number_int [OF assms, of i] c(1) show ?thesis by (simp add: parse_value.simps)
qed

lemma json_text_hd:
  assumes "json_plain v"
  shows "\<exists>c cs. json_text v = c # cs \<and> \<not> json_space c \<and> c \<noteq> CHR '']'' \<and> c \<noteq> close_brace"
proof (cases v)
  case (JNum lit)
  with assms obtain i where "lit = strconv_FormatInt i" by auto
  moreover obtain c cs where "strconv_FormatInt i = c # cs" "is_dec c \<or> c = CHR ''-''"
    using FormatInt_hd by blast
  moreover from this(2) have "\<not> json_space c" "c \<noteq> CHR '']''" "c \<noteq> close_brace"
    by (auto simp: is_dec_def json_space_def special_chars)
  ultimately show ?thesis using JNum by simp
qed (simp_all add: json_string_def special_chars json_space_def)

text \<open>The statement for elements and members, by induction on the values in them.\<close>

definition reads_back :: "json \<Rightarrow> bool" where
  "reads_back v \<longleftrightarrow> (\<forall>d r. json_depth v \<le> d \<longrightarrow> number_end r \<longrightarrow>
     parse_value d (json_text v @ r) = Some (v, r))"

lemma number_end_sep [simp]:
  "number_end (CHR '','' # r)" "number_end (CHR '']'' # r)" "number_end (close_brace # r)"
  by (simp_all add: number_end_def is_dec_def special_chars)

lemma parse_elems_text:
  assumes "vs \<noteq> []" "\<And>v. v \<in> set vs \<Longrightarrow> json_plain v \<and> reads_back v \<and> json_depth v \<le> d"
  shows "parse_elems d (join_with (CHR '','') (map json_text vs) @ CHR '']'' # r) = Some (vs, r)"
  using assms
proof (induction vs rule: list_nonempty_induct)
  case (single v)
  then show ?case by (simp add: parse_elems.simps reads_back_def)
next
  case (cons v vs)
  then obtain u us where vs: "vs = u # us" by (cases vs) auto
  have "parse_value d (json_text v @ CHR '','' # join_with (CHR '','') (map json_text vs) @ CHR '']'' # r)
      = Some (v, CHR '','' # join_with (CHR '','') (map json_text vs) @ CHR '']'' # r)"
    using cons.prems by (simp add: reads_back_def)
  with cons vs show ?case by (simp add: parse_elems.simps [of d "json_text v @ _"])
qed

abbreviation member_text :: "string \<times> json \<Rightarrow> string" where
  "member_text \<equiv> \<lambda>(k, v). json_string k @ CHR '':'' # json_text v"

lemma parse_members_one:
  assumes "ascii k" "reads_back v" "json_depth v \<le> d" "number_end r"
  shows "parse_members d (json_string k @ CHR '':'' # json_text v @ r) =
    (case skip_ws r of
       [] \<Rightarrow> None
     | e # es \<Rightarrow>
         (if e = close_brace then Some ([(k, v)], es)
          else if e = CHR '','' \<and> length es < length (json_string k @ CHR '':'' # json_text v @ r)
          then map_option (apfst ((#) (k, v))) (parse_members d es) else None))"
  using assms parse_str_json_string [OF assms(1), of "CHR '':'' # json_text v @ r"]
  by (subst parse_members.simps) (simp add: reads_back_def)

lemma parse_members_text:
  assumes "ms \<noteq> []" "\<And>k v. (k, v) \<in> set ms \<Longrightarrow> ascii k \<and> reads_back v \<and> json_depth v \<le> d"
  shows "parse_members d (join_with (CHR '','') (map member_text ms) @ close_brace # r) = Some (ms, r)"
  using assms
proof (induction ms rule: list_nonempty_induct)
  case (single m)
  then show ?case
    by (cases m) (simp add: parse_members_one)
next
  case (cons m ms)
  obtain k v where m: "m = (k, v)" by (cases m)
  have kv: "ascii k" "reads_back v" "json_depth v \<le> d" using cons.prems [of k v] m by auto
  have join: "join_with (CHR '','') (map member_text (m # ms)) @ close_brace # r =
      json_string k @ CHR '':'' # json_text v @
        CHR '','' # join_with (CHR '','') (map member_text ms) @ close_brace # r"
    using cons.hyps m by (cases ms) auto
  have "parse_members d (join_with (CHR '','') (map member_text ms) @ close_brace # r) = Some (ms, r)"
    using cons.IH cons.prems by auto
  with m show ?case unfolding join by (simp add: parse_members_one [OF kv])
qed

lemma depth_le: "x \<in> set xs \<Longrightarrow> f x \<le> foldr max (map f xs) (0 :: nat)"
  by (induction xs) auto

lemma plain_reads_back: "json_plain v \<Longrightarrow> reads_back v"
proof (induction v)
  case (JArr vs)
  have "parse_value d (json_text (JArr vs) @ r) = Some (JArr vs, r)" if "json_depth (JArr vs) \<le> d" for d r
  proof (cases vs)
    case Nil
    with that show ?thesis by (simp add: parse_value.simps)
  next
    case (Cons u us)
    let ?s = "join_with (CHR '','') (map json_text vs) @ CHR '']'' # r"
    have "parse_elems (d - 1) ?s = Some (vs, r)"
      using JArr that depth_le [of _ vs json_depth]
      by (intro parse_elems_text) (fastforce simp: Cons list_all_iff)+
    moreover obtain c cs where "json_text u = c # cs" "\<not> json_space c" "c \<noteq> CHR '']''"
      using json_text_hd [of u] JArr.prems Cons by auto
    moreover from this have "\<exists>cs'. ?s = c # cs'" using Cons by (cases us) auto
    ultimately show ?thesis using that by (auto simp: parse_value.simps [of d "CHR ''['' # _"])
  qed
  then show ?case by (simp add: reads_back_def)
next
  case (JObj ms)
  have "parse_value d (json_text (JObj ms) @ r) = Some (JObj ms, r)" if "json_depth (JObj ms) \<le> d" for d r
  proof (cases ms)
    case Nil
    with that show ?thesis by (simp add: parse_value.simps)
  next
    case (Cons u us)
    let ?s = "join_with (CHR '','') (map member_text ms) @ close_brace # r"
    have "parse_members (d - 1) ?s = Some (ms, r)"
      using JObj that depth_le [of _ ms "\<lambda>(k, v). json_depth v"]
      by (intro parse_members_text) (fastforce simp: Cons list_all_iff)+
    moreover have "\<exists>cs'. ?s = quote # cs'"
      using Cons by (cases u; cases us) (auto simp: json_string_def)
    moreover have "json_text (JObj ms) @ r = open_brace # ?s" by simp
    ultimately show ?thesis using that by (auto simp: parse_value.simps [of d "open_brace # _"])
  qed
  then show ?case by (simp add: reads_back_def)
qed (auto simp: reads_back_def parse_value_string parse_value_int,
     auto simp: parse_value.simps scan_literal_def CutPrefix_Some)

text \<open>
  The round trip: the text of a value with ASCII strings and integer numbers, within the limit
  on nesting and with the newline \<open>Encoder\<close> appends, is read back as that value; so the text
  determines the value.
\<close>

lemma json_roundtrip:
  "json_plain v \<Longrightarrow> json_depth v \<le> maxNestingDepth \<Longrightarrow> list_all json_space ws \<Longrightarrow>
     json_single (json_text v @ ws) = Some v"
proof -
  assume v: "json_plain v" "json_depth v \<le> maxNestingDepth" "list_all json_space ws"
  have "number_end ws"
    using v(3) by (auto simp: number_end_def json_space_def is_dec_def list_all_iff split: list.splits)
  with v plain_reads_back [OF v(1)] show ?thesis
    by (simp add: json_single_def reads_back_def list_all_iff)
qed

lemma json_text_inject:
  assumes "json_plain v" "json_depth v \<le> maxNestingDepth" "json_plain v'" "json_depth v' \<le> maxNestingDepth"
  shows "json_text v = json_text v' \<longleftrightarrow> v = v'"
proof
  assume eq: "json_text v = json_text v'"
  have "json_single (json_text v @ []) = Some v" by (rule json_roundtrip [OF assms(1,2)]) simp
  moreover have "json_single (json_text v' @ []) = Some v'" by (rule json_roundtrip [OF assms(3,4)]) simp
  ultimately show "v = v'" using eq by (metis option.inject)
qed simp

end
