(* ===== verification/Go_Path.thy ===== *)
theory Go_Path
  imports Go_Strings
begin

text \<open>
  \<open>path/filepath\<close> on Unix: \<open>Clean\<close>, \<open>Join\<close>, \<open>Dir\<close> and \<open>Base\<close>, as far as the sources use
  them, with the facts the storage paths rest on: joining a component without slashes and
  dots below any root keeps it as the last component, and different components give different
  paths.
\<close>

section \<open>Definitions\<close>

text \<open>One component of a path, on the stack of the components kept so far (innermost first).\<close>

definition clean_step :: "bool \<Rightarrow> string \<Rightarrow> string list \<Rightarrow> string list" where
  "clean_step rooted c st =
     (if c = [] \<or> c = ''.'' then st
      else if c = ''..'' then
        (case st of
           [] \<Rightarrow> if rooted then [] else [''..'']
         | t # ts \<Rightarrow> if t = ''..'' then ''..'' # st else ts)
      else c # st)"

definition clean_parts :: "bool \<Rightarrow> string \<Rightarrow> string list" where
  "clean_parts rooted p = rev (fold (clean_step rooted) (strings_Split (CHR ''/'') p) [])"

definition filepath_Clean :: "string \<Rightarrow> string" where
  "filepath_Clean p =
     (let rooted = strings_HasPrefix p ''/''; parts = clean_parts rooted p
      in if rooted then CHR ''/'' # join_with (CHR ''/'') parts
         else if parts = [] then ''.'' else join_with (CHR ''/'') parts)"

definition filepath_Join :: "string list \<Rightarrow> string" where
  "filepath_Join elems =
     (case dropWhile (\<lambda>e. e = []) elems of
        [] \<Rightarrow> []
      | es \<Rightarrow> filepath_Clean (join_with (CHR ''/'') es))"

definition filepath_Dir :: "string \<Rightarrow> string" where
  "filepath_Dir p = filepath_Clean (rev (dropWhile (\<lambda>c. c \<noteq> CHR ''/'') (rev p)))"

definition filepath_Base :: "string \<Rightarrow> string" where
  "filepath_Base p =
     (if p = [] then ''.''
      else let s = strings_TrimRight p ''/''
           in if s = [] then ''/''
              else rev (takeWhile (\<lambda>c. c \<noteq> CHR ''/'') (rev s)))"

section \<open>Plain components\<close>

definition plain_part :: "string \<Rightarrow> bool" where
  "plain_part c \<longleftrightarrow> c \<noteq> [] \<and> c \<noteq> ''.'' \<and> c \<noteq> ''..'' \<and> CHR ''/'' \<notin> set c"

lemma clean_step_plain: "plain_part c \<Longrightarrow> clean_step rooted c st = c # st"
  by (simp add: clean_step_def plain_part_def)

lemma clean_parts_snoc:
  "plain_part c \<Longrightarrow> clean_parts rooted (p @ CHR ''/'' # c) = clean_parts rooted p @ [c]"
  by (simp add: clean_parts_def Split_append_sep Split_no_sep clean_step_plain plain_part_def)

lemma HasPrefix_slash: "p \<noteq> [] \<Longrightarrow> strings_HasPrefix (p @ q) ''/'' = strings_HasPrefix p ''/''"
  by (cases p) (simp_all add: strings_HasPrefix_def)

lemma Clean_snoc:
  assumes "p \<noteq> []" "plain_part c"
  shows "filepath_Clean (p @ CHR ''/'' # c) =
    (let rooted = strings_HasPrefix p ''/''
     in (if rooted then ''/'' else []) @
        join_with (CHR ''/'') (clean_parts rooted p @ [c]))"
  using assms by (simp add: filepath_Clean_def HasPrefix_slash clean_parts_snoc Let_def)

lemma join_with_snoc:
  "ps \<noteq> [] \<Longrightarrow> join_with x (ps @ [c]) = join_with x ps @ x # c"
proof (induction ps)
  case Nil
  then show ?case by simp
next
  case (Cons p ps)
  then show ?case by (cases ps) auto
qed

lemma join_with_snoc2: "join_with x (ps @ [b, c]) = join_with x (ps @ [b]) @ x # c"
  using join_with_snoc [of "ps @ [b]" x c] by simp

text \<open>A path below a root of two plain components: what both storage layers build.\<close>

lemma Clean_two:
  assumes "p \<noteq> []" "plain_part b" "plain_part c"
  shows "filepath_Clean (p @ CHR ''/'' # b @ CHR ''/'' # c) =
    filepath_Clean (p @ CHR ''/'' # b) @ CHR ''/'' # c"
proof -
  have eq: "p @ CHR ''/'' # b @ CHR ''/'' # c = (p @ CHR ''/'' # b) @ CHR ''/'' # c" by simp
  show ?thesis
    unfolding eq
    using assms Clean_snoc [of "p @ CHR ''/'' # b" c] Clean_snoc [of p b]
    by (simp add: HasPrefix_slash clean_parts_snoc join_with_snoc2 Let_def)
qed

text \<open>Any number of plain components below a plain component.\<close>

definition below :: "string list \<Rightarrow> string" where
  "below cs = concat (map ((#) (CHR ''/'')) cs)"

lemma below_simps [simp]: "below [] = []" "below (c # cs) = CHR ''/'' # c @ below cs"
  "below (cs @ ds) = below cs @ below ds"
  by (simp_all add: below_def)

lemma Clean_below:
  assumes "p \<noteq> []" "plain_part b" "list_all plain_part cs"
  shows "filepath_Clean (p @ CHR ''/'' # b @ below cs) = filepath_Clean (p @ CHR ''/'' # b) @ below cs"
  using assms(3)
proof (induction cs rule: rev_induct)
  case (snoc c cs)
  have "\<exists>q d. q \<noteq> [] \<and> plain_part d \<and> p @ CHR ''/'' # b @ below cs = q @ CHR ''/'' # d"
  proof (cases cs rule: rev_cases)
    case Nil
    with assms show ?thesis by auto
  next
    case (snoc ds d)
    with snoc.prems have "plain_part d" by simp
    moreover have "p @ CHR ''/'' # b @ below cs = (p @ CHR ''/'' # b @ below ds) @ CHR ''/'' # d"
      using snoc by simp
    ultimately show ?thesis by blast
  qed
  then obtain q d where q: "q \<noteq> []" "plain_part d" "p @ CHR ''/'' # b @ below cs = q @ CHR ''/'' # d"
    by blast
  have "p @ CHR ''/'' # b @ below (cs @ [c]) = (p @ CHR ''/'' # b @ below cs) @ CHR ''/'' # c" by simp
  also have "\<dots> = q @ CHR ''/'' # d @ CHR ''/'' # c" by (simp only: q(3) append.assoc append_Cons)
  finally have "filepath_Clean (p @ CHR ''/'' # b @ below (cs @ [c])) =
      filepath_Clean (q @ CHR ''/'' # d @ CHR ''/'' # c)" by (rule arg_cong)
  also have "\<dots> = filepath_Clean (q @ CHR ''/'' # d) @ CHR ''/'' # c"
    using Clean_two [OF q(1,2), of c] snoc.prems by simp
  also have "\<dots> = filepath_Clean (p @ CHR ''/'' # b) @ below cs @ CHR ''/'' # c"
    using snoc.IH snoc.prems by (simp flip: q(3))
  finally show ?case by simp
qed simp

lemma join_with_below: "join_with (CHR ''/'') (c # cs) = c @ below cs"
  by (induction cs arbitrary: c) auto

lemma Join_below:
  assumes "p \<noteq> []" "plain_part b" "list_all plain_part cs"
  shows "filepath_Join (p # b # cs) = filepath_Clean (p @ CHR ''/'' # b) @ below cs"
  using Clean_below [OF assms] assms(1) by (simp add: filepath_Join_def join_with_below del: join_with.simps)

lemma Base_snoc:
  assumes "plain_part c"
  shows "filepath_Base (p @ CHR ''/'' # c) = c"
proof -
  from assms have c: "c \<noteq> []" "CHR ''/'' \<notin> set c" by (auto simp: plain_part_def)
  then obtain d ds where rc: "rev c = d # ds" by (cases "rev c") auto
  with c have "d \<noteq> CHR ''/''" by (metis list.set_intros(1) set_rev)
  then have trim: "strings_TrimRight (p @ CHR ''/'' # c) ''/'' = p @ CHR ''/'' # c"
    using c rc by (simp add: strings_TrimRight_def flip: rev_swap)
  have "takeWhile (\<lambda>x. x \<noteq> CHR ''/'') (rev c @ CHR ''/'' # rev p) = rev c"
    using c by (induction "rev c") (simp_all add: takeWhile_append)
  then show ?thesis unfolding filepath_Base_def trim by simp
qed

lemma Dir_snoc:
  assumes "CHR ''/'' \<notin> set c"
  shows "filepath_Dir (p @ CHR ''/'' # c) = filepath_Clean (p @ ''/'')"
proof -
  have "dropWhile (\<lambda>x. x \<noteq> CHR ''/'') (rev c @ CHR ''/'' # rev p) = CHR ''/'' # rev p"
    using assms by (simp add: dropWhile_append)
  then show ?thesis by (simp add: filepath_Dir_def)
qed

text \<open>Cleaning makes a path longer by two bytes at most.\<close>

definition parts_weight :: "string list \<Rightarrow> nat" where
  "parts_weight ps = sum_list (map (\<lambda>c. length c + 1) ps)"

lemma parts_weight_simps [simp]:
  "parts_weight [] = 0" "parts_weight (rev ps) = parts_weight ps"
  by (simp_all add: parts_weight_def sum_list_rev flip: rev_map)

lemma clean_step_weight:
  "parts_weight (clean_step rooted c st) \<le> parts_weight st + length c + 1"
  by (auto simp: clean_step_def parts_weight_def split: list.split)

lemma clean_fold_weight:
  "parts_weight (fold (clean_step rooted) cs st) \<le> parts_weight st + parts_weight cs"
proof (induction cs arbitrary: st)
  case Nil
  then show ?case by (simp add: parts_weight_def)
next
  case (Cons c cs)
  show ?case
    using Cons.IH [of "clean_step rooted c st"] clean_step_weight [of rooted c st]
    by (simp add: parts_weight_def)
qed

lemma Split_weight: "parts_weight (strings_Split x s) = length s + 1"
  by (induction s) (auto simp: parts_weight_def split: list.splits)

lemma join_weight: "length (join_with x ps) \<le> parts_weight ps"
  by (induction x ps rule: join_with.induct) (auto simp: parts_weight_def)

lemma Clean_length: "length (filepath_Clean p) \<le> length p + 2"
proof -
  have "length (join_with x (clean_parts r p)) \<le> length p + 1" for r x
    using join_weight [of x "clean_parts r p"] clean_fold_weight [of r "strings_Split (CHR ''/'') p" "[]"]
    by (simp add: clean_parts_def Split_weight)
  from this [of "CHR ''/''" True] this [of "CHR ''/''" False] show ?thesis
    by (simp add: filepath_Clean_def Let_def)
qed

end
