(* ===== verification/Ids.thy ===== *)
theory Ids
  imports Go_Codec
begin

text \<open>
  Control identifiers (\<open>internal/http/ids.go\<close>) and the canonical remote URL
  (\<open>internal/http/git_url.go\<close>): the test for a canonical UUID, the external forms
  \<open>repo_<uuid>\<close> and \<open>token_<uuid>\<close>, and their round trips, proved once in the locale
  \<open>control_id\<close> and interpreted for both prefixes.
\<close>

section \<open>Definitions\<close>

definition repoControlIDPrefix :: string where "repoControlIDPrefix = ''repo_''"
definition repoTokenControlIDPrefix :: string where "repoTokenControlIDPrefix = ''token_''"

definition isLowerHexDigit :: "rune \<Rightarrow> bool" where
  "isLowerHexDigit char \<longleftrightarrow> (48 \<le> char \<and> char \<le> 57) \<or> (97 \<le> char \<and> char \<le> 102)"

text \<open>The body of the loop of \<open>isCanonicalUUID\<close>: dashes at four places, hex digits elsewhere.\<close>

definition uuid_rune :: "nat \<Rightarrow> rune \<Rightarrow> bool" where
  "uuid_rune index char \<longleftrightarrow>
     (if index \<in> {8, 13, 18, 23} then char = 45 else isLowerHexDigit char)"

definition isCanonicalUUID :: "string \<Rightarrow> bool" where
  "isCanonicalUUID value \<longleftrightarrow>
     length value = 36 \<and> list_all (\<lambda>(index, char). uuid_rune index char) (range_string 0 value)"

definition formatRepoControlID :: "string \<Rightarrow> string" where
  "formatRepoControlID ident = repoControlIDPrefix @ ident"

definition parseRepoControlID :: "string \<Rightarrow> string option" where
  "parseRepoControlID value =
     (case strings_CutPrefix (strings_TrimSpace value) repoControlIDPrefix of
        None \<Rightarrow> None
      | Some raw \<Rightarrow> if isCanonicalUUID raw then Some raw else None)"

definition formatRepoTokenControlID :: "string \<Rightarrow> string" where
  "formatRepoTokenControlID ident = repoTokenControlIDPrefix @ ident"

definition parseRepoTokenControlID :: "string \<Rightarrow> string option" where
  "parseRepoTokenControlID value =
     (case strings_CutPrefix (strings_TrimSpace value) repoTokenControlIDPrefix of
        None \<Rightarrow> None
      | Some raw \<Rightarrow> if isCanonicalUUID raw then Some raw else None)"

definition repoGitURL :: "string \<Rightarrow> string \<Rightarrow> string" where
  "repoGitURL baseURL repoID =
     strings_TrimRight baseURL ''/'' @ ''/git/repos/'' @ formatRepoControlID repoID @ ''.git''"

section \<open>Canonical UUIDs\<close>

lemma isLowerHexDigit_ascii: "isLowerHexDigit r \<Longrightarrow> r < 128"
  by (auto simp: isLowerHexDigit_def)

interpretation uuid: ascii_class uuid_rune
  by unfold_locales (auto simp: uuid_rune_def isLowerHexDigit_def split: if_splits)

interpretation hex: char_class isLowerHexDigit
  by unfold_locales (rule isLowerHexDigit_ascii)

lemma isCanonicalUUID_bytes:
  "isCanonicalUUID v \<longleftrightarrow> length v = 36 \<and> (\<forall>i < 36. uuid_rune i (chr_nat (v ! i)))"
  by (auto simp: isCanonicalUUID_def uuid.range_bytes)

lemma isLowerHexDigit_visible: "isLowerHexDigit (chr_nat c) \<Longrightarrow> visible c"
  by (auto simp: visible_def isLowerHexDigit_def is_space_def)

lemma uuid_rune_visible: "uuid_rune i (chr_nat c) \<Longrightarrow> visible c"
  by (cases "i \<in> {8, 13, 18, 23}")
    (simp_all add: uuid_rune_def isLowerHexDigit_visible, simp_all add: visible_def is_space_def)

lemma isCanonicalUUID_visible: "isCanonicalUUID v \<Longrightarrow> list_all visible v"
  unfolding isCanonicalUUID_bytes list_all_length by (metis uuid_rune_visible)

lemma isCanonicalUUID_chars:
  assumes "isCanonicalUUID v" "c \<in> set v"
  shows "isLowerHexDigit (chr_nat c) \<or> c = CHR ''-''"
proof -
  from assms(2) obtain i where i: "i < length v" "v ! i = c" by (auto simp: in_set_conv_nth)
  with assms(1) have "uuid_rune i (chr_nat c)" by (auto simp: isCanonicalUUID_bytes)
  then have "isLowerHexDigit (chr_nat c) \<or> chr_nat c = chr_nat (CHR ''-'')"
    by (auto simp: uuid_rune_def split: if_splits)
  then show ?thesis by (metis of_char_eq_iff)
qed

lemma isCanonicalUUID_nonempty: "isCanonicalUUID v \<Longrightarrow> v \<noteq> []"
  by (auto simp: isCanonicalUUID_bytes)

section \<open>External identifiers\<close>

text \<open>
  What the format and parse functions of a kind of identifier promise each other: formatting
  puts a visible prefix in front, parsing trims, takes the prefix off and asks for a UUID.
\<close>

locale control_id =
  fixes prefix_text :: string
    and format :: "string \<Rightarrow> string"
    and parse :: "string \<Rightarrow> string option"
  assumes prefix_visible: "prefix_text \<noteq> []" "list_all visible prefix_text"
    and format_law: "format ident = prefix_text @ ident"
    and parse_law: "parse value = Some ident \<longleftrightarrow>
      strings_TrimSpace value = prefix_text @ ident \<and> isCanonicalUUID ident"
begin

lemma format_trim: "isCanonicalUUID ident \<Longrightarrow> strings_TrimSpace (format ident) = format ident"
  by (rule TrimSpace_all_visible) (simp add: format_law prefix_visible isCanonicalUUID_visible)

lemma parse_format: "isCanonicalUUID ident \<Longrightarrow> parse (format ident) = Some ident"
  using format_trim [of ident] by (simp add: parse_law format_law)

lemma format_parse: "parse value = Some ident \<Longrightarrow> strings_TrimSpace value = format ident"
  by (simp add: parse_law format_law)

lemma parse_canonical: "parse value = Some ident \<Longrightarrow> isCanonicalUUID ident"
  by (simp add: parse_law)

lemma format_inject: "format x = format y \<longleftrightarrow> x = y"
  by (simp add: format_law)

end

interpretation repo_id: control_id repoControlIDPrefix formatRepoControlID parseRepoControlID
  by unfold_locales
    (simp_all add: formatRepoControlID_def parseRepoControlID_def CutPrefix_case,
     simp_all add: repoControlIDPrefix_def visible_def is_space_def)

interpretation token_id:
  control_id repoTokenControlIDPrefix formatRepoTokenControlID parseRepoTokenControlID
  by unfold_locales
    (simp_all add: formatRepoTokenControlID_def parseRepoTokenControlID_def CutPrefix_case,
     simp_all add: repoTokenControlIDPrefix_def visible_def is_space_def)

end
