(* ===== verification/Git_Storage.thy ===== *)
theory Git_Storage
  imports Go_Path Ids
begin

text \<open>
  Storage of the bare repositories (\<open>internal/http/git_storage.go\<close>, \<open>internal/http/git_env.go\<close>).

  The interface \<open>repoGitStorage\<close> is a record of operations on a world of type \<open>'w\<close>; its two
  implementations are the no-op storage and the file-system storage.  The operating system and
  the \<open>git\<close> program are not part of the sources: they are the record \<open>host\<close> of operations the
  storage calls, and the locale \<open>git_host\<close> states what the storage relies on (which directories
  exist after a call).  Under these laws the file-system storage meets the contract
  \<open>bare_repo_storage\<close> that the repository store uses.
\<close>

section \<open>The process environment of git\<close>

definition gitProcessEnv :: "string \<Rightarrow> string list \<Rightarrow> string list" where
  "gitProcessEnv path_var extra =
     (let path = strings_TrimSpace path_var
      in (if path \<noteq> [] then [''PATH='' @ path] else []) @
         [''GIT_CONFIG_NOSYSTEM=1'', ''GIT_CONFIG_GLOBAL='' @ ''/dev/null'', ''GIT_TERMINAL_PROMPT=0''] @
         extra)"

section \<open>The interface and the host\<close>

text \<open>What \<open>ctx.Err()\<close> reports when a call asks.\<close>

type_synonym ctx = "go_error option"

record 'w repoGitStorage =
  InitBareRepo :: "ctx \<Rightarrow> string \<Rightarrow> string \<Rightarrow> 'w \<Rightarrow> go_error option \<times> 'w"
  DeleteBareRepo :: "ctx \<Rightarrow> string \<Rightarrow> 'w \<Rightarrow> go_error option \<times> 'w"
  BareRepoPath :: "ctx \<Rightarrow> string \<Rightarrow> 'w \<Rightarrow> string result"

text \<open>
  The host: the environment variable \<open>PATH\<close>, \<open>os.MkdirAll\<close>, \<open>os.RemoveAll\<close>, \<open>os.Stat\<close> (an
  error, or \<open>info.IsDir()\<close>), and a run of the \<open>git\<close> program with its arguments and its
  environment, which gives its combined output and the text of the error, if any.
\<close>

record 'w host =
  host_PATH :: string
  os_MkdirAll :: "string \<Rightarrow> 'w \<Rightarrow> go_error option \<times> 'w"
  os_RemoveAll :: "string \<Rightarrow> 'w \<Rightarrow> go_error option \<times> 'w"
  os_Stat :: "string \<Rightarrow> 'w \<Rightarrow> bool result"
  exec_git :: "ctx \<Rightarrow> string list \<Rightarrow> string list \<Rightarrow> 'w \<Rightarrow> (string \<times> string option) \<times> 'w"

section \<open>The implementations\<close>

definition noopRepoGitStorage :: "'w repoGitStorage" where
  "noopRepoGitStorage =
     \<lparr>InitBareRepo = (\<lambda>ctx repoID defaultBranch w. (None, w)),
      DeleteBareRepo = (\<lambda>ctx repoID w. (None, w)),
      BareRepoPath = (\<lambda>ctx repoID w. Inl errRepoStorageNotFound)\<rparr>"

definition defaultGitStorageRoot :: string where "defaultGitStorageRoot = ''.storage''"

text \<open>The struct \<open>filesystemGitStorage\<close> has one field, its root, which stands for it.\<close>

definition newFilesystemGitStorage :: "string \<Rightarrow> string" where
  "newFilesystemGitStorage root =
     (let root = strings_TrimSpace root in if root = [] then defaultGitStorageRoot else root)"

definition repoPath :: "string \<Rightarrow> string \<Rightarrow> string" where
  "repoPath root repoID = filepath_Join [root, ''repos'', repoID @ ''.git'']"

definition runGit :: "'w host \<Rightarrow> ctx \<Rightarrow> string list \<Rightarrow> 'w \<Rightarrow> go_error option \<times> 'w" where
  "runGit host ctx args w =
     (let ((output, err), w') = exec_git host ctx args (gitProcessEnv (host_PATH host) []) w
      in case err of
           None \<Rightarrow> (None, w')
         | Some err \<Rightarrow>
             (let message = strings_TrimSpace output
              in if message = []
                 then (Some (errOther (''git '' @ join_with (CHR '' '') args @ '': '' @ err)), w')
                 else (Some (errOther (''git '' @ join_with (CHR '' '') args @ '': '' @ err @
                                       '': '' @ message)), w')))"

definition filesystem_InitBareRepo ::
  "'w host \<Rightarrow> string \<Rightarrow> ctx \<Rightarrow> string \<Rightarrow> string \<Rightarrow> 'w \<Rightarrow> go_error option \<times> 'w" where
  "filesystem_InitBareRepo host root ctx repoID defaultBranch w =
     (let path = repoPath root repoID
      in case os_MkdirAll host (filepath_Dir path) w of
           (Some err, w1) \<Rightarrow> (Some (errOther (''create git storage root: '' @ error_text err)), w1)
         | (None, w1) \<Rightarrow>
             (case runGit host ctx [''init'', ''--bare'', path] w1 of
                (Some err, w2) \<Rightarrow> (Some err, w2)
              | (None, w2) \<Rightarrow>
                  (case runGit host ctx
                          [''--git-dir'', path, ''symbolic-ref'', ''HEAD'',
                           ''refs/heads/'' @ defaultBranch] w2 of
                     (Some err, w3) \<Rightarrow> (Some err, w3)
                   | (None, w3) \<Rightarrow> (None, w3))))"

definition filesystem_DeleteBareRepo ::
  "'w host \<Rightarrow> string \<Rightarrow> ctx \<Rightarrow> string \<Rightarrow> 'w \<Rightarrow> go_error option \<times> 'w" where
  "filesystem_DeleteBareRepo host root ctx repoID w =
     (case ctx of
        Some err \<Rightarrow> (Some err, w)
      | None \<Rightarrow> os_RemoveAll host (repoPath root repoID) w)"

definition filesystem_BareRepoPath ::
  "'w host \<Rightarrow> string \<Rightarrow> ctx \<Rightarrow> string \<Rightarrow> 'w \<Rightarrow> string result" where
  "filesystem_BareRepoPath host root ctx repoID w =
     (let path = repoPath root repoID
      in case os_Stat host path w of
           Inl err \<Rightarrow> Inl errRepoStorageNotFound
         | Inr isDir \<Rightarrow> if \<not> isDir then Inl errRepoStorageNotFound else Inr path)"

definition filesystemGitStorage :: "'w host \<Rightarrow> string \<Rightarrow> 'w repoGitStorage" where
  "filesystemGitStorage host root =
     \<lparr>InitBareRepo = filesystem_InitBareRepo host root,
      DeleteBareRepo = filesystem_DeleteBareRepo host root,
      BareRepoPath = filesystem_BareRepoPath host root\<rparr>"

section \<open>Storage paths\<close>

lemma newFilesystemGitStorage_nonempty: "newFilesystemGitStorage root \<noteq> []"
  by (simp add: newFilesystemGitStorage_def defaultGitStorageRoot_def Let_def)

lemma uuid_no_slash: "isCanonicalUUID v \<Longrightarrow> CHR ''/'' \<notin> set v"
  using isCanonicalUUID_chars [of v "CHR ''/''"] by (auto simp: isLowerHexDigit_def)

lemma uuid_git_plain: "isCanonicalUUID v \<Longrightarrow> plain_part (v @ ''.git'')"
  using uuid_no_slash [of v] isCanonicalUUID_nonempty [of v]
  by (auto simp: plain_part_def append_eq_Cons_conv)

lemma repoPath_eq:
  assumes "root \<noteq> []" "isCanonicalUUID v"
  shows "repoPath root v = filepath_Clean (root @ ''/repos'') @ ''/'' @ v @ ''.git''"
proof -
  have "plain_part ''repos''" by (simp add: plain_part_def)
  from Clean_two [OF assms(1) this uuid_git_plain [OF assms(2)]] assms(1)
  show ?thesis by (simp add: repoPath_def filepath_Join_def)
qed

lemma repoPath_inject:
  "root \<noteq> [] \<Longrightarrow> isCanonicalUUID u \<Longrightarrow> isCanonicalUUID v \<Longrightarrow>
     repoPath root u = repoPath root v \<longleftrightarrow> u = v"
  by (simp add: repoPath_eq)

lemma repoPath_length:
  "root \<noteq> [] \<Longrightarrow> isCanonicalUUID u \<Longrightarrow> isCanonicalUUID v \<Longrightarrow>
     length (repoPath root u) = length (repoPath root v)"
  by (simp add: repoPath_eq isCanonicalUUID_bytes)

text \<open>
  \<open>repoPath\<close>.  A repository identifier never leaves its directory: the path of a canonical
  UUID is one component, named after it, directly below the \<open>repos\<close> directory of the root,
  whatever the root is.
\<close>
lemma repoPath_confined:
  assumes "isCanonicalUUID repoID"
  shows "filepath_Base (repoPath (newFilesystemGitStorage root) repoID) = repoID @ ''.git'' \<and>
    strings_HasPrefix (repoPath (newFilesystemGitStorage root) repoID)
      (filepath_Clean (newFilesystemGitStorage root @ ''/repos'') @ ''/'')"
proof -
  let ?r = "newFilesystemGitStorage root"
  have eq: "repoPath ?r repoID = filepath_Clean (?r @ ''/repos'') @ CHR ''/'' # (repoID @ ''.git'')"
    using repoPath_eq [OF newFilesystemGitStorage_nonempty assms, of root] by simp
  have "filepath_Base (repoPath ?r repoID) = repoID @ ''.git''"
    unfolding eq by (rule Base_snoc [OF uuid_git_plain [OF assms]])
  moreover have "strings_HasPrefix (repoPath ?r repoID) (filepath_Clean (?r @ ''/repos'') @ ''/'')"
    unfolding eq by (auto simp: HasPrefix_iff)
  ultimately show ?thesis ..
qed

lemma repoPath_confined_witness:
  "isCanonicalUUID ''00000000-0000-4000-8000-000000000000'' \<and>
   filepath_Base (repoPath (newFilesystemGitStorage []) ''00000000-0000-4000-8000-000000000000'')
     = ''00000000-0000-4000-8000-000000000000.git''"
proof -
  have "isCanonicalUUID ''00000000-0000-4000-8000-000000000000''"
    by (simp add: isCanonicalUUID_def range_string_ascii uuid_rune_def isLowerHexDigit_def)
  with repoPath_confined [OF this, of "[]"] show ?thesis by simp
qed

section \<open>The contract of the storage\<close>

text \<open>
  What a repository store relies on: a repository that was initialised has a path, one that was
  deleted has none, neither call changes what is known of another repository, and the only error
  of a path lookup is that the storage is missing.
\<close>

locale bare_repo_storage =
  fixes gs :: "'w repoGitStorage"
  assumes init_path: "InitBareRepo gs ctx v b w = (None, w') \<Longrightarrow> isCanonicalUUID v \<Longrightarrow>
      \<exists>p. \<forall>ctx'. BareRepoPath gs ctx' v w' = Inr p"
    and init_frame: "InitBareRepo gs ctx v b w = (r, w') \<Longrightarrow> isCanonicalUUID v \<Longrightarrow>
      isCanonicalUUID u \<Longrightarrow> u \<noteq> v \<Longrightarrow> BareRepoPath gs ctx' u w' = BareRepoPath gs ctx' u w"
    and delete_path: "DeleteBareRepo gs ctx v w = (None, w') \<Longrightarrow> isCanonicalUUID v \<Longrightarrow>
      BareRepoPath gs ctx' v w' = Inl errRepoStorageNotFound"
    and delete_frame: "DeleteBareRepo gs ctx v w = (r, w') \<Longrightarrow> isCanonicalUUID v \<Longrightarrow>
      isCanonicalUUID u \<Longrightarrow> u \<noteq> v \<Longrightarrow> BareRepoPath gs ctx' u w' = BareRepoPath gs ctx' u w"
    and path_error: "BareRepoPath gs ctx v w = Inl e \<Longrightarrow> e = errRepoStorageNotFound"

text \<open>
  What the file-system storage relies on: a call changes which directories exist only at, below
  or above the path it names; \<open>git init --bare\<close> that succeeds leaves a directory; setting
  \<open>HEAD\<close> of a repository leaves its directory in place; \<open>os.RemoveAll\<close> that succeeds removes it.
\<close>

definition path_under :: "string \<Rightarrow> string \<Rightarrow> bool" where
  "path_under p q \<longleftrightarrow> strings_HasPrefix q (p @ ''/'')"

definition host_dir :: "'w host \<Rightarrow> 'w \<Rightarrow> string \<Rightarrow> bool" where
  "host_dir h w p \<longleftrightarrow> os_Stat h p w = Inr True"

definition same_dirs_off :: "'w host \<Rightarrow> string \<Rightarrow> 'w \<Rightarrow> 'w \<Rightarrow> bool" where
  "same_dirs_off h p w w' \<longleftrightarrow>
     (\<forall>q. q \<noteq> p \<longrightarrow> \<not> path_under p q \<longrightarrow> \<not> path_under q p \<longrightarrow> host_dir h w' q = host_dir h w q)"

locale git_host =
  fixes h :: "'w host"
  assumes mkdir_frame: "os_MkdirAll h p w = (r, w') \<Longrightarrow> q \<noteq> p \<Longrightarrow> \<not> path_under q p \<Longrightarrow>
      host_dir h w' q = host_dir h w q"
    and git_init: "exec_git h ctx [''init'', ''--bare'', p] env w = ((out, None), w') \<Longrightarrow>
      host_dir h w' p"
    and git_init_frame: "exec_git h ctx [''init'', ''--bare'', p] env w = (r', w') \<Longrightarrow>
      same_dirs_off h p w w'"
    and git_head: "exec_git h ctx [''--git-dir'', p, ''symbolic-ref'', ''HEAD'', ref] env w = (r', w')
      \<Longrightarrow> host_dir h w p \<Longrightarrow> host_dir h w' p"
    and git_head_frame:
      "exec_git h ctx [''--git-dir'', p, ''symbolic-ref'', ''HEAD'', ref] env w = (r', w') \<Longrightarrow>
      same_dirs_off h p w w'"
    and remove_all: "os_RemoveAll h p w = (None, w') \<Longrightarrow> \<not> host_dir h w' p"
    and remove_frame: "os_RemoveAll h p w = (r, w') \<Longrightarrow> same_dirs_off h p w w'"

text \<open>The file-system storage on such a host, below a root.\<close>

locale fs_storage = git_host h for h :: "'w host" +
  fixes root :: string
  assumes root_nonempty: "root \<noteq> []"
begin

lemma repo_off:
  assumes "isCanonicalUUID u" "isCanonicalUUID v" "u \<noteq> v"
  shows "repoPath root u \<noteq> repoPath root v" "\<not> path_under (repoPath root u) (repoPath root v)"
  using repoPath_inject [OF root_nonempty assms(1,2)] repoPath_length [OF root_nonempty assms(1,2)]
    assms(3) by (auto simp: path_under_def HasPrefix_iff)

lemma repo_same_dirs:
  assumes "same_dirs_off h (repoPath root v) w w'" "isCanonicalUUID u" "isCanonicalUUID v" "u \<noteq> v"
  shows "host_dir h w' (repoPath root u) = host_dir h w (repoPath root u)"
  using assms repo_off [of u v] repo_off [of v u] unfolding same_dirs_off_def by metis

lemma parent_off:
  assumes "isCanonicalUUID u" "isCanonicalUUID v"
  shows "repoPath root u \<noteq> filepath_Dir (repoPath root v)"
    and "\<not> path_under (repoPath root u) (filepath_Dir (repoPath root v))"
proof -
  let ?d = "filepath_Clean (root @ ''/repos'')"
  have "repoPath root v = ?d @ CHR ''/'' # (v @ ''.git'')"
    using repoPath_eq [OF root_nonempty assms(2)] by simp
  then have "filepath_Dir (repoPath root v) = filepath_Clean (?d @ ''/'')"
    using Dir_snoc [of "v @ ''.git''" ?d] uuid_no_slash [OF assms(2)] by simp
  then have "length (filepath_Dir (repoPath root v)) < length (repoPath root u)"
    using Clean_length [of "?d @ ''/''"] assms(1)
    by (simp add: repoPath_eq root_nonempty isCanonicalUUID_bytes)
  then show "repoPath root u \<noteq> filepath_Dir (repoPath root v)"
    and "\<not> path_under (repoPath root u) (filepath_Dir (repoPath root v))"
    by (auto simp: path_under_def HasPrefix_iff)
qed

lemma BareRepoPath_dir:
  "filesystem_BareRepoPath h root ctx v w =
     (if host_dir h w (repoPath root v) then Inr (repoPath root v) else Inl errRepoStorageNotFound)"
  by (auto simp: filesystem_BareRepoPath_def host_dir_def Let_def split: sum.split)

lemma runGit_run:
  assumes "runGit h ctx args w = (r, w')"
  obtains out err where
    "exec_git h ctx args (gitProcessEnv (host_PATH h) []) w = ((out, err), w')"
    and "r = None \<longleftrightarrow> err = None"
  using assms by (auto simp: runGit_def Let_def split: prod.splits option.splits if_splits)

lemma init_dirs:
  assumes "filesystem_InitBareRepo h root ctx v b w = (r, w')" "isCanonicalUUID v"
  shows "r = None \<Longrightarrow> host_dir h w' (repoPath root v)"
    and "isCanonicalUUID u \<Longrightarrow> u \<noteq> v \<Longrightarrow>
      host_dir h w' (repoPath root u) = host_dir h w (repoPath root u)"
proof -
  let ?p = "repoPath root v"
  obtain r1 w1 where mk: "os_MkdirAll h (filepath_Dir ?p) w = (r1, w1)" by fastforce
  obtain r2 w2 where gi: "runGit h ctx [''init'', ''--bare'', ?p] w1 = (r2, w2)" by fastforce
  obtain r3 w3 where gh: "runGit h ctx [''--git-dir'', ?p, ''symbolic-ref'', ''HEAD'',
      ''refs/heads/'' @ b] w2 = (r3, w3)" by fastforce
  have run: "(w' = w1 \<or> w' = w2 \<or> w' = w3) \<and> (r = None \<longrightarrow> w' = w3 \<and> r2 = None)"
    using assms(1) mk gi gh
    by (auto simp: filesystem_InitBareRepo_def Let_def split: option.splits)
  obtain o2 e2 where g2: "r2 = None \<longleftrightarrow> e2 = None"
    "exec_git h ctx [''init'', ''--bare'', ?p] (gitProcessEnv (host_PATH h) []) w1 = ((o2, e2), w2)"
    using gi by (rule runGit_run) blast
  obtain o3 e3 where g3: "exec_git h ctx [''--git-dir'', ?p, ''symbolic-ref'', ''HEAD'',
      ''refs/heads/'' @ b] (gitProcessEnv (host_PATH h) []) w2 = ((o3, e3), w3)"
    using gh by (rule runGit_run) blast
  show "host_dir h w' ?p" if "r = None"
    using that run g2 git_head [OF g3] git_init [of ctx ?p _ w1 o2 w2] by simp
  assume u: "isCanonicalUUID u" "u \<noteq> v"
  have "host_dir h w1 (repoPath root u) = host_dir h w (repoPath root u)"
    using mkdir_frame [OF mk] parent_off [OF u(1) assms(2)] by blast
  moreover have "host_dir h w2 (repoPath root u) = host_dir h w1 (repoPath root u)"
    using repo_same_dirs [OF git_init_frame [OF g2(2)] u(1) assms(2) u(2)] .
  moreover have "host_dir h w3 (repoPath root u) = host_dir h w2 (repoPath root u)"
    using repo_same_dirs [OF git_head_frame [OF g3] u(1) assms(2) u(2)] .
  ultimately show "host_dir h w' (repoPath root u) = host_dir h w (repoPath root u)"
    using run by metis
qed

end

sublocale fs_storage \<subseteq> bare_repo_storage "filesystemGitStorage h root"
proof (unfold_locales, goal_cases)
  case (1 ctx v b w w')
  then show ?case
    using init_dirs(1) by (auto simp: filesystemGitStorage_def BareRepoPath_dir)
next
  case (2 ctx v b w r w' u ctx')
  then show ?case
    using init_dirs(2) by (simp add: filesystemGitStorage_def BareRepoPath_dir)
next
  case (3 ctx v w w' ctx')
  then show ?case
    using remove_all
    by (auto simp: filesystemGitStorage_def BareRepoPath_dir filesystem_DeleteBareRepo_def
        split: option.splits)
next
  case (4 ctx v w r w' u ctx')
  then have "host_dir h w' (repoPath root u) = host_dir h w (repoPath root u)"
    using remove_frame [of "repoPath root v" w r w'] repo_same_dirs
    by (auto simp: filesystemGitStorage_def filesystem_DeleteBareRepo_def split: option.splits)
  then show ?case by (simp add: filesystemGitStorage_def BareRepoPath_dir)
next
  case (5 ctx v w e)
  then show ?case by (simp add: filesystemGitStorage_def BareRepoPath_dir split: if_splits)
qed

context fs_storage begin

lemma storage_contract: "bare_repo_storage (filesystemGitStorage h root)"
  by (rule bare_repo_storage_axioms)

end

text \<open>
  The laws of \<open>git_host\<close> can hold together: a host whose world is the list of its directories,
  on which every call succeeds.
\<close>

definition dir_host :: "string list host" where
  "dir_host =
     \<lparr>host_PATH = ''/usr/bin'',
      os_MkdirAll = (\<lambda>p w. (None, p # w)),
      os_RemoveAll = (\<lambda>p w. (None, filter (\<lambda>q. q \<noteq> p \<and> \<not> path_under p q) w)),
      os_Stat = (\<lambda>p w. if p \<in> set w then Inr True else Inl (errOther ''file does not exist'')),
      exec_git = (\<lambda>ctx args env w.
        (([], None), case args of [a, b, p] \<Rightarrow> p # w | _ \<Rightarrow> w))\<rparr>"

lemma dir_host_dir [simp]: "host_dir dir_host w p \<longleftrightarrow> p \<in> set w"
  by (simp add: host_dir_def dir_host_def)

interpretation dir_host: fs_storage dir_host defaultGitStorageRoot
  by unfold_locales (auto simp: same_dirs_off_def, auto simp: dir_host_def defaultGitStorageRoot_def)

end
