(* ===== verification/Repository.thy ===== *)
theory Repository
  imports Git_Storage "HOL-Library.Product_Lexorder"
begin

text \<open>
  The repository store (\<open>internal/http/repository.go\<close>): records, the interface \<open>repoStore\<close>,
  identifiers and tokens from random bytes, and the in-memory store with its seven operations.

  The interface is a record of operations on a state of type \<open>'s\<close>.  What the environment
  answers during one call (the context, the clock, the random bytes) is the record \<open>callEnv\<close>
  the operations take; the mutex of the in-memory store makes each operation atomic, so an
  operation is one function from state to result and state.  The loop that draws a token until
  its hash is new has no bound in the code: \<open>CreateRepoToken\<close> returns an option, and \<^const>\<open>None\<close>
  means that the call never returns.
\<close>

unbundle bit_operations_syntax

section \<open>Records and the interface\<close>

record createRepoInput =
  cr_Namespace :: string
  cr_Name :: string
  cr_DefaultBranch :: string

record createRepoTokenInput =
  ct_RepoID :: string
  ct_Scope :: string
  ct_Subject :: string
  ct_TTLSeconds :: int

record revokeRepoTokenInput =
  rv_RepoID :: string
  rv_TokenID :: string

type_synonym gitOperation = string

definition gitOperationRead :: gitOperation where "gitOperationRead = ''read''"
definition gitOperationWrite :: gitOperation where "gitOperationWrite = ''write''"

record authorizeGitAccessInput =
  az_RepoID :: string
  az_Token :: string
  az_Operation :: gitOperation

record gitAccessGrant =
  grant_RepoID :: string
  grant_RepoPath :: string
  grant_Subject :: string

record repoRecord =
  repo_ID :: string
  repo_Namespace :: string
  repo_Name :: string
  repo_DefaultBranch :: string
  repo_ArchivedAt :: time

record repoTokenRecord =
  tok_ID :: string
  tok_RepoID :: string
  tok_RepoNamespace :: string
  tok_RepoName :: string
  tok_Token :: string
  tok_TokenHash :: string
  tok_Scope :: string
  tok_Subject :: string
  tok_ExpiresAt :: time
  tok_CreatedAt :: time
  tok_RevokedAt :: time
  tok_LastUsedAt :: time

text \<open>The zero value of the token record: what a map lookup gives for a missing key.\<close>

definition zero_token :: repoTokenRecord where
  "zero_token =
     \<lparr>tok_ID = [], tok_RepoID = [], tok_RepoNamespace = [], tok_RepoName = [], tok_Token = [],
      tok_TokenHash = [], tok_Scope = [], tok_Subject = [], tok_ExpiresAt = 0, tok_CreatedAt = 0,
      tok_RevokedAt = 0, tok_LastUsedAt = 0\<rparr>"

text \<open>
  The answers of the environment during one call: the error of the context, the reading of the
  store's clock and, before it, of the idempotency store's clock, the bytes for an identifier,
  and the bytes for each round of the token loop.
\<close>

record callEnv =
  env_ctx :: ctx
  env_now :: time
  env_do_now :: time
  env_uuid :: rand_read
  env_tokens :: "nat \<Rightarrow> rand_read"

text \<open>The inputs with one field (\<open>getRepoInput\<close>, \<open>archiveRepoInput\<close>, \<open>listRepoTokensInput\<close>) are
  that field.\<close>

record 's repoStore =
  CreateRepo :: "callEnv \<Rightarrow> createRepoInput \<Rightarrow> 's \<Rightarrow> repoRecord result \<times> 's"
  GetRepo :: "callEnv \<Rightarrow> string \<Rightarrow> 's \<Rightarrow> repoRecord result \<times> 's"
  ArchiveRepo :: "callEnv \<Rightarrow> string \<Rightarrow> 's \<Rightarrow> repoRecord result \<times> 's"
  CreateRepoToken ::
    "callEnv \<Rightarrow> createRepoTokenInput \<Rightarrow> 's \<Rightarrow> (repoTokenRecord result \<times> 's) option"
  ListRepoTokens :: "callEnv \<Rightarrow> string \<Rightarrow> 's \<Rightarrow> repoTokenRecord list result \<times> 's"
  RevokeRepoToken :: "callEnv \<Rightarrow> revokeRepoTokenInput \<Rightarrow> 's \<Rightarrow> repoTokenRecord result \<times> 's"
  AuthorizeGitAccess ::
    "callEnv \<Rightarrow> authorizeGitAccessInput \<Rightarrow> 's \<Rightarrow> gitAccessGrant result \<times> 's"

definition failingRepoStore :: "'s repoStore" where
  "failingRepoStore =
     \<lparr>CreateRepo = (\<lambda>env input s. (Inl errRepositoryNotImplemented, s)),
      GetRepo = (\<lambda>env input s. (Inl errRepositoryNotImplemented, s)),
      ArchiveRepo = (\<lambda>env input s. (Inl errRepositoryNotImplemented, s)),
      CreateRepoToken = (\<lambda>env input s. Some (Inl errRepositoryNotImplemented, s)),
      ListRepoTokens = (\<lambda>env input s. (Inl errRepositoryNotImplemented, s)),
      RevokeRepoToken = (\<lambda>env input s. (Inl errRepositoryNotImplemented, s)),
      AuthorizeGitAccess = (\<lambda>env input s. (Inl errRepositoryNotImplemented, s))\<rparr>"

section \<open>Identifiers, tokens, hashes\<close>

definition slice :: "nat \<Rightarrow> nat \<Rightarrow> 'a list \<Rightarrow> 'a list" where
  "slice i j xs = take (j - i) (drop i xs)"

definition rand_bytes :: "nat \<Rightarrow> (nat \<Rightarrow> byte) \<Rightarrow> byte list" where
  "rand_bytes n f = map f [0..<n]"

definition uuid_layout :: "string \<Rightarrow> string" where
  "uuid_layout uuid =
     slice 0 8 uuid @ ''-'' @ slice 8 12 uuid @ ''-'' @ slice 12 16 uuid @ ''-'' @
     slice 16 20 uuid @ ''-'' @ slice 20 32 uuid"

definition newUUID :: "rand_read \<Rightarrow> string result" where
  "newUUID draw =
     (case draw of
        Inl err \<Rightarrow> Inl err
      | Inr f \<Rightarrow>
          (let raw = rand_bytes 16 f;
               raw = raw[6 := (raw ! 6 AND 0x0f) OR 0x40];
               raw = raw[8 := (raw ! 8 AND 0x3f) OR 0x80]
           in Inr (uuid_layout (hex_EncodeToString raw))))"

definition generateRepoToken :: "rand_read \<Rightarrow> string result" where
  "generateRepoToken draw =
     (case draw of
        Inl err \<Rightarrow> Inl err
      | Inr f \<Rightarrow> Inr (''gtd_'' @ RawURLEncoding (rand_bytes 32 f)))"

text \<open>\<open>sha256\<close> is a parameter: what the store guarantees does not depend on the hash function.\<close>

definition hashRepoToken :: "(string \<Rightarrow> byte list) \<Rightarrow> string \<Rightarrow> string" where
  "hashRepoToken sha256 token = hex_EncodeToString (sha256 token)"

definition scopeAllowsGitOperation :: "string \<Rightarrow> gitOperation \<Rightarrow> bool" where
  "scopeAllowsGitOperation scope operation =
     (if operation = gitOperationRead then scope = ''read'' \<or> scope = ''readwrite''
      else if operation = gitOperationWrite then scope = ''write'' \<or> scope = ''readwrite''
      else False)"

text \<open>
  The order of \<open>sortRepoTokenRecords\<close>: by creation time, then by identifier.  With it the sort
  key is an instance of the library's linear orders.
\<close>

datatype tokenSortKey = TokenSortKey (key_CreatedAt: time) (key_ID: string)

instantiation tokenSortKey :: linorder
begin

definition less_tokenSortKey :: "tokenSortKey \<Rightarrow> tokenSortKey \<Rightarrow> bool" where
  "less_tokenSortKey i j =
     (if key_CreatedAt i = key_CreatedAt j then key_ID i < key_ID j
      else key_CreatedAt i < key_CreatedAt j)"

definition less_eq_tokenSortKey :: "tokenSortKey \<Rightarrow> tokenSortKey \<Rightarrow> bool" where
  "less_eq_tokenSortKey i j = (i < j \<or> i = j)"

instance
proof
  fix x y z :: tokenSortKey
  show "x < y \<longleftrightarrow> x \<le> y \<and> \<not> y \<le> x"
    by (auto simp: less_eq_tokenSortKey_def less_tokenSortKey_def split: if_splits)
  show "x \<le> x" by (simp add: less_eq_tokenSortKey_def)
  show "x \<le> y \<Longrightarrow> y \<le> z \<Longrightarrow> x \<le> z"
    by (auto simp: less_eq_tokenSortKey_def less_tokenSortKey_def split: if_splits)
  show "x \<le> y \<Longrightarrow> y \<le> x \<Longrightarrow> x = y"
    by (auto simp: less_eq_tokenSortKey_def less_tokenSortKey_def split: if_splits)
  show "x \<le> y \<or> y \<le> x"
    by (cases x; cases y) (auto simp: less_eq_tokenSortKey_def less_tokenSortKey_def)
qed

end

definition token_sort_key :: "repoTokenRecord \<Rightarrow> tokenSortKey" where
  "token_sort_key t = TokenSortKey (tok_CreatedAt t) (tok_ID t)"

definition sortRepoTokenRecords :: "repoTokenRecord list \<Rightarrow> repoTokenRecord list" where
  "sortRepoTokenRecords tokens = sort_key token_sort_key tokens"

section \<open>The in-memory store\<close>

record memoryRepoStore =
  repos :: "(string, repoRecord) gomap"
  byName :: "(string, string) gomap"
  tokens :: "(string, repoTokenRecord) gomap"
  tokenIDsByHash :: "(string, string) gomap"

definition newMemoryRepoStore :: memoryRepoStore where
  "newMemoryRepoStore = \<lparr>repos = [], byName = [], tokens = [], tokenIDsByHash = []\<rparr>"

definition memory_CreateRepo ::
  "'w repoGitStorage \<Rightarrow> callEnv \<Rightarrow> createRepoInput \<Rightarrow> memoryRepoStore \<times> 'w \<Rightarrow>
     repoRecord result \<times> memoryRepoStore \<times> 'w" where
  "memory_CreateRepo gs env input = (\<lambda>(store, w).
     let nameKey = cr_Namespace input @ ''/'' @ cr_Name input
     in case map_of (byName store) nameKey of
          Some ident \<Rightarrow>
            (Inr (case map_of (repos store) ident of
                    Some repo \<Rightarrow> repo
                  | None \<Rightarrow> \<lparr>repo_ID = [], repo_Namespace = [], repo_Name = [],
                             repo_DefaultBranch = [], repo_ArchivedAt = 0\<rparr>), store, w)
        | None \<Rightarrow>
            (case newUUID (env_uuid env) of
               Inl err \<Rightarrow> (Inl err, store, w)
             | Inr repoID \<Rightarrow>
                 (case InitBareRepo gs (env_ctx env) repoID (cr_DefaultBranch input) w of
                    (Some err, w1) \<Rightarrow>
                      (Inl err, store, snd (DeleteBareRepo gs (env_ctx env) repoID w1))
                  | (None, w1) \<Rightarrow>
                      (let repo = \<lparr>repo_ID = repoID, repo_Namespace = cr_Namespace input,
                                   repo_Name = cr_Name input,
                                   repo_DefaultBranch = cr_DefaultBranch input,
                                   repo_ArchivedAt = 0\<rparr>
                       in (Inr repo,
                           store\<lparr>repos := AList.update (repo_ID repo) repo (repos store),
                                 byName := AList.update nameKey (repo_ID repo) (byName store)\<rparr>,
                           w1)))))"

definition memory_GetRepo ::
  "callEnv \<Rightarrow> string \<Rightarrow> memoryRepoStore \<times> 'w \<Rightarrow> repoRecord result \<times> memoryRepoStore \<times> 'w" where
  "memory_GetRepo env repoID = (\<lambda>(store, w).
     case map_of (repos store) repoID of
       None \<Rightarrow> (Inl errRepoNotFound, store, w)
     | Some repo \<Rightarrow> (Inr repo, store, w))"

text \<open>The loop of \<open>CreateRepoToken\<close>, from its \<open>i\<close>-th round on.\<close>

partial_function (option) draw_token ::
  "(string \<Rightarrow> byte list) \<Rightarrow> (string, string) gomap \<Rightarrow> (nat \<Rightarrow> rand_read) \<Rightarrow> nat \<Rightarrow>
     (string \<times> string) result option" where
  "draw_token sha256 known draws i =
     (case generateRepoToken (draws i) of
        Inl err \<Rightarrow> Some (Inl err)
      | Inr generated \<Rightarrow>
          (let hash = hashRepoToken sha256 generated
           in if map_of known hash \<noteq> None then draw_token sha256 known draws (Suc i)
              else Some (Inr (generated, hash))))"

definition token_record ::
  "repoRecord \<Rightarrow> createRepoTokenInput \<Rightarrow> time \<Rightarrow> string \<Rightarrow> string \<Rightarrow> string \<Rightarrow> repoTokenRecord" where
  "token_record repo input now tokenID token tokenHash =
     zero_token\<lparr>tok_ID := tokenID, tok_RepoID := repo_ID repo,
       tok_RepoNamespace := repo_Namespace repo, tok_RepoName := repo_Name repo,
       tok_Token := token, tok_TokenHash := tokenHash, tok_Scope := ct_Scope input,
       tok_Subject := ct_Subject input,
       tok_ExpiresAt := now + int64 (ct_TTLSeconds input * second), tok_CreatedAt := now\<rparr>"

definition memory_CreateRepoToken ::
  "(string \<Rightarrow> byte list) \<Rightarrow> callEnv \<Rightarrow> createRepoTokenInput \<Rightarrow> memoryRepoStore \<times> 'w \<Rightarrow>
     (repoTokenRecord result \<times> memoryRepoStore \<times> 'w) option" where
  "memory_CreateRepoToken sha256 env input = (\<lambda>(store, w).
     case map_of (repos store) (ct_RepoID input) of
       None \<Rightarrow> Some (Inl errRepoNotFound, store, w)
     | Some repo \<Rightarrow>
         (case draw_token sha256 (tokenIDsByHash store) (env_tokens env) 0 of
            None \<Rightarrow> None
          | Some (Inl err) \<Rightarrow> Some (Inl err, store, w)
          | Some (Inr (token, tokenHash)) \<Rightarrow>
              (case newUUID (env_uuid env) of
                 Inl err \<Rightarrow> Some (Inl err, store, w)
               | Inr tokenID \<Rightarrow>
                   (let record = token_record repo input (env_now env) tokenID token tokenHash;
                        stored = record\<lparr>tok_Token := []\<rparr>
                    in Some (Inr record,
                         store\<lparr>tokens := AList.update (tok_ID record) stored (tokens store),
                               tokenIDsByHash := AList.update (tok_TokenHash record) (tok_ID record)
                                                   (tokenIDsByHash store)\<rparr>, w)))))"

definition memory_ListRepoTokens ::
  "callEnv \<Rightarrow> string \<Rightarrow> memoryRepoStore \<times> 'w \<Rightarrow>
     repoTokenRecord list result \<times> memoryRepoStore \<times> 'w" where
  "memory_ListRepoTokens env repoID = (\<lambda>(store, w).
     if map_of (repos store) repoID = None then (Inl errRepoNotFound, store, w)
     else (Inr (sortRepoTokenRecords
                  (map (\<lambda>token. token\<lparr>tok_Token := []\<rparr>)
                     (filter (\<lambda>token. tok_RepoID token = repoID) (gomap_values (tokens store))))),
           store, w))"

definition memory_RevokeRepoToken ::
  "callEnv \<Rightarrow> revokeRepoTokenInput \<Rightarrow> memoryRepoStore \<times> 'w \<Rightarrow>
     repoTokenRecord result \<times> memoryRepoStore \<times> 'w" where
  "memory_RevokeRepoToken env input = (\<lambda>(store, w).
     if map_of (repos store) (rv_RepoID input) = None then (Inl errRepoNotFound, store, w)
     else case map_of (tokens store) (rv_TokenID input) of
            None \<Rightarrow> (Inl errRepoTokenNotFound, store, w)
          | Some token \<Rightarrow>
              (if tok_RepoID token \<noteq> rv_RepoID input then (Inl errRepoTokenNotFound, store, w)
               else if time_IsZero (tok_RevokedAt token) then
                 (let token = token\<lparr>tok_RevokedAt := env_now env\<rparr>
                  in (Inr token,
                      store\<lparr>tokens := AList.update (tok_ID token) token (tokens store)\<rparr>, w))
               else (Inr token, store, w)))"

definition memory_AuthorizeGitAccess ::
  "(string \<Rightarrow> byte list) \<Rightarrow> 'w repoGitStorage \<Rightarrow> callEnv \<Rightarrow> authorizeGitAccessInput \<Rightarrow>
     memoryRepoStore \<times> 'w \<Rightarrow> gitAccessGrant result \<times> memoryRepoStore \<times> 'w" where
  "memory_AuthorizeGitAccess sha256 gs env input = (\<lambda>(store, w).
     case map_of (repos store) (az_RepoID input) of
       None \<Rightarrow> (Inl errRepoNotFound, store, w)
     | Some repo \<Rightarrow>
         (if \<not> time_IsZero (repo_ArchivedAt repo) then (Inl errRepoArchived, store, w)
          else if az_Token input = [] then (Inl errRepoTokenInvalid, store, w)
          else case map_of (tokenIDsByHash store) (hashRepoToken sha256 (az_Token input)) of
                 None \<Rightarrow> (Inl errRepoTokenInvalid, store, w)
               | Some tokenID \<Rightarrow>
                   (let token = (case map_of (tokens store) tokenID of
                                   Some token \<Rightarrow> token | None \<Rightarrow> zero_token);
                        now = env_now env
                    in if tok_RepoID token \<noteq> repo_ID repo then (Inl errRepoTokenInvalid, store, w)
                       else if \<not> time_IsZero (tok_RevokedAt token) then
                         (Inl errRepoTokenInvalid, store, w)
                       else if \<not> now < tok_ExpiresAt token then
                         (Inl errRepoTokenInvalid, store, w)
                       else if \<not> scopeAllowsGitOperation (tok_Scope token) (az_Operation input) then
                         (Inl errRepoTokenForbidden, store, w)
                       else case BareRepoPath gs (env_ctx env) (repo_ID repo) w of
                              Inl err \<Rightarrow> (Inl err, store, w)
                            | Inr path \<Rightarrow>
                                (let token = token\<lparr>tok_LastUsedAt := now\<rparr>
                                 in (Inr \<lparr>grant_RepoID = repo_ID repo, grant_RepoPath = path,
                                          grant_Subject = tok_Subject token\<rparr>,
                                     store\<lparr>tokens := AList.update (tok_ID token) token
                                                        (tokens store)\<rparr>, w)))))"

definition memory_ArchiveRepo ::
  "callEnv \<Rightarrow> string \<Rightarrow> memoryRepoStore \<times> 'w \<Rightarrow> repoRecord result \<times> memoryRepoStore \<times> 'w" where
  "memory_ArchiveRepo env repoID = (\<lambda>(store, w).
     case map_of (repos store) repoID of
       None \<Rightarrow> (Inl errRepoNotFound, store, w)
     | Some repo \<Rightarrow>
         (if time_IsZero (repo_ArchivedAt repo) then
            (let repo = repo\<lparr>repo_ArchivedAt := env_now env\<rparr>
             in (Inr repo, store\<lparr>repos := AList.update (repo_ID repo) repo (repos store)\<rparr>, w))
          else (Inr repo, store, w)))"

text \<open>The in-memory store as a value of the interface.\<close>

definition memoryStore ::
  "(string \<Rightarrow> byte list) \<Rightarrow> 'w repoGitStorage \<Rightarrow> (memoryRepoStore \<times> 'w) repoStore" where
  "memoryStore sha256 gs =
     \<lparr>CreateRepo = memory_CreateRepo gs,
      GetRepo = memory_GetRepo,
      ArchiveRepo = memory_ArchiveRepo,
      CreateRepoToken = memory_CreateRepoToken sha256,
      ListRepoTokens = memory_ListRepoTokens,
      RevokeRepoToken = memory_RevokeRepoToken,
      AuthorizeGitAccess = memory_AuthorizeGitAccess sha256 gs\<rparr>"

lemmas memory_defs [store_defs] =
  memory_CreateRepo_def memory_GetRepo_def memory_CreateRepoToken_def memory_ListRepoTokens_def
  memory_RevokeRepoToken_def memory_AuthorizeGitAccess_def memory_ArchiveRepo_def

end
