(* ===== verification/Http.thy ===== *)
theory Http
  imports Json Repository
begin

text \<open>
  Requests, responses and handlers (the parts of \<open>net/http\<close>, \<open>net/url\<close> and \<open>encoding/base64\<close>
  the sources use), the JSON helpers (\<open>internal/http/json.go\<close>) and the check of the control
  token (\<open>internal/http/auth.go\<close>).

  A handler maps the answers of the environment, a request and the pair of response writer and
  server state to the pair it leaves; \<^const>\<open>None\<close> is a handler that never returns.
\<close>

section \<open>Headers\<close>

type_synonym header = "(string, string list) gomap"

definition to_upper :: "char \<Rightarrow> char" where
  "to_upper c = (let n = chr_nat c in if 97 \<le> n \<and> n \<le> 122 then char_of (n - 32) else c)"

definition to_lower :: "char \<Rightarrow> char" where
  "to_lower c = char_of (ascii_lower (chr_nat c))"

text \<open>The characters of a header field name.\<close>

definition token_char :: "char \<Rightarrow> bool" where
  "token_char c \<longleftrightarrow> (let n = chr_nat c in
     48 \<le> n \<and> n \<le> 57 \<or> 65 \<le> n \<and> n \<le> 90 \<or> 97 \<le> n \<and> n \<le> 122 \<or> n \<in> {33, 35, 36, 37, 38, 39, 42, 43, 45, 46, 94, 95, 96, 124, 126})"

fun canonical_from :: "bool \<Rightarrow> string \<Rightarrow> string" where
  "canonical_from upper [] = []"
| "canonical_from upper (c # cs) =
     (if upper then to_upper c else to_lower c) # canonical_from (c = CHR ''-'') cs"

text \<open>\<open>textproto.CanonicalMIMEHeaderKey\<close>.\<close>

definition CanonicalHeaderKey :: "string \<Rightarrow> string" where
  "CanonicalHeaderKey k = (if list_all token_char k then canonical_from True k else k)"

definition Header_Get :: "header \<Rightarrow> string \<Rightarrow> string" where
  "Header_Get h k = (case map_of h (CanonicalHeaderKey k) of Some (v # vs) \<Rightarrow> v | _ \<Rightarrow> [])"

definition Header_Set :: "string \<Rightarrow> string \<Rightarrow> header \<Rightarrow> header" where
  "Header_Set k v h = AList.update (CanonicalHeaderKey k) [v] h"

definition Header_Add :: "string \<Rightarrow> string \<Rightarrow> header \<Rightarrow> header" where
  "Header_Add k v h =
     (let k = CanonicalHeaderKey k
      in AList.update k ((case map_of h k of Some vs \<Rightarrow> vs | None \<Rightarrow> []) @ [v]) h)"

definition Header_Del :: "string \<Rightarrow> header \<Rightarrow> header" where
  "Header_Del k h = AList.delete (CanonicalHeaderKey k) h"

section \<open>Requests\<close>

text \<open>A body: the bytes it delivers, and the error it ends with instead of the end of the input.\<close>

record requestBody =
  body_bytes :: string
  body_err :: "go_error option"

text \<open>
  A request.  \<open>r_Path\<close> is \<open>r.URL.Path\<close> (decoded) and \<open>r_EscapedPath\<close> what \<open>r.URL.EscapedPath()\<close> gives;
  \<open>r_Scheme\<close> is \<open>r.URL.Scheme\<close>, empty but for a request in absolute form.
\<close>

record httpRequest =
  r_Method :: string
  r_Scheme :: string
  r_Path :: string
  r_EscapedPath :: string
  r_RawQuery :: string
  r_PathValues :: "(string, string) gomap"
  r_Header :: header
  r_Host :: string
  r_TLS :: bool
  r_RemoteAddr :: string
  r_ContentLength :: int
  r_Body :: requestBody

definition PathValue :: "httpRequest \<Rightarrow> string \<Rightarrow> string" where
  "PathValue r name = (case map_of (r_PathValues r) name of Some v \<Rightarrow> v | None \<Rightarrow> [])"

definition SetPathValue :: "string \<Rightarrow> string \<Rightarrow> httpRequest \<Rightarrow> httpRequest" where
  "SetPathValue name v r = r\<lparr>r_PathValues := AList.update name v (r_PathValues r)\<rparr>"

text \<open>\<open>http.MaxBytesReader\<close>: a body that is longer than the limit ends with an error at the limit.\<close>

definition MaxBytesReader :: "nat \<Rightarrow> requestBody \<Rightarrow> requestBody" where
  "MaxBytesReader limit b =
     (if limit < length (body_bytes b)
      then b\<lparr>body_bytes := take limit (body_bytes b), body_err := Some errMaxBytes\<rparr> else b)"

text \<open>\<open>base64.StdEncoding.DecodeString\<close>, which skips line breaks.\<close>

definition base64std_value :: "char \<Rightarrow> nat option" where
  "base64std_value c =
     (let n = chr_nat c in
      if 65 \<le> n \<and> n \<le> 90 then Some (n - 65)
      else if 97 \<le> n \<and> n \<le> 122 then Some (n - 71)
      else if 48 \<le> n \<and> n \<le> 57 then Some (n + 4)
      else if c = CHR ''+'' then Some 62 else if c = CHR ''/'' then Some 63 else None)"

fun base64std_quads :: "string \<Rightarrow> string option" where
  "base64std_quads [] = Some []"
| "base64std_quads (a # b # c # d # s) =
     (case (base64std_value a, base64std_value b) of
        (Some x, Some y) \<Rightarrow>
          (if c = CHR ''='' then
             (if d = CHR ''='' \<and> s = [] then Some [char_of (x * 4 + y div 16)] else None)
           else case base64std_value c of
                  None \<Rightarrow> None
                | Some z \<Rightarrow>
                    (if d = CHR ''='' then
                       (if s = [] then Some [char_of (x * 4 + y div 16), char_of (y mod 16 * 16 + z div 4)]
                        else None)
                     else case base64std_value d of
                            None \<Rightarrow> None
                          | Some w \<Rightarrow>
                              map_option ((@) [char_of (x * 4 + y div 16), char_of (y mod 16 * 16 + z div 4),
                                               char_of (z mod 4 * 64 + w)])
                                (base64std_quads s)))
      | _ \<Rightarrow> None)"
| "base64std_quads _ = None"

definition StdEncoding_DecodeString :: "string \<Rightarrow> string option" where
  "StdEncoding_DecodeString s = base64std_quads (filter (\<lambda>c. chr_nat c \<noteq> 10 \<and> chr_nat c \<noteq> 13) s)"

text \<open>\<open>r.BasicAuth()\<close>: the user name and the password.\<close>

definition BasicAuth :: "httpRequest \<Rightarrow> (string \<times> string) option" where
  "BasicAuth r =
     (let auth = Header_Get (r_Header r) ''Authorization''
      in if length auth < 6 \<or> map to_lower (take 6 auth) \<noteq> ''basic '' then None
         else case StdEncoding_DecodeString (drop 6 auth) of
                None \<Rightarrow> None
              | Some c \<Rightarrow>
                  (let (username, password, ok) = strings_Cut c '':''
                   in if ok then Some (username, password) else None))"

text \<open>\<open>r.URL.Query().Get(key)\<close>.\<close>

fun url_unescape :: "string \<Rightarrow> string option" where
  "url_unescape [] = Some []"
| "url_unescape (c # s) =
     (if c = CHR ''%'' then
        (case s of
           a # b # r \<Rightarrow>
             (if is_hex a \<and> is_hex b
              then map_option ((#) (char_of (hex_val a * 16 + hex_val b))) (url_unescape r) else None)
         | _ \<Rightarrow> None)
      else map_option ((#) (if c = CHR ''+'' then CHR '' '' else c)) (url_unescape s))"

definition query_pair :: "string \<Rightarrow> (string \<times> string) option" where
  "query_pair p =
     (if p = [] \<or> CHR '';'' \<in> set p then None
      else (let (k, v, _) = strings_Cut p ''=''
            in case (url_unescape k, url_unescape v) of
                 (Some k', Some v') \<Rightarrow> Some (k', v') | _ \<Rightarrow> None))"

definition query_Get :: "string \<Rightarrow> string \<Rightarrow> string" where
  "query_Get raw key =
     (case map_of (List.map_filter query_pair (strings_Split (CHR ''&'') raw)) key of
        Some v \<Rightarrow> v | None \<Rightarrow> [])"

section \<open>Responses\<close>

text \<open>
  The response writer: the header map of the handler, the status and the header that were sent,
  and the body.  A second \<open>WriteHeader\<close> has no effect; an informational status is not final.
\<close>

record responseWriter =
  rw_Header :: header
  rw_Sent :: "(nat \<times> header) option"
  rw_Body :: string

definition new_writer :: responseWriter where
  "new_writer = \<lparr>rw_Header = [], rw_Sent = None, rw_Body = []\<rparr>"

definition rw_WriteHeader :: "nat \<Rightarrow> responseWriter \<Rightarrow> responseWriter" where
  "rw_WriteHeader status w =
     (if rw_Sent w \<noteq> None \<or> 100 \<le> status \<and> status \<le> 199 \<and> status \<noteq> 101 then w
      else w\<lparr>rw_Sent := Some (status, rw_Header w)\<rparr>)"

definition rw_Write :: "string \<Rightarrow> responseWriter \<Rightarrow> responseWriter" where
  "rw_Write p w = (let w = rw_WriteHeader 200 w in w\<lparr>rw_Body := rw_Body w @ p\<rparr>)"

definition rw_SetHeader :: "string \<Rightarrow> string \<Rightarrow> responseWriter \<Rightarrow> responseWriter" where
  "rw_SetHeader k v w = w\<lparr>rw_Header := Header_Set k v (rw_Header w)\<rparr>"

definition newline :: char where "newline = CHR 0x0A"

text \<open>\<open>http.Error\<close>.\<close>

definition http_Error :: "string \<Rightarrow> nat \<Rightarrow> responseWriter \<Rightarrow> responseWriter" where
  "http_Error message code w =
     (let h = Header_Del ''Content-Length'' (rw_Header w);
          h = Header_Set ''Content-Type'' ''text/plain; charset=utf-8'' h;
          h = Header_Set ''X-Content-Type-Options'' ''nosniff'' h
      in rw_Write (message @ [newline]) (rw_WriteHeader code (w\<lparr>rw_Header := h\<rparr>)))"

definition internalServerErrorText :: string where
  "internalServerErrorText = ''Internal Server Error''"

text \<open>The response a client sees when the handler has returned.\<close>

definition resp_status :: "responseWriter \<Rightarrow> nat" where
  "resp_status w = (case rw_Sent w of Some (status, h) \<Rightarrow> status | None \<Rightarrow> 200)"

definition resp_header :: "responseWriter \<Rightarrow> header" where
  "resp_header w = (case rw_Sent w of Some (status, h) \<Rightarrow> h | None \<Rightarrow> rw_Header w)"

type_synonym 's handler =
  "callEnv \<Rightarrow> httpRequest \<Rightarrow> responseWriter \<times> 's \<Rightarrow> (responseWriter \<times> 's) option"

text \<open>A handler's answer that leaves the state as it is.\<close>

abbreviation respond :: "responseWriter \<Rightarrow> 's \<Rightarrow> (responseWriter \<times> 's) option" where
  "respond w s \<equiv> Some (w, s)"

section \<open>JSON bodies\<close>

definition maxJSONBodyBytes :: nat where "maxJSONBodyBytes = 64 * 1024"

definition decode_body :: "nat \<Rightarrow> (json \<Rightarrow> 'a \<Rightarrow> 'a option) \<Rightarrow> httpRequest \<Rightarrow> 'a \<Rightarrow> 'a option" where
  "decode_body limit decode r target =
     (let body = MaxBytesReader limit (r_Body r)
      in if body_err body \<noteq> None then None
         else case json_single (body_bytes body) of
                None \<Rightarrow> None
              | Some v \<Rightarrow> decode v target)"

text \<open>
  \<open>decodeJSON\<close>: the body has to be one JSON value and white space within the limit; each member
  has to name a field of the target (\<open>set_field\<close> gives \<^const>\<open>None\<close> for a key that names none).
  Which error is reported does not matter to the callers.
\<close>

definition decodeJSON ::
  "(string \<Rightarrow> json \<Rightarrow> 'a \<Rightarrow> 'a option) \<Rightarrow> httpRequest \<Rightarrow> 'a \<Rightarrow> 'a option" where
  "decodeJSON set_field r target = decode_body maxJSONBodyBytes (json_struct set_field) r target"

definition writeJSON :: "nat \<Rightarrow> json \<Rightarrow> responseWriter \<Rightarrow> responseWriter" where
  "writeJSON status v w =
     rw_Write (json_text v @ [newline])
       (rw_WriteHeader status (rw_SetHeader ''Content-Type'' ''application/json'' w))"

definition errorResponse :: "string \<Rightarrow> json" where
  "errorResponse message = JObj [(''error'', JStr message)]"

definition writeError :: "nat \<Rightarrow> string \<Rightarrow> responseWriter \<Rightarrow> responseWriter" where
  "writeError status message w = writeJSON status (errorResponse message) w"

section \<open>The control token\<close>

text \<open>\<open>subtle.ConstantTimeCompare\<close> is 1 exactly for equal byte strings.\<close>

definition controlAuth :: "string \<Rightarrow> 's handler \<Rightarrow> 's handler" where
  "controlAuth expected next = (\<lambda>env r (w, s).
     case strings_CutPrefix (Header_Get (r_Header r) ''Authorization'') ''Bearer '' of
       None \<Rightarrow> respond (rw_WriteHeader 401 w) s
     | Some got \<Rightarrow>
         (if got = [] \<or> expected = [] then respond (rw_WriteHeader 401 w) s
          else if got \<noteq> expected then respond (rw_WriteHeader 401 w) s
          else next env r (w, s)))"

text \<open>
  \<open>controlAuth\<close>.  The wrapped handler runs exactly when a control token is configured and the
  request carries it; otherwise the answer is 401 with no body and the state is unchanged.
\<close>
lemma controlAuth_guards:
  "controlAuth expected next env r (new_writer, s) =
    (if expected \<noteq> [] \<and> Header_Get (r_Header r) ''Authorization'' = ''Bearer '' @ expected
     then next env r (new_writer, s)
     else Some (\<lparr>rw_Header = [], rw_Sent = Some (401, []), rw_Body = []\<rparr>, s))"
proof (cases "strings_CutPrefix (Header_Get (r_Header r) ''Authorization'') ''Bearer ''")
  case None
  then have "Header_Get (r_Header r) ''Authorization'' \<noteq> ''Bearer '' @ expected"
    by (metis CutPrefix_append option.distinct(1))
  with None show ?thesis
    by (simp add: controlAuth_def rw_WriteHeader_def new_writer_def)
next
  case (Some got)
  then have "Header_Get (r_Header r) ''Authorization'' = ''Bearer '' @ got"
    by (simp add: CutPrefix_Some)
  with Some show ?thesis
    by (auto simp: controlAuth_def rw_WriteHeader_def new_writer_def)
qed

end
