(* ===== verification/Access_Log.thy ===== *)
theory Access_Log
  imports Http
begin

text \<open>
  The access log (\<open>internal/http/access_log.go\<close>): one JSON line per request, with the address and
  the scheme of the client, which forwarding headers may set only when the peer is a trusted proxy.

  Addresses and prefixes are those of the package \<open>net/netip\<close>: the record \<open>netip\<close> holds its
  parser, its printer and the membership test, over any types of addresses and prefixes.  The
  written text is the first part of the state.  The recorder that counts the status and the bytes
  is read off the response writer the handler leaves; a handler of the model does not panic, and
  none sends an informational status.  \<open>timing\<close> gives the time at which a call starts and its
  duration in milliseconds.
\<close>

section \<open>Addresses\<close>

record ('a, 'p) netip =
  ParseAddr :: "string \<Rightarrow> 'a option"
  Addr_String :: "'a \<Rightarrow> string"
  Prefix_Contains :: "'p \<Rightarrow> 'a \<Rightarrow> bool"

fun index_of :: "char \<Rightarrow> string \<Rightarrow> nat option" where
  "index_of c [] = None"
| "index_of c (x # xs) = (if x = c then Some 0 else map_option Suc (index_of c xs))"

definition last_index_of :: "char \<Rightarrow> string \<Rightarrow> nat option" where
  "last_index_of c s = map_option (\<lambda>i. length s - 1 - i) (index_of c (rev s))"

text \<open>The host that \<open>net.SplitHostPort\<close> gives, or its error.\<close>

definition SplitHostPort :: "string \<Rightarrow> string option" where
  "SplitHostPort s =
     (case last_index_of (CHR '':'') s of
        None \<Rightarrow> None
      | Some i \<Rightarrow>
          (if strings_HasPrefix s ''['' then
             (case index_of (CHR '']'') s of
                None \<Rightarrow> None
              | Some e \<Rightarrow>
                  (if e + 1 = length s \<or> e + 1 \<noteq> i then None
                   else if CHR ''['' \<in> set (drop 1 s) then None
                   else if CHR '']'' \<in> set (drop (e + 1) s) then None
                   else Some (slice 1 e s)))
           else if CHR '':'' \<in> set (take i s) then None
           else if CHR ''['' \<in> set s \<or> CHR '']'' \<in> set s then None
           else Some (take i s)))"

definition peerAddr :: "('a, 'p) netip \<Rightarrow> string \<Rightarrow> 'a option" where
  "peerAddr ip remoteAddr =
     (let host = (case SplitHostPort remoteAddr of
                    None \<Rightarrow> strings_Trim remoteAddr ''[]'' | Some host \<Rightarrow> host)
      in ParseAddr ip host)"

definition headerAddr :: "('a, 'p) netip \<Rightarrow> string \<Rightarrow> 'a option" where
  "headerAddr ip v = ParseAddr ip (strings_Trim (strings_TrimSpace v) [quote])"

fun first_part_addr :: "('a, 'p) netip \<Rightarrow> string list \<Rightarrow> 'a option" where
  "first_part_addr ip [] = None"
| "first_part_addr ip (part # parts) =
     (if strings_TrimSpace part = [] then first_part_addr ip parts else headerAddr ip part)"

definition firstForwardedAddr :: "('a, 'p) netip \<Rightarrow> string \<Rightarrow> 'a option" where
  "firstForwardedAddr ip header = first_part_addr ip (strings_Split (CHR '','') header)"

definition firstHeaderValue :: "(rune \<Rightarrow> rune) \<Rightarrow> string \<Rightarrow> string" where
  "firstHeaderValue low header =
     (let (v, _, _) = strings_Cut header '','' in strings_ToLower low (strings_TrimSpace v))"

definition isTrustedProxy :: "('a, 'p) netip \<Rightarrow> 'a \<Rightarrow> 'p list \<Rightarrow> bool" where
  "isTrustedProxy ip addr trustedProxies = list_ex (\<lambda>prefix. Prefix_Contains ip prefix addr) trustedProxies"

definition requestRemoteIP :: "('a, 'p) netip \<Rightarrow> httpRequest \<Rightarrow> 'p list \<Rightarrow> string" where
  "requestRemoteIP ip r trustedProxies =
     (let remoteAddr = peerAddr ip (r_RemoteAddr r);
          direct = (case remoteAddr of Some addr \<Rightarrow> Addr_String ip addr | None \<Rightarrow> r_RemoteAddr r)
      in case remoteAddr of
           Some addr \<Rightarrow>
             (if isTrustedProxy ip addr trustedProxies then
                (case firstForwardedAddr ip (Header_Get (r_Header r) ''X-Forwarded-For'') of
                   Some forwarded \<Rightarrow> Addr_String ip forwarded
                 | None \<Rightarrow>
                     (case headerAddr ip (Header_Get (r_Header r) ''X-Real-IP'') of
                        Some realIP \<Rightarrow> Addr_String ip realIP
                      | None \<Rightarrow> direct))
              else direct)
         | None \<Rightarrow> direct)"

definition requestScheme :: "(rune \<Rightarrow> rune) \<Rightarrow> ('a, 'p) netip \<Rightarrow> httpRequest \<Rightarrow> 'p list \<Rightarrow> string" where
  "requestScheme low ip r trustedProxies =
     (let own = (if r_Scheme r \<noteq> [] then r_Scheme r else if r_TLS r then ''https'' else ''http'')
      in case peerAddr ip (r_RemoteAddr r) of
           None \<Rightarrow> own
         | Some remoteAddr \<Rightarrow>
             (if isTrustedProxy ip remoteAddr trustedProxies then
                (let proto = firstHeaderValue low (Header_Get (r_Header r) ''X-Forwarded-Proto'')
                 in if proto = ''http'' \<or> proto = ''https'' then proto else own)
              else own))"

section \<open>Entries\<close>

definition requestPath :: "httpRequest \<Rightarrow> string" where
  "requestPath r = (if r_EscapedPath r = [] then ''/'' else r_EscapedPath r)"

definition skipAccessLog :: "string \<Rightarrow> bool" where
  "skipAccessLog path \<longleftrightarrow> path = ''/'' \<or> path = ''/healthz''"

record accessLogEntry =
  al_Timestamp :: string
  al_Method :: string
  al_Path :: string
  al_Status :: nat
  al_Bytes :: nat
  al_DurationMs :: int
  al_RemoteIP :: string
  al_Scheme :: string
  al_Host :: string
  al_UserAgent :: string

definition accessLogEntry_json :: "accessLogEntry \<Rightarrow> json" where
  "accessLogEntry_json e =
     JObj ([(''timestamp'', JStr (al_Timestamp e)), (''method'', JStr (al_Method e)),
            (''path'', JStr (al_Path e)), (''status'', json_int (int (al_Status e))),
            (''bytes'', json_int (int (al_Bytes e))), (''durationMs'', json_int (al_DurationMs e)),
            (''remoteIp'', JStr (al_RemoteIP e)), (''scheme'', JStr (al_Scheme e)),
            (''host'', JStr (al_Host e))] @
           (if al_UserAgent e = [] then [] else [(''userAgent'', JStr (al_UserAgent e))]))"

text \<open>\<open>Format(time.RFC3339Nano)\<close> of a time in UTC: the fraction of a second without trailing zeros.\<close>

definition time_FormatRFC3339Nano :: "time \<Rightarrow> string" where
  "time_FormatRFC3339Nano t =
     (let digits = strings_TrimRight (pad_left 9 (strconv_FormatInt (t mod second))) ''0''
      in butlast (time_FormatRFC3339 0 t) @ (if digits = [] then [] else CHR ''.'' # digits) @ ''Z'')"

text \<open>\<open>handler.write\<close>: one call of \<open>Write\<close>, whose errors are ignored.\<close>

definition access_write :: "accessLogEntry \<Rightarrow> string \<Rightarrow> string" where
  "access_write entry log = log @ json_text (accessLogEntry_json entry) @ [newline]"

text \<open>
  The status the recorder reports for a handler that has returned: the one it sent first, 200 when
  it sent none.  Before the handler runs no status has been sent.
\<close>

definition access_entry ::
  "(rune \<Rightarrow> rune) \<Rightarrow> ('a, 'p) netip \<Rightarrow> 'p list \<Rightarrow> time \<times> int \<Rightarrow> httpRequest \<Rightarrow> responseWriter \<Rightarrow> responseWriter \<Rightarrow>
     accessLogEntry" where
  "access_entry low ip trustedProxies t r w w' =
     (let recorder_status = (case rw_Sent w' of Some (status, h) \<Rightarrow> status | None \<Rightarrow> 0);
          status = (if recorder_status = 0 then 200 else recorder_status)
      in \<lparr>al_Timestamp = time_FormatRFC3339Nano (fst t), al_Method = r_Method r, al_Path = requestPath r,
          al_Status = status, al_Bytes = length (rw_Body w') - length (rw_Body w), al_DurationMs = snd t,
          al_RemoteIP = requestRemoteIP ip r trustedProxies, al_Scheme = requestScheme low ip r trustedProxies,
          al_Host = r_Host r, al_UserAgent = Header_Get (r_Header r) ''User-Agent''\<rparr>)"

definition accessLog ::
  "(rune \<Rightarrow> rune) \<Rightarrow> ('a, 'p) netip \<Rightarrow> (callEnv \<Rightarrow> time \<times> int) \<Rightarrow> bool \<Rightarrow> 'p list \<Rightarrow> 's handler \<Rightarrow> (string \<times> 's) handler" where
  "accessLog low ip timing writer trustedProxies next = (\<lambda>env r (w, log, s).
     case next env r (w, s) of
       None \<Rightarrow> None
     | Some (w', s') \<Rightarrow>
         (if \<not> writer then respond w' (log, s')
          else if skipAccessLog (requestPath r) then respond w' (log, s')
          else respond w' (access_write (access_entry low ip trustedProxies (timing env) r w w') log, s')))"

section \<open>One line per request\<close>

lemma hex_digit_no_newline: "newline \<noteq> hex_digit (n mod 16)"
proof -
  have "\<not> is_hex newline" by (simp add: is_hex_def newline_def)
  moreover have "is_hex (hex_digit (n mod 16))" using is_hex_digit [of "n mod 16"] by simp
  ultimately show ?thesis by metis
qed

lemma newline_code [simp]: "chr_nat newline = 10" "newline \<noteq> backslash" "newline \<noteq> quote"
  by (simp_all add: newline_def backslash_def quote_def)

lemma escape_ascii_no_newline: "newline \<notin> set (escape_ascii c)"
proof -
  have "newline \<notin> set (hex4 n)" for n
    using hex_digit_no_newline by (simp add: hex4_def)
  moreover have "newline \<noteq> CHR ''u''" "newline \<noteq> CHR ''b''" "newline \<noteq> CHR ''f''" "newline \<noteq> CHR ''n''"
    "newline \<noteq> CHR ''r''" "newline \<noteq> CHR ''t''" by (simp_all add: newline_def)
  moreover have "c \<noteq> newline" if "chr_nat c \<noteq> 10" using that by auto
  moreover have "newline \<noteq> c" if "chr_nat c = 92 \<or> chr_nat c = 34" using that by auto
  ultimately show ?thesis
    unfolding escape_ascii_def Let_def by (auto split: if_splits)
qed

text \<open>The bytes of a valid encoding of a rune outside ASCII are outside ASCII.\<close>

lemma utf8_second_high: "utf8_second b0 b1 \<Longrightarrow> 128 \<le> b1"
  by (auto simp: utf8_second_def utf8_cont_def split: if_splits)

lemma utf8_runes_high:
  "utf8_rune2 b0 b1 = (r, n) \<Longrightarrow> \<not> (r = rune_error \<and> n = 1) \<Longrightarrow> n = 2 \<and> 128 \<le> b1"
  "utf8_rune3 b0 b1 b2 = (r, n) \<Longrightarrow> \<not> (r = rune_error \<and> n = 1) \<Longrightarrow> n = 3 \<and> 128 \<le> b1 \<and> 128 \<le> b2"
  "utf8_rune4 b0 b1 b2 b3 = (r, n) \<Longrightarrow> \<not> (r = rune_error \<and> n = 1) \<Longrightarrow>
     n = 4 \<and> 128 \<le> b1 \<and> 128 \<le> b2 \<and> 128 \<le> b3"
  using utf8_second_high
  by (auto simp: utf8_rune2_def utf8_rune3_def utf8_rune4_def utf8_cont_def split: if_splits)

lemma multibyte_high:
  assumes "decode_rune (c # cs) = (r, n)" "\<not> r < 128" "\<not> (r = rune_error \<and> n = 1)"
  shows "\<forall>b \<in> set (take n (c # cs)). 128 \<le> chr_nat b"
proof -
  have c: "128 \<le> chr_nat c" using assms(1,2) decode_rune_ascii [of c cs] by (cases "chr_nat c < 128") auto
  show ?thesis
    using assms c
    by (auto simp: decode_rune.simps(2) Let_def dest!: utf8_runes_high split: if_splits list.splits)
qed

lemma json_escape_no_newline: "newline \<notin> set (json_escape s)"
proof (induction s rule: json_escape.induct)
  case (2 c cs)
  obtain r n where rn: "decode_rune (c # cs) = (r, n)" by fastforce
  have IH: "newline \<notin> set (json_escape (drop n (c # cs)))" using "2.IH" rn by metis
  have "newline \<notin> set (hex4 m)" for m using hex_digit_no_newline by (simp add: hex4_def)
  moreover have "newline \<notin> set ''fffd''" "newline \<noteq> CHR ''u''" by (simp_all add: newline_def)
  moreover have "newline \<notin> set (take n (c # cs))" if "\<not> r < 128" "\<not> (r = rune_error \<and> n = 1)"
    using multibyte_high [OF rn that] by force
  ultimately show ?case
    using IH escape_ascii_no_newline by (auto simp: rn)
qed simp

lemma json_string_no_newline: "newline \<notin> set (json_string s)"
  using json_escape_no_newline by (simp add: json_string_def)

lemma join_with_no: "c \<noteq> x \<Longrightarrow> list_all (\<lambda>s. c \<notin> set s) ss \<Longrightarrow> c \<notin> set (join_with x ss)"
  by (induction x ss rule: join_with.induct) auto

lemma newline_chars [simp]:
  "newline \<noteq> CHR '',''" "newline \<noteq> CHR '':''" "newline \<noteq> CHR ''[''" "newline \<noteq> CHR '']''"
  "newline \<noteq> open_brace" "newline \<noteq> close_brace"
  by (simp_all add: newline_def open_brace_def close_brace_def)

lemma FormatInt_chars: "c \<in> set (strconv_FormatInt i) \<Longrightarrow> is_dec c \<or> c = CHR ''-''"
  using dec_digits_all by (auto simp: strconv_FormatInt_def list_all_iff split: if_splits)

text \<open>JSON text whose numbers were written by \<open>strconv\<close> is one line.\<close>

fun json_ints :: "json \<Rightarrow> bool" where
  "json_ints (JNum lit) \<longleftrightarrow> newline \<notin> set lit"
| "json_ints (JArr vs) \<longleftrightarrow> list_all json_ints vs"
| "json_ints (JObj ms) \<longleftrightarrow> list_all (\<lambda>(k, v). json_ints v) ms"
| "json_ints v \<longleftrightarrow> True"

lemma json_int_line: "json_ints (json_int i)"
  using FormatInt_chars [of newline i] by (auto simp: json_int_def is_dec_def newline_def)

lemma newline_letters:
  "newline \<noteq> CHR ''n''" "newline \<noteq> CHR ''u''" "newline \<noteq> CHR ''l''" "newline \<noteq> CHR ''t''" "newline \<noteq> CHR ''r''"
  "newline \<noteq> CHR ''e''" "newline \<noteq> CHR ''f''" "newline \<noteq> CHR ''a''" "newline \<noteq> CHR ''s''"
  by (simp_all add: newline_def)

lemma json_text_one_line: "json_ints v \<Longrightarrow> newline \<notin> set (json_text v)"
proof (induction v rule: json_ints.induct)
  case (2 vs)
  then have "list_all (\<lambda>s. newline \<notin> set s) (map json_text vs)" by (simp add: list_all_iff)
  with join_with_no [of newline "CHR '',''"] show ?case by simp
next
  case (3 ms)
  have "newline \<notin> set (json_string k @ CHR '':'' # json_text v)" if "(k, v) \<in> set ms" for k v
    using that 3 json_string_no_newline by (force simp: list_all_iff)
  then have "list_all (\<lambda>s. newline \<notin> set s) (map (\<lambda>(k, v). json_string k @ CHR '':'' # json_text v) ms)"
    by (auto simp: list_all_iff)
  with join_with_no [of newline "CHR '',''"] show ?case by simp
qed (simp_all add: json_string_no_newline newline_letters)

lemma entry_ints: "json_ints (accessLogEntry_json e)"
  by (simp add: accessLogEntry_json_def json_int_line)



definition toy_netip :: "(string, string) netip" where
  "toy_netip = \<lparr>ParseAddr = (\<lambda>s. if s = [] then None else Some s), Addr_String = (\<lambda>a. a), Prefix_Contains = (=)\<rparr>"


end
