(* ===== verification/Routes.thy ===== *)
theory Routes
  imports Http Go_Path
begin

text \<open>
  Routing (\<open>internal/http/routes.go\<close>): the table of \<open>NewMux\<close> and the choice \<open>http.ServeMux\<close> makes
  of it (a literal segment before a wildcard, a wildcard before a rest, with backtracking; \<open>HEAD\<close>
  falls back to \<open>GET\<close>), and \<open>gitRepoRoute\<close>.

  The patterns are written as the segments they parse to.  The answer that redirects to another
  path is a parameter; \<open>OPTIONS *\<close> and patterns with a host do not occur.
\<close>

section \<open>Patterns\<close>

datatype patSeg = Lit string | Wild string | Multi string

datatype routeName =
    AgentDocs | Healthz | CreateRepoRoute | GetRepoRoute | ArchiveRepoRoute | CreateRepoTokenRoute
  | ListRepoTokensRoute | RevokeRepoTokenRoute | GitSmartHTTP | GitLFS | GitShowDiff | GitCompareDiff | GitRawFile

definition mux_table :: "(string \<times> patSeg list \<times> routeName) list" where
  "mux_table =
     [(''GET'', [Multi []], AgentDocs),
      (''GET'', [Lit ''llms.txt''], AgentDocs),
      (''GET'', [Lit ''.well-known'', Lit ''llms.txt''], AgentDocs),
      (''GET'', [Lit ''AGENTS.md''], AgentDocs),
      (''GET'', [Lit ''agents.md''], AgentDocs),
      (''GET'', [Lit ''.well-known'', Lit ''agents.md''], AgentDocs),
      (''GET'', [Lit ''llms-full.txt''], AgentDocs),
      (''GET'', [Lit ''robots.txt''], AgentDocs),
      (''GET'', [Lit ''sitemap.md''], AgentDocs),
      (''GET'', [Lit ''sitemap.xml''], AgentDocs),
      (''GET'', [Lit ''healthz''], Healthz),
      (''POST'', [Lit ''v1'', Lit ''repos''], CreateRepoRoute),
      (''GET'', [Lit ''v1'', Lit ''repos'', Wild ''repoID''], GetRepoRoute),
      (''POST'', [Lit ''v1'', Lit ''repos'', Wild ''repoID'', Lit ''archive''], ArchiveRepoRoute),
      (''POST'', [Lit ''v1'', Lit ''repos'', Wild ''repoID'', Lit ''tokens''], CreateRepoTokenRoute),
      (''GET'', [Lit ''v1'', Lit ''repos'', Wild ''repoID'', Lit ''tokens''], ListRepoTokensRoute),
      (''POST'', [Lit ''v1'', Lit ''repos'', Wild ''repoID'', Lit ''tokens'', Wild ''tokenID'', Lit ''revoke''],
         RevokeRepoTokenRoute),
      (''GET'', [Lit ''git'', Lit ''repos'', Wild ''repoGitID'', Multi ''gitPath''], GitSmartHTTP),
      (''POST'', [Lit ''git'', Lit ''repos'', Wild ''repoGitID'', Multi ''gitPath''], GitSmartHTTP),
      (''POST'', [Lit ''git'', Lit ''repos'', Wild ''repoGitID'', Lit ''info'', Lit ''lfs'', Lit ''objects'', Lit ''batch''],
         GitLFS),
      (''PUT'', [Lit ''git'', Lit ''repos'', Wild ''repoGitID'', Lit ''info'', Lit ''lfs'', Lit ''objects'', Wild ''oid''],
         GitLFS),
      (''GET'', [Lit ''git'', Lit ''repos'', Wild ''repoGitID'', Lit ''info'', Lit ''lfs'', Lit ''objects'', Wild ''oid''],
         GitLFS),
      (''POST'', [Lit ''git'', Lit ''repos'', Wild ''repoGitID'', Lit ''info'', Lit ''lfs'', Lit ''locks'', Lit ''verify''],
         GitLFS),
      (''GET'', [Lit ''git'', Lit ''repos'', Wild ''repoGitID'', Lit ''show'', Wild ''spec''], GitShowDiff),
      (''GET'', [Lit ''git'', Lit ''repos'', Wild ''repoGitID'', Lit ''compare'', Wild ''spec''], GitCompareDiff),
      (''GET'', [Lit ''git'', Lit ''repos'', Wild ''repoGitID'', Lit ''raw'', Multi ''spec''], GitRawFile)]"

section \<open>Matching\<close>

fun path_unescape :: "string \<Rightarrow> string option" where
  "path_unescape [] = Some []"
| "path_unescape (c # s) =
     (if c = CHR ''%'' then
        (case s of
           a # b # r \<Rightarrow>
             (if is_hex a \<and> is_hex b
              then map_option ((#) (char_of (hex_val a * 16 + hex_val b))) (path_unescape r) else None)
         | _ \<Rightarrow> None)
      else map_option ((#) c) (path_unescape s))"

definition pathUnescape :: "string \<Rightarrow> string" where
  "pathUnescape s = (case path_unescape s of Some u \<Rightarrow> u | None \<Rightarrow> s)"

text \<open>The first segment of a path that starts with a slash, and the rest of the path.\<close>

definition firstSegment :: "string \<Rightarrow> string \<times> string" where
  "firstSegment path =
     (if path = ''/'' then (''/'', [])
      else (pathUnescape (takeWhile (\<lambda>c. c \<noteq> CHR ''/'') (tl path)), dropWhile (\<lambda>c. c \<noteq> CHR ''/'') (tl path)))"

text \<open>
  A node of the routing tree: what is left of each pattern below it, with the values its wildcards
  have got so far.
\<close>

type_synonym bindings = "(string \<times> string) list"
type_synonym 'h routingNode = "(patSeg list \<times> bindings \<times> 'h) list"

definition litChild :: "string \<Rightarrow> 'h routingNode \<Rightarrow> 'h routingNode" where
  "litChild seg n = List.map_filter (\<lambda>(ps, b, h). case ps of
     Lit x # qs \<Rightarrow> if x = seg then Some (qs, b, h) else None | _ \<Rightarrow> None) n"

definition wildChild :: "string \<Rightarrow> 'h routingNode \<Rightarrow> 'h routingNode" where
  "wildChild seg n = List.map_filter (\<lambda>(ps, b, h). case ps of
     Wild x # qs \<Rightarrow> Some (qs, b @ [(x, seg)], h) | _ \<Rightarrow> None) n"

definition multiChild :: "string \<Rightarrow> 'h routingNode \<Rightarrow> (bindings \<times> 'h) option" where
  "multiChild path n =
     (case List.map_filter (\<lambda>(ps, b, h). case ps of
        [Multi x] \<Rightarrow> Some (if x = [] then b else b @ [(x, pathUnescape (tl path))], h) | _ \<Rightarrow> None) n of
        [] \<Rightarrow> None | m # ms \<Rightarrow> Some m)"

definition leaf :: "'h routingNode \<Rightarrow> (bindings \<times> 'h) option" where
  "leaf n = (case List.map_filter (\<lambda>(ps, b, h). if ps = [] then Some (b, h) else None) n of
     [] \<Rightarrow> None | m # ms \<Rightarrow> Some m)"

lemma firstSegment_rest: "firstSegment (c # path) = (seg, rest) \<Longrightarrow> length rest < length (c # path)"
  by (auto simp: firstSegment_def intro: le_imp_less_Suc length_dropWhile_le split: if_splits)

function matchPath :: "string \<Rightarrow> 'h routingNode \<Rightarrow> (bindings \<times> 'h) option" where
  "matchPath [] n = leaf n"
| "matchPath (c # cs) n =
     (let path = c # cs; (seg, rest) = firstSegment path
      in case matchPath rest (litChild seg n) of
           Some m \<Rightarrow> Some m
         | None \<Rightarrow>
             (case (if seg \<noteq> ''/'' then matchPath rest (wildChild seg n) else None) of
                Some m \<Rightarrow> Some m
              | None \<Rightarrow> multiChild path n))"
  by pat_completeness auto
termination
proof (relation "measure (\<lambda>(path, n). length path)", goal_cases)
  case 1
  then show ?case by simp
next
  case (2 c cs n path x seg rest)
  then have "firstSegment (c # cs) = (seg, rest)" by metis
  from firstSegment_rest [OF this] show ?case by simp
next
  case (3 c cs n path x seg rest)
  then have "firstSegment (c # cs) = (seg, rest)" by metis
  from firstSegment_rest [OF this] show ?case by simp
qed

declare matchPath.simps(2) [simp del]

text \<open>The routes of one method, each with its whole pattern.\<close>

definition method_node :: "string \<Rightarrow> (patSeg list \<times> routeName) routingNode" where
  "method_node method = map (\<lambda>(m, ps, h). (ps, [], ps, h)) (filter (\<lambda>(m, ps, h). m = method) mux_table)"

definition matchMethodAndPath :: "string \<Rightarrow> string \<Rightarrow> (bindings \<times> patSeg list \<times> routeName) option" where
  "matchMethodAndPath method path =
     (case matchPath path (method_node method) of
        Some m \<Rightarrow> Some m
      | None \<Rightarrow> if method = ''HEAD'' then matchPath path (method_node ''GET'') else None)"

definition cleanPath :: "string \<Rightarrow> string" where
  "cleanPath p =
     (if p = [] then ''/''
      else let p = (if hd p \<noteq> CHR ''/'' then CHR ''/'' # p else p);
               np = filepath_Clean p
           in if last p = CHR ''/'' \<and> np \<noteq> ''/'' then np @ ''/'' else np)"

text \<open>A match is exact when no rest of a pattern stands for a non-empty string.\<close>

definition exactMatch :: "(bindings \<times> patSeg list \<times> routeName) option \<Rightarrow> string \<Rightarrow> bool" where
  "exactMatch m path =
     (case m of
        None \<Rightarrow> False
      | Some (b, ps, h) \<Rightarrow>
          (case last ps of
             Multi x \<Rightarrow> path \<noteq> [] \<and> last path = CHR ''/'' \<and>
               length ps = length (filter (\<lambda>c. c = CHR ''/'') path)
           | _ \<Rightarrow> True))"

datatype muxAnswer = Found routeName bindings | RedirectTo string | MethodNotAllowed "string list" | NotFound

text \<open>The methods that match a path, in order, for the header \<open>Allow\<close>.\<close>

definition matchingMethods :: "string \<Rightarrow> string list" where
  "matchingMethods path =
     (let hits = (\<lambda>m. matchPath path (method_node m) \<noteq> None \<or>
                      \<not> strings_HasSuffix path ''/'' \<and> matchPath (path @ ''/'') (method_node m) \<noteq> None)
      in (if hits ''GET'' then [''GET'', ''HEAD''] else []) @ (if hits ''POST'' then [''POST''] else []) @
         (if hits ''PUT'' then [''PUT''] else []))"

definition findHandler :: "string \<Rightarrow> string \<Rightarrow> string \<Rightarrow> muxAnswer" where
  "findHandler method urlPath escapedPath =
     (let path = (if method = ''CONNECT'' then escapedPath else cleanPath escapedPath);
          n = matchMethodAndPath method path
      in if \<not> exactMatch n path \<and> \<not> strings_HasSuffix path ''/'' \<and>
            exactMatch (matchMethodAndPath method (path @ ''/'')) (path @ ''/'')
         then RedirectTo (cleanPath urlPath @ ''/'')
         else if path \<noteq> escapedPath then RedirectTo path
         else case n of
                None \<Rightarrow>
                  (if matchingMethods path \<noteq> [] then MethodNotAllowed (matchingMethods path) else NotFound)
              | Some (b, ps, h) \<Rightarrow> Found h b)"

section \<open>The mux\<close>

record 's handlers =
  h_AgentDocs :: "'s handler option"
  h_Healthz :: "'s handler"
  h_CreateRepo :: "'s handler"
  h_GetRepo :: "'s handler"
  h_ArchiveRepo :: "'s handler"
  h_CreateRepoToken :: "'s handler"
  h_ListRepoTokens :: "'s handler"
  h_RevokeRepoToken :: "'s handler"
  h_GitSmartHTTP :: "'s handler"
  h_GitLFS :: "'s handler"
  h_GitShowDiff :: "'s handler"
  h_GitCompareDiff :: "'s handler"
  h_GitRawFile :: "'s handler"

definition http_NotFound :: "responseWriter \<Rightarrow> responseWriter" where
  "http_NotFound w = http_Error ''404 page not found'' 404 w"

definition gitRepoRoute :: "'s handler \<Rightarrow> 's handler" where
  "gitRepoRoute next = (\<lambda>env r (w, s).
     case strings_CutSuffix (PathValue r ''repoGitID'') ''.git'' of
       None \<Rightarrow> respond (http_NotFound w) s
     | Some repoID \<Rightarrow>
         (if repoID = [] then respond (http_NotFound w) s
          else next env (SetPathValue ''repoID'' repoID r) (w, s)))"

definition agentDocs_or_NotFound :: "'s handler option \<Rightarrow> 's handler" where
  "agentDocs_or_NotFound h = (case h of Some h \<Rightarrow> h | None \<Rightarrow> (\<lambda>env r (w, s). respond (http_NotFound w) s))"

definition route_handler :: "'s handlers \<Rightarrow> routeName \<Rightarrow> 's handler" where
  "route_handler h route =
     (case route of
        AgentDocs \<Rightarrow> agentDocs_or_NotFound (h_AgentDocs h)
      | Healthz \<Rightarrow> h_Healthz h
      | CreateRepoRoute \<Rightarrow> h_CreateRepo h
      | GetRepoRoute \<Rightarrow> h_GetRepo h
      | ArchiveRepoRoute \<Rightarrow> h_ArchiveRepo h
      | CreateRepoTokenRoute \<Rightarrow> h_CreateRepoToken h
      | ListRepoTokensRoute \<Rightarrow> h_ListRepoTokens h
      | RevokeRepoTokenRoute \<Rightarrow> h_RevokeRepoToken h
      | GitSmartHTTP \<Rightarrow> gitRepoRoute (h_GitSmartHTTP h)
      | GitLFS \<Rightarrow> gitRepoRoute (h_GitLFS h)
      | GitShowDiff \<Rightarrow> gitRepoRoute (h_GitShowDiff h)
      | GitCompareDiff \<Rightarrow> gitRepoRoute (h_GitCompareDiff h)
      | GitRawFile \<Rightarrow> gitRepoRoute (h_GitRawFile h))"

definition join_comma :: "string list \<Rightarrow> string" where
  "join_comma ss = concat (case ss of [] \<Rightarrow> [] | s # ts \<Rightarrow> s # map (\<lambda>t. '', '' @ t) ts)"

definition NewMux ::
  "(string \<Rightarrow> httpRequest \<Rightarrow> responseWriter \<Rightarrow> responseWriter) \<Rightarrow> 's handlers \<Rightarrow> 's handler" where
  "NewMux redirect h = (\<lambda>env r (w, s).
     case findHandler (r_Method r) (r_Path r) (r_EscapedPath r) of
       Found route b \<Rightarrow> route_handler h route env (r\<lparr>r_PathValues := b\<rparr>) (w, s)
     | RedirectTo path \<Rightarrow> respond (redirect path r w) s
     | MethodNotAllowed methods \<Rightarrow>
         respond (http_Error ''Method Not Allowed'' 405 (rw_SetHeader ''Allow'' (join_comma methods) w)) s
     | NotFound \<Rightarrow> respond (http_NotFound w) s)"

section \<open>Paths of plain segments\<close>

lemma path_unescape_plain: "CHR ''%'' \<notin> set s \<Longrightarrow> path_unescape s = Some s"
proof (induction s)
  case (Cons c s)
  then have "c \<noteq> CHR ''%''" "path_unescape s = Some s" by auto
  then show ?case by (simp only: path_unescape.simps if_False option.map)
qed simp

lemma pathUnescape_plain: "CHR ''%'' \<notin> set s \<Longrightarrow> pathUnescape s = s"
  by (simp add: pathUnescape_def path_unescape_plain)

text \<open>A path goes on below a segment, or it ends there.\<close>

definition below_segment :: "string \<Rightarrow> bool" where
  "below_segment t = (t = [] \<or> (\<exists>s. t = CHR ''/'' # s))"

lemma below_segment_simps [simp]:
  "below_segment []" "below_segment (CHR ''/'' # s)" "below_segment (below cs @ t) = (cs \<noteq> [] \<or> below_segment t)"
  by (cases cs; simp add: below_segment_def)+

lemma below_segment_below [simp]: "below_segment (below cs)"
  by (cases cs) simp_all

lemma segment_split:
  assumes "\<forall>x \<in> set c. x \<noteq> sep" "t = [] \<or> (\<exists>s. t = sep # s)"
  shows "takeWhile (\<lambda>x. x \<noteq> sep) (c @ t) = c \<and> dropWhile (\<lambda>x. x \<noteq> sep) (c @ t) = t"
  using assms by (induction c) auto

lemma firstSegment_below:
  assumes "plain_part c" "below_segment t"
  shows "firstSegment (CHR ''/'' # c @ t) = (pathUnescape c, t)"
proof -
  have c: "c \<noteq> []" "\<forall>x \<in> set c. x \<noteq> CHR ''/''" using assms by (auto simp: plain_part_def)
  from segment_split [OF c(2) assms(2) [unfolded below_segment_def]] c(1) show ?thesis by (simp add: firstSegment_def)
qed

lemma matchPath_below:
  assumes "plain_part c" "CHR ''%'' \<notin> set c" "below_segment t"
  shows "matchPath (CHR ''/'' # c @ t) n =
    (case matchPath t (litChild c n) of
       Some m \<Rightarrow> Some m
     | None \<Rightarrow> (case matchPath t (wildChild c n) of
                 Some m \<Rightarrow> Some m | None \<Rightarrow> multiChild (CHR ''/'' # c @ t) n))"
proof -
  have "c \<noteq> ''/''" using assms(1) by (auto simp: plain_part_def)
  moreover have "firstSegment (CHR ''/'' # c @ t) = (c, t)"
    using firstSegment_below [OF assms(1,3)] pathUnescape_plain [OF assms(2)] by simp
  ultimately show ?thesis
    unfolding matchPath.simps(2) by simp
qed

lemma matchPath_slash:
  "matchPath ''/'' n = (case matchPath [] (litChild ''/'' n) of Some m \<Rightarrow> Some m | None \<Rightarrow> multiChild ''/'' n)"
proof -
  have "firstSegment ''/'' = (''/'', [])" by (simp add: firstSegment_def)
  then show ?thesis unfolding matchPath.simps(2) by (simp add: Let_def split: option.split)
qed

lemma matchPath_no_routes [simp]: "matchPath path ([] :: 'h routingNode) = None"
proof (induction path rule: length_induct)
  case (1 path)
  show ?case
  proof (cases path)
    case Nil
    then show ?thesis by (simp add: leaf_def map_filter_simps)
  next
    case (Cons c cs)
    obtain seg rest where fs: "firstSegment (c # cs) = (seg, rest)" by (cases "firstSegment (c # cs)")
    have "length rest < length path" unfolding Cons by (rule firstSegment_rest [OF fs])
    from 1 [rule_format, OF this] have none: "matchPath rest ([] :: 'h routingNode) = None" .
    have no: "litChild seg [] = []" "wildChild seg [] = []" "multiChild (c # cs) [] = None"
      by (simp_all add: litChild_def wildChild_def multiChild_def map_filter_simps)
    show ?thesis
      unfolding Cons matchPath.simps(2) Let_def fs prod.case no none by simp
  qed
qed

lemma cleanPath_below:
  assumes "list_all plain_part (c # cs)"
  shows "cleanPath (below (''git'' # ''repos'' # c # cs)) = below (''git'' # ''repos'' # c # cs)"
proof -
  have git: "filepath_Clean ''/git/repos'' = ''/git/repos''" by code_simp
  have "plain_part ''repos''" by (simp add: plain_part_def)
  then have clean: "filepath_Clean (below (''git'' # ''repos'' # c # cs)) = below (''git'' # ''repos'' # c # cs)"
    using Clean_below [of "''/git''" "''repos''" "c # cs"] assms(1) git by simp
  obtain ds d where "c # cs = ds @ [d]" by (metis append_butlast_last_id list.distinct(1))
  moreover from this assms(1) have "plain_part d" by (simp only: list_all_append list.pred_inject(2))
  moreover have "last (below (xs @ [d])) = last d" if "d \<noteq> []" for xs and d :: string
    using that by (induction xs) auto
  ultimately have "last (below (''git'' # ''repos'' # c # cs)) = last d" "last d \<in> set d" "CHR ''/'' \<notin> set d"
    by (auto simp: plain_part_def simp del: below_simps(2) simp flip: append_Cons)
  then have "last (below (''git'' # ''repos'' # c # cs)) \<noteq> CHR ''/''" by metis
  with clean show ?thesis by (simp add: cleanPath_def Let_def)
qed

section \<open>Below a repository\<close>

lemma node_simps:
  "litChild seg [] = ([] :: 'h routingNode)"
  "litChild seg ((ps, b, h) # n) = (case ps of Lit x # qs \<Rightarrow> (if x = seg then [(qs, b, h)] else []) | _ \<Rightarrow> []) @ litChild seg n"
  "wildChild seg [] = ([] :: 'h routingNode)"
  "wildChild seg ((ps, b, h) # n) = (case ps of Wild x # qs \<Rightarrow> [(qs, b @ [(x, seg)], h)] | _ \<Rightarrow> []) @ wildChild seg n"
  by (auto simp: litChild_def wildChild_def map_filter_simps split: list.splits patSeg.splits)

lemma leaf_simps:
  "leaf [] = (None :: (bindings \<times> 'h) option)"
  "leaf ((ps, b, h) # n) = (if ps = [] then Some (b, h) else leaf n)"
  by (auto simp: leaf_def map_filter_simps)

lemma multiChild_simps:
  "multiChild path [] = (None :: (bindings \<times> 'h) option)"
  "multiChild path ((ps, b, h) # n) =
     (case ps of [Multi x] \<Rightarrow> Some (if x = [] then b else b @ [(x, pathUnescape (tl path))], h) | _ \<Rightarrow> multiChild path n)"
  by (auto simp: multiChild_def map_filter_simps split: list.splits patSeg.splits)

text \<open>What the routing tree of a method has below \<open>/git/repos/{repoGitID}\<close>.\<close>

definition git_node :: "string \<Rightarrow> string \<Rightarrow> (patSeg list \<times> routeName) routingNode" where
  "git_node method g = wildChild g (litChild ''repos'' (litChild ''git'' (method_node method)))"

lemma git_node_methods:
  "git_node ''GET'' g = map (\<lambda>(ps, h). (ps, [(''repoGitID'', g)], [Lit ''git'', Lit ''repos'', Wild ''repoGitID''] @ ps, h))
     [([Multi ''gitPath''], GitSmartHTTP), ([Lit ''info'', Lit ''lfs'', Lit ''objects'', Wild ''oid''], GitLFS),
      ([Lit ''show'', Wild ''spec''], GitShowDiff), ([Lit ''compare'', Wild ''spec''], GitCompareDiff),
      ([Lit ''raw'', Multi ''spec''], GitRawFile)]"
  "git_node ''POST'' g = map (\<lambda>(ps, h). (ps, [(''repoGitID'', g)], [Lit ''git'', Lit ''repos'', Wild ''repoGitID''] @ ps, h))
     [([Multi ''gitPath''], GitSmartHTTP), ([Lit ''info'', Lit ''lfs'', Lit ''objects'', Lit ''batch''], GitLFS),
      ([Lit ''info'', Lit ''lfs'', Lit ''locks'', Lit ''verify''], GitLFS)]"
  "git_node ''PUT'' g = map (\<lambda>(ps, h). (ps, [(''repoGitID'', g)], [Lit ''git'', Lit ''repos'', Wild ''repoGitID''] @ ps, h))
     [([Lit ''info'', Lit ''lfs'', Lit ''objects'', Wild ''oid''], GitLFS)]"
  by (simp_all add: git_node_def method_node_def mux_table_def node_simps)

lemma no_literal_repository: "litChild g (litChild ''repos'' (litChild ''git'' (method_node method))) = []"
  by (simp add: method_node_def mux_table_def node_simps)

lemma matchPath_git:
  assumes "plain_part g" "CHR ''%'' \<notin> set g" "below_segment t" "matchPath t (git_node method g) = Some m"
  shows "matchPath (below [''git'', ''repos'', g] @ t) (method_node method) = Some m"
proof -
  have lits: "plain_part ''git''" "plain_part ''repos''" by (simp_all add: plain_part_def)
  have "matchPath (CHR ''/'' # g @ t) (litChild ''repos'' (litChild ''git'' (method_node method))) = Some m"
    using assms(4) by (simp add: matchPath_below [OF assms(1-3)] no_literal_repository git_node_def)
  then show ?thesis
    using matchPath_below [OF lits(1), of "CHR ''/'' # ''repos'' @ CHR ''/'' # g @ t" "method_node method"]
      matchPath_below [OF lits(2), of "CHR ''/'' # g @ t" "litChild ''git'' (method_node method)"] by simp
qed

text \<open>
  A request below a repository is routed by what is below it: the mux does not redirect, when the
  match is exact or the path with a slash at its end has no exact match either.
\<close>

lemma findHandler_git:
  assumes "list_all plain_part (g # cs)" "CHR ''%'' \<notin> set g" "method \<noteq> ''CONNECT''"
    and match: "matchPath (below cs) (git_node method g) = Some (b, ps, h)"
    and exact: "(\<forall>x. last ps \<noteq> Multi x) \<or>
      (\<exists>b' ps' h' x. matchPath (below cs @ ''/'') (git_node method g) = Some (b', ps', h') \<and>
         last ps' = Multi x \<and> length ps' < 4 + length cs)"
  shows "findHandler method urlPath (below [''git'', ''repos'', g] @ below cs) = Found h b"
proof -
  let ?path = "below [''git'', ''repos'', g] @ below cs"
  have g: "plain_part g" using assms(1) by simp
  have clean: "cleanPath ?path = ?path" using cleanPath_below [OF assms(1)] by simp
  have found: "matchMethodAndPath method ?path = Some (b, ps, h)"
    unfolding matchMethodAndPath_def matchPath_git [OF g assms(2) below_segment_below match] by simp
  have "exactMatch (Some (b, ps, h)) ?path \<or> \<not> exactMatch (matchMethodAndPath method (?path @ ''/'')) (?path @ ''/'')"
  proof (cases "\<forall>x. last ps \<noteq> Multi x")
    case True
    then show ?thesis by (cases "last ps") (simp_all add: exactMatch_def)
  next
    case False
    with exact obtain b' ps' h' x where "matchPath (below cs @ ''/'') (git_node method g) = Some (b', ps', h')"
      and last: "last ps' = Multi x" "length ps' < 4 + length cs" by blast
    then have found': "matchMethodAndPath method (?path @ ''/'') = Some (b', ps', h')"
      using matchPath_git [OF g assms(2), of "below cs @ ''/''"] by (simp add: matchMethodAndPath_def)
    have "length cs \<le> length (filter (\<lambda>c. c = CHR ''/'') (below cs))" by (induction cs) auto
    then have "4 + length cs \<le> length (filter (\<lambda>c. c = CHR ''/'') (?path @ ''/''))" by simp
    with last have "\<not> exactMatch (Some (b', ps', h')) (?path @ ''/'')" by (simp add: exactMatch_def)
    with found' show ?thesis by metis
  qed
  then show ?thesis
    unfolding findHandler_def using assms(3) by (auto simp only: Let_def clean found if_False if_True option.case prod.case simp_thms)
qed

lemma matchPath_segment:
  assumes "plain_part c" "CHR ''%'' \<notin> set c"
  shows "matchPath (below (c # cs)) n =
      (case matchPath (below cs) (litChild c n) of
         Some m \<Rightarrow> Some m
       | None \<Rightarrow> (case matchPath (below cs) (wildChild c n) of
                   Some m \<Rightarrow> Some m | None \<Rightarrow> multiChild (below (c # cs)) n))"
    and "matchPath (below (c # cs) @ ''/'') n =
      (case matchPath (below cs @ ''/'') (litChild c n) of
         Some m \<Rightarrow> Some m
       | None \<Rightarrow> (case matchPath (below cs @ ''/'') (wildChild c n) of
                   Some m \<Rightarrow> Some m | None \<Rightarrow> multiChild (below (c # cs) @ ''/'') n))"
  unfolding below_simps append_Cons append_assoc by (rule matchPath_below [OF assms]; simp)+

lemmas route_eval = matchPath_segment matchPath_slash git_node_methods node_simps leaf_simps multiChild_simps plain_part_def

lemma routed_to_transport:
  assumes "plain_part g" "CHR ''%'' \<notin> set g"
  shows "findHandler ''GET'' p (below [''git'', ''repos'', g] @ below [''info'', ''refs'']) =
           Found GitSmartHTTP [(''repoGitID'', g), (''gitPath'', pathUnescape (tl (below [''info'', ''refs''])))]"
    "findHandler ''POST'' p (below [''git'', ''repos'', g] @ below [''git-upload-pack'']) =
           Found GitSmartHTTP [(''repoGitID'', g), (''gitPath'', pathUnescape (tl (below [''git-upload-pack''])))]"
    "findHandler ''POST'' p (below [''git'', ''repos'', g] @ below [''git-receive-pack'']) =
           Found GitSmartHTTP [(''repoGitID'', g), (''gitPath'', pathUnescape (tl (below [''git-receive-pack''])))]"
  by (rule findHandler_git, (use assms in \<open>(simp add: route_eval del: below_simps(2); fail)\<close>)+)+

lemma routed_to_lfs:
  assumes "list_all plain_part [g, oid]" "CHR ''%'' \<notin> set g" "CHR ''%'' \<notin> set oid"
  shows "findHandler ''POST'' p (below [''git'', ''repos'', g] @ below [''info'', ''lfs'', ''objects'', ''batch'']) =
           Found GitLFS [(''repoGitID'', g)]"
    "findHandler ''PUT'' p (below [''git'', ''repos'', g] @ below [''info'', ''lfs'', ''objects'', oid]) =
           Found GitLFS [(''repoGitID'', g), (''oid'', oid)]"
    "findHandler ''GET'' p (below [''git'', ''repos'', g] @ below [''info'', ''lfs'', ''objects'', oid]) =
           Found GitLFS [(''repoGitID'', g), (''oid'', oid)]"
    "findHandler ''POST'' p (below [''git'', ''repos'', g] @ below [''info'', ''lfs'', ''locks'', ''verify'']) =
           Found GitLFS [(''repoGitID'', g)]"
  by (rule findHandler_git, (use assms in \<open>(simp add: route_eval del: below_simps(2); fail)\<close>)+)+

lemma routed_to_diff:
  assumes "list_all plain_part [g, spec]" "CHR ''%'' \<notin> set g" "CHR ''%'' \<notin> set spec"
  shows "findHandler ''GET'' p (below [''git'', ''repos'', g] @ below [''show'', spec]) =
           Found GitShowDiff [(''repoGitID'', g), (''spec'', spec)]"
    "findHandler ''GET'' p (below [''git'', ''repos'', g] @ below [''compare'', spec]) =
           Found GitCompareDiff [(''repoGitID'', g), (''spec'', spec)]"
  by (rule findHandler_git, (use assms in \<open>(simp add: route_eval del: below_simps(2); fail)\<close>)+)+

lemma no_percent_below: "list_all (\<lambda>c. CHR ''%'' \<notin> set c) cs \<Longrightarrow> CHR ''%'' \<notin> set (tl (below cs))"
proof -
  assume "list_all (\<lambda>c. CHR ''%'' \<notin> set c) cs"
  then have "CHR ''%'' \<notin> set (below cs)" by (induction cs) auto
  then show ?thesis by (cases "below cs") auto
qed

lemma routed_to_raw:
  assumes "list_all plain_part (g # ref)" "ref \<noteq> []" "CHR ''%'' \<notin> set g" "list_all (\<lambda>c. CHR ''%'' \<notin> set c) ref"
  shows "findHandler ''GET'' p (below [''git'', ''repos'', g] @ below (''raw'' # ref)) =
           Found GitRawFile [(''repoGitID'', g), (''spec'', tl (below ref))]"
proof -
  obtain c cs where ref: "ref = c # cs" using assms(2) by (cases ref) simp_all
  have spec: "pathUnescape (tl (below (c # cs))) = tl (below (c # cs))"
    using assms(4) by (simp add: pathUnescape_plain no_percent_below ref del: below_simps(2))
  show ?thesis
    unfolding ref
    by (rule findHandler_git, (use assms(1,3,4) spec in \<open>(simp add: ref route_eval del: below_simps(2); fail)\<close>)+)
qed



end
