(* ===== verification/Agent_Docs.thy ===== *)
theory Agent_Docs
  imports Routes
begin

text \<open>
  The public documents for agents (\<open>internal/http/agent_docs.go\<close>): the six texts, line by line as the
  source has them, with the base URL filled in, and the handler that serves them by path.
\<close>

section \<open>Formatting\<close>

text \<open>\<open>fmt.Sprintf\<close> with one string argument, on formats whose only verb is \<open>%[1]s\<close>.\<close>

fun sprintf1 :: "string \<Rightarrow> string \<Rightarrow> string" where
  "sprintf1 arg [] = []"
| "sprintf1 arg (c # s) =
     (if take 5 (c # s) = ''%[1]s'' then arg @ sprintf1 arg (drop 4 s) else c # sprintf1 arg s)"

definition text_of :: "string list \<Rightarrow> string" where
  "text_of ls = concat (map (\<lambda>l. l @ [newline]) ls)"

definition apostrophe :: char where "apostrophe = CHR 0x27"

text \<open>\<open>html.EscapeString\<close>.\<close>

definition html_escape_char :: "char \<Rightarrow> string" where
  "html_escape_char c =
     (if c = CHR ''&'' then ''&amp;'' else if c = apostrophe then ''&#39;'' else if c = CHR ''<'' then ''&lt;''
      else if c = CHR ''>'' then ''&gt;'' else if c = quote then ''&#34;'' else [c])"

definition html_EscapeString :: "string \<Rightarrow> string" where
  "html_EscapeString s = concat (map html_escape_char s)"

section \<open>The texts\<close>

definition agents_text :: "string list" where
  "agents_text = [
     ''# gitrdone Agent Guide'',
     [],
     ''> gitrdone is an authenticated Git smart HTTP and Git LFS service with a small control API for creating backing Git repos and repo-scoped access tokens.'',
     [],
     ''Use this guide when acting as an automated agent against gitrdone. gitrdone is intentionally narrow: it serves Git repos, tokens, Git smart HTTP, and Git LFS. Higher-level product concepts belong in the caller.'',
     [],
     ''## Discovery'',
     [],
     ''- Agent index: [%[1]s/llms.txt](%[1]s/llms.txt)'',
     ''- Full agent guide: [%[1]s/AGENTS.md](%[1]s/AGENTS.md)'',
     ''- Lowercase guide alias: [%[1]s/agents.md](%[1]s/agents.md)'',
     ''- Well-known guide alias: [%[1]s/.well-known/agents.md](%[1]s/.well-known/agents.md)'',
     ''- Markdown sitemap: [%[1]s/sitemap.md](%[1]s/sitemap.md)'',
     ''- XML sitemap: [%[1]s/sitemap.xml](%[1]s/sitemap.xml)'',
     [],
     ''## Authentication'',
     [],
     ''Control API endpoints require an internal control bearer token. Git endpoints require repo-scoped tokens minted by the control API.'',
     [],
     ''Repo tokens are capability grants, not user identity sessions. The token subject is audit context supplied by the caller. Supported repo token scopes are:'',
     [],
     ''- read: clone, fetch, pull, Git LFS downloads, read diff endpoints'',
     ''- write: push, Git LFS uploads'',
     ''- readwrite: clone, fetch, pull, push, Git LFS upload/download, read diff endpoints'',
     [],
     ''Normal Git clients should use Basic auth with username x-access-token and a repo token as the password. Do not persist repo tokens in remote URLs. Bearer auth is also accepted by Git routes for service callers.'',
     [],
     ''## Reliable token creation'',
     [],
     ''For POST /v1/repos/{repoID}/tokens, include Idempotency-Key when retrying or when the request is part of a durable workflow.'',
     [],
     ''Use a key derived from the logical operation, not from a single HTTP attempt:'',
     [],
     ''```http'',
     ''Idempotency-Key: import:imp_123:source-read-token'',
     ''Idempotency-Key: workflow:run_456:push-token'',
     ''Idempotency-Key: release:rel_789:write-token'',
     ''```'',
     [],
     ''Reuse the same key only for the same repo, scope, subject, and TTL. If the same key is reused for a different token request, gitrdone returns 409 Conflict; do not blindly retry that conflict.'',
     [],
     ''## Token lifecycle'',
     [],
     ''List and revoke responses return token metadata only; token values are returned only at creation. Keep the token id returned by token creation if the workflow may need to revoke or audit that grant later.'',
     [],
     ''Use GET /v1/repos/{repoID}/tokens to inspect token ids, scopes, subjects, expiration times, revocation times, and last-use times for a repo. Use POST /v1/repos/{repoID}/tokens/{tokenID}/revoke to revoke a repo token. Revocation is repo-scoped; do not try to revoke a token through a different repo.'',
     [],
     ''Revoke tokens when a workflow is done or when a token may have leaked. If work must continue after revocation, mint a fresh token for the new logical operation.'',
     [],
     ''## Agent-safe surfaces'',
     [],
     ''Public discovery:'',
     [],
     ''- GET /'',
     ''- GET /llms.txt'',
     ''- GET /.well-known/llms.txt'',
     ''- GET /AGENTS.md'',
     ''- GET /agents.md'',
     ''- GET /.well-known/agents.md'',
     ''- GET /llms-full.txt'',
     ''- GET /robots.txt'',
     ''- GET /sitemap.md'',
     ''- GET /sitemap.xml'',
     ''- GET /healthz'',
     [],
     ''Control API for trusted services:'',
     [],
     ''- POST /v1/repos'',
     ''- GET /v1/repos/{repoID}'',
     ''- POST /v1/repos/{repoID}/tokens'',
     ''- GET /v1/repos/{repoID}/tokens'',
     ''- POST /v1/repos/{repoID}/tokens/{tokenID}/revoke'',
     ''- POST /v1/repos/{repoID}/archive'',
     [],
     ''Git smart HTTP for normal Git clients:'',
     [],
     ''- GET /git/repos/{repoID}.git/info/refs?service=git-upload-pack'',
     ''- POST /git/repos/{repoID}.git/git-upload-pack'',
     ''- GET /git/repos/{repoID}.git/info/refs?service=git-receive-pack'',
     ''- POST /git/repos/{repoID}.git/git-receive-pack'',
     [],
     ''Git LFS for normal git-lfs clients:'',
     [],
     ''- POST /git/repos/{repoID}.git/info/lfs/objects/batch'',
     ''- PUT /git/repos/{repoID}.git/info/lfs/objects/{oid}'',
     ''- GET /git/repos/{repoID}.git/info/lfs/objects/{oid}'',
     ''- POST /git/repos/{repoID}.git/info/lfs/locks/verify'',
     [],
     ''Git LFS lock verification returns an empty conflict set. gitrdone does not provide collaborative LFS locking.'',
     [],
     ''Read-only diff endpoints for service callers:'',
     [],
     ''- GET /git/repos/{repoID}.git/show/{sha}.diff'',
     ''- GET /git/repos/{repoID}.git/compare/{base}..{head}.diff'',
     ''- GET /git/repos/{repoID}.git/compare/{base}...{head}.diff'',
     [],
     ''Diff revisions must be lowercase hex object IDs, full or abbreviated from 7 to 64 characters. Diff responses larger than 8 MiB return 413 Request Entity Too Large.'',
     [],
     ''## Git command use'',
     [],
     ''Prefer ordinary Git commands over handcrafted protocol requests:'',
     [],
     ''```bash'',
     ''git clone <gitUrl>'',
     ''git fetch'',
     ''git pull'',
     ''git push origin main'',
     ''```'',
     [],
     ''The canonical Git remote URL shape is:'',
     [],
     ''```text'',
     ''%[1]s/git/repos/{repoID}.git'',
     ''```'',
     [],
     ''repoID is the external control ID, for example repo_00000000-0000-4000-8000-000000000000.'',
     [],
     ''## Do not hit'',
     [],
     ''- Do not use namespace/name Git routes. They are not canonical.'',
     ''- Do not scrape storage paths. Bare repo paths and LFS object paths are internal implementation details.'',
     ''- Do not assume anonymous repo access. Git access requires repo tokens.'',
     ''- Do not treat caller product concepts as gitrdone concepts. gitrdone does not know application workflows, tenants, or logged-in product users.'']"

definition llms_text :: "string list" where
  "llms_text = [
     ''# gitrdone'',
     [],
     ''> gitrdone is an authenticated Git smart HTTP and Git LFS service with a small control API for creating backing Git repos and repo-scoped access tokens.'',
     [],
     ''gitrdone is intended to be used by trusted services and automation agents as a Git backend. Use canonical repo IDs, not namespace/name, as the Git identity. Public discovery files are safe to scrape. Control, Git, and Git LFS operations require the appropriate tokens.'',
     [],
     ''For retriable automation, include Idempotency-Key on token creation and derive it from the stable logical operation.'',
     [],
     ''List and revoke repo tokens with the control bearer token; token values are returned only at creation.'',
     [],
     ''## Agent Docs'',
     [],
     ''- [Agent guide](%[1]s/AGENTS.md): Full machine-readable guide for agents using this service.'',
     ''- [Lowercase agent guide alias](%[1]s/agents.md): Same guide at a lowercase path.'',
     ''- [Well-known agent guide alias](%[1]s/.well-known/agents.md): Same guide under .well-known.'',
     ''- [Full LLM context](%[1]s/llms-full.txt): Same full guide for tools that look for llms-full.txt.'',
     ''- [Markdown sitemap](%[1]s/sitemap.md): Agent-readable list of guide and service surfaces.'',
     [],
     ''## API Surface'',
     [],
     ''- [Health](%[1]s/healthz): Minimal service health check.'',
     ''- [Create repo](%[1]s/v1/repos): POST with control bearer token.'',
     ''- [Repo tokens](%[1]s/v1/repos/{repoID}/tokens): POST to create; GET to list metadata with control bearer token.'',
     ''- [Revoke repo token](%[1]s/v1/repos/{repoID}/tokens/{tokenID}/revoke): POST with control bearer token.'',
     ''- [Git smart HTTP and LFS](%[1]s/git/repos/{repoID}.git): Use normal Git commands with repo-scoped tokens.'',
     ''- [Git diff endpoints](%[1]s/git/repos/{repoID}.git/show/{sha}.diff): Fetch read-scoped patch text without cloning.'',
     [],
     ''## Optional'',
     [],
     ''- [robots.txt](%[1]s/robots.txt)'',
     ''- [XML sitemap](%[1]s/sitemap.xml)'']"

definition root_text :: "string list" where
  "root_text = [
     ''# gitrdone'',
     [],
     ''gitrdone serves authenticated Git smart HTTP and Git LFS for repo-ID-addressed backing repos.'',
     [],
     ''Agent entrypoints:'',
     [],
     ''- [/llms.txt](%[1]s/llms.txt)'',
     ''- [/AGENTS.md](%[1]s/AGENTS.md)'',
     ''- [/agents.md](%[1]s/agents.md)'',
     ''- [/.well-known/agents.md](%[1]s/.well-known/agents.md)'',
     ''- [/sitemap.md](%[1]s/sitemap.md)'',
     [],
     ''Canonical Git remote shape:'',
     [],
     ''```text'',
     ''%[1]s/git/repos/{repoID}.git'',
     ''```'',
     [],
     ''Use control API tokens for /v1 routes and repo-scoped tokens for Git routes.'']"

definition robots_text :: "string list" where
  "robots_text = [
     ''User-agent: *'',
     ''Allow: /'',
     ''Allow: /llms.txt'',
     ''Allow: /AGENTS.md'',
     ''Allow: /agents.md'',
     ''Allow: /.well-known/agents.md'',
     ''Allow: /sitemap.md'',
     [],
     ''Sitemap: %[1]s/sitemap.xml'']"

definition sitemapMD_text :: "string list" where
  "sitemapMD_text = [
     ''# gitrdone sitemap'',
     [],
     ''- [Root](%[1]s/)'',
     ''- [llms.txt](%[1]s/llms.txt)'',
     ''- [Agent guide](%[1]s/AGENTS.md)'',
     ''- [Lowercase agent guide](%[1]s/agents.md)'',
     ''- [Well-known agent guide](%[1]s/.well-known/agents.md)'',
     ''- [Full LLM context](%[1]s/llms-full.txt)'',
     ''- [Robots](%[1]s/robots.txt)'',
     ''- [Health](%[1]s/healthz)'']"

definition sitemapXML_text :: "string list" where
  "sitemapXML_text = [
     ''<?xml version='' @ [quote] @ ''1.0'' @ [quote] @ '' encoding='' @ [quote] @ ''UTF-8'' @ [quote] @ ''?>'',
     ''<urlset xmlns='' @ [quote] @ ''http://www.sitemaps.org/schemas/sitemap/0.9'' @ [quote] @ ''>'',
     ''  <url><loc>%[1]s/</loc></url>'',
     ''  <url><loc>%[1]s/llms.txt</loc></url>'',
     ''  <url><loc>%[1]s/AGENTS.md</loc></url>'',
     ''  <url><loc>%[1]s/agents.md</loc></url>'',
     ''  <url><loc>%[1]s/.well-known/agents.md</loc></url>'',
     ''  <url><loc>%[1]s/llms-full.txt</loc></url>'',
     ''  <url><loc>%[1]s/robots.txt</loc></url>'',
     ''  <url><loc>%[1]s/sitemap.md</loc></url>'',
     ''  <url><loc>%[1]s/healthz</loc></url>'',
     ''</urlset>'']"

section \<open>The documents and their handler\<close>

record agentDocs =
  doc_root :: string
  doc_llms :: string
  doc_agents :: string
  doc_robots :: string
  doc_sitemapMD :: string
  doc_sitemapXML :: string

definition docs_baseURL :: "string \<Rightarrow> string" where
  "docs_baseURL baseURL =
     (let baseURL = strings_TrimRight (strings_TrimSpace baseURL) ''/''
      in if baseURL = [] then ''http://localhost:8080'' else baseURL)"

definition newAgentDocs :: "string \<Rightarrow> agentDocs" where
  "newAgentDocs baseURL =
     (let baseURL = docs_baseURL baseURL
      in \<lparr>doc_root = sprintf1 baseURL (text_of root_text),
          doc_llms = sprintf1 baseURL (text_of llms_text),
          doc_agents = sprintf1 baseURL (text_of agents_text),
          doc_robots = sprintf1 baseURL (text_of robots_text),
          doc_sitemapMD = sprintf1 baseURL (text_of sitemapMD_text),
          doc_sitemapXML = sprintf1 (html_EscapeString baseURL) (text_of sitemapXML_text)\<rparr>)"

definition writeText :: "nat \<Rightarrow> string \<Rightarrow> string \<Rightarrow> responseWriter \<Rightarrow> responseWriter" where
  "writeText status contentType v w =
     rw_Write v (rw_WriteHeader status
       (rw_SetHeader ''X-Content-Type-Options'' ''nosniff'' (rw_SetHeader ''Content-Type'' contentType w)))"

definition agentDocsHandler :: "string \<Rightarrow> 's handler" where
  "agentDocsHandler baseURL = (\<lambda>env r (w, s).
     let docs = newAgentDocs baseURL; path = r_Path r
     in if path = ''/'' then respond (writeText 200 ''text/markdown; charset=utf-8'' (doc_root docs) w) s
        else if path \<in> {''/llms.txt'', ''/.well-known/llms.txt''} then
          respond (writeText 200 ''text/plain; charset=utf-8'' (doc_llms docs) w) s
        else if path \<in> {''/AGENTS.md'', ''/agents.md'', ''/.well-known/agents.md'', ''/llms-full.txt''} then
          respond (writeText 200 ''text/markdown; charset=utf-8'' (doc_agents docs) w) s
        else if path = ''/robots.txt'' then
          respond (writeText 200 ''text/plain; charset=utf-8'' (doc_robots docs) w) s
        else if path = ''/sitemap.md'' then
          respond (writeText 200 ''text/markdown; charset=utf-8'' (doc_sitemapMD docs) w) s
        else if path = ''/sitemap.xml'' then
          respond (writeText 200 ''application/xml; charset=utf-8'' (doc_sitemapXML docs) w) s
        else respond (http_NotFound w) s)"

section \<open>What the sitemap lists is served\<close>

definition sitemap_paths :: "string list" where
  "sitemap_paths = [''/'', ''/llms.txt'', ''/AGENTS.md'', ''/agents.md'', ''/.well-known/agents.md'', ''/llms-full.txt'',
     ''/robots.txt'', ''/sitemap.md'', ''/healthz'']"

lemma sitemap_routes:
  "list_all (\<lambda>p. findHandler ''GET'' p p = Found (if p = ''/healthz'' then Healthz else AgentDocs) []) sitemap_paths"
  by code_simp

lemma sprintf1_plain: "CHR ''%'' \<notin> set s \<Longrightarrow> sprintf1 arg s = s"
  by (induction s) auto

lemma sprintf1_arg: "sprintf1 arg (''%[1]s'' @ s) = arg @ sprintf1 arg s"
  by simp

lemma sprintf1_once:
  assumes "CHR ''%'' \<notin> set a" "CHR ''%'' \<notin> set b"
  shows "sprintf1 arg (a @ ''%[1]s'' @ b) = a @ arg @ b"
  using assms(1)
proof (induction a)
  case Nil
  show ?case unfolding append_Nil sprintf1_arg by (simp add: sprintf1_plain assms(2))
next
  case (Cons c a)
  then have "c \<noteq> CHR ''%''" by auto
  with Cons show ?case by simp
qed

text \<open>The verb never spans a line break, so a text is formatted line by line.\<close>

lemma take_verb_newline: "take 5 (s @ newline # t) = ''%[1]s'' \<longleftrightarrow> take 5 s = ''%[1]s''"
proof (cases "5 \<le> length s")
  case False
  then have "newline \<in> set (take 5 (s @ newline # t))" by (simp add: take_Cons')
  moreover have "newline \<notin> set ''%[1]s''" by (simp add: newline_def)
  moreover have "take 5 s \<noteq> ''%[1]s''" using False by (auto dest: arg_cong [where f = length])
  ultimately show ?thesis by metis
qed simp

lemma sprintf1_line: "sprintf1 arg (l @ newline # t) = sprintf1 arg l @ newline # sprintf1 arg t"
proof (induction arg l rule: sprintf1.induct)
  case (1 arg)
  have "newline \<noteq> CHR ''%''" by (simp add: newline_def)
  then show ?case by simp
next
  case (2 arg c s)
  show ?case
  proof (cases "take 5 (c # s) = ''%[1]s''")
    case True
    then have "4 \<le> length s" by (cases "4 \<le> length s") (auto dest: arg_cong [where f = length])
    moreover have "take 5 (c # s @ newline # t) = ''%[1]s''" using take_verb_newline [of "c # s" t] True by simp
    ultimately show ?thesis using "2.IH"(1) [OF True] True by simp
  next
    case False
    then have "take 5 (c # s @ newline # t) \<noteq> ''%[1]s''" using take_verb_newline [of "c # s" t] by simp
    with False "2.IH"(2) [OF False] show ?thesis by auto
  qed
qed

lemma sprintf1_text: "sprintf1 arg (text_of ls) = text_of (map (sprintf1 arg) ls)"
  by (induction ls) (simp_all add: text_of_def sprintf1_line)

lemma writeText_status: "resp_status (writeText 200 ct v new_writer) = 200"
  by (simp add: writeText_def rw_Write_def rw_WriteHeader_def rw_SetHeader_def resp_status_def new_writer_def Let_def)

text \<open>
  The XML sitemap lists the address of the service followed by each
  path of \<open>sitemap_paths\<close>, whatever the base URL; the mux sends a request for any of these paths to
  the documents or to the health check, and the documents answer it with 200.
\<close>
lemma sitemap_served:
  "doc_sitemapXML (newAgentDocs baseURL) =
     text_of (take 2 sitemapXML_text @
       map (\<lambda>p. ''  <url><loc>'' @ html_EscapeString (docs_baseURL baseURL) @ p @ ''</loc></url>'') sitemap_paths @
       [''</urlset>'']) \<and>
   list_all (\<lambda>p. findHandler ''GET'' p p = Found (if p = ''/healthz'' then Healthz else AgentDocs) []) sitemap_paths \<and>
   list_all (\<lambda>p. map_option (\<lambda>(w, s'). (resp_status w, s')) (agentDocsHandler baseURL env (r\<lparr>r_Path := p\<rparr>) (new_writer, s)) =
     Some (if p = ''/healthz'' then 404 else 200, s)) sitemap_paths"
proof (intro conjI)
  let ?base = "html_EscapeString (docs_baseURL baseURL)"
  have shape: "sitemapXML_text = take 2 sitemapXML_text @
      map (\<lambda>p. ''  <url><loc>'' @ ''%[1]s'' @ p @ ''</loc></url>'') sitemap_paths @ [''</urlset>'']" by code_simp
  have plain: "list_all (\<lambda>l. CHR ''%'' \<notin> set l) (take 2 sitemapXML_text)"
    "list_all (\<lambda>p. CHR ''%'' \<notin> set p) sitemap_paths" by code_simp+
  have "map (sprintf1 ?base) (take 2 sitemapXML_text) = take 2 sitemapXML_text"
    using plain(1) by (simp add: list_all_iff sprintf1_plain map_idI)
  moreover have "map (sprintf1 ?base \<circ> (\<lambda>p. ''  <url><loc>'' @ ''%[1]s'' @ p @ ''</loc></url>'')) sitemap_paths =
      map (\<lambda>p. ''  <url><loc>'' @ ?base @ p @ ''</loc></url>'') sitemap_paths"
  proof (rule map_cong [OF refl])
    fix p assume "p \<in> set sitemap_paths"
    with plain(2) have "CHR ''%'' \<notin> set (p @ ''</loc></url>'')" by (simp add: list_all_iff)
    from sprintf1_once [OF _ this, of "''  <url><loc>''"]
    show "(sprintf1 ?base \<circ> (\<lambda>p. ''  <url><loc>'' @ ''%[1]s'' @ p @ ''</loc></url>'')) p =
      ''  <url><loc>'' @ ?base @ p @ ''</loc></url>''" unfolding o_def by simp
  qed
  moreover have "sprintf1 ?base ''</urlset>'' = ''</urlset>''" by (rule sprintf1_plain) simp
  ultimately have "map (sprintf1 ?base) sitemapXML_text = take 2 sitemapXML_text @
      map (\<lambda>p. ''  <url><loc>'' @ ?base @ p @ ''</loc></url>'') sitemap_paths @ [''</urlset>'']"
    by (subst shape) (simp only: map_append map_map list.map)
  then show "doc_sitemapXML (newAgentDocs baseURL) =
     text_of (take 2 sitemapXML_text @
       map (\<lambda>p. ''  <url><loc>'' @ ?base @ p @ ''</loc></url>'') sitemap_paths @ [''</urlset>''])"
    by (simp only: newAgentDocs_def Let_def agentDocs.simps sprintf1_text)
  show "list_all (\<lambda>p. findHandler ''GET'' p p = Found (if p = ''/healthz'' then Healthz else AgentDocs) []) sitemap_paths"
    by (rule sitemap_routes)
  have "resp_status (http_NotFound new_writer) = 404" by code_simp
  then show "list_all (\<lambda>p. map_option (\<lambda>(w, s'). (resp_status w, s')) (agentDocsHandler baseURL env (r\<lparr>r_Path := p\<rparr>) (new_writer, s)) =
     Some (if p = ''/healthz'' then 404 else 200, s)) sitemap_paths"
    by (simp add: sitemap_paths_def agentDocsHandler_def Let_def writeText_status)
qed

end
