(* ===== verification/Git_Lfs_Storage.thy ===== *)
theory Git_Lfs_Storage
  imports Http
begin

text \<open>
  Storage of Git LFS objects in the file system (\<open>internal/http/git_lfs_storage.go\<close>).

  The interface \<open>lfsObjectStore\<close> is a record of operations on a state of type \<open>'s\<close>.  The file
  operations of the package \<open>os\<close> are the record \<open>fileHost\<close>, SHA-256 is the parameter \<open>sha256\<close>; the
  locale \<open>file_host\<close> states what the store relies on of the files, and the locale \<open>lfs_storage\<close> what
  it promises to the handlers: an object that was accepted has the size and the digest it was
  announced with and is read back as it was sent, an upload that fails changes no object, and no
  upload changes another object.
\<close>

section \<open>The interface\<close>

record lfsStoredObject =
  lso_Size :: int
  lso_Body :: requestBody

record 's lfsObjectStore =
  lfs_Exists :: "ctx \<Rightarrow> string \<Rightarrow> string \<Rightarrow> int \<Rightarrow> 's \<Rightarrow> bool result"
  lfs_Put :: "ctx \<Rightarrow> string \<Rightarrow> string \<Rightarrow> int \<Rightarrow> int \<Rightarrow> requestBody \<Rightarrow> 's \<Rightarrow> go_error option \<times> 's"
  lfs_Open :: "ctx \<Rightarrow> string \<Rightarrow> string \<Rightarrow> 's \<Rightarrow> lfsStoredObject result"

section \<open>Files\<close>

text \<open>
  An error of a file operation (whether \<open>errors.Is(err, os.ErrNotExist)\<close> holds), what \<open>os.Stat\<close>
  reports of a file, and an open file: what its \<open>Stat\<close> gives and what reading it gives.
\<close>

datatype fileError = ErrNotExist | FileError go_error

record fileInfo =
  fi_IsRegular :: bool
  fi_Size :: int

record openFile =
  of_Stat :: "fileInfo result"
  of_Body :: requestBody

record 's fileHost =
  fh_MkdirAll :: "string \<Rightarrow> 's \<Rightarrow> go_error option \<times> 's"
  fh_CreateTemp :: "string \<Rightarrow> string \<Rightarrow> 's \<Rightarrow> string result \<times> 's"
  fh_Write :: "string \<Rightarrow> string \<Rightarrow> 's \<Rightarrow> (nat \<times> go_error option) \<times> 's"
  fh_Close :: "string \<Rightarrow> 's \<Rightarrow> go_error option \<times> 's"
  fh_Rename :: "string \<Rightarrow> string \<Rightarrow> 's \<Rightarrow> go_error option \<times> 's"
  fh_Remove :: "string \<Rightarrow> 's \<Rightarrow> go_error option \<times> 's"
  fh_Stat :: "string \<Rightarrow> 's \<Rightarrow> fileError + fileInfo"
  fh_Open :: "string \<Rightarrow> 's \<Rightarrow> fileError + openFile"

text \<open>\<open>io.LimitedReader\<close>: at most \<open>n\<close> bytes, then the end of the input.\<close>

definition LimitedReader :: "int \<Rightarrow> requestBody \<Rightarrow> requestBody" where
  "LimitedReader n b =
     (if n \<le> int (length (body_bytes b))
      then \<lparr>body_bytes = take (nat n) (body_bytes b), body_err = None\<rparr> else b)"

text \<open>\<open>io.Copy\<close> to a file and a hash: the number of bytes written, and the first error.\<close>

definition copy_to_file ::
  "'s fileHost \<Rightarrow> string \<Rightarrow> requestBody \<Rightarrow> 's \<Rightarrow> (nat \<times> go_error option) \<times> 's" where
  "copy_to_file h path b s =
     (case fh_Write h path (body_bytes b) s of
        ((n, Some err), s') \<Rightarrow> ((n, Some err), s')
      | ((n, None), s') \<Rightarrow> ((n, body_err b), s'))"

section \<open>The store\<close>

definition DefaultMaxLFSObjectBytes :: int where
  "DefaultMaxLFSObjectBytes = 5 * 1024 * 1024 * 1024"

definition normalizeMaxLFSObjectBytes :: "int \<Rightarrow> int" where
  "normalizeMaxLFSObjectBytes v = (if v \<le> 0 then DefaultMaxLFSObjectBytes else v)"

text \<open>The struct \<open>filesystemLFSObjectStore\<close> has one field, its root, which stands for it.\<close>

definition newFilesystemLFSObjectStore :: "string \<Rightarrow> string" where
  "newFilesystemLFSObjectStore root =
     (let root = strings_TrimSpace root in if root = [] then defaultGitStorageRoot else root)"

text \<open>The slices are those of an object identifier of at least four bytes; the callers pass 64.\<close>

definition objectPath :: "string \<Rightarrow> string \<Rightarrow> string \<Rightarrow> string" where
  "objectPath root repoID oid =
     filepath_Join [root, ''lfs'', repoID, ''objects'', slice 0 2 oid, slice 2 4 oid, oid]"

definition filesystem_Exists ::
  "'s fileHost \<Rightarrow> string \<Rightarrow> ctx \<Rightarrow> string \<Rightarrow> string \<Rightarrow> int \<Rightarrow> 's \<Rightarrow> bool result" where
  "filesystem_Exists h root ctx repoID oid osize s =
     (case ctx of
        Some err \<Rightarrow> Inl err
      | None \<Rightarrow>
          (case fh_Stat h (objectPath root repoID oid) s of
             Inl ErrNotExist \<Rightarrow> Inr False
           | Inl (FileError err) \<Rightarrow> Inl err
           | Inr info \<Rightarrow>
               (if \<not> fi_IsRegular info \<or> fi_Size info \<noteq> osize then Inr False else Inr True)))"

text \<open>The part of \<open>Put\<close> from the copy to the temporary file on (lines 83 to 108).\<close>

definition put_temp ::
  "'s fileHost \<Rightarrow> (string \<Rightarrow> byte list) \<Rightarrow> string \<Rightarrow> string \<Rightarrow> string \<Rightarrow> int \<Rightarrow> int \<Rightarrow> requestBody \<Rightarrow> 's \<Rightarrow>
     go_error option \<times> 's" where
  "put_temp h sha256 tempPath path oid osize maxSize body s =
     (let limited = LimitedReader (int64 (maxSize + 1)) body;
          ((written, copyErr), s1) = copy_to_file h tempPath limited s;
          (closeErr, s2) = fh_Close h tempPath s1
      in case copyErr of
           Some err \<Rightarrow> (Some err, s2)
         | None \<Rightarrow>
             (case closeErr of
                Some err \<Rightarrow> (Some err, s2)
              | None \<Rightarrow>
                  (if int written > maxSize then (Some errLFSObjectTooLarge, s2)
                   else if int written \<noteq> osize then (Some errLFSObjectInvalid, s2)
                   else if hex_EncodeToString (sha256 (take written (body_bytes limited))) \<noteq> oid
                   then (Some errLFSObjectInvalid, s2)
                   else fh_Rename h tempPath path s2)))"

text \<open>The deferred removal of the temporary file runs after every return but the last.\<close>

definition filesystem_Put ::
  "'s fileHost \<Rightarrow> (string \<Rightarrow> byte list) \<Rightarrow> string \<Rightarrow> ctx \<Rightarrow> string \<Rightarrow> string \<Rightarrow> int \<Rightarrow> int \<Rightarrow> requestBody \<Rightarrow>
     's \<Rightarrow> go_error option \<times> 's" where
  "filesystem_Put h sha256 root ctx repoID oid osize maxSize body s =
     (case ctx of
        Some err \<Rightarrow> (Some err, s)
      | None \<Rightarrow>
          (let maxSize = normalizeMaxLFSObjectBytes maxSize
           in if osize > maxSize then (Some errLFSObjectTooLarge, s)
              else
                (let path = objectPath root repoID oid;
                     objectDir = filepath_Dir path
                 in case fh_MkdirAll h objectDir s of
                      (Some err, s1) \<Rightarrow> (Some err, s1)
                    | (None, s1) \<Rightarrow>
                        (case fh_CreateTemp h objectDir ''.upload-*'' s1 of
                           (Inl err, s2) \<Rightarrow> (Some err, s2)
                         | (Inr tempPath, s2) \<Rightarrow>
                             (case put_temp h sha256 tempPath path oid osize maxSize body s2 of
                                (None, s3) \<Rightarrow> (None, s3)
                              | (Some err, s3) \<Rightarrow> (Some err, snd (fh_Remove h tempPath s3)))))))"

definition filesystem_Open ::
  "'s fileHost \<Rightarrow> string \<Rightarrow> ctx \<Rightarrow> string \<Rightarrow> string \<Rightarrow> 's \<Rightarrow> lfsStoredObject result" where
  "filesystem_Open h root ctx repoID oid s =
     (case ctx of
        Some err \<Rightarrow> Inl err
      | None \<Rightarrow>
          (case fh_Open h (objectPath root repoID oid) s of
             Inl ErrNotExist \<Rightarrow> Inl errLFSObjectNotFound
           | Inl (FileError err) \<Rightarrow> Inl err
           | Inr file \<Rightarrow>
               (case of_Stat file of
                  Inl err \<Rightarrow> Inl err
                | Inr info \<Rightarrow>
                    (if \<not> fi_IsRegular info then Inl errLFSObjectNotFound
                     else Inr \<lparr>lso_Size = fi_Size info, lso_Body = of_Body file\<rparr>))))"

definition filesystemLFSObjectStore ::
  "'s fileHost \<Rightarrow> (string \<Rightarrow> byte list) \<Rightarrow> string \<Rightarrow> 's lfsObjectStore" where
  "filesystemLFSObjectStore h sha256 root =
     \<lparr>lfs_Exists = filesystem_Exists h root,
      lfs_Put = filesystem_Put h sha256 root,
      lfs_Open = filesystem_Open h root\<rparr>"

section \<open>Object paths\<close>

definition lfs_oid :: "string \<Rightarrow> bool" where
  "lfs_oid oid \<longleftrightarrow> length oid = 64 \<and> list_all (\<lambda>c. isLowerHexDigit (chr_nat c)) oid"

definition lfs_key :: "string \<Rightarrow> string \<Rightarrow> bool" where
  "lfs_key repoID oid \<longleftrightarrow> isCanonicalUUID repoID \<and> lfs_oid oid"

lemma hex_plain:
  assumes "list_all (\<lambda>c. isLowerHexDigit (chr_nat c)) v" "v \<noteq> []"
  shows "plain_part v"
proof -
  have "CHR ''/'' \<notin> set v" "CHR ''.'' \<notin> set v"
    using assms(1) by (auto simp: list_all_iff isLowerHexDigit_def)
  with assms(2) show ?thesis by (auto simp: plain_part_def)
qed

lemma uuid_plain: "isCanonicalUUID v \<Longrightarrow> plain_part v"
  using uuid_no_slash [of v] isCanonicalUUID_chars [of v "CHR ''.''"] isCanonicalUUID_nonempty [of v]
  by (auto simp: plain_part_def isLowerHexDigit_def)

lemma oid_parts:
  assumes "lfs_oid oid"
  shows "plain_part oid" "plain_part (slice 0 2 oid)" "plain_part (slice 2 4 oid)"
proof -
  have sub: "list_all (\<lambda>c. isLowerHexDigit (chr_nat c)) (slice i j oid)" for i j
    using assms by (auto simp: lfs_oid_def slice_def list_all_iff dest: in_set_takeD in_set_dropD)
  have "length oid = 64" using assms by (simp add: lfs_oid_def)
  then have "slice 0 2 oid \<noteq> []" "slice 2 4 oid \<noteq> []" "oid \<noteq> []" by (auto simp: slice_def)
  with hex_plain sub assms show "plain_part oid" "plain_part (slice 0 2 oid)" "plain_part (slice 2 4 oid)"
    by (simp_all add: lfs_oid_def)
qed

lemma objectPath_eq:
  assumes "root \<noteq> []" "lfs_key repoID oid"
  shows "objectPath root repoID oid =
    filepath_Clean (root @ ''/lfs'') @ below [repoID, ''objects'', slice 0 2 oid, slice 2 4 oid, oid]"
proof -
  have "plain_part ''lfs''" "plain_part ''objects''" by (simp_all add: plain_part_def)
  with assms oid_parts [of oid] uuid_plain [of repoID] show ?thesis
    by (simp add: objectPath_def Join_below lfs_key_def del: below_simps)
qed

lemma same_length_parts:
  "length r = length r' \<Longrightarrow> r @ CHR ''/'' # x = r' @ CHR ''/'' # y \<longleftrightarrow> r = r' \<and> x = y"
  by simp

lemma objectPath_inject:
  assumes "root \<noteq> []" "lfs_key r v" "lfs_key r' v'"
  shows "objectPath root r v = objectPath root r' v' \<longleftrightarrow> r = r' \<and> v = v'"
proof -
  have "length r = length r'" using assms(2,3) by (simp add: lfs_key_def isCanonicalUUID_bytes)
  moreover have "length (slice i j v) = length (slice i j v')" for i j
    using assms(2,3) by (simp add: lfs_key_def lfs_oid_def slice_def)
  ultimately show ?thesis
    by (auto simp: objectPath_eq [OF assms(1)] assms(2,3))
qed

lemma objectPath_base:
  assumes "root \<noteq> []" "lfs_key r v"
  shows "filepath_Base (objectPath root r v) = v"
proof -
  let ?d = "filepath_Clean (root @ ''/lfs'') @ below [r, ''objects'', slice 0 2 v, slice 2 4 v]"
  have "objectPath root r v = ?d @ CHR ''/'' # v" by (simp add: objectPath_eq [OF assms])
  then show ?thesis using Base_snoc [of v ?d] oid_parts assms(2) by (simp add: lfs_key_def)
qed

text \<open>A temporary file of an upload is never at the path of an object.\<close>

lemma upload_not_object:
  assumes "root \<noteq> []" "lfs_key r v" "CHR ''/'' \<notin> set x"
  shows "objectPath root r v \<noteq> d @ ''/.upload-'' @ x"
proof
  assume eq: "objectPath root r v = d @ ''/.upload-'' @ x"
  have "filepath_Base (d @ CHR ''/'' # (''.upload-'' @ x)) = ''.upload-'' @ x"
    using assms(3) by (intro Base_snoc) (auto simp: plain_part_def)
  with eq objectPath_base [OF assms(1,2)] have "v = ''.upload-'' @ x" by simp
  with assms(2) show False by (simp add: lfs_key_def lfs_oid_def isLowerHexDigit_def)
qed

section \<open>The contract\<close>

text \<open>
  What the store relies on: \<open>content s p\<close> is the content of the regular file at \<open>p\<close>.  A regular file
  can be examined and read; making directories and closing change no file; a temporary file is
  new and empty and its name starts with the prefix of the pattern; a write that succeeds appends
  the bytes, one that fails changes the file it writes to only; a rename moves the content or
  changes nothing; a removal concerns the file it names only.
\<close>

locale file_host =
  fixes h :: "'s fileHost" and content :: "'s \<Rightarrow> string \<Rightarrow> string option"
  assumes stat_file: "content s p = Some c \<Longrightarrow>
      fh_Stat h p s = Inr \<lparr>fi_IsRegular = True, fi_Size = int (length c)\<rparr>"
    and stat_other: "content s p = None \<Longrightarrow> fh_Stat h p s = Inr info \<Longrightarrow> \<not> fi_IsRegular info"
    and open_file: "content s p = Some c \<Longrightarrow>
      fh_Open h p s = Inr \<lparr>of_Stat = Inr \<lparr>fi_IsRegular = True, fi_Size = int (length c)\<rparr>,
                           of_Body = \<lparr>body_bytes = c, body_err = None\<rparr>\<rparr>"
    and open_other: "content s p = None \<Longrightarrow> fh_Open h p s = Inr f \<Longrightarrow> of_Stat f = Inr info \<Longrightarrow>
      \<not> fi_IsRegular info"
    and mkdir_files: "fh_MkdirAll h p s = (e, s') \<Longrightarrow> content s' = content s"
    and temp_created: "fh_CreateTemp h d ''.upload-*'' s = (Inr t, s') \<Longrightarrow>
      content s t = None \<and> content s' = (content s)(t \<mapsto> []) \<and>
      (\<exists>e x. t = e @ ''/.upload-'' @ x \<and> CHR ''/'' \<notin> set x)"
    and temp_failed: "fh_CreateTemp h d ''.upload-*'' s = (Inl err, s') \<Longrightarrow> content s' = content s"
    and write_done: "fh_Write h t bs s = ((n, None), s') \<Longrightarrow> content s t = Some c \<Longrightarrow>
      n = length bs \<and> content s' t = Some (c @ bs)"
    and write_frame: "fh_Write h t bs s = (r, s') \<Longrightarrow> q \<noteq> t \<Longrightarrow> content s' q = content s q"
    and close_files: "fh_Close h p s = (e, s') \<Longrightarrow> content s' = content s"
    and rename_done: "fh_Rename h p q s = (None, s') \<Longrightarrow> content s p = Some c \<Longrightarrow> p \<noteq> q \<Longrightarrow>
      content s' = (content s)(q \<mapsto> c, p := None)"
    and rename_failed: "fh_Rename h p q s = (Some err, s') \<Longrightarrow> content s' = content s"
    and remove_frame: "fh_Remove h p s = (e, s') \<Longrightarrow> q \<noteq> p \<Longrightarrow> content s' q = content s q"

text \<open>Every stored object has the digest that names it.\<close>

definition addressed :: "(string \<Rightarrow> string \<Rightarrow> string option) \<Rightarrow> (string \<Rightarrow> string) \<Rightarrow> bool" where
  "addressed object digest \<longleftrightarrow> (\<forall>r v c. lfs_key r v \<longrightarrow> object r v = Some c \<longrightarrow> digest c = v)"

text \<open>
  What the store promises, for the keys the handlers use (a canonical repository identifier and
  an object identifier): \<open>object s r v\<close> is the content of the object.
\<close>

locale lfs_storage =
  fixes store :: "'s lfsObjectStore"
    and object :: "'s \<Rightarrow> string \<Rightarrow> string \<Rightarrow> string option"
    and digest :: "string \<Rightarrow> string"
  assumes put_done: "lfs_Put store ctx r v n m body s = (None, s') \<Longrightarrow> lfs_key r v \<Longrightarrow> m < 2 ^ 63 - 1 \<Longrightarrow>
      object s' r v = Some (body_bytes body) \<and> body_err body = None \<and>
      int (length (body_bytes body)) = n \<and> n \<le> normalizeMaxLFSObjectBytes m \<and>
      digest (body_bytes body) = v"
    and put_frame: "lfs_Put store ctx r v n m body s = (e, s') \<Longrightarrow> lfs_key r v \<Longrightarrow> lfs_key r' v' \<Longrightarrow>
      e \<noteq> None \<or> (r', v') \<noteq> (r, v) \<Longrightarrow> object s' r' v' = object s r' v'"
    and exists_object: "lfs_key r v \<Longrightarrow> object s r v = Some c \<Longrightarrow>
      lfs_Exists store None r v n s = Inr (int (length c) = n)"
    and exists_none: "lfs_key r v \<Longrightarrow> object s r v = None \<Longrightarrow> lfs_Exists store ctx r v n s \<noteq> Inr True"
    and open_object: "lfs_key r v \<Longrightarrow> object s r v = Some c \<Longrightarrow>
      lfs_Open store None r v s = Inr \<lparr>lso_Size = int (length c), lso_Body = \<lparr>body_bytes = c, body_err = None\<rparr>\<rparr>"
    and open_none: "lfs_key r v \<Longrightarrow> object s r v = None \<Longrightarrow> lfs_Open store ctx r v s \<noteq> Inr x"
    and open_cancelled: "lfs_Open store (Some err) r v s = Inl err"
begin

lemma put_addressed:
  assumes "addressed (object s) digest" "lfs_Put store ctx r v n m body s = (e, s')" "lfs_key r v" "m < 2 ^ 63 - 1"
  shows "addressed (object s') digest"
  unfolding addressed_def
proof (intro allI impI)
  fix r' v' c
  assume k: "lfs_key r' v'" and c: "object s' r' v' = Some c"
  show "digest c = v'"
  proof (cases "e = None \<and> (r', v') = (r, v)")
    case True
    with put_done [of ctx r v n m body s s'] assms(2-4) c show ?thesis by auto
  next
    case False
    with put_frame [OF assms(2,3) k] c have "object s r' v' = Some c" by auto
    with assms(1) k show ?thesis by (simp add: addressed_def)
  qed
qed

lemma open_addressed:
  assumes "addressed (object s) digest" "lfs_key r v" "lfs_Open store ctx r v s = Inr x"
  shows "digest (body_bytes (lso_Body x)) = v" "lso_Size x = int (length (body_bytes (lso_Body x)))"
    "body_err (lso_Body x) = None" "object s r v = Some (body_bytes (lso_Body x))"
proof -
  have ctx: "ctx = None" using assms(3) open_cancelled by (cases ctx) auto
  obtain c where c: "object s r v = Some c" using open_none [OF assms(2)] assms(3) by fastforce
  with open_object [OF assms(2) c] assms ctx show "digest (body_bytes (lso_Body x)) = v"
    "lso_Size x = int (length (body_bytes (lso_Body x)))" "body_err (lso_Body x) = None"
    "object s r v = Some (body_bytes (lso_Body x))"
    by (auto simp: addressed_def)
qed

end

section \<open>The file-system store meets the contract\<close>

lemma normalizeMax_pos: "0 < normalizeMaxLFSObjectBytes m"
  by (simp add: normalizeMaxLFSObjectBytes_def DefaultMaxLFSObjectBytes_def)

lemma LimitedReader_whole:
  assumes "m < 2 ^ 63 - 1" "int (length (body_bytes (LimitedReader (int64 (normalizeMaxLFSObjectBytes m + 1)) b)))
      \<le> normalizeMaxLFSObjectBytes m"
  shows "LimitedReader (int64 (normalizeMaxLFSObjectBytes m + 1)) b = b"
proof -
  let ?n = "normalizeMaxLFSObjectBytes m"
  have "?n < 2 ^ 63 - 1" using assms(1) by (simp add: normalizeMaxLFSObjectBytes_def DefaultMaxLFSObjectBytes_def)
  then have "int64 (?n + 1) = ?n + 1" using normalizeMax_pos [of m] by (intro int64_id) auto
  with assms(2) normalizeMax_pos [of m] show ?thesis
    by (auto simp: LimitedReader_def split: if_splits)
qed

text \<open>
  At the largest limit the bound of the reader, one byte more, wraps around to a negative number:
  nothing is read, and every upload of an object that is not empty fails.
\<close>

lemma largest_limit_refuses:
  assumes "0 < n" "\<And>t s k s'. fh_Write h t [] s = ((k, None), s') \<Longrightarrow> k = 0"
  shows "fst (filesystem_Put h sha256 root ctx r v n (2 ^ 63 - 1) body s) \<noteq> None"
proof -
  have m: "normalizeMaxLFSObjectBytes 9223372036854775807 = 9223372036854775807" 
    "LimitedReader (int64 9223372036854775808) b = \<lparr>body_bytes = [], body_err = None\<rparr>" for b
    by (simp_all add: normalizeMaxLFSObjectBytes_def LimitedReader_def int64_def)
  have no_put: "put_temp h sha256 t p v n 9223372036854775807 body s \<noteq> (None, s')" for t p s s'
  proof
    assume put: "put_temp h sha256 t p v n 9223372036854775807 body s = (None, s')"
    obtain k werr s1 where copy: "fh_Write h t [] s = ((k, werr), s1)" by (metis surj_pair)
    with assms(2) have "werr = None \<Longrightarrow> k = 0" by blast
    with put assms(1) show False
      by (auto simp: put_temp_def m(2) copy_to_file_def copy Let_def
          split: prod.splits option.splits if_splits)
  qed
  then show ?thesis
    by (auto simp: filesystem_Put_def m(1) no_put Let_def split: option.split prod.split sum.split)
qed

locale fs_lfs = file_host h content for h :: "'s fileHost" and content :: "'s \<Rightarrow> string \<Rightarrow> string option" +
  fixes sha256 :: "string \<Rightarrow> byte list" and root :: string
  assumes root_nonempty: "root \<noteq> []"
begin

lemma put_temp_run:
  assumes "put_temp h sha256 t p v n m body s = (e, s')" "content s t = Some []" "t \<noteq> p"
  shows "\<And>q. q \<noteq> t \<Longrightarrow> q \<noteq> p \<or> e \<noteq> None \<Longrightarrow> content s' q = content s q"
    and "e = None \<Longrightarrow> (let b = LimitedReader (int64 (m + 1)) body in
      content s' p = Some (body_bytes b) \<and> body_err b = None \<and> int (length (body_bytes b)) = n \<and> n \<le> m \<and>
      hex_EncodeToString (sha256 (body_bytes b)) = v)"
proof -
  let ?b = "LimitedReader (int64 (m + 1)) body"
  obtain w1 s1 where copy: "fh_Write h t (body_bytes ?b) s = (w1, s1)" by fastforce
  obtain w werr where w1: "w1 = (w, werr)" by fastforce
  obtain ce s2 where cl: "fh_Close h t s1 = (ce, s2)" by fastforce
  have off: "content s2 q = content s q" if "q \<noteq> t" for q
    using write_frame [OF copy that] close_files [OF cl] by simp
  have wrote: "w = length (body_bytes ?b) \<and> content s2 t = Some (body_bytes ?b)" if "werr = None"
    using write_done [of t "body_bytes ?b" s w s1 "[]"] copy w1 that assms(2) close_files [OF cl] by simp
  have run: "e \<noteq> None \<and> (s' = s2 \<or> fh_Rename h t p s2 = (e, s')) \<or>
      e = None \<and> werr = None \<and> body_err ?b = None \<and> int w = n \<and> n \<le> m \<and>
      hex_EncodeToString (sha256 (take w (body_bytes ?b))) = v \<and> fh_Rename h t p s2 = (None, s')"
    using assms(1) copy w1 cl
    by (auto simp: put_temp_def copy_to_file_def Let_def split: option.splits if_splits)
  { assume e: "e = None"
    with run have r: "werr = None" "fh_Rename h t p s2 = (None, s')" by auto
    from rename_done [OF r(2)] wrote [OF r(1)] assms(3)
    have "content s' = (content s2)(p \<mapsto> body_bytes ?b, t := None)" by simp
    note r this }
  note ok = this
  show "content s' q = content s q" if "q \<noteq> t" "q \<noteq> p \<or> e \<noteq> None" for q
  proof (cases "e = None")
    case True
    with ok(3) that off show ?thesis by simp
  next
    case False
    with run rename_failed have "content s' = content s2" by (metis option.exhaust)
    with off that(1) show ?thesis by simp
  qed
  show "let b = ?b in content s' p = Some (body_bytes b) \<and> body_err b = None \<and>
      int (length (body_bytes b)) = n \<and> n \<le> m \<and> hex_EncodeToString (sha256 (body_bytes b)) = v"
    if "e = None"
    using that run ok wrote assms(3) by (auto simp: Let_def)
qed

lemma put_run:
  assumes "filesystem_Put h sha256 root ctx r v n m body s = (e, s')" "lfs_key r v"
  shows "lfs_key r' v' \<Longrightarrow> e \<noteq> None \<or> (r', v') \<noteq> (r, v) \<Longrightarrow>
      content s' (objectPath root r' v') = content s (objectPath root r' v')"
    and "e = None \<Longrightarrow> m < 2 ^ 63 - 1 \<Longrightarrow>
      content s' (objectPath root r v) = Some (body_bytes body) \<and> body_err body = None \<and>
      int (length (body_bytes body)) = n \<and> n \<le> normalizeMaxLFSObjectBytes m \<and>
      hex_EncodeToString (sha256 (body_bytes body)) = v"
proof -
  let ?p = "objectPath root r v" and ?m = "normalizeMaxLFSObjectBytes m"
  obtain e1 s1 where mk: "fh_MkdirAll h (filepath_Dir ?p) s = (e1, s1)" by fastforce
  obtain tr s2 where ct: "fh_CreateTemp h (filepath_Dir ?p) ''.upload-*'' s1 = (tr, s2)" by fastforce
  have f1: "content s1 = content s" using mkdir_files [OF mk] .
  have cases: "e \<noteq> None \<and> (s' = s \<or> s' = s1 \<or> (s' = s2 \<and> (\<exists>err. tr = Inl err))) \<or>
      (\<exists>t e3 s3. tr = Inr t \<and> put_temp h sha256 t ?p v n ?m body s2 = (e3, s3) \<and> e = e3 \<and>
        s' = (if e3 = None then s3 else snd (fh_Remove h t s3)))"
    using assms(1) mk ct
    by (auto simp: filesystem_Put_def Let_def split: option.splits if_splits sum.splits prod.splits)
  { fix t assume t: "tr = Inr t"
    from temp_created [of "filepath_Dir ?p" s1 t s2] ct t obtain x y where
      "t = x @ ''/.upload-'' @ y" "CHR ''/'' \<notin> set y" "content s2 = (content s1)(t \<mapsto> [])" by auto
    then have "objectPath root r' v' \<noteq> t" "content s2 t = Some []" "\<And>q. q \<noteq> t \<Longrightarrow> content s2 q = content s q"
      if "lfs_key r' v'" for r' v'
      using upload_not_object [OF root_nonempty that] f1 by auto
    note this }
  note temp = this
  show "content s' (objectPath root r' v') = content s (objectPath root r' v')"
    if k: "lfs_key r' v'" and o: "e \<noteq> None \<or> (r', v') \<noteq> (r, v)"
    using cases
  proof (elim disjE exE conjE)
    fix t e3 s3
    assume a: "tr = Inr t" "put_temp h sha256 t ?p v n ?m body s2 = (e3, s3)" "e = e3"
      "s' = (if e3 = None then s3 else snd (fh_Remove h t s3))"
    have "content s3 (objectPath root r' v') = content s2 (objectPath root r' v')"
      using put_temp_run(1) [OF a(2)] temp [OF a(1)] k o assms(2) a(3)
        objectPath_inject [OF root_nonempty k assms(2)] by metis
    moreover have "content s' (objectPath root r' v') = content s3 (objectPath root r' v')"
      using a(4) remove_frame [of t s3] temp(1) [OF a(1) k] by (metis prod.collapse)
    ultimately show ?thesis using temp [OF a(1) k] by simp
  qed (use f1 ct temp_failed in \<open>auto\<close>)
  show "content s' ?p = Some (body_bytes body) \<and> body_err body = None \<and> int (length (body_bytes body)) = n \<and>
      n \<le> ?m \<and> hex_EncodeToString (sha256 (body_bytes body)) = v"
    if e: "e = None" and m: "m < 2 ^ 63 - 1"
  proof -
    from cases e obtain t where t: "tr = Inr t" "put_temp h sha256 t ?p v n ?m body s2 = (None, s')" by auto
    from put_temp_run(2) [OF t(2)] temp [OF t(1) assms(2)] LimitedReader_whole [OF m, of body]
    show ?thesis by (auto simp: Let_def)
  qed
qed

end

sublocale fs_lfs \<subseteq> lfs_storage "filesystemLFSObjectStore h sha256 root"
  "\<lambda>s r v. content s (objectPath root r v)" "\<lambda>c. hex_EncodeToString (sha256 c)"
proof (unfold_locales, goal_cases)
  case (1 ctx r v n m body s s')
  then show ?case using put_run(2) by (simp add: filesystemLFSObjectStore_def)
next
  case (2 ctx r v n m body s e s' r' v')
  then show ?case using put_run(1) by (simp add: filesystemLFSObjectStore_def)
next
  case (3 r v s c n)
  then show ?case by (simp add: filesystemLFSObjectStore_def filesystem_Exists_def stat_file)
next
  case (4 r v s ctx n)
  then show ?case
    by (auto simp: filesystemLFSObjectStore_def filesystem_Exists_def
        split: option.splits sum.splits fileError.splits dest: stat_other)
next
  case (5 r v s c)
  then show ?case by (simp add: filesystemLFSObjectStore_def filesystem_Open_def open_file)
next
  case (6 r v s ctx x)
  then show ?case
    by (auto simp: filesystemLFSObjectStore_def filesystem_Open_def
        split: option.splits sum.splits fileError.splits if_splits dest: open_other)
next
  case (7 e r v s)
  then show ?case by (simp add: filesystemLFSObjectStore_def filesystem_Open_def)
qed

context fs_lfs begin

lemma lfs_contract:
  "lfs_storage (filesystemLFSObjectStore h sha256 root) (\<lambda>s r v. content s (objectPath root r v))
     (\<lambda>c. hex_EncodeToString (sha256 c))"
  by (rule lfs_storage_axioms)

end

lemma fs_lfs_contract:
  "file_host h content \<Longrightarrow>
     lfs_storage (filesystemLFSObjectStore h sha256 (newFilesystemLFSObjectStore root))
       (\<lambda>s r v. content s (objectPath (newFilesystemLFSObjectStore root) r v))
       (\<lambda>c. hex_EncodeToString (sha256 c))"
  by (intro fs_lfs.lfs_contract fs_lfs.intro fs_lfs_axioms.intro)
    (simp_all add: newFilesystemLFSObjectStore_def defaultGitStorageRoot_def Let_def)

text \<open>
  The laws of \<open>file_host\<close> can hold together: a host whose world is a map from paths to contents.
  A temporary file gets a name that is longer than every name in use.
\<close>

definition map_files :: "(string, string) gomap fileHost" where
  "map_files =
     \<lparr>fh_MkdirAll = (\<lambda>p s. (None, s)),
      fh_CreateTemp = (\<lambda>d pat s.
        let t = d @ ''/.upload-'' @ replicate (sum_list (map (length \<circ> fst) s)) (CHR ''0'')
        in (Inr t, AList.update t [] s)),
      fh_Write = (\<lambda>p bs s.
        ((length bs, None), AList.update p ((case map_of s p of Some c \<Rightarrow> c | None \<Rightarrow> []) @ bs) s)),
      fh_Close = (\<lambda>p s. (None, s)),
      fh_Rename = (\<lambda>p q s. case map_of s p of
          None \<Rightarrow> (Some (errOther ''file does not exist''), s)
        | Some c \<Rightarrow> (None, AList.delete p (AList.update q c s))),
      fh_Remove = (\<lambda>p s. (None, AList.delete p s)),
      fh_Stat = (\<lambda>p s. case map_of s p of
          None \<Rightarrow> Inl ErrNotExist
        | Some c \<Rightarrow> Inr \<lparr>fi_IsRegular = True, fi_Size = int (length c)\<rparr>),
      fh_Open = (\<lambda>p s. case map_of s p of
          None \<Rightarrow> Inl ErrNotExist
        | Some c \<Rightarrow> Inr \<lparr>of_Stat = Inr \<lparr>fi_IsRegular = True, fi_Size = int (length c)\<rparr>,
                         of_Body = \<lparr>body_bytes = c, body_err = None\<rparr>\<rparr>)\<rparr>"

lemma fresh_name:
  assumes "sum_list (map (length \<circ> fst) s) < length t"
  shows "map_of s t = None"
proof (rule ccontr)
  assume "map_of s t \<noteq> None"
  then obtain c where "(t, c) \<in> set s" by (auto dest: map_of_SomeD)
  then have "length t \<le> sum_list (map (length \<circ> fst) s)"
    by (induction s) auto
  with assms show False by simp
qed

interpretation map_files: file_host map_files map_of
proof (unfold_locales, goal_cases)
  case (6 d s t s')
  then have t: "t = d @ ''/.upload-'' @ replicate (sum_list (map (length \<circ> fst) s)) (CHR ''0'')"
    "s' = AList.update t [] s"
    by (auto simp: map_files_def Let_def)
  then have "map_of s t = None" by (intro fresh_name) simp
  moreover have "CHR ''/'' \<notin> set (replicate n (CHR ''0''))" for n by simp
  moreover have "map_of s' = (map_of s)(t \<mapsto> [])" unfolding t(2) by (rule gomap_get_put)
  ultimately show ?case using t(1) by blast
qed (auto simp: map_files_def Let_def fun_upd_twist split: option.splits)

text \<open>A store on one part of a state, as a store on the whole of it.\<close>

definition lfs_on :: "'w lfsObjectStore \<Rightarrow> ('m \<times> 'w) lfsObjectStore" where
  "lfs_on store =
     \<lparr>lfs_Exists = (\<lambda>ctx r v n (m, w). lfs_Exists store ctx r v n w),
      lfs_Put = (\<lambda>ctx r v n k body (m, w). let (e, w') = lfs_Put store ctx r v n k body w in (e, m, w')),
      lfs_Open = (\<lambda>ctx r v (m, w). lfs_Open store ctx r v w)\<rparr>"

interpretation map_lfs: fs_lfs map_files map_of sha256 defaultGitStorageRoot for sha256
  by unfold_locales (simp add: defaultGitStorageRoot_def)

end
