(* ===== verification/Repository_Ids.thy ===== *)
theory Repository_Ids
  imports Repository
begin

text \<open>
  Identifiers and tokens from random bytes (\<open>newUUID\<close>, \<open>generateRepoToken\<close>): the identifiers
  the stores mint are canonical version 4 UUIDs, so the control API can parse what it hands
  out, and different random bytes give different tokens.
\<close>

section \<open>UUIDs\<close>

lemma all_less_append:
  "(\<forall>j < length (a @ b). p (k + j) ((a @ b) ! j)) \<longleftrightarrow>
     (\<forall>j < length a. p (k + j) (a ! j)) \<and> (\<forall>j < length b. p (k + length a + j) (b ! j))"
proof (intro iffI conjI allI impI, goal_cases)
  case (1 j)
  then show ?case by (metis length_append nth_append trans_less_add1)
next
  case (2 j)
  from 2(1) [rule_format, of "length a + j"] 2(2) show ?case by (simp add: add.assoc)
next
  case (3 j)
  then show ?case by (cases "j < length a") (auto simp: nth_append dest!: spec [of _ "j - length a"])
qed

lemma length_slice: "j \<le> length xs \<Longrightarrow> i \<le> j \<Longrightarrow> length (slice i j xs) = j - i"
  by (simp add: slice_def)

lemma set_slice: "set (slice i j xs) \<subseteq> set xs"
  by (auto simp: slice_def dest: in_set_takeD in_set_dropD)

lemma hex_digit_lower: "n < 16 \<Longrightarrow> isLowerHexDigit (chr_nat (hex_digit n))"
  using hex_digit_range [of n] by (auto simp: isLowerHexDigit_def)

lemma hex_chars: "c \<in> set (hex_EncodeToString bs) \<Longrightarrow> isLowerHexDigit (chr_nat c)"
  by (auto simp: hex_EncodeToString_def hex_byte_def hex_digit_lower byte_nibbles)

lemma hex_digit_values:
  "hex_digit 4 = CHR ''4''" "hex_digit 8 = CHR ''8''" "hex_digit 9 = CHR ''9''"
  "hex_digit 10 = CHR ''a''" "hex_digit 11 = CHR ''b''"
  by code_simp+

lemma uuid_layout_canonical:
  assumes "length u = 32" "\<forall>c \<in> set u. isLowerHexDigit (chr_nat c)"
  shows "isCanonicalUUID (uuid_layout u)"
proof -
  have seg: "isLowerHexDigit (chr_nat (slice i j u ! k))" if "k < length (slice i j u)" for i j k
    using assms(2) set_slice [of i j u] nth_mem [OF that] by blast
  have "\<forall>j < length (uuid_layout u). uuid_rune (0 + j) (chr_nat (uuid_layout u ! j))"
    unfolding uuid_layout_def
    unfolding all_less_append [where p = "\<lambda>i c. uuid_rune i (chr_nat c)"]
    using assms(1)
    by (intro conjI) (auto simp: length_slice uuid_rune_def seg)
  moreover have "length (uuid_layout u) = 36"
    using assms(1) by (simp add: uuid_layout_def length_slice)
  ultimately show ?thesis by (simp add: isCanonicalUUID_bytes)
qed

lemma byte_high: "unat (w :: byte) div 2 ^ n = unat (drop_bit n w)"
  by (simp only: unat_drop_bit_eq) (simp add: drop_bit_eq_div)

lemma version_nibble: "unat ((x AND 0x0f) OR 0x40 :: byte) div 16 = 4"
proof -
  have "drop_bit 4 ((x AND 0x0f) OR 0x40 :: byte) = 4" by simp
  then show ?thesis using byte_high [of "(x AND 0x0f) OR 0x40" 4] by (simp only:) simp
qed

lemma variant_bits: "unat ((x AND 0x3f) OR 0x80 :: byte) div 64 = 2"
proof -
  have "drop_bit 6 ((x AND 0x3f) OR 0x80 :: byte) = 2" by simp
  then show ?thesis using byte_high [of "(x AND 0x3f) OR 0x80" 6] by (simp only:) simp
qed

lemma variant_nibble: "unat ((x AND 0x3f) OR 0x80 :: byte) div 16 \<in> {8, 9, 10, 11}"
proof -
  let ?n = "unat ((x AND 0x3f) OR 0x80 :: byte)"
  have "?n div 16 div 4 = 2" using variant_bits [of x] by (simp flip: div_mult2_eq)
  then show ?thesis by auto
qed

lemma uuid_layout_nth:
  assumes "length u = 32"
  shows "uuid_layout u ! 14 = u ! 12" and "uuid_layout u ! 19 = u ! 16"
  using assms by (simp_all add: uuid_layout_def slice_def nth_append)

lemma newUUID_Inr:
  assumes "newUUID draw = Inr v"
  obtains raw x y where "length raw = 16" "v = uuid_layout (hex_EncodeToString raw)"
    and "raw ! 6 = (x AND 0x0f) OR 0x40" "raw ! 8 = (y AND 0x3f) OR 0x80"
proof -
  from assms obtain f where "draw = Inr f" by (auto simp: newUUID_def split: sum.splits)
  with assms show ?thesis
    by (intro that [of "(rand_bytes 16 f)[6 := (rand_bytes 16 f ! 6 AND 0x0f) OR 0x40,
          8 := (rand_bytes 16 f ! 8 AND 0x3f) OR 0x80]" "f 6" "f 8"])
      (auto simp: newUUID_def rand_bytes_def)
qed

lemma newUUID_canonical: "newUUID draw = Inr v \<Longrightarrow> isCanonicalUUID v"
  by (erule newUUID_Inr) (simp add: uuid_layout_canonical hex_chars)

text \<open>
  \<open>newUUID\<close>.  Whatever the random source returns, an identifier minted by \<open>newUUID\<close> is a
  canonical UUID of version 4 (its 15th character is 4) and of the RFC 4122 variant (its 20th
  is 8, 9, a or b), and the control API reads back the external forms of a repository and of a
  token identifier made from it.
\<close>
lemma newUUID_version4:
  assumes "newUUID draw = Inr v"
  shows "isCanonicalUUID v \<and> v ! 14 = CHR ''4'' \<and>
    v ! 19 \<in> {CHR ''8'', CHR ''9'', CHR ''a'', CHR ''b''} \<and>
    parseRepoControlID (formatRepoControlID v) = Some v \<and>
    parseRepoTokenControlID (formatRepoTokenControlID v) = Some v"
proof -
  from assms obtain raw x y where raw: "length raw = 16" "v = uuid_layout (hex_EncodeToString raw)"
    "raw ! 6 = (x AND 0x0f) OR 0x40" "raw ! 8 = (y AND 0x3f) OR 0x80"
    by (rule newUUID_Inr)
  have "v ! 14 = hex_digit 4" "v ! 19 = hex_digit (unat (raw ! 8) div 16)"
    using raw version_nibble [of x] by (simp_all add: uuid_layout_nth nth_hex)
  moreover have "hex_digit (unat (raw ! 8) div 16) \<in> {CHR ''8'', CHR ''9'', CHR ''a'', CHR ''b''}"
    using raw(4) variant_nibble [of y] by (auto simp: hex_digit_values)
  ultimately show ?thesis
    using newUUID_canonical [OF assms]
    by (simp add: hex_digit_values repo_id.parse_format token_id.parse_format)
qed

lemma newUUID_version4_witness:
  "newUUID (Inr (\<lambda>i. 0)) = Inr ''00000000-0000-4000-8000-000000000000'' \<and>
   parseRepoControlID (formatRepoControlID ''00000000-0000-4000-8000-000000000000'') =
     Some ''00000000-0000-4000-8000-000000000000''"
proof -
  have eq: "newUUID (Inr (\<lambda>i. 0)) = Inr ''00000000-0000-4000-8000-000000000000''"
    by code_simp
  then show ?thesis using newUUID_version4 [OF eq] by blast
qed

section \<open>Tokens\<close>

lemma length_RawURLEncoding:
  "length (RawURLEncoding bs) = (4 * length bs + 2) div 3"
  by (induction bs rule: RawURLEncoding.induct) (simp_all add: Let_def)

lemma rand_bytes_inject: "rand_bytes n f = rand_bytes n g \<longleftrightarrow> (\<forall>i < n. f i = g i)"
  by (auto simp: rand_bytes_def)

text \<open>
  \<open>generateRepoToken\<close>: A token is \<open>gtd_\<close> and 43 characters, and it determines its random
  bytes: two draws give the same token only if all their 32 bytes agree, so no entropy is lost
  in the encoding.
\<close>
lemma generateRepoToken_injective:
  "(generateRepoToken (Inr f) = generateRepoToken (Inr g) \<longleftrightarrow> rand_bytes 32 f = rand_bytes 32 g) \<and>
   (\<exists>t. generateRepoToken (Inr f) = Inr (''gtd_'' @ t) \<and> length t = 43)"
  by (simp add: generateRepoToken_def base64_inject length_RawURLEncoding rand_bytes_def)

lemma generateRepoToken_shape:
  "generateRepoToken draw = Inr t \<Longrightarrow> length t = 47 \<and> strings_HasPrefix t ''gtd_''"
  by (auto simp: generateRepoToken_def length_RawURLEncoding rand_bytes_def strings_HasPrefix_def
      split: sum.splits)

lemma generateRepoToken_nonempty: "generateRepoToken draw = Inr t \<Longrightarrow> t \<noteq> []"
  using generateRepoToken_shape by fastforce

end
