(* ===== verification/Repository_Store.thy ===== *)
theory Repository_Store
  imports Repository_Ids
begin

text \<open>
  Correctness of the in-memory repository store: the loop that draws tokens, the invariant that
  ties the four maps together, its preservation by every operation, and the step relation of
  the store with the facts that survive any sequence of operations.
\<close>

section \<open>The token loop\<close>

declare draw_token.simps [code]

lemma draw_token_error:
  "generateRepoToken (draws i) = Inl e \<Longrightarrow> draw_token sha known draws i = Some (Inl e)"
  by (simp add: draw_token.simps [of sha known draws i])

lemma draw_token_known:
  "generateRepoToken (draws i) = Inr t \<Longrightarrow> map_of known (hashRepoToken sha t) = Some k \<Longrightarrow>
     draw_token sha known draws i = draw_token sha known draws (Suc i)"
  by (simp add: draw_token.simps [of sha known draws i])

lemma draw_token_new:
  "generateRepoToken (draws i) = Inr t \<Longrightarrow> map_of known (hashRepoToken sha t) = None \<Longrightarrow>
     draw_token sha known draws i = Some (Inr (t, hashRepoToken sha t))"
  by (simp add: draw_token.simps [of sha known draws i])

text \<open>What the loop returns: a drawn token whose hash is not known yet, or the error of a draw.\<close>

definition draw_stops :: "(string \<Rightarrow> byte list) \<Rightarrow> (string, string) gomap \<Rightarrow> rand_read \<Rightarrow> bool" where
  "draw_stops sha known draw \<longleftrightarrow>
     (case generateRepoToken draw of
        Inl e \<Rightarrow> True | Inr t \<Rightarrow> map_of known (hashRepoToken sha t) = None)"

definition draw_result :: "(string \<Rightarrow> byte list) \<Rightarrow> rand_read \<Rightarrow> (string \<times> string) result" where
  "draw_result sha draw =
     (case generateRepoToken draw of Inl e \<Rightarrow> Inl e | Inr t \<Rightarrow> Inr (t, hashRepoToken sha t))"

lemma draw_token_here:
  "draw_stops sha known (draws i) \<Longrightarrow> draw_token sha known draws i = Some (draw_result sha (draws i))"
  by (auto simp: draw_stops_def draw_result_def draw_token_error draw_token_new split: sum.splits)

lemma draw_token_next:
  "\<not> draw_stops sha known (draws i) \<Longrightarrow>
     draw_token sha known draws i = draw_token sha known draws (Suc i)"
  by (auto simp: draw_stops_def draw_token_known split: sum.splits)

lemma draw_token_skip:
  "(\<And>j. i \<le> j \<Longrightarrow> j < n \<Longrightarrow> \<not> draw_stops sha known (draws j)) \<Longrightarrow> i \<le> n \<Longrightarrow>
     draw_token sha known draws i = draw_token sha known draws n"
proof (induction "n - i" arbitrary: i)
  case 0
  then show ?case by simp
next
  case (Suc m)
  then have "i < n" and "\<not> draw_stops sha known (draws i)" by auto
  then have "draw_token sha known draws i = draw_token sha known draws (Suc i)"
    by (blast intro: draw_token_next)
  also have "\<dots> = draw_token sha known draws n"
    using Suc.hyps(1) [of "Suc i"] Suc.hyps(2) Suc.prems \<open>i < n\<close> by auto
  finally show ?case .
qed

lemma draw_token_returns:
  assumes "draw_stops sha known (draws n)"
  shows "\<exists>m \<le> n. draw_stops sha known (draws m) \<and>
    draw_token sha known draws 0 = Some (draw_result sha (draws m))"
proof -
  define m where "m = (LEAST m. draw_stops sha known (draws m))"
  have stop: "draw_stops sha known (draws m)" and le: "m \<le> n"
    unfolding m_def using assms by (auto intro: LeastI Least_le)
  have "draw_token sha known draws 0 = draw_token sha known draws m"
    by (rule draw_token_skip) (auto simp: m_def dest: not_less_Least)
  with stop le show ?thesis by (auto simp: draw_token_here)
qed

lemma draw_token_Some_stops:
  assumes "draw_token sha known draws i = Some r"
  shows "\<exists>j. draw_stops sha known (draws j) \<and> r = draw_result sha (draws j)"
proof (rule draw_token.raw_induct
    [where P = "\<lambda>sha known draws i r. \<exists>j. draw_stops sha known (draws j) \<and> r = draw_result sha (draws j)", OF _ assms])
  fix f sha known draws i r
  assume IH: "\<And>sha known draws i r. f sha known draws i = Some r \<Longrightarrow>
      \<exists>j. draw_stops sha known (draws j) \<and> r = draw_result sha (draws j)"
    and eq: "(case generateRepoToken (draws i) of
        Inl err \<Rightarrow> Some (Inl err)
      | Inr generated \<Rightarrow>
          let hash = hashRepoToken sha generated
          in if map_of known hash \<noteq> None then f sha known draws (Suc i) else Some (Inr (generated, hash))) = Some r"
  show "\<exists>j. draw_stops sha known (draws j) \<and> r = draw_result sha (draws j)"
  proof (cases "draw_stops sha known (draws i)")
    case True
    with eq show ?thesis
      by (intro exI [of _ i]) (auto simp: draw_stops_def draw_result_def split: sum.splits)
  next
    case False
    with eq have "f sha known draws (Suc i) = Some r" by (auto simp: draw_stops_def split: sum.splits)
    then show ?thesis by (rule IH)
  qed
qed


lemma draw_token_fresh:
  assumes "draw_token sha known draws i = Some (Inr (t, h))"
  shows "map_of known h = None" and "h = hashRepoToken sha t" and "t \<noteq> []"
  using draw_token_Some_stops [OF assms] generateRepoToken_nonempty
  by (auto simp: draw_stops_def draw_result_def split: sum.splits)

text \<open>
  Pigeonhole: if the first \<open>length known + 1\<close> draws give tokens with pairwise different hashes,
  one of them is new, so the loop returns within that many rounds.
\<close>

lemma draw_token_pigeonhole:
  assumes tok: "\<And>i. i \<le> length known \<Longrightarrow> generateRepoToken (draws i) = Inr (t i)"
    and inj: "inj_on (\<lambda>i. hashRepoToken sha (t i)) {..length known}"
  shows "\<exists>i \<le> length known. draw_stops sha known (draws i)"
proof (rule ccontr)
  assume "\<not> ?thesis"
  then have "\<And>i. i \<le> length known \<Longrightarrow> map_of known (hashRepoToken sha (t i)) \<noteq> None"
    using tok by (auto simp: draw_stops_def)
  then have "(\<lambda>i. hashRepoToken sha (t i)) ` {..length known} \<subseteq> fst ` set known"
    by (auto simp flip: dom_map_of_conv_image_fst)
  then have "card ((\<lambda>i. hashRepoToken sha (t i)) ` {..length known}) \<le> card (fst ` set known)"
    by (intro card_mono) auto
  also have "\<dots> \<le> length known" by (metis card_length length_map set_map)
  finally show False using card_image [OF inj] by simp
qed

section \<open>The invariant\<close>

abbreviation repo_at :: "memoryRepoStore \<Rightarrow> string \<Rightarrow> repoRecord option" where
  "repo_at s \<equiv> map_of (repos s)"

abbreviation token_at :: "memoryRepoStore \<Rightarrow> string \<Rightarrow> repoTokenRecord option" where
  "token_at s \<equiv> map_of (tokens s)"

definition name_key :: "repoRecord \<Rightarrow> string" where
  "name_key r = repo_Namespace r @ ''/'' @ repo_Name r"

definition maps_ok :: "memoryRepoStore \<Rightarrow> bool" where
  "maps_ok s \<longleftrightarrow> distinct (map fst (repos s)) \<and> distinct (map fst (byName s)) \<and>
     distinct (map fst (tokens s)) \<and> distinct (map fst (tokenIDsByHash s))"

definition repos_ok :: "memoryRepoStore \<Rightarrow> bool" where
  "repos_ok s \<longleftrightarrow> (\<forall>k r. repo_at s k = Some r \<longrightarrow>
     repo_ID r = k \<and> isCanonicalUUID k \<and> map_of (byName s) (name_key r) = Some k)"

definition names_ok :: "memoryRepoStore \<Rightarrow> bool" where
  "names_ok s \<longleftrightarrow> (\<forall>n k. map_of (byName s) n = Some k \<longrightarrow>
     (\<exists>r. repo_at s k = Some r \<and> name_key r = n))"

definition tokens_ok :: "memoryRepoStore \<Rightarrow> bool" where
  "tokens_ok s \<longleftrightarrow> (\<forall>k t. token_at s k = Some t \<longrightarrow>
     tok_ID t = k \<and> isCanonicalUUID k \<and> tok_Token t = [] \<and>
     map_of (tokenIDsByHash s) (tok_TokenHash t) = Some k \<and>
     (\<exists>r. repo_at s (tok_RepoID t) = Some r \<and>
          tok_RepoNamespace t = repo_Namespace r \<and> tok_RepoName t = repo_Name r))"

definition hashes_ok :: "memoryRepoStore \<Rightarrow> bool" where
  "hashes_ok s \<longleftrightarrow> (\<forall>h k. map_of (tokenIDsByHash s) h = Some k \<longrightarrow>
     (\<exists>t. token_at s k = Some t \<and> tok_TokenHash t = h))"

definition store_ok :: "memoryRepoStore \<Rightarrow> bool" where
  "store_ok s \<longleftrightarrow> maps_ok s \<and> repos_ok s \<and> names_ok s \<and> tokens_ok s \<and> hashes_ok s"

lemmas store_ok_defs = store_ok_def maps_ok_def repos_ok_def names_ok_def tokens_ok_def hashes_ok_def

lemma store_ok_init: "store_ok newMemoryRepoStore"
  by (simp add: store_ok_defs newMemoryRepoStore_def)

lemma store_ok_repo:
  "store_ok s \<Longrightarrow> repo_at s k = Some r \<Longrightarrow>
     repo_ID r = k \<and> isCanonicalUUID k \<and> map_of (byName s) (name_key r) = Some k"
  by (simp add: store_ok_def repos_ok_def)

lemma store_ok_token:
  "store_ok s \<Longrightarrow> token_at s k = Some t \<Longrightarrow>
     tok_ID t = k \<and> tok_Token t = [] \<and> map_of (tokenIDsByHash s) (tok_TokenHash t) = Some k"
  by (simp add: store_ok_def tokens_ok_def)

lemma store_ok_hash:
  "store_ok s \<Longrightarrow> map_of (tokenIDsByHash s) h = Some k \<Longrightarrow>
     \<exists>t. token_at s k = Some t \<and> tok_TokenHash t = h"
  by (simp add: store_ok_def hashes_ok_def)

lemma store_ok_name:
  "store_ok s \<Longrightarrow> map_of (byName s) n = Some k \<Longrightarrow>
     \<exists>r. repo_at s k = Some r \<and> name_key r = n"
  by (simp add: store_ok_def names_ok_def)

text \<open>The four kinds of update the operations make.\<close>

lemma store_ok_add_repo:
  assumes "store_ok s" "repo_at s v = None" "isCanonicalUUID v" "map_of (byName s) n = None"
    and "repo_ID r = v" "name_key r = n"
  shows "store_ok (s\<lparr>repos := AList.update v r (repos s), byName := AList.update n v (byName s)\<rparr>)"
    (is "store_ok ?s")
proof -
  have "maps_ok ?s" using assms(1) by (simp add: store_ok_def maps_ok_def)
  moreover have "repos_ok ?s" using assms by (fastforce simp: store_ok_def repos_ok_def)
  moreover have "names_ok ?s" using assms by (fastforce simp: store_ok_def names_ok_def)
  moreover have "tokens_ok ?s" using assms by (fastforce simp: store_ok_def tokens_ok_def)
  moreover have "hashes_ok ?s" using assms by (auto simp: store_ok_def hashes_ok_def)
  ultimately show ?thesis by (simp add: store_ok_def)
qed

lemma store_ok_set_repo:
  assumes "store_ok s" "repo_at s v = Some r"
    and "repo_ID r' = v" "repo_Namespace r' = repo_Namespace r" "repo_Name r' = repo_Name r"
  shows "store_ok (s\<lparr>repos := AList.update v r' (repos s)\<rparr>)" (is "store_ok ?s")
proof -
  have key: "name_key r' = name_key r" using assms by (simp add: name_key_def)
  have "maps_ok ?s" using assms(1) by (simp add: store_ok_def maps_ok_def)
  moreover have "repos_ok ?s" using assms key by (auto simp: store_ok_def repos_ok_def)
  moreover have "names_ok ?s" using assms key by (fastforce simp: store_ok_def names_ok_def)
  moreover have "tokens_ok ?s" using assms by (fastforce simp: store_ok_def tokens_ok_def)
  moreover have "hashes_ok ?s" using assms by (auto simp: store_ok_def hashes_ok_def)
  ultimately show ?thesis by (simp add: store_ok_def)
qed

lemma store_ok_add_token:
  assumes "store_ok s" "token_at s v = None" "isCanonicalUUID v"
    and "map_of (tokenIDsByHash s) h = None" "repo_at s (tok_RepoID t) = Some r"
    and "tok_ID t = v" "tok_TokenHash t = h" "tok_Token t = []"
    and "tok_RepoNamespace t = repo_Namespace r" "tok_RepoName t = repo_Name r"
  shows "store_ok (s\<lparr>tokens := AList.update v t (tokens s),
    tokenIDsByHash := AList.update h v (tokenIDsByHash s)\<rparr>)" (is "store_ok ?s")
proof -
  have "maps_ok ?s" using assms(1) by (simp add: store_ok_def maps_ok_def)
  moreover have "repos_ok ?s" using assms by (auto simp: store_ok_def repos_ok_def)
  moreover have "names_ok ?s" using assms by (auto simp: store_ok_def names_ok_def)
  moreover have "tokens_ok ?s" using assms by (fastforce simp: store_ok_def tokens_ok_def)
  moreover have "hashes_ok ?s" using assms by (fastforce simp: store_ok_def hashes_ok_def)
  ultimately show ?thesis by (simp add: store_ok_def)
qed

text \<open>Two records of the same token: all fields agree but the two timestamps.\<close>

definition same_token :: "repoTokenRecord \<Rightarrow> repoTokenRecord \<Rightarrow> bool" where
  "same_token t t' \<longleftrightarrow> t'\<lparr>tok_RevokedAt := 0, tok_LastUsedAt := 0\<rparr> = t\<lparr>tok_RevokedAt := 0, tok_LastUsedAt := 0\<rparr>"

lemma same_token_fields:
  assumes "same_token t t'"
  shows "tok_ID t' = tok_ID t" "tok_RepoID t' = tok_RepoID t" "tok_Token t' = tok_Token t"
    "tok_RepoNamespace t' = tok_RepoNamespace t" "tok_RepoName t' = tok_RepoName t"
    "tok_TokenHash t' = tok_TokenHash t" "tok_Scope t' = tok_Scope t"
    "tok_Subject t' = tok_Subject t" "tok_ExpiresAt t' = tok_ExpiresAt t"
    "tok_CreatedAt t' = tok_CreatedAt t"
  using assms unfolding same_token_def
  by (cases t; cases t'; simp)+

lemma same_token_updates [simp]:
  "same_token t t" "same_token t (t\<lparr>tok_RevokedAt := x\<rparr>)" "same_token t (t\<lparr>tok_LastUsedAt := x\<rparr>)"
  by (simp_all add: same_token_def)

lemma store_ok_set_token:
  assumes "store_ok s" "token_at s v = Some t" "same_token t t'"
  shows "store_ok (s\<lparr>tokens := AList.update v t' (tokens s)\<rparr>)" (is "store_ok ?s")
proof -
  note t' = same_token_fields [OF assms(3)]
  have "maps_ok ?s" using assms(1) by (simp add: store_ok_def maps_ok_def)
  moreover have "repos_ok ?s" using assms by (auto simp: store_ok_def repos_ok_def)
  moreover have "names_ok ?s" using assms by (auto simp: store_ok_def names_ok_def)
  moreover have "tokens_ok ?s" using assms t' by (auto simp: store_ok_def tokens_ok_def)
  moreover have "hashes_ok ?s" using assms t' by (fastforce simp: store_ok_def hashes_ok_def)
  ultimately show ?thesis by (simp add: store_ok_def)
qed

section \<open>Every operation keeps the invariant\<close>

text \<open>
  The identifiers come from a random source and the code does not check them against the ones
  in use; \<open>fresh_uuid\<close> says that the identifier drawn in a call is not in use.
\<close>

definition fresh_uuid :: "callEnv \<Rightarrow> memoryRepoStore \<Rightarrow> bool" where
  "fresh_uuid env s \<longleftrightarrow>
     (case newUUID (env_uuid env) of
        Inl e \<Rightarrow> True | Inr v \<Rightarrow> repo_at s v = None \<and> token_at s v = None)"

lemma memory_CreateRepo_ok:
  assumes "store_ok s" "fresh_uuid env s" "memory_CreateRepo gs env input (s, w) = (r, s', w')"
  shows "store_ok s'"
proof (cases "s' = s")
  case True
  with assms show ?thesis by simp
next
  case False
  let ?n = "cr_Namespace input @ ''/'' @ cr_Name input"
  from False assms(3) obtain v where "newUUID (env_uuid env) = Inr v"
    and "map_of (byName s) ?n = None"
    and "s' = s\<lparr>repos := AList.update v \<lparr>repo_ID = v, repo_Namespace = cr_Namespace input,
      repo_Name = cr_Name input, repo_DefaultBranch = cr_DefaultBranch input,
      repo_ArchivedAt = 0\<rparr> (repos s), byName := AList.update ?n v (byName s)\<rparr>"
    by (auto simp: memory_CreateRepo_def Let_def split: option.splits sum.splits prod.splits)
  then show ?thesis
    using assms(1,2) newUUID_canonical
    by (auto simp: fresh_uuid_def name_key_def intro!: store_ok_add_repo)
qed

lemma memory_CreateRepoToken_error:
  "memory_CreateRepoToken sha env input (s, w) = Some (Inl e, s', w') \<Longrightarrow> s' = s \<and> w' = w"
  by (auto simp: memory_CreateRepoToken_def Let_def split: option.splits sum.splits)

lemma memory_CreateRepoToken_created:
  assumes "memory_CreateRepoToken sha env input (s, w) = Some (Inr tk, s', w')"
  obtains repo t h v where "repo_at s (ct_RepoID input) = Some repo"
    and "map_of (tokenIDsByHash s) h = None" "h = hashRepoToken sha t" "t \<noteq> []"
    and "newUUID (env_uuid env) = Inr v" "w' = w"
    and "tk = token_record repo input (env_now env) v t h"
    and "s' = s\<lparr>tokens := AList.update v (tk\<lparr>tok_Token := []\<rparr>) (tokens s),
           tokenIDsByHash := AList.update h v (tokenIDsByHash s)\<rparr>"
proof -
  from assms obtain repo t h v where "repo_at s (ct_RepoID input) = Some repo"
    and t: "draw_token sha (tokenIDsByHash s) (env_tokens env) 0 = Some (Inr (t, h))"
    and "newUUID (env_uuid env) = Inr v" "w' = w"
    and "tk = token_record repo input (env_now env) v t h"
    and "s' = s\<lparr>tokens := AList.update (tok_ID tk) (tk\<lparr>tok_Token := []\<rparr>) (tokens s),
           tokenIDsByHash := AList.update (tok_TokenHash tk) (tok_ID tk) (tokenIDsByHash s)\<rparr>"
    by (auto simp: memory_CreateRepoToken_def Let_def split: option.splits sum.splits)
  with draw_token_fresh [OF t] that show thesis by (auto simp: token_record_def)
qed

lemma memory_CreateRepoToken_ok:
  assumes "store_ok s" "fresh_uuid env s"
    and "memory_CreateRepoToken sha env input (s, w) = Some (r, s', w')"
  shows "store_ok s'"
proof (cases r)
  case (Inl e)
  with assms memory_CreateRepoToken_error [of sha env input s w e s' w'] show ?thesis by simp
next
  case (Inr tk)
  with assms(3) have "memory_CreateRepoToken sha env input (s, w) = Some (Inr tk, s', w')" by simp
  then show ?thesis
  proof (cases rule: memory_CreateRepoToken_created)
    case (1 repo t h v)
    from store_ok_repo [OF assms(1) 1(1)] have "repo_ID repo = ct_RepoID input" by simp
    with 1 assms(1,2) newUUID_canonical [OF 1(5)] show ?thesis
      by (auto simp: fresh_uuid_def token_record_def intro!: store_ok_add_token [where r = repo])
  qed
qed

lemma memory_GetRepo_unchanged: "snd (memory_GetRepo env v (s, w)) = (s, w)"
  by (simp add: memory_GetRepo_def split: option.split)

lemma memory_ListRepoTokens_unchanged: "snd (memory_ListRepoTokens env v (s, w)) = (s, w)"
  by (simp add: memory_ListRepoTokens_def)

lemma memory_ArchiveRepo_cases:
  assumes "memory_ArchiveRepo env v (s, w) = (r, s', w')"
  obtains "s' = s" "w' = w"
  | repo where "repo_at s v = Some repo" "repo_ArchivedAt repo = 0" "w' = w"
      "r = Inr (repo\<lparr>repo_ArchivedAt := env_now env\<rparr>)"
      "s' = s\<lparr>repos := AList.update (repo_ID repo) (repo\<lparr>repo_ArchivedAt := env_now env\<rparr>) (repos s)\<rparr>"
  using assms
  by (auto simp: memory_ArchiveRepo_def time_IsZero_def Let_def split: option.splits if_splits)

lemma memory_RevokeRepoToken_cases:
  assumes "memory_RevokeRepoToken env input (s, w) = (r, s', w')"
  obtains "s' = s" "w' = w"
  | t where "token_at s (rv_TokenID input) = Some t" "tok_RevokedAt t = 0" "w' = w"
      "tok_RepoID t = rv_RepoID input" "r = Inr (t\<lparr>tok_RevokedAt := env_now env\<rparr>)"
      "s' = s\<lparr>tokens := AList.update (tok_ID t) (t\<lparr>tok_RevokedAt := env_now env\<rparr>) (tokens s)\<rparr>"
  using assms
  by (auto simp: memory_RevokeRepoToken_def time_IsZero_def Let_def
      split: option.splits if_splits)

text \<open>The token a presented secret stands for, and the four conditions on it.\<close>

definition presented_token ::
  "(string \<Rightarrow> byte list) \<Rightarrow> memoryRepoStore \<Rightarrow> string \<Rightarrow> repoTokenRecord \<Rightarrow> bool" where
  "presented_token sha s secret t \<longleftrightarrow>
     secret \<noteq> [] \<and> token_at s (tok_ID t) = Some t \<and> tok_TokenHash t = hashRepoToken sha secret"

definition usable_token :: "time \<Rightarrow> authorizeGitAccessInput \<Rightarrow> repoTokenRecord \<Rightarrow> bool" where
  "usable_token now input t \<longleftrightarrow>
     tok_RepoID t = az_RepoID input \<and> tok_RevokedAt t = 0 \<and> now < tok_ExpiresAt t \<and>
     scopeAllowsGitOperation (tok_Scope t) (az_Operation input)"

lemma presented_token_lookup:
  assumes "store_ok s" "secret \<noteq> []"
    and "map_of (tokenIDsByHash s) (hashRepoToken sha secret) = Some k"
  obtains t where "token_at s k = Some t" "presented_token sha s secret t" "tok_ID t = k"
proof -
  from store_ok_hash [OF assms(1,3)] obtain t
    where t: "token_at s k = Some t" "tok_TokenHash t = hashRepoToken sha secret" by blast
  with store_ok_token [OF assms(1) t(1)] assms(2) show ?thesis
    by (intro that [of t]) (auto simp: presented_token_def)
qed

lemma presented_token_hash:
  "store_ok s \<Longrightarrow> presented_token sha s secret t \<Longrightarrow>
     map_of (tokenIDsByHash s) (hashRepoToken sha secret) = Some (tok_ID t)"
  unfolding presented_token_def using store_ok_token by metis

lemma presented_token_unique:
  "store_ok s \<Longrightarrow> presented_token sha s x t \<Longrightarrow> presented_token sha s x t' \<Longrightarrow> t = t'"
  using presented_token_hash unfolding presented_token_def by (metis option.inject)

definition granted ::
  "(string \<Rightarrow> byte list) \<Rightarrow> 'w repoGitStorage \<Rightarrow> callEnv \<Rightarrow> authorizeGitAccessInput \<Rightarrow>
     memoryRepoStore \<Rightarrow> 'w \<Rightarrow> gitAccessGrant \<Rightarrow> repoTokenRecord \<Rightarrow> bool" where
  "granted sha gs env input s w g t \<longleftrightarrow>
     (\<exists>repo. repo_at s (az_RepoID input) = Some repo \<and> repo_ArchivedAt repo = 0) \<and>
     presented_token sha s (az_Token input) t \<and> usable_token (env_now env) input t \<and>
     BareRepoPath gs (env_ctx env) (az_RepoID input) w = Inr (grant_RepoPath g) \<and>
     grant_RepoID g = az_RepoID input \<and> grant_Subject g = tok_Subject t"

definition touch_token :: "time \<Rightarrow> repoTokenRecord \<Rightarrow> memoryRepoStore \<Rightarrow> memoryRepoStore" where
  "touch_token now t s =
     s\<lparr>tokens := AList.update (tok_ID t) (t\<lparr>tok_LastUsedAt := now\<rparr>) (tokens s)\<rparr>"

lemma memory_Authorize_error:
  "memory_AuthorizeGitAccess sha gs env input (s, w) = (Inl e, s', w') \<Longrightarrow> s' = s \<and> w' = w"
  by (auto simp: memory_AuthorizeGitAccess_def Let_def split: option.splits if_splits sum.splits)

lemma memory_Authorize_grant:
  assumes ok: "store_ok s"
    and eq: "memory_AuthorizeGitAccess sha gs env input (s, w) = (Inr g, s', w')"
  shows "\<exists>t. granted sha gs env input s w g t \<and> s' = touch_token (env_now env) t s \<and> w' = w"
proof -
  from eq obtain repo k where repo: "repo_at s (az_RepoID input) = Some repo"
    "repo_ArchivedAt repo = 0" and ne: "az_Token input \<noteq> []"
    and k: "map_of (tokenIDsByHash s) (hashRepoToken sha (az_Token input)) = Some k"
    by (auto simp: memory_AuthorizeGitAccess_def time_IsZero_def Let_def
        split: option.splits if_splits)
  from presented_token_lookup [OF ok ne k]
  obtain t where t: "token_at s k = Some t" "presented_token sha s (az_Token input) t" "tok_ID t = k" .
  have "repo_ID repo = az_RepoID input" using store_ok_repo [OF ok repo(1)] by simp
  with eq repo ne k t show ?thesis
    by (intro exI [of _ t])
      (auto simp: memory_AuthorizeGitAccess_def granted_def usable_token_def touch_token_def
         time_IsZero_def Let_def split: if_splits sum.splits)
qed

lemma granted_Authorize:
  assumes ok: "store_ok s" and g: "granted sha gs env input s w g t"
  shows "memory_AuthorizeGitAccess sha gs env input (s, w) =
    (Inr g, touch_token (env_now env) t s, w)"
proof -
  from g obtain repo where repo: "repo_at s (az_RepoID input) = Some repo" "repo_ArchivedAt repo = 0"
    by (auto simp: granted_def)
  have "repo_ID repo = az_RepoID input" using store_ok_repo [OF ok repo(1)] by simp
  with repo g presented_token_hash [OF ok, of sha "az_Token input" t] show ?thesis
    by (cases g) (auto simp: memory_AuthorizeGitAccess_def granted_def usable_token_def
        presented_token_def touch_token_def time_IsZero_def Let_def)
qed

text \<open>
  C1 (AuthorizeGitAccess).  In a store that meets its invariant, access is granted exactly when
  the repository exists and is not archived, the presented secret is that of a token of the
  store, the token is for this repository, not revoked, not expired at the reading of the clock
  and its scope allows the operation, and the repository has its directory; the grant names the
  repository, its path and the token's subject, and the only change of state is the token's time
  of last use.
\<close>
theorem authorize_iff_granted:
  assumes "store_ok s"
  shows "memory_AuthorizeGitAccess sha256 gs env input (s, w) = (Inr g, s', w') \<longleftrightarrow>
    (\<exists>t. granted sha256 gs env input s w g t \<and> s' = touch_token (env_now env) t s \<and> w' = w)"
  by (metis assms memory_Authorize_grant granted_Authorize)

lemma memory_Authorize_ok:
  assumes "store_ok s" "memory_AuthorizeGitAccess sha gs env input (s, w) = (r, s', w')"
  shows "store_ok s'"
proof (cases r)
  case (Inl e)
  with assms show ?thesis by (metis memory_Authorize_error)
next
  case (Inr g)
  with assms obtain t where "granted sha gs env input s w g t" "s' = touch_token (env_now env) t s"
    by (metis memory_Authorize_grant)
  with assms(1) show ?thesis
    by (auto simp: granted_def presented_token_def touch_token_def intro: store_ok_set_token)
qed

lemma memory_ArchiveRepo_ok:
  assumes "store_ok s" "memory_ArchiveRepo env v (s, w) = (r, s', w')"
  shows "store_ok s'"
  using assms(2)
proof (cases rule: memory_ArchiveRepo_cases)
  case (2 repo)
  with store_ok_repo [OF assms(1) 2(1)] assms(1) show ?thesis
    by (auto intro!: store_ok_set_repo [where r = repo])
qed (use assms in simp)

lemma memory_RevokeRepoToken_ok:
  assumes "store_ok s" "memory_RevokeRepoToken env input (s, w) = (r, s', w')"
  shows "store_ok s'"
  using assms(2)
proof (cases rule: memory_RevokeRepoToken_cases)
  case (2 t)
  with store_ok_token [OF assms(1) 2(1)] assms(1) show ?thesis
    by (auto intro!: store_ok_set_token)
qed (use assms in simp)

section \<open>The store as a state machine\<close>

text \<open>
  One step: a call of one of the operations with any answers of the environment (the identifier
  it draws is new), or a change of the world by others (a push through the Git backend).
\<close>

inductive store_step ::
  "(string \<Rightarrow> byte list) \<Rightarrow> 'w repoGitStorage \<Rightarrow> memoryRepoStore \<times> 'w \<Rightarrow> memoryRepoStore \<times> 'w \<Rightarrow> bool"
  for sha gs where
  create_repo: "fresh_uuid env s \<Longrightarrow> memory_CreateRepo gs env input (s, w) = (r, s', w') \<Longrightarrow>
    store_step sha gs (s, w) (s', w')"
| get_repo: "memory_GetRepo env v (s, w) = (r, s', w') \<Longrightarrow> store_step sha gs (s, w) (s', w')"
| archive_repo: "memory_ArchiveRepo env v (s, w) = (r, s', w') \<Longrightarrow> store_step sha gs (s, w) (s', w')"
| create_token: "fresh_uuid env s \<Longrightarrow>
    memory_CreateRepoToken sha env input' (s, w) = Some (r', s', w') \<Longrightarrow>
    store_step sha gs (s, w) (s', w')"
| list_tokens: "memory_ListRepoTokens env v (s, w) = (r'', s', w') \<Longrightarrow>
    store_step sha gs (s, w) (s', w')"
| revoke_token: "memory_RevokeRepoToken env input'' (s, w) = (r''', s', w') \<Longrightarrow>
    store_step sha gs (s, w) (s', w')"
| authorize: "memory_AuthorizeGitAccess sha gs env input''' (s, w) = (r'''', s', w') \<Longrightarrow>
    store_step sha gs (s, w) (s', w')"
| world: "store_step sha gs (s, w) (s, w')"

inductive store_reachable ::
  "(string \<Rightarrow> byte list) \<Rightarrow> 'w repoGitStorage \<Rightarrow> memoryRepoStore \<times> 'w \<Rightarrow> memoryRepoStore \<times> 'w \<Rightarrow> bool"
  for sha gs x where
  reach_start: "store_reachable sha gs x x"
| reach_step: "store_reachable sha gs x y \<Longrightarrow> store_step sha gs y z \<Longrightarrow> store_reachable sha gs x z"

inductive_cases store_stepE [elim]: "store_step sha gs (s, w) (s', w')"

lemma store_step_ok: "store_step sha gs (s, w) (s', w') \<Longrightarrow> store_ok s \<Longrightarrow> store_ok s'"
  by (erule store_stepE)
    (auto intro: memory_CreateRepo_ok memory_CreateRepoToken_ok memory_Authorize_ok
       memory_ArchiveRepo_ok memory_RevokeRepoToken_ok
       dest: arg_cong [where f = snd] simp: memory_GetRepo_unchanged memory_ListRepoTokens_unchanged)

end
