(* ===== verification/Repository_Safety.thy ===== *)
theory Repository_Safety
  imports Repository_Store
begin

text \<open>
  What survives any sequence of operations on the in-memory store: records never disappear and
  change only their timestamps, a revoked token stays revoked, an archived repository stays
  archived, and a token keeps working for its repository, its scope and its lifetime.
\<close>

section \<open>The store only grows\<close>

definition repo_grows :: "repoRecord \<Rightarrow> repoRecord \<Rightarrow> bool" where
  "repo_grows r r' \<longleftrightarrow> r'\<lparr>repo_ArchivedAt := 0\<rparr> = r\<lparr>repo_ArchivedAt := 0\<rparr> \<and>
     (repo_ArchivedAt r \<noteq> 0 \<longrightarrow> repo_ArchivedAt r' = repo_ArchivedAt r)"

definition token_grows :: "repoTokenRecord \<Rightarrow> repoTokenRecord \<Rightarrow> bool" where
  "token_grows t t' \<longleftrightarrow> same_token t t' \<and>
     (tok_RevokedAt t \<noteq> 0 \<longrightarrow> tok_RevokedAt t' = tok_RevokedAt t)"

definition store_grows :: "memoryRepoStore \<Rightarrow> memoryRepoStore \<Rightarrow> bool" where
  "store_grows s s' \<longleftrightarrow>
     (\<forall>k r. repo_at s k = Some r \<longrightarrow> (\<exists>r'. repo_at s' k = Some r' \<and> repo_grows r r')) \<and>
     (\<forall>k t. token_at s k = Some t \<longrightarrow> (\<exists>t'. token_at s' k = Some t' \<and> token_grows t t')) \<and>
     (\<forall>n k. map_of (byName s) n = Some k \<longrightarrow> map_of (byName s') n = Some k) \<and>
     (\<forall>h k. map_of (tokenIDsByHash s) h = Some k \<longrightarrow> map_of (tokenIDsByHash s') h = Some k)"

lemma repo_grows_refl [simp]: "repo_grows r r"
  by (simp add: repo_grows_def)

lemma token_grows_refl [simp]: "token_grows t t"
  by (simp add: token_grows_def)

lemma store_grows_refl [simp]: "store_grows s s"
  by (simp add: store_grows_def)

lemma repo_grows_trans: "repo_grows a b \<Longrightarrow> repo_grows b c \<Longrightarrow> repo_grows a c"
  by (auto simp: repo_grows_def)

lemma token_grows_trans: "token_grows a b \<Longrightarrow> token_grows b c \<Longrightarrow> token_grows a c"
  by (auto simp: token_grows_def same_token_def)

lemma store_grows_trans: "store_grows a b \<Longrightarrow> store_grows b c \<Longrightarrow> store_grows a c"
  unfolding store_grows_def by (meson repo_grows_trans token_grows_trans)

lemma store_grows_repo:
  "store_grows s s' \<Longrightarrow> repo_at s k = Some r \<Longrightarrow> \<exists>r'. repo_at s' k = Some r' \<and> repo_grows r r'"
  by (simp add: store_grows_def)

lemma store_grows_token:
  "store_grows s s' \<Longrightarrow> token_at s k = Some t \<Longrightarrow> \<exists>t'. token_at s' k = Some t' \<and> token_grows t t'"
  by (simp add: store_grows_def)

lemma store_grows_name:
  "store_grows s s' \<Longrightarrow> map_of (byName s) n = Some k \<Longrightarrow> map_of (byName s') n = Some k"
  by (simp add: store_grows_def)

lemma store_grows_hash:
  "store_grows s s' \<Longrightarrow> map_of (tokenIDsByHash s) h = Some k \<Longrightarrow>
     map_of (tokenIDsByHash s') h = Some k"
  by (simp add: store_grows_def)

lemma repo_grows_fields:
  assumes "repo_grows r r'"
  shows "repo_ID r' = repo_ID r" "repo_Namespace r' = repo_Namespace r" "repo_Name r' = repo_Name r"
    "repo_DefaultBranch r' = repo_DefaultBranch r"
  using assms unfolding repo_grows_def by (cases r; cases r'; simp)+

lemma grows_set_token:
  "token_at s k = Some t \<Longrightarrow> token_grows t t' \<Longrightarrow>
     store_grows s (s\<lparr>tokens := AList.update k t' (tokens s)\<rparr>)"
  by (simp add: store_grows_def)

lemma memory_CreateRepo_grows:
  assumes "fresh_uuid env s" "memory_CreateRepo gs env input (s, w) = (r, s', w')"
  shows "store_grows s s'"
  using assms
  by (auto simp: memory_CreateRepo_def fresh_uuid_def store_grows_def Let_def
      split: option.splits sum.splits prod.splits)

lemma memory_CreateRepoToken_grows:
  assumes "fresh_uuid env s" "memory_CreateRepoToken sha env input (s, w) = Some (r, s', w')"
  shows "store_grows s s'"
proof (cases r)
  case (Inl e)
  with assms memory_CreateRepoToken_error [of sha env input s w e s' w'] show ?thesis by simp
next
  case (Inr tk)
  with assms(2) have "memory_CreateRepoToken sha env input (s, w) = Some (Inr tk, s', w')" by simp
  then show ?thesis
    by (cases rule: memory_CreateRepoToken_created)
      (use assms(1) in \<open>auto simp: fresh_uuid_def store_grows_def\<close>)
qed

lemma memory_ArchiveRepo_grows:
  assumes "store_ok s" "memory_ArchiveRepo env v (s, w) = (r, s', w')"
  shows "store_grows s s'"
  using assms(2)
proof (cases rule: memory_ArchiveRepo_cases)
  case (2 repo)
  with store_ok_repo [OF assms(1) 2(1)] show ?thesis by (simp add: store_grows_def repo_grows_def)
qed simp

lemma memory_RevokeRepoToken_grows:
  assumes "store_ok s" "memory_RevokeRepoToken env input (s, w) = (r, s', w')"
  shows "store_grows s s'"
  using assms(2)
proof (cases rule: memory_RevokeRepoToken_cases)
  case (2 t)
  with store_ok_token [OF assms(1) 2(1)] show ?thesis
    by (auto simp: token_grows_def intro!: grows_set_token)
qed simp

lemma memory_Authorize_grows:
  assumes "store_ok s" "memory_AuthorizeGitAccess sha gs env input (s, w) = (r, s', w')"
  shows "store_grows s s'"
proof (cases r)
  case (Inl e)
  with assms memory_Authorize_error [of sha gs env input s w e s' w'] show ?thesis by simp
next
  case (Inr g)
  with assms obtain t where "granted sha gs env input s w g t" "s' = touch_token (env_now env) t s"
    by (metis memory_Authorize_grant)
  then show ?thesis
    by (auto simp: granted_def presented_token_def touch_token_def token_grows_def
        intro!: grows_set_token)
qed

lemma store_step_grows: "store_step sha gs (s, w) (s', w') \<Longrightarrow> store_ok s \<Longrightarrow> store_grows s s'"
  by (erule store_stepE)
    (auto intro: memory_CreateRepo_grows memory_CreateRepoToken_grows memory_ArchiveRepo_grows
       memory_RevokeRepoToken_grows memory_Authorize_grows
       dest: arg_cong [where f = snd] simp: memory_GetRepo_unchanged memory_ListRepoTokens_unchanged)

lemma store_reachable_grows:
  "store_reachable sha gs x y \<Longrightarrow> store_ok (fst x) \<Longrightarrow> store_ok (fst y) \<and> store_grows (fst x) (fst y)"
proof (induction rule: store_reachable.induct)
  case (reach_step y z)
  then show ?case
    using store_step_ok [of sha gs "fst y" "snd y" "fst z" "snd z"]
      store_step_grows [of sha gs "fst y" "snd y" "fst z" "snd z"]
    by (auto intro: store_grows_trans)
qed simp

lemma reachable_grows:
  assumes "store_reachable sha gs (s, w) (s', w')" "store_ok s"
  shows "store_ok s'" and "store_grows s s'"
  using store_reachable_grows [OF assms(1)] assms(2) by simp_all

section \<open>Consequences of growth\<close>

lemma token_grows_same: "token_grows t t' \<Longrightarrow> same_token t t'"
  by (simp add: token_grows_def)

lemma presented_grows:
  assumes "store_ok s" "store_grows s s'" "store_ok s'"
    and "presented_token sha s secret t"
  obtains t' where "presented_token sha s' secret t'" "token_grows t t'"
proof -
  from assms(4) have t: "secret \<noteq> []" "token_at s (tok_ID t) = Some t"
    "tok_TokenHash t = hashRepoToken sha secret" by (auto simp: presented_token_def)
  from store_grows_token [OF assms(2) t(2)] obtain t' where
    t': "token_at s' (tok_ID t) = Some t'" "token_grows t t'" by blast
  with same_token_fields [OF token_grows_same [OF t'(2)]] t show thesis
    by (intro that [of t']) (auto simp: presented_token_def)
qed

lemma no_grant_if_unusable:
  assumes "store_ok s" "presented_token sha s (az_Token input) t" "\<not> usable_token (env_now env) input t"
  shows "memory_AuthorizeGitAccess sha gs env input (s, w) \<noteq> (Inr g, st)"
proof
  assume "memory_AuthorizeGitAccess sha gs env input (s, w) = (Inr g, st)"
  then have "memory_AuthorizeGitAccess sha gs env input (s, w) = (Inr g, fst st, snd st)" by simp
  from memory_Authorize_grant [OF assms(1) this] obtain t' where
    "presented_token sha s (az_Token input) t'" "usable_token (env_now env) input t'"
    by (auto simp: granted_def)
  with presented_token_unique [OF assms(1,2)] assms(3) show False by blast
qed

text \<open>The token a successful call of \<open>CreateRepoToken\<close> returns is the one its secret stands for.\<close>

lemma created_token_presented:
  assumes "store_ok s" "memory_CreateRepoToken sha env input (s, w) = Some (Inr tk, s', w')"
  shows "presented_token sha s' (tok_Token tk) (tk\<lparr>tok_Token := []\<rparr>)"
    and "tok_RepoID tk = ct_RepoID input" "tok_Scope tk = ct_Scope input"
    "tok_Subject tk = ct_Subject input" "tok_RevokedAt tk = 0" "tok_CreatedAt tk = env_now env"
    "tok_ExpiresAt tk = env_now env + int64 (ct_TTLSeconds input * second)"
    "\<exists>r. repo_at s (ct_RepoID input) = Some r"
proof -
  from assms(2) have "presented_token sha s' (tok_Token tk) (tk\<lparr>tok_Token := []\<rparr>) \<and>
    tok_RepoID tk = ct_RepoID input \<and> tok_Scope tk = ct_Scope input \<and>
    tok_Subject tk = ct_Subject input \<and> tok_RevokedAt tk = 0 \<and> tok_CreatedAt tk = env_now env \<and>
    tok_ExpiresAt tk = env_now env + int64 (ct_TTLSeconds input * second) \<and>
    (\<exists>r. repo_at s (ct_RepoID input) = Some r)"
  proof (cases rule: memory_CreateRepoToken_created)
    case (1 repo t h v)
    then show ?thesis
      using store_ok_repo [OF assms(1) 1(1)]
      by (auto simp: presented_token_def token_record_def zero_token_def)
  qed
  then show "presented_token sha s' (tok_Token tk) (tk\<lparr>tok_Token := []\<rparr>)"
    and "tok_RepoID tk = ct_RepoID input" "tok_Scope tk = ct_Scope input"
    "tok_Subject tk = ct_Subject input" "tok_RevokedAt tk = 0" "tok_CreatedAt tk = env_now env"
    "tok_ExpiresAt tk = env_now env + int64 (ct_TTLSeconds input * second)"
    "\<exists>r. repo_at s (ct_RepoID input) = Some r" by blast+
qed

lemma authorize_presented:
  assumes ok: "store_ok s" and repo: "repo_at s (az_RepoID input) = Some r" "repo_ArchivedAt r = 0"
    and t: "presented_token sha s (az_Token input) t"
    and path: "BareRepoPath gs (env_ctx env) (az_RepoID input) w = Inr p"
  shows "fst (memory_AuthorizeGitAccess sha gs env input (s, w)) =
    (if tok_RepoID t = az_RepoID input \<and> tok_RevokedAt t = 0 \<and> env_now env < tok_ExpiresAt t
     then if scopeAllowsGitOperation (tok_Scope t) (az_Operation input)
          then Inr \<lparr>grant_RepoID = az_RepoID input, grant_RepoPath = p, grant_Subject = tok_Subject t\<rparr>
          else Inl errRepoTokenForbidden
     else Inl errRepoTokenInvalid)"
proof -
  have "repo_ID r = az_RepoID input" using store_ok_repo [OF ok repo(1)] by simp
  then show ?thesis
    using repo path presented_token_hash [OF ok t] t
    by (auto simp: memory_AuthorizeGitAccess_def time_IsZero_def Let_def presented_token_def)
qed

section \<open>Properties of every run\<close>


text \<open>
  C4 (RevokeRepoToken, AuthorizeGitAccess).  Revocation is permanent: once a call of
  \<open>RevokeRepoToken\<close> has succeeded, no later call of \<open>AuthorizeGitAccess\<close> with the secret of that
  token is granted, for any repository, operation and time and after any operations in between.
\<close>
theorem revoked_token_never_authorized:
  assumes "store_ok s" "presented_token sha256 s secret t"
    and "memory_RevokeRepoToken env \<lparr>rv_RepoID = repoID, rv_TokenID = tok_ID t\<rparr> (s, w) = (Inr t', s', w')"
    and "env_now env \<noteq> 0"
    and "store_reachable sha256 gs (s', w') (s'', w'')"
  shows "memory_AuthorizeGitAccess sha256 gs env'
     \<lparr>az_RepoID = repoID', az_Token = secret, az_Operation = operation\<rparr> (s'', w'') \<noteq> (Inr g, st)"
proof -
  note ok' = memory_RevokeRepoToken_ok [OF assms(1,3)]
  have t1: "presented_token sha256 s' secret t'" "tok_RevokedAt t' \<noteq> 0"
    using assms(2-4) store_ok_token [OF assms(1), of "tok_ID t" t]
    by (auto simp: memory_RevokeRepoToken_def time_IsZero_def presented_token_def Let_def
        split: if_splits option.splits)
  note later = reachable_grows [OF assms(5) ok']
  obtain t2 where t2: "presented_token sha256 s'' secret t2" "token_grows t' t2"
    using presented_grows [OF ok' later(2,1) t1(1)] .
  with t1(2) have "tok_RevokedAt t2 \<noteq> 0" by (simp add: token_grows_def)
  then show ?thesis
    by (intro no_grant_if_unusable [OF later(1), where t = t2])
      (use t2(1) in \<open>simp_all add: usable_token_def\<close>)
qed

text \<open>
  C14 (ArchiveRepo, AuthorizeGitAccess).  Archiving is permanent: once \<open>ArchiveRepo\<close> has
  succeeded, every later call of \<open>AuthorizeGitAccess\<close> for the repository fails with
  \<open>errRepoArchived\<close> and changes nothing, and a later \<open>ArchiveRepo\<close> keeps the first timestamp.
\<close>
theorem archived_repo_never_authorized:
  assumes "store_ok s" "memory_ArchiveRepo env repoID (s, w) = (Inr r, s', w')"
    and "env_now env \<noteq> 0"
    and "store_reachable sha256 gs (s', w') (s'', w'')"
  shows "memory_AuthorizeGitAccess sha256 gs env'
      \<lparr>az_RepoID = repoID, az_Token = secret, az_Operation = operation\<rparr> (s'', w'') =
        (Inl errRepoArchived, s'', w'') \<and>
    memory_ArchiveRepo env' repoID (s'', w'') = (Inr r, s'', w'')"
proof -
  note ok' = memory_ArchiveRepo_ok [OF assms(1,2)]
  have r: "repo_at s' repoID = Some r" "repo_ArchivedAt r \<noteq> 0"
    using assms(2,3) store_ok_repo [OF assms(1), of repoID]
    by (auto simp: memory_ArchiveRepo_def time_IsZero_def Let_def split: if_splits option.splits)
  obtain r'' where r'': "repo_at s'' repoID = Some r''" "repo_grows r r''"
    using store_grows_repo [OF reachable_grows(2) [OF assms(4) ok'] r(1)] by blast
  with r(2) have "r'' = r" by (cases r; cases r'') (simp add: repo_grows_def)
  with r'' r(2) show ?thesis
    by (simp add: memory_AuthorizeGitAccess_def memory_ArchiveRepo_def time_IsZero_def)
qed


text \<open>
  C11 (AuthorizeGitAccess).  Tokens are confined to their repository: in every later state the
  secret of a minted token is not accepted for another repository, whatever the hash function
  is.
\<close>
theorem minted_token_confined:
  assumes "store_ok s" "fresh_uuid env s"
    and "memory_CreateRepoToken sha256 env input (s, w) = Some (Inr tk, s', w')"
    and "store_reachable sha256 gs (s', w') (s'', w'')"
    and "repoID \<noteq> ct_RepoID input"
  shows "memory_AuthorizeGitAccess sha256 gs env'
      \<lparr>az_RepoID = repoID, az_Token = tok_Token tk, az_Operation = operation\<rparr> (s'', w'') \<noteq> (Inr g, st)"
proof -
  note ok' = memory_CreateRepoToken_ok [OF assms(1-3)]
  note new = created_token_presented [OF assms(1,3)]
  note grown = reachable_grows [OF assms(4) ok']
  obtain t where t: "presented_token sha256 s'' (tok_Token tk) t" "token_grows (tk\<lparr>tok_Token := []\<rparr>) t"
    using presented_grows [OF ok' grown(2,1) new(1)] .
  have "tok_RepoID t = ct_RepoID input"
    using same_token_fields(2) [OF token_grows_same [OF t(2)]] new(2) by simp
  then show ?thesis
    by (intro no_grant_if_unusable [OF grown(1), where t = t])
      (use t(1) assms(5) in \<open>simp_all add: usable_token_def\<close>)
qed

section \<open>Listing tokens\<close>

lemma token_sort_key_eq:
  "token_sort_key t = token_sort_key t' \<longleftrightarrow> tok_CreatedAt t = tok_CreatedAt t' \<and> tok_ID t = tok_ID t'"
  by (simp add: token_sort_key_def)

lemma distinct_tokens:
  assumes "store_ok s"
  shows "distinct (map tok_ID (gomap_values (tokens s)))"
proof -
  have "map tok_ID (gomap_values (tokens s)) = map fst (tokens s)"
    using assms by (auto simp: store_ok_def maps_ok_def tokens_ok_def)
  moreover have "distinct (map fst (tokens s))" using assms by (simp add: store_ok_def maps_ok_def)
  ultimately show ?thesis by metis
qed

lemma stored_token_no_secret:
  assumes "store_ok s" "t \<in> set (gomap_values (tokens s))"
  shows "t\<lparr>tok_Token := []\<rparr> = t"
proof -
  from assms obtain k where "token_at s k = Some t"
    by (auto simp: store_ok_def maps_ok_def gomap_values_iff simp del: set_map)
  with assms(1) have "tok_Token t = []" by (auto simp: store_ok_def tokens_ok_def)
  then show ?thesis by (cases t) simp
qed

lemma sort_strict:
  assumes "distinct (map tok_ID ts)"
  shows "sorted_wrt (<) (map token_sort_key (sortRepoTokenRecords ts))"
proof -
  have "distinct (map token_sort_key ts)"
    using assms by (auto simp: distinct_map token_sort_key_eq inj_on_def)
  then have "distinct (map token_sort_key (sortRepoTokenRecords ts))"
    by (metis sortRepoTokenRecords_def distinct_map distinct_sort set_sort)
  then show ?thesis
    using sorted_sort_key [of token_sort_key ts] unfolding sortRepoTokenRecords_def
    by (simp only: strict_sorted_iff)
qed

text \<open>
  C37 (ListRepoTokens, sortRepoTokenRecords).  The listing of a repository's tokens has exactly
  the tokens of the store that belong to it, each once, in strictly increasing order of creation
  time and identifier (so the iteration order of the Go map cannot be observed), none with a
  secret; the call changes nothing.
\<close>
theorem list_tokens_exact:
  assumes "store_ok s" "repo_at s repoID \<noteq> None"
  shows "\<exists>ts. memory_ListRepoTokens env repoID (s, w) = (Inr ts, s, w) \<and>
    set ts = {t. token_at s (tok_ID t) = Some t \<and> tok_RepoID t = repoID} \<and>
    sorted_wrt (<) (map token_sort_key ts) \<and> (\<forall>t \<in> set ts. tok_Token t = [])"
proof -
  let ?ts = "filter (\<lambda>t. tok_RepoID t = repoID) (gomap_values (tokens s))"
  have "map (\<lambda>t. t\<lparr>tok_Token := []\<rparr>) ?ts = ?ts"
    using stored_token_no_secret [OF assms(1)] by (intro map_idI) auto
  then have list: "memory_ListRepoTokens env repoID (s, w) = (Inr (sortRepoTokenRecords ?ts), s, w)"
    using assms(2) by (auto simp: memory_ListRepoTokens_def)
  have val: "t \<in> set (gomap_values (tokens s)) \<longleftrightarrow> token_at s (tok_ID t) = Some t" for t
    using gomap_values_iff [of "tokens s" t] assms(1) store_ok_token [OF assms(1)]
    by (auto simp: store_ok_def maps_ok_def simp del: set_map)
  then have set: "set (sortRepoTokenRecords ?ts) =
      {t. token_at s (tok_ID t) = Some t \<and> tok_RepoID t = repoID}"
    by (auto simp: sortRepoTokenRecords_def simp del: set_map)
  moreover have "sorted_wrt (<) (map token_sort_key (sortRepoTokenRecords ?ts))"
    by (intro sort_strict distinct_map_filter distinct_tokens assms(1))
  moreover have "\<forall>t \<in> set (sortRepoTokenRecords ?ts). tok_Token t = []"
    unfolding set using store_ok_token [OF assms(1)] by blast
  ultimately show ?thesis using list by blast
qed

section \<open>Creating repositories\<close>

text \<open>
  \<open>CreateRepo\<close>: Creation is idempotent in the name: after a successful \<open>CreateRepo\<close>, every
  later \<open>CreateRepo\<close> with the same name key \<open>namespace/name\<close> returns the repository that was
  created (its identifier, its first default branch, that name key; only the time of archiving
  can differ) and changes nothing, neither the store nor the storage.
\<close>
lemma create_repo_idempotent:
  assumes "store_ok s" "fresh_uuid env s"
    and "memory_CreateRepo gs env input (s, w) = (Inr r, s', w')"
    and "store_reachable sha256 gs (s', w') (s'', w'')"
    and "cr_Namespace input' @ ''/'' @ cr_Name input' = cr_Namespace input @ ''/'' @ cr_Name input"
  shows "\<exists>r'. memory_CreateRepo gs env' input' (s'', w'') = (Inr r', s'', w'') \<and>
    repo_ID r' = repo_ID r \<and> repo_DefaultBranch r' = repo_DefaultBranch r \<and>
    name_key r' = cr_Namespace input' @ ''/'' @ cr_Name input'"
proof -
  let ?n = "cr_Namespace input @ ''/'' @ cr_Name input"
  have r: "map_of (byName s') ?n = Some (repo_ID r) \<and> repo_at s' (repo_ID r) = Some r"
    using assms(3) store_ok_name [OF assms(1), of ?n] store_ok_repo [OF assms(1)]
    by (auto simp: memory_CreateRepo_def Let_def split: option.splits sum.splits prod.splits)
  note later = reachable_grows [OF assms(4) memory_CreateRepo_ok [OF assms(1-3)]]
  from store_grows_name [OF later(2)] r have n: "map_of (byName s'') ?n = Some (repo_ID r)" by blast
  from store_grows_repo [OF later(2)] r obtain r' where
    r': "repo_at s'' (repo_ID r) = Some r'" "repo_grows r r'" by blast
  have "memory_CreateRepo gs env' input' (s'', w'') = (Inr r', s'', w'')"
    using n r' assms(5) by (simp add: memory_CreateRepo_def)
  moreover have "name_key r' = ?n" using store_ok_name [OF later(1) n] r'(1) by simp
  ultimately show ?thesis
    using repo_grows_fields [OF r'(2)] assms(5) by auto
qed

section \<open>The store and its storage\<close>

text \<open>Every repository of the store has its directory.\<close>

definition all_stored :: "'w repoGitStorage \<Rightarrow> memoryRepoStore \<Rightarrow> 'w \<Rightarrow> bool" where
  "all_stored gs s w \<longleftrightarrow>
     (\<forall>k r ctx. repo_at s k = Some r \<longrightarrow> (\<exists>p. BareRepoPath gs ctx k w = Inr p))"

text \<open>The three ways \<open>CreateRepo\<close> goes: nothing changes, the storage fails, the repository is added.\<close>

lemma memory_CreateRepo_cases:
  assumes "memory_CreateRepo gs env input (s, w) = (res, s', w')"
  obtains "s' = s" "w' = w" "\<And>e v. res = Inl e \<Longrightarrow> newUUID (env_uuid env) \<noteq> Inr v"
  | v e w1 where "newUUID (env_uuid env) = Inr v" "res = Inl e" "s' = s"
      "InitBareRepo gs (env_ctx env) v (cr_DefaultBranch input) w = (Some e, w1)"
      "w' = snd (DeleteBareRepo gs (env_ctx env) v w1)"
  | v r where "newUUID (env_uuid env) = Inr v" "res = Inr r" "repo_ID r = v"
      "InitBareRepo gs (env_ctx env) v (cr_DefaultBranch input) w = (None, w')"
      "repo_at s' = (repo_at s)(v \<mapsto> r)"
  using assms
  by (auto simp: memory_CreateRepo_def Let_def split: option.splits sum.splits prod.splits)

context bare_repo_storage begin

lemma create_storage_others:
  assumes "store_ok s" "fresh_uuid env s"
    and "memory_CreateRepo gs env input (s, w) = (res, s', w')"
    and "repo_at s k = Some r"
  shows "BareRepoPath gs ctx k w' = BareRepoPath gs ctx k w"
  using assms(3)
proof (cases rule: memory_CreateRepo_cases)
  case (2 v e w1)
  have kv: "k \<noteq> v" "isCanonicalUUID k" "isCanonicalUUID v"
    using assms(1,2,4) 2(1) store_ok_repo [OF assms(1,4)] newUUID_canonical [OF 2(1)]
    by (auto simp: fresh_uuid_def)
  obtain d where "DeleteBareRepo gs (env_ctx env) v w1 = (d, w')" using 2(5) by (metis prod.collapse)
  from delete_frame [OF this kv(3,2,1)] init_frame [OF 2(4) kv(3,2,1)] show ?thesis by simp
next
  case (3 v r')
  have "k \<noteq> v" "isCanonicalUUID k" "isCanonicalUUID v"
    using assms(1,2,4) 3(1) store_ok_repo [OF assms(1,4)] newUUID_canonical [OF 3(1)]
    by (auto simp: fresh_uuid_def)
  then show ?thesis using init_frame [OF 3(4)] by blast
qed simp

lemma create_keeps_stored:
  assumes "store_ok s" "fresh_uuid env s" "all_stored gs s w"
    and "memory_CreateRepo gs env input (s, w) = (res, s', w')"
  shows "all_stored gs s' w'"
  using assms(4)
proof (cases rule: memory_CreateRepo_cases)
  case (3 v r)
  then show ?thesis
    using create_storage_others [OF assms(1,2,4)] assms(3)
      init_path [OF 3(4) newUUID_canonical [OF 3(1)]]
    by (auto simp: all_stored_def)
qed (use assms(3) create_storage_others [OF assms(1,2,4)] in \<open>auto simp: all_stored_def\<close>)

lemma create_failed_clean:
  assumes "memory_CreateRepo gs env input (s, w) = (Inl e, s', w')"
  shows "s' = s"
    and "newUUID (env_uuid env) = Inr v \<Longrightarrow> \<forall>w1. fst (DeleteBareRepo gs (env_ctx env) v w1) = None
      \<Longrightarrow> BareRepoPath gs ctx v w' = Inl errRepoStorageNotFound"
proof -
  show "s' = s" using assms by (cases rule: memory_CreateRepo_cases) simp_all
  assume v: "newUUID (env_uuid env) = Inr v"
    and del: "\<forall>w1. fst (DeleteBareRepo gs (env_ctx env) v w1) = None"
  from assms v obtain w1 where "w' = snd (DeleteBareRepo gs (env_ctx env) v w1)"
    by (cases rule: memory_CreateRepo_cases) auto
  with del have "DeleteBareRepo gs (env_ctx env) v w1 = (None, w')" by (metis prod.collapse)
  from delete_path [OF this newUUID_canonical [OF v]]
  show "BareRepoPath gs ctx v w' = Inl errRepoStorageNotFound" .
qed

end

text \<open>
  C21 (CreateRepo, filesystemGitStorage).  Store and file system stay in step: with the
  file-system storage, if every repository of the store has its directory before \<open>CreateRepo\<close>,
  it has it afterwards, a new one included; when \<open>CreateRepo\<close> fails, the store is as before and,
  if the clean-up succeeds, the directory of the repository that was not created is gone.
\<close>
theorem create_repo_storage:
  assumes "fs_storage h root" "store_ok s" "fresh_uuid env s"
    and "all_stored (filesystemGitStorage h root) s w"
    and "memory_CreateRepo (filesystemGitStorage h root) env input (s, w) = (res, s', w')"
  shows "all_stored (filesystemGitStorage h root) s' w' \<and>
    (\<forall>e. res = Inl e \<longrightarrow> s' = s \<and>
      (\<forall>v ctx. newUUID (env_uuid env) = Inr v \<and>
         (\<forall>w1. fst (filesystem_DeleteBareRepo h root (env_ctx env) v w1) = None) \<longrightarrow>
         filesystem_BareRepoPath h root ctx v w' = Inl errRepoStorageNotFound))"
proof -
  note fs = fs_storage.storage_contract [OF assms(1)]
  show ?thesis
    using bare_repo_storage.create_keeps_stored [OF fs assms(2-5)]
      bare_repo_storage.create_failed_clean [OF fs] assms(5)
    by (auto simp: filesystemGitStorage_def)
qed

end
