(* ===== verification/Git_Http.thy ===== *)
theory Git_Http
  imports Http Repository_Safety
begin

text \<open>
  Git over HTTP: the smart-HTTP handler (\<open>internal/http/git.go\<close>) and its backend that runs
  \<open>git http-backend\<close> and copies its CGI response (\<open>internal/http/git_exec_backend.go\<close>).

  A run of a \<open>git\<close> process is a parameter: \<open>gitTools\<close> holds the environment variable \<open>PATH\<close>, the
  lower case of runes outside ASCII (for \<open>strings.ToLower\<close>) and a function that gives what a
  process does: whether its pipes could be opened and it could be started, the chunks it writes
  to standard output and to standard error, an error while its output is read, and how it ended
  (whether as an \<open>exec.ExitError\<close>).  A context is read once per request.
\<close>

section \<open>Processes\<close>

record procResult =
  p_open_stdout :: "string option"
  p_open_stderr :: "string option"
  p_start :: "string option"
  p_stdout :: "string list"
  p_read :: "string option"
  p_stderr :: "string list"
  p_wait :: "(bool \<times> string) option"

type_synonym 's gitProc =
  "ctx \<Rightarrow> string \<Rightarrow> string list \<Rightarrow> string list \<Rightarrow> requestBody option \<Rightarrow> 's \<Rightarrow> procResult \<times> 's"

record 's gitTools =
  gt_PATH :: string
  gt_low :: "rune \<Rightarrow> rune"
  gt_run :: "'s gitProc"

text \<open>The error of \<open>cmd.Run()\<close>, with the flag of an \<open>exec.ExitError\<close>.\<close>

definition run_err :: "procResult \<Rightarrow> (bool \<times> string) option" where
  "run_err p = (case p_start p of Some e \<Rightarrow> Some (False, e) | None \<Rightarrow> p_wait p)"

definition default_git :: "string \<Rightarrow> string" where
  "default_git gitPath = (let g = strings_TrimSpace gitPath in if g = [] then ''git'' else g)"

section \<open>Operations and tokens of a request\<close>

definition gitOperationFromService :: "string \<Rightarrow> gitOperation option" where
  "gitOperationFromService service =
     (if service = ''git-upload-pack'' then Some gitOperationRead
      else if service = ''git-receive-pack'' then Some gitOperationWrite
      else None)"

definition gitOperationFromRequest :: "httpRequest \<Rightarrow> gitOperation option" where
  "gitOperationFromRequest r =
     (let gitPath = PathValue r ''gitPath''
      in if gitPath = ''info/refs'' then
           (if r_Method r \<noteq> ''GET'' then None
            else gitOperationFromService (query_Get (r_RawQuery r) ''service''))
         else if gitPath = ''git-upload-pack'' then
           (if r_Method r \<noteq> ''POST'' then None else Some gitOperationRead)
         else if gitPath = ''git-receive-pack'' then
           (if r_Method r \<noteq> ''POST'' then None else Some gitOperationWrite)
         else None)"

definition gitTokenFromRequest :: "httpRequest \<Rightarrow> string" where
  "gitTokenFromRequest r =
     (case BasicAuth r of
        Some (username, password) \<Rightarrow> if password \<noteq> [] then password else username
      | None \<Rightarrow>
          (case strings_CutPrefix (Header_Get (r_Header r) ''Authorization'') ''Bearer '' of
             None \<Rightarrow> []
           | Some token \<Rightarrow> strings_TrimSpace token))"

definition writeGitUnauthorized :: "responseWriter \<Rightarrow> responseWriter" where
  "writeGitUnauthorized w =
     http_Error ''repo token is required'' 401
       (rw_SetHeader ''WWW-Authenticate'' (''Basic realm='' @ quote # ''gitrdone'' @ [quote]) w)"

definition writeGitAccessError :: "go_error \<Rightarrow> responseWriter \<Rightarrow> responseWriter" where
  "writeGitAccessError err w =
     (if err = errRepoNotFound then writeGitUnauthorized w
      else if err = errRepoArchived then writeGitUnauthorized w
      else if err = errRepoTokenInvalid then writeGitUnauthorized w
      else if err = errRepoTokenForbidden then
        http_Error ''repo token cannot perform this git operation'' 403 w
      else if err = errRepoStorageNotFound then http_Error ''repo storage is unavailable'' 500 w
      else http_Error internalServerErrorText 500 w)"

section \<open>The handler\<close>

type_synonym 's authorizer =
  "callEnv \<Rightarrow> authorizeGitAccessInput \<Rightarrow> 's \<Rightarrow> gitAccessGrant result \<times> 's"

text \<open>\<open>gitHTTPBackend.ServeHTTPGit\<close>: it may write to the response and then return an error.\<close>

type_synonym 's gitHTTPBackend =
  "callEnv \<Rightarrow> httpRequest \<Rightarrow> gitAccessGrant \<Rightarrow> responseWriter \<times> 's \<Rightarrow> go_error option \<times> responseWriter \<times> 's"

definition notImplementedGitHTTPBackend :: "'s gitHTTPBackend" where
  "notImplementedGitHTTPBackend = (\<lambda>env r grant (w, s).
     (None, http_Error ''git http backend is not implemented'' 501 w, s))"

definition gitSmartHTTPHandler :: "'s authorizer \<Rightarrow> 's gitHTTPBackend option \<Rightarrow> 's handler" where
  "gitSmartHTTPHandler access backend = (\<lambda>env r (w, s).
     let backend = (case backend of None \<Rightarrow> notImplementedGitHTTPBackend | Some b \<Rightarrow> b)
     in case parseRepoControlID (PathValue r ''repoID'') of
          None \<Rightarrow> respond (http_Error ''repo id is invalid'' 400 w) s
        | Some repoID \<Rightarrow>
            (case gitOperationFromRequest r of
               None \<Rightarrow> respond (http_Error ''git route is invalid'' 400 w) s
             | Some operation \<Rightarrow>
                 (case access env \<lparr>az_RepoID = repoID, az_Token = gitTokenFromRequest r,
                                   az_Operation = operation\<rparr> s of
                    (Inl err, s') \<Rightarrow> respond (writeGitAccessError err w) s'
                  | (Inr grant, s') \<Rightarrow>
                      (case backend env r grant (w, s') of
                         (Some err, w', s'') \<Rightarrow> respond (http_Error internalServerErrorText 500 w') s''
                       | (None, w', s'') \<Rightarrow> respond w' s''))))"

section \<open>The backend\<close>

definition maxGitBackendStderrBytes :: nat where "maxGitBackendStderrBytes = 64 * 1024"

definition gitRemoteUser :: "gitAccessGrant \<Rightarrow> string" where
  "gitRemoteUser grant = (if grant_Subject grant \<noteq> [] then grant_Subject grant else ''gitrdone'')"

definition gitHTTPBackendEnv :: "string \<Rightarrow> httpRequest \<Rightarrow> gitAccessGrant \<Rightarrow> string list" where
  "gitHTTPBackendEnv path_var r grant =
     (let env = gitProcessEnv path_var
                  [''GIT_PROJECT_ROOT='' @ filepath_Dir (grant_RepoPath grant),
                   ''GIT_HTTP_EXPORT_ALL=1'',
                   ''PATH_INFO=/'' @ filepath_Base (grant_RepoPath grant) @ ''/'' @ PathValue r ''gitPath'',
                   ''QUERY_STRING='' @ r_RawQuery r,
                   ''REQUEST_METHOD='' @ r_Method r,
                   ''REMOTE_USER='' @ gitRemoteUser grant];
          contentType = Header_Get (r_Header r) ''Content-Type'';
          protocol = Header_Get (r_Header r) ''Git-Protocol'';
          env = (if contentType \<noteq> [] then env @ [''CONTENT_TYPE='' @ contentType] else env);
          env = (if 0 \<le> r_ContentLength r
                 then env @ [''CONTENT_LENGTH='' @ strconv_FormatInt (r_ContentLength r)] else env);
          env = (if protocol \<noteq> [] then env @ [''GIT_PROTOCOL='' @ protocol] else env)
      in env)"

text \<open>The first of \<open>strings.Fields(value)\<close>.\<close>

function field_prefix :: "string \<Rightarrow> string" where
  "field_prefix [] = []"
| "field_prefix (c # cs) =
     (let (r, n) = decode_rune (c # cs)
      in if is_space r then [] else take n (c # cs) @ field_prefix (drop n (c # cs)))"
  by pat_completeness auto
termination
proof (relation "measure length", goal_cases)
  case 1
  then show ?case by simp
next
  case (2 c cs x r n)
  then have "n = snd (decode_rune (c # cs))" by (metis snd_conv)
  with decode_rune_size [of c cs] show ?case by simp
qed

definition first_field :: "string \<Rightarrow> string option" where
  "first_field v = (let s = trim_left_space v in if s = [] then None else Some (field_prefix s))"

definition parseGitBackendStatus :: "string \<Rightarrow> nat result" where
  "parseGitBackendStatus v =
     (case first_field v of
        None \<Rightarrow> Inl (errOther ''empty git http-backend status header'')
      | Some f \<Rightarrow>
          (case strconv_ParseInt f of
             None \<Rightarrow> Inl (errOther (''invalid git http-backend status header '' @ v))
           | Some status \<Rightarrow>
               (if status < 100 \<or> 999 < status
                then Inl (errOther (''invalid git http-backend status header '' @ v))
                else Inr (nat status))))"

lemma after_newline_length:
  assumes "newline \<in> set out"
  shows "length (tl (dropWhile (\<lambda>c. c \<noteq> newline) out)) < length out"
proof -
  have "dropWhile (\<lambda>c. c \<noteq> newline) out \<noteq> []" using assms by auto
  then show ?thesis
    using length_dropWhile_le [of "\<lambda>c. c \<noteq> newline" out]
    by (cases "dropWhile (\<lambda>c. c \<noteq> newline) out") auto
qed

text \<open>
  The loop over the header lines of \<open>copyGitBackendResponse\<close>, on the bytes the process has still
  to deliver: the status and the rest of the output, and the response with the headers added.
\<close>

function copy_headers ::
  "string option \<Rightarrow> nat \<Rightarrow> string \<Rightarrow> responseWriter \<Rightarrow> (nat \<times> string) result \<times> responseWriter" where
  "copy_headers read_err status out w =
     (if newline \<notin> set out then
        (case read_err of
           None \<Rightarrow> (Inl (errOther ''git http-backend returned no complete response headers''), w)
         | Some e \<Rightarrow> (Inl (errOther (''read git http-backend response header: '' @ e)), w))
      else
        (let line = strings_TrimRight (takeWhile (\<lambda>c. c \<noteq> newline) out @ [newline]) [CHR 0x0D, newline];
             rest = tl (dropWhile (\<lambda>c. c \<noteq> newline) out)
         in if line = [] then (Inr (status, rest), w)
            else (let (name, v, ok) = strings_Cut line '':''
                  in if \<not> ok then
                       (Inl (errOther (''invalid git http-backend response header '' @ line)), w)
                     else
                       (let name = strings_TrimSpace name; v = strings_TrimSpace v
                        in if fold_name name = fold_name ''Status'' then
                             (case parseGitBackendStatus v of
                                Inl e \<Rightarrow> (Inl e, w)
                              | Inr parsedStatus \<Rightarrow> copy_headers read_err parsedStatus rest w)
                           else copy_headers read_err status rest
                                  (w\<lparr>rw_Header := Header_Add name v (rw_Header w)\<rparr>)))))"
  by pat_completeness auto
termination
  by (relation "measure (\<lambda>(e, st, out, w). length out)") (simp_all add: after_newline_length del: length_tl)

declare copy_headers.simps [simp del]

definition copyGitBackendResponse ::
  "procResult \<Rightarrow> responseWriter \<Rightarrow> (bool \<times> go_error option) \<times> responseWriter" where
  "copyGitBackendResponse p w =
     (case copy_headers (p_read p) 200 (concat (p_stdout p)) w of
        (Inl err, w') \<Rightarrow> ((False, Some err), w')
      | (Inr (status, body), w') \<Rightarrow>
          (let w' = rw_WriteHeader status w';
               w' = (if body = [] then w' else rw_Write body w')
           in case p_read p of
                Some e \<Rightarrow> ((True, Some (errOther (''copy git http-backend response body: '' @ e))), w')
              | None \<Rightarrow> ((True, None), w')))"

definition execGitHTTPBackend :: "'s gitTools \<Rightarrow> string \<Rightarrow> 's gitHTTPBackend" where
  "execGitHTTPBackend tools gitPath = (\<lambda>env r grant (w, s).
     let (p, s') = gt_run tools (env_ctx env) (default_git gitPath) [''http-backend'']
                     (gitHTTPBackendEnv (gt_PATH tools) r grant) (Some (r_Body r)) s
     in case p_open_stdout p of
          Some e \<Rightarrow> (Some (errOther (''open git http-backend stdout: '' @ e)), w, s')
        | None \<Rightarrow>
            (case p_open_stderr p of
               Some e \<Rightarrow> (Some (errOther (''open git http-backend stderr: '' @ e)), w, s')
             | None \<Rightarrow>
                 (case p_start p of
                    Some e \<Rightarrow> (Some (errOther (''start git http-backend: '' @ e)), w, s')
                  | None \<Rightarrow>
                      (let stderrText = strings_TrimSpace
                             (take maxGitBackendStderrBytes (concat (p_stderr p)));
                           ((wroteResponse, err), w') = copyGitBackendResponse p w
                       in case err of
                            Some err \<Rightarrow> (Some err, w', s')
                          | None \<Rightarrow>
                              (case p_wait p of
                                 Some (exit, waitErr) \<Rightarrow>
                                   (if \<not> wroteResponse then
                                      (if stderrText \<noteq> [] then
                                         (Some (errOther (''git http-backend failed: '' @ waitErr @ '': '' @
                                                          stderrText)), w', s')
                                       else (Some (errOther (''git http-backend failed: '' @ waitErr)), w', s'))
                                    else (None, w', s'))
                               | None \<Rightarrow> (None, w', s'))))))"

section \<open>Access control of the handler\<close>

text \<open>The answer to a request that has no access: always the same bytes.\<close>

definition unauthorized_response :: responseWriter where
  "unauthorized_response = writeGitUnauthorized new_writer"

definition denied :: "go_error \<Rightarrow> bool" where
  "denied e \<longleftrightarrow> e = errRepoNotFound \<or> e = errRepoArchived \<or> e = errRepoTokenInvalid"

lemma writeGitAccessError_denied: "denied e \<Longrightarrow> writeGitAccessError e new_writer = unauthorized_response"
  by (auto simp: denied_def writeGitAccessError_def unauthorized_response_def)

lemma CanonicalHeaderKey_www: "CanonicalHeaderKey ''WWW-Authenticate'' = ''Www-Authenticate''"
  by code_simp

lemma http_Error_status:
  "rw_Sent w = None \<Longrightarrow> \<not> (100 \<le> code \<and> code \<le> 199) \<Longrightarrow> resp_status (http_Error m code w) = code"
  by (auto simp: http_Error_def rw_WriteHeader_def rw_Write_def resp_status_def Let_def)

lemma unauthorized_status: "resp_status unauthorized_response = 401"
  by (simp add: unauthorized_response_def writeGitUnauthorized_def http_Error_status rw_SetHeader_def
      new_writer_def)

lemma Authorize_memoryStore [simp]:
  "AuthorizeGitAccess (memoryStore sha gs) = memory_AuthorizeGitAccess sha gs"
  by (simp add: memoryStore_def)


text \<open>
  C35 (gitSmartHTTPHandler, writeGitAccessError).  The existence of a repository is not revealed: a
  request that gets no access because the repository is unknown, because it is archived or
  because the token is not valid for it is answered with the same bytes in all three cases.
\<close>
theorem no_existence_oracle:
  assumes "parseRepoControlID (PathValue r ''repoID'') = Some repoID"
    and "gitOperationFromRequest r = Some operation"
    and "memory_AuthorizeGitAccess sha256 gs env \<lparr>az_RepoID = repoID, az_Token = gitTokenFromRequest r,
      az_Operation = operation\<rparr> (s, wd) = (Inl e, st')"
    and "e \<in> {errRepoNotFound, errRepoArchived, errRepoTokenInvalid}"
  shows "gitSmartHTTPHandler (AuthorizeGitAccess (memoryStore sha256 gs)) backend env r (new_writer, s, wd) =
    Some (unauthorized_response, s, wd)"
proof -
  have "st' = (s, wd)"
    using assms(3) memory_Authorize_error [of sha256 gs env _ s wd e "fst st'" "snd st'"]
    by (cases st') auto
  with assms writeGitAccessError_denied [of e] show ?thesis
    by (auto simp: gitSmartHTTPHandler_def denied_def)
qed

section \<open>The environment of the backend\<close>

lemma repoPath_parts:
  assumes "root \<noteq> []" "isCanonicalUUID v"
  shows "filepath_Base (repoPath root v) = v @ ''.git''"
    and "filepath_Dir (repoPath root v) = filepath_Clean (filepath_Clean (root @ ''/repos'') @ ''/'')"
proof -
  let ?d = "filepath_Clean (root @ ''/repos'')"
  have eq: "repoPath root v = ?d @ CHR ''/'' # (v @ ''.git'')"
    using repoPath_eq [OF assms] by simp
  show "filepath_Base (repoPath root v) = v @ ''.git''"
    unfolding eq by (rule Base_snoc [OF uuid_git_plain [OF assms(2)]])
  have "CHR ''/'' \<notin> set (v @ ''.git'')" using uuid_no_slash [OF assms(2)] by simp
  from Dir_snoc [OF this, of ?d] show "filepath_Dir (repoPath root v) = filepath_Clean (?d @ ''/'')"
    unfolding eq .
qed

text \<open>
  C18 (gitHTTPBackendEnv, filesystemGitStorage).  \<open>git http-backend\<close> is confined to the granted
  repository: for a grant of the in-memory store on the file-system storage, the project root is
  the one \<open>repos\<close> directory of the storage, the same for all repositories, and the path below it
  starts with the directory of the granted repository, whatever the request holds.
\<close>
theorem backend_env_confined:
  assumes "store_ok s" "granted sha256 (filesystemGitStorage h root) env input s w grant t" "root \<noteq> []"
  shows "''GIT_PROJECT_ROOT='' @ filepath_Clean (filepath_Clean (root @ ''/repos'') @ ''/'')
      \<in> set (gitHTTPBackendEnv path_var r grant) \<and>
    ''PATH_INFO=/'' @ az_RepoID input @ ''.git/'' @ PathValue r ''gitPath''
      \<in> set (gitHTTPBackendEnv path_var r grant)"
proof -
  from assms(2) obtain repo where "repo_at s (az_RepoID input) = Some repo" by (auto simp: granted_def)
  with store_ok_repo [OF assms(1)] have v: "isCanonicalUUID (az_RepoID input)" by blast
  have "grant_RepoPath grant = repoPath root (az_RepoID input)"
    using assms(2) by (auto simp: granted_def filesystemGitStorage_def filesystem_BareRepoPath_def Let_def
        split: sum.splits if_splits)
  then show ?thesis
    using repoPath_parts [OF assms(3) v] by (simp add: gitHTTPBackendEnv_def gitProcessEnv_def Let_def)
qed

end
