(* ===== verification/Validation.thy ===== *)
theory Validation
  imports Go_Codec
begin

text \<open>
  The input validators of the control API (\<open>internal/http/validation.go\<close>).  A validator
  returns an error message, or the empty string when the value is accepted.  Each is
  characterised by what it accepts; \<open>validateDefaultBranch\<close>, whose checks overlap, is shown
  equivalent to a test of the path components alone, and everything it accepts is a
  well-formed Git reference below \<open>refs/heads/\<close>.
\<close>

section \<open>Definitions\<close>

definition maxControlInputLength :: nat where "maxControlInputLength = 128"

definition isASCIILetter :: "rune \<Rightarrow> bool" where
  "isASCIILetter char \<longleftrightarrow> (97 \<le> char \<and> char \<le> 122) \<or> (65 \<le> char \<and> char \<le> 90)"

definition isASCIIDigit :: "rune \<Rightarrow> bool" where
  "isASCIIDigit char \<longleftrightarrow> 48 \<le> char \<and> char \<le> 57"

definition repoSlugError :: "string \<Rightarrow> string" where
  "repoSlugError field = field @
     '' must be 1-128 characters and contain only letters, numbers, dot, underscore, or dash''"

text \<open>The characters a loop of the three validators lets pass (46 is a dot, 95 an underscore,
  45 a dash, 47 a slash, 58 a colon, 64 an at sign).\<close>

definition slug_rune :: "rune \<Rightarrow> bool" where
  "slug_rune char \<longleftrightarrow> isASCIILetter char \<or> isASCIIDigit char \<or> char = 46 \<or> char = 95 \<or> char = 45"

definition branch_rune :: "rune \<Rightarrow> bool" where
  "branch_rune char \<longleftrightarrow>
     isASCIILetter char \<or> isASCIIDigit char \<or> char = 46 \<or> char = 95 \<or> char = 45 \<or> char = 47"

definition subject_rune :: "rune \<Rightarrow> bool" where
  "subject_rune char \<longleftrightarrow>
     isASCIILetter char \<or> isASCIIDigit char \<or> char \<in> {46, 95, 45, 47, 58, 64}"

definition validateRepoSlug :: "string \<Rightarrow> string \<Rightarrow> string" where
  "validateRepoSlug field value =
     (if length value < 1 \<or> maxControlInputLength < length value then repoSlugError field
      else if list_all slug_rune (runes value) then []
      else repoSlugError field)"

definition branchError :: string where
  "branchError = ''defaultBranch must be a valid branch name''"

definition validateDefaultBranch :: "string \<Rightarrow> string" where
  "validateDefaultBranch value =
     (if length value < 1 \<or> maxControlInputLength < length value then branchError
      else if strings_HasPrefix value ''/'' \<or> strings_HasSuffix value ''/'' \<or>
              strings_HasSuffix value ''.'' then branchError
      else if strings_Contains value ''//'' \<or> strings_Contains value ''..'' then branchError
      else if list_ex (\<lambda>part. part = [] \<or> strings_HasPrefix part ''.'' \<or>
                              strings_HasSuffix part ''.lock'')
                (strings_Split (CHR ''/'') value) then branchError
      else if list_all branch_rune (runes value) then []
      else branchError)"

definition tokenSubjectError :: string where
  "tokenSubjectError =
     ''subject must be 1-128 characters and contain only letters, numbers, dot, underscore, '' @
     ''dash, slash, colon, or at sign''"

definition validateTokenSubject :: "string \<Rightarrow> string" where
  "validateTokenSubject value =
     (if length value < 1 \<or> maxControlInputLength < length value then tokenSubjectError
      else if list_all subject_rune (runes value) then []
      else tokenSubjectError)"

section \<open>The character classes\<close>

lemmas ascii_runes = isASCIILetter_def isASCIIDigit_def

interpretation slug: char_class slug_rune
  by unfold_locales (auto simp: slug_rune_def ascii_runes)

interpretation branch: char_class branch_rune
  by unfold_locales (auto simp: branch_rune_def ascii_runes)

interpretation subject: char_class subject_rune
  by unfold_locales (auto simp: subject_rune_def ascii_runes)

lemma errors_nonempty [simp]:
  "repoSlugError field \<noteq> []" "branchError \<noteq> []" "tokenSubjectError \<noteq> []"
  by (simp_all add: repoSlugError_def branchError_def tokenSubjectError_def)

definition within_limit :: "string \<Rightarrow> bool" where
  "within_limit value \<longleftrightarrow> 1 \<le> length value \<and> length value \<le> 128"

lemma limit_check: "length v < 1 \<or> maxControlInputLength < length v \<longleftrightarrow> \<not> within_limit v"
  by (cases v) (auto simp: within_limit_def maxControlInputLength_def)

section \<open>Slugs and subjects\<close>

text \<open>
  \<open>validateRepoSlug\<close>: The validator of namespaces and names accepts exactly the strings of
  1 to 128 bytes over ASCII letters, digits, dot, underscore and dash; every other string,
  whatever bytes it holds (invalid UTF-8 included), gets the error message of its field.
\<close>
lemma validateRepoSlug_accepts:
  "validateRepoSlug field value =
     (if within_limit value \<and> list_all (\<lambda>c. slug_rune (chr_nat c)) value then []
      else repoSlugError field)"
  unfolding validateRepoSlug_def limit_check slug.runes_bytes by (simp add: list_all_iff)

lemma validateTokenSubject_ok:
  "validateTokenSubject value = [] \<longleftrightarrow>
     within_limit value \<and> (\<forall>c \<in> set value. subject_rune (chr_nat c))"
  unfolding validateTokenSubject_def limit_check subject.runes_bytes by simp

lemma validateRepoSlug_ok:
  "validateRepoSlug field value = [] \<longleftrightarrow>
     within_limit value \<and> (\<forall>c \<in> set value. slug_rune (chr_nat c))"
  unfolding validateRepoSlug_def limit_check slug.runes_bytes by simp

lemma slug_no_slash: "validateRepoSlug field value = [] \<Longrightarrow> CHR ''/'' \<notin> set value"
  by (auto simp: validateRepoSlug_ok slug_rune_def ascii_runes)

section \<open>Branch names\<close>

text \<open>The test of one path component, and the branch names as they are meant to be.\<close>

definition component_ok :: "string \<Rightarrow> bool" where
  "component_ok part \<longleftrightarrow>
     part \<noteq> [] \<and> \<not> strings_HasPrefix part ''.'' \<and> \<not> strings_HasSuffix part ''.lock''"

definition branch_ok :: "string \<Rightarrow> bool" where
  "branch_ok value \<longleftrightarrow>
     within_limit value \<and> (\<forall>c \<in> set value. branch_rune (chr_nat c)) \<and>
     \<not> strings_Contains value ''..'' \<and> \<not> strings_HasSuffix value ''.'' \<and>
     list_all component_ok (strings_Split (CHR ''/'') value)"

lemma leading_slash_component:
  "strings_HasPrefix value ''/'' \<Longrightarrow> [] \<in> set (strings_Split (CHR ''/'') value)"
  by (auto simp: HasPrefix_iff)

lemma trailing_slash_component:
  "strings_HasSuffix value ''/'' \<Longrightarrow> [] \<in> set (strings_Split (CHR ''/'') value)"
  by (auto simp: HasSuffix_iff Split_append_sep)

lemma double_slash_component:
  "strings_Contains value ''//'' \<Longrightarrow> [] \<in> set (strings_Split (CHR ''/'') value)"
  by (auto simp: Contains_iff Split_append_sep)

lemmas slash_components =
  leading_slash_component trailing_slash_component double_slash_component

lemma component_ok_empty: "list_all component_ok parts \<Longrightarrow> [] \<notin> set parts"
  by (auto simp: list_all_iff component_ok_def)

lemma component_loop:
  "list_ex (\<lambda>part. part = [] \<or> strings_HasPrefix part ''.'' \<or> strings_HasSuffix part ''.lock'') ps
     \<longleftrightarrow> \<not> list_all component_ok ps"
  by (auto simp: list_all_iff list_ex_iff component_ok_def)

text \<open>
  \<open>validateDefaultBranch\<close>: The validator of default branches is equivalent to the reference
  test: its checks for a leading, a trailing and a doubled slash are subsumed by the loop over
  the path components.
\<close>
lemma validateDefaultBranch_accepts:
  "validateDefaultBranch value = (if branch_ok value then [] else branchError)"
  unfolding validateDefaultBranch_def limit_check component_loop branch.runes_bytes branch_ok_def
  using component_ok_empty slash_components by auto

lemma validateDefaultBranch_ok: "validateDefaultBranch value = [] \<longleftrightarrow> branch_ok value"
  unfolding validateDefaultBranch_def limit_check component_loop branch.runes_bytes branch_ok_def
  using component_ok_empty slash_components by auto

text \<open>
  The rules a reference name has to meet: no empty component, none that starts with a dot or
  ends in \<open>.lock\<close>, no two dots in a row, no control character, space, tilde, caret, colon,
  question mark, asterisk, bracket or backslash, no dot at the end, and no at sign followed by
  an opening brace (the forbidden bytes are given by their codes).
\<close>

definition ref_byte :: "char \<Rightarrow> bool" where
  "ref_byte c \<longleftrightarrow>
     33 \<le> chr_nat c \<and> chr_nat c \<notin> {127, 126, 94, 58, 63, 42, 91, 92}"

definition wellformed_ref :: "string \<Rightarrow> bool" where
  "wellformed_ref name \<longleftrightarrow>
     list_all component_ok (strings_Split (CHR ''/'') name) \<and>
     1 < length (strings_Split (CHR ''/'') name) \<and>
     \<not> strings_Contains name ''..'' \<and> \<not> strings_Contains name [CHR ''@'', char_of (123::nat)] \<and>
     \<not> strings_HasSuffix name ''.'' \<and> list_all ref_byte name"

lemma branch_rune_ref_byte: "branch_rune (chr_nat c) \<Longrightarrow> ref_byte c \<and> c \<noteq> CHR ''@''"
  by (auto simp: branch_rune_def ref_byte_def ascii_runes)

lemma Split_heads:
  "strings_Split (CHR ''/'') (''refs/heads/'' @ v) = ''refs'' # ''heads'' # strings_Split (CHR ''/'') v"
  by simp

lemma Contains_heads_dots: "strings_Contains (''refs/heads/'' @ v) ''..'' = strings_Contains v ''..''"
  by (simp add: strings_HasPrefix_def)

lemma heads_suffix_dot:
  "v \<noteq> [] \<Longrightarrow> strings_HasSuffix (''refs/heads/'' @ v) ''.'' = strings_HasSuffix v ''.''"
  by (cases v rule: rev_cases) (auto simp: HasSuffix_iff Cons_eq_append_conv)

text \<open>
  C40 (validateDefaultBranch).  Every accepted default branch names a well-formed reference: the
  argument \<open>refs/heads/<branch>\<close> that \<open>InitBareRepo\<close> hands to \<open>git symbolic-ref\<close> meets the rules
  for reference names.
\<close>
theorem accepted_branch_is_wellformed_ref:
  assumes "validateDefaultBranch value = []"
  shows "wellformed_ref (''refs/heads/'' @ value)"
proof -
  from assms have ok: "branch_ok value" by (simp add: validateDefaultBranch_ok)
  then have chars: "\<And>c. c \<in> set value \<Longrightarrow> ref_byte c \<and> c \<noteq> CHR ''@''"
    unfolding branch_ok_def using branch_rune_ref_byte by blast
  have "\<not> strings_Contains (''refs/heads/'' @ value) [CHR ''@'', char_of (123::nat)]"
  proof
    assume "strings_Contains (''refs/heads/'' @ value) [CHR ''@'', char_of (123::nat)]"
    then obtain pre post where
      "''refs/heads/'' @ value = pre @ [CHR ''@'', char_of (123::nat)] @ post"
      by (auto simp: Contains_iff)
    then have "CHR ''@'' \<in> set (''refs/heads/'' @ value)" by (metis in_set_conv_decomp append_Cons)
    then show False using chars [of "CHR ''@''"] by auto
  qed
  moreover have "list_all ref_byte (''refs/heads/'' @ value)"
    using chars by (auto simp: list_all_iff ref_byte_def)
  moreover have "list_all component_ok (''refs'' # ''heads'' # strings_Split (CHR ''/'') value)"
    using ok by (simp add: branch_ok_def component_ok_def strings_HasPrefix_def strings_HasSuffix_def)
  moreover from ok have ne: "value \<noteq> []" by (auto simp: branch_ok_def within_limit_def)
  ultimately show ?thesis
    using ok unfolding wellformed_ref_def Split_heads Contains_heads_dots heads_suffix_dot [OF ne]
      branch_ok_def by (intro conjI) simp_all
qed

theorem accepted_branch_is_wellformed_ref_witness:
  "validateDefaultBranch ''feat/x-1'' = [] \<and> wellformed_ref (''refs/heads/'' @ ''feat/x-1'')"
proof -
  have "branch_ok ''feat/x-1''"
    by (simp add: branch_ok_def within_limit_def branch_rune_def ascii_runes strings_HasPrefix_def
        strings_HasSuffix_def component_ok_def)
  then have "validateDefaultBranch ''feat/x-1'' = []" by (simp add: validateDefaultBranch_ok)
  then show ?thesis by (intro conjI accepted_branch_is_wellformed_ref)
qed

end
