(* ===== verification/Repos.thy ===== *)
theory Repos
  imports Http Validation Repository_Safety
begin

text \<open>
  The control API for repositories (\<open>internal/http/repos.go\<close>): create, get and archive, over any
  implementation of the interface \<open>repoStore\<close>.  \<open>zone\<close> is the time zone of the process, as the
  offset in seconds at a time.
\<close>

section \<open>Requests and responses\<close>

record createRepoRequest =
  crq_Namespace :: string
  crq_Name :: string
  crq_DefaultBranch :: string

definition createRepoRequest_zero :: createRepoRequest where
  "createRepoRequest_zero = \<lparr>crq_Namespace = [], crq_Name = [], crq_DefaultBranch = []\<rparr>"

definition createRepoRequest_field :: "string \<Rightarrow> json \<Rightarrow> createRepoRequest \<Rightarrow> createRepoRequest option" where
  "createRepoRequest_field key v q =
     (case json_field [''namespace'', ''name'', ''defaultBranch''] key of
        None \<Rightarrow> None
      | Some f \<Rightarrow>
          (if f = ''namespace'' then
             map_option (\<lambda>x. q\<lparr>crq_Namespace := x\<rparr>) (json_to_string v (crq_Namespace q))
           else if f = ''name'' then
             map_option (\<lambda>x. q\<lparr>crq_Name := x\<rparr>) (json_to_string v (crq_Name q))
           else map_option (\<lambda>x. q\<lparr>crq_DefaultBranch := x\<rparr>) (json_to_string v (crq_DefaultBranch q))))"

definition repo_name :: "repoRecord \<Rightarrow> string" where
  "repo_name repo = repo_Namespace repo @ ''/'' @ repo_Name repo"

definition createRepoResponse :: "string \<Rightarrow> repoRecord \<Rightarrow> json" where
  "createRepoResponse baseURL repo =
     JObj [(''id'', JStr (formatRepoControlID (repo_ID repo))),
           (''repo'', JStr (repo_name repo)),
           (''gitUrl'', JStr (repoGitURL baseURL (repo_ID repo))),
           (''defaultBranch'', JStr (repo_DefaultBranch repo))]"

definition getRepoResponse :: "string \<Rightarrow> repoRecord \<Rightarrow> json" where
  "getRepoResponse baseURL repo =
     JObj [(''id'', JStr (formatRepoControlID (repo_ID repo))),
           (''repo'', JStr (repo_name repo)),
           (''gitUrl'', JStr (repoGitURL baseURL (repo_ID repo))),
           (''archived'', JBool False)]"

definition archiveRepoResponse :: "(time \<Rightarrow> int) \<Rightarrow> repoRecord \<Rightarrow> json" where
  "archiveRepoResponse zone repo =
     JObj [(''id'', JStr (formatRepoControlID (repo_ID repo))),
           (''repo'', JStr (repo_name repo)),
           (''archived'', JBool True),
           (''archivedAt'', JStr (time_FormatRFC3339 (zone (repo_ArchivedAt repo)) (repo_ArchivedAt repo)))]"

section \<open>Handlers\<close>

text \<open>The trimmed request with its default branch (lines 44 to 49).\<close>

definition normalizeCreateRepoRequest :: "createRepoRequest \<Rightarrow> createRepoRequest" where
  "normalizeCreateRepoRequest request =
     (let branch = strings_TrimSpace (crq_DefaultBranch request)
      in \<lparr>crq_Namespace = strings_TrimSpace (crq_Namespace request),
          crq_Name = strings_TrimSpace (crq_Name request),
          crq_DefaultBranch = (if branch = [] then ''main'' else branch)\<rparr>)"

definition createRepoHandler :: "'s repoStore \<Rightarrow> string \<Rightarrow> 's handler" where
  "createRepoHandler store baseURL = (\<lambda>env r (w, s).
     case decodeJSON createRepoRequest_field r createRepoRequest_zero of
       None \<Rightarrow> respond (writeError 400 ''request body must be valid JSON for create repo'' w) s
     | Some request \<Rightarrow>
         (let request = normalizeCreateRepoRequest request;
              nsError = validateRepoSlug ''namespace'' (crq_Namespace request);
              nameError = validateRepoSlug ''name'' (crq_Name request);
              branchMessage = validateDefaultBranch (crq_DefaultBranch request)
          in if crq_Namespace request = [] then respond (writeError 400 ''namespace is required'' w) s
             else if nsError \<noteq> [] then respond (writeError 400 nsError w) s
             else if crq_Name request = [] then respond (writeError 400 ''name is required'' w) s
             else if nameError \<noteq> [] then respond (writeError 400 nameError w) s
             else if branchMessage \<noteq> [] then respond (writeError 400 branchMessage w) s
             else case CreateRepo store env
                         \<lparr>cr_Namespace = crq_Namespace request, cr_Name = crq_Name request,
                          cr_DefaultBranch = crq_DefaultBranch request\<rparr> s of
                    (Inl err, s') \<Rightarrow> respond (writeError 500 ''repo could not be created'' w) s'
                  | (Inr repo, s') \<Rightarrow> respond (writeJSON 201 (createRepoResponse baseURL repo) w) s'))"

definition getRepoHandler :: "'s repoStore \<Rightarrow> string \<Rightarrow> 's handler" where
  "getRepoHandler store baseURL = (\<lambda>env r (w, s).
     let rawRepoID = strings_TrimSpace (PathValue r ''repoID'')
     in if rawRepoID = [] then respond (writeError 400 ''repo id is required'' w) s
        else case parseRepoControlID rawRepoID of
               None \<Rightarrow> respond (writeError 400 ''repo id is invalid'' w) s
             | Some repoID \<Rightarrow>
                 (case GetRepo store env repoID s of
                    (Inl err, s') \<Rightarrow> respond (writeError 500 ''repo could not be loaded'' w) s'
                  | (Inr repo, s') \<Rightarrow> respond (writeJSON 200 (getRepoResponse baseURL repo) w) s'))"

definition archiveRepoHandler :: "'s repoStore \<Rightarrow> (time \<Rightarrow> int) \<Rightarrow> 's handler" where
  "archiveRepoHandler store zone = (\<lambda>env r (w, s).
     let rawRepoID = strings_TrimSpace (PathValue r ''repoID'')
     in if rawRepoID = [] then respond (writeError 400 ''repo id is required'' w) s
        else case parseRepoControlID rawRepoID of
               None \<Rightarrow> respond (writeError 400 ''repo id is invalid'' w) s
             | Some repoID \<Rightarrow>
                 (case ArchiveRepo store env repoID s of
                    (Inl err, s') \<Rightarrow> respond (writeError 500 ''repo could not be archived'' w) s'
                  | (Inr repo, s') \<Rightarrow> respond (writeJSON 200 (archiveRepoResponse zone repo) w) s'))"

section \<open>Responses on a fresh writer\<close>

definition json_response :: "nat \<Rightarrow> json \<Rightarrow> responseWriter" where
  "json_response status v =
     \<lparr>rw_Header = [(''Content-Type'', [''application/json''])],
      rw_Sent = Some (status, [(''Content-Type'', [''application/json''])]),
      rw_Body = json_text v @ [newline]\<rparr>"

lemma CanonicalHeaderKey_content_type: "CanonicalHeaderKey ''Content-Type'' = ''Content-Type''"
  by code_simp

lemma writeJSON_new [simp]:
  "\<not> (100 \<le> status \<and> status \<le> 199) \<Longrightarrow> writeJSON status v new_writer = json_response status v"
  by (auto simp: writeJSON_def rw_SetHeader_def Header_Set_def rw_WriteHeader_def rw_Write_def
      new_writer_def json_response_def CanonicalHeaderKey_content_type)

lemma writeError_new [simp]:
  "\<not> (100 \<le> status \<and> status \<le> 199) \<Longrightarrow>
     writeError status m new_writer = json_response status (errorResponse m)"
  by (simp add: writeError_def)

lemma resp_status_json [simp]: "resp_status (json_response status v) = status"
  by (simp add: json_response_def resp_status_def)

lemma json_response_inject [simp]:
  "json_response status v = json_response status' v' \<longleftrightarrow> status = status' \<and> json_text v = json_text v'"
  by (auto simp: json_response_def)

section \<open>Creating\<close>

lemma writeError_400: "resp_status (writeError 400 m new_writer) = 400"
  by simp

text \<open>
  C34 (createRepoHandler).  The store only ever sees validated input: on every request the handler
  either answers 400 and leaves the state alone, or it calls \<open>CreateRepo\<close> with a valid namespace,
  a valid name and a valid default branch, and answers 500 or 201 with the record of the store.
\<close>
theorem create_repo_validated:
  "\<exists>w' s'. createRepoHandler store baseURL env r (new_writer, s) = Some (w', s') \<and>
    (resp_status w' = 400 \<and> s' = s \<or>
     (\<exists>input res. CreateRepo store env input s = (res, s') \<and>
        validateRepoSlug ''namespace'' (cr_Namespace input) = [] \<and>
        validateRepoSlug ''name'' (cr_Name input) = [] \<and>
        validateDefaultBranch (cr_DefaultBranch input) = [] \<and>
        w' = (case res of
                Inl err \<Rightarrow> json_response 500 (errorResponse ''repo could not be created'')
              | Inr repo \<Rightarrow> json_response 201 (createRepoResponse baseURL repo))))"
proof (cases "decodeJSON createRepoRequest_field r createRepoRequest_zero")
  case None
  then show ?thesis by (simp add: createRepoHandler_def)
next
  case (Some q)
  let ?q = "normalizeCreateRepoRequest q"
  let ?in = "\<lparr>cr_Namespace = crq_Namespace ?q, cr_Name = crq_Name ?q, cr_DefaultBranch = crq_DefaultBranch ?q\<rparr>"
  obtain res s' where call: "CreateRepo store env ?in s = (res, s')" by fastforce
  show ?thesis
  proof (cases "crq_Namespace ?q = [] \<or> validateRepoSlug ''namespace'' (crq_Namespace ?q) \<noteq> [] \<or>
      crq_Name ?q = [] \<or> validateRepoSlug ''name'' (crq_Name ?q) \<noteq> [] \<or>
      validateDefaultBranch (crq_DefaultBranch ?q) \<noteq> []")
    case True
    with Some show ?thesis by (auto simp: createRepoHandler_def Let_def)
  next
    case False
    with Some call show ?thesis
      by (cases res) (auto simp: createRepoHandler_def Let_def intro!: exI [of _ ?in])
  qed
qed

lemma CreateRepo_memoryStore [simp]: "CreateRepo (memoryStore sha gs) = memory_CreateRepo gs"
  by (simp add: memoryStore_def)

lemma GetRepo_memoryStore [simp]: "GetRepo (memoryStore sha gs) = memory_GetRepo"
  by (simp add: memoryStore_def)

lemma ArchiveRepo_memoryStore [simp]: "ArchiveRepo (memoryStore sha gs) = memory_ArchiveRepo"
  by (simp add: memoryStore_def)

lemma create_repo_again:
  assumes "store_ok s" "memory_CreateRepo gs env input (s, w) = (Inr repo, s', w')"
    and "cr_Namespace input' = cr_Namespace input" "cr_Name input' = cr_Name input"
  shows "memory_CreateRepo gs env' input' (s', w') = (Inr repo, s', w')"
  using assms store_ok_name [OF assms(1)]
  by (auto simp: memory_CreateRepo_def Let_def split: option.splits sum.splits prod.splits)

text \<open>
  \<open>createRepoHandler, memoryRepoStore\<close>.  Creating is safe to retry: the same request sent again
  after it succeeded is answered with the same bytes and changes neither the store nor the
  storage.
\<close>
lemma create_repo_retry:
  assumes "store_ok s"
    and "createRepoHandler (memoryStore sha256 gs) baseURL env r (new_writer, s, w) = Some (resp, s', w')"
    and "resp_status resp = 201"
  shows "createRepoHandler (memoryStore sha256 gs) baseURL env' r (new_writer, s', w') = Some (resp, s', w')"
proof (cases "decodeJSON createRepoRequest_field r createRepoRequest_zero")
  case None
  with assms show ?thesis by (auto simp: createRepoHandler_def)
next
  case (Some q)
  let ?q = "normalizeCreateRepoRequest q"
  let ?in = "\<lparr>cr_Namespace = crq_Namespace ?q, cr_Name = crq_Name ?q, cr_DefaultBranch = crq_DefaultBranch ?q\<rparr>"
  from Some assms(2,3) obtain repo where
    "memory_CreateRepo gs env ?in (s, w) = (Inr repo, s', w')"
    by (auto simp: createRepoHandler_def Let_def split: if_splits sum.splits prod.splits)
  from create_repo_again [OF assms(1) this, of ?in env'] this Some assms(2,3) show ?thesis
    by (auto simp: createRepoHandler_def Let_def split: if_splits)
qed

text \<open>The key of the name index separates validated names.\<close>

lemma name_key_inject:
  assumes "validateRepoSlug f ns = []" "validateRepoSlug f ns' = []"
  shows "ns @ ''/'' @ n = ns' @ ''/'' @ n' \<longleftrightarrow> ns = ns' \<and> n = n'"
proof
  assume "ns @ ''/'' @ n = ns' @ ''/'' @ n'"
  then have eq: "ns @ CHR ''/'' # n = ns' @ CHR ''/'' # n'" by simp
  have "strings_Cut (ns @ CHR ''/'' # n) ''/'' = (ns, n, True)"
    by (rule Cut_char [OF slug_no_slash [OF assms(1)]])
  moreover have "strings_Cut (ns' @ CHR ''/'' # n') ''/'' = (ns', n', True)"
    by (rule Cut_char [OF slug_no_slash [OF assms(2)]])
  ultimately show "ns = ns' \<and> n = n'" unfolding eq by simp
qed simp

lemma create_repo_indexed:
  assumes "store_ok s" "memory_CreateRepo gs env input (s, w) = (Inr repo, s', w')"
  shows "map_of (byName s') (cr_Namespace input @ ''/'' @ cr_Name input) = Some (repo_ID repo)"
  using assms store_ok_name [OF assms(1), of "cr_Namespace input @ ''/'' @ cr_Name input"]
    store_ok_repo [OF assms(1)]
  by (auto simp: memory_CreateRepo_def Let_def split: option.splits sum.splits prod.splits)

text \<open>
  Names do not collide: two creations under different validated names, with any
  operations in between, give repositories with different identifiers.
\<close>
lemma distinct_names_distinct_repos:
  assumes "store_ok s" "fresh_uuid env s" "memory_CreateRepo gs env input (s, w) = (Inr repo, s1, w1)"
    and "store_reachable sha256 gs (s1, w1) (s2, w2)"
    and "fresh_uuid env' s2" "memory_CreateRepo gs env' input' (s2, w2) = (Inr repo', s3, w3)"
    and "validateRepoSlug ''namespace'' (cr_Namespace input) = []"
    and "validateRepoSlug ''namespace'' (cr_Namespace input') = []"
    and "cr_Namespace input \<noteq> cr_Namespace input' \<or> cr_Name input \<noteq> cr_Name input'"
  shows "repo_ID repo \<noteq> repo_ID repo'"
proof -
  note ok1 = memory_CreateRepo_ok [OF assms(1-3)]
  note later = reachable_grows [OF assms(4) ok1]
  note ok3 = memory_CreateRepo_ok [OF later(1) assms(5,6)]
  note grown = memory_CreateRepo_grows [OF assms(5,6)]
  have n: "map_of (byName s3) (cr_Namespace input @ ''/'' @ cr_Name input) = Some (repo_ID repo)"
    using store_grows_name [OF grown] store_grows_name [OF later(2)]
      create_repo_indexed [OF assms(1,3)] by blast
  have n': "map_of (byName s3) (cr_Namespace input' @ ''/'' @ cr_Name input') = Some (repo_ID repo')"
    by (rule create_repo_indexed [OF later(1) assms(6)])
  have "cr_Namespace input @ ''/'' @ cr_Name input \<noteq> cr_Namespace input' @ ''/'' @ cr_Name input'"
    using name_key_inject [OF assms(7,8)] assms(9) by blast
  then show ?thesis using store_ok_name [OF ok3 n] store_ok_name [OF ok3 n'] by auto
qed

section \<open>Reading an archived repository\<close>

text \<open>
  C39 (archiveRepoHandler, getRepoHandler).  Archiving is not visible in the API: the archive call
  answers \<open>archived: true\<close>, but a later get of the same repository answers \<open>archived: false\<close>.
\<close>
theorem get_after_archive:
  assumes "store_ok s" "repo_at s v = Some repo"
    and "PathValue r ''repoID'' = formatRepoControlID v"
  shows "\<exists>t s'. archiveRepoHandler (memoryStore sha256 gs) zone env r (new_writer, s, w) =
      Some (json_response 200 (JObj
        [(''id'', JStr (formatRepoControlID v)), (''repo'', JStr (repo_name repo)),
         (''archived'', JBool True),
         (''archivedAt'', JStr (time_FormatRFC3339 (zone t) t))]),
        s', w) \<and>
    getRepoHandler (memoryStore sha256 gs) baseURL env' r (new_writer, s', w) =
      Some (json_response 200 (JObj
        [(''id'', JStr (formatRepoControlID v)), (''repo'', JStr (repo_name repo)),
         (''gitUrl'', JStr (repoGitURL baseURL v)), (''archived'', JBool False)]), s', w)"
proof -
  from store_ok_repo [OF assms(1,2)] have v: "repo_ID repo = v" "isCanonicalUUID v" by simp_all
  have trim: "strings_TrimSpace (formatRepoControlID v) = formatRepoControlID v"
    "formatRepoControlID v \<noteq> []" "parseRepoControlID (formatRepoControlID v) = Some v"
    using v(2) by (simp_all add: repo_id.format_trim repo_id.parse_format)
      (simp add: formatRepoControlID_def repoControlIDPrefix_def)
  show ?thesis
    by (rule exI [of _ "if repo_ArchivedAt repo = 0 then env_now env else repo_ArchivedAt repo"],
        cases "repo_ArchivedAt repo = 0")
      (use assms v(1) trim in \<open>auto simp: archiveRepoHandler_def getRepoHandler_def memory_ArchiveRepo_def
        memory_GetRepo_def time_IsZero_def archiveRepoResponse_def getRepoResponse_def repo_name_def Let_def\<close>)
qed

end
