(* ===== verification/Git_Lfs.thy ===== *)
theory Git_Lfs
  imports Git_Lfs_Storage Git_Http Repos
begin

text \<open>
  The Git LFS endpoints (\<open>internal/http/git_lfs.go\<close>): the batch request, upload and download of an
  object, and the answer to the verification of locks, over any access check and any object
  store.  The properties are stated for the in-memory repository store and the file-system
  object store, on any host that meets the laws of \<open>file_host\<close>.
\<close>

section \<open>Requests and responses\<close>

definition lfsMediaType :: string where "lfsMediaType = ''application/vnd.git-lfs+json''"
definition maxLFSJSONBodyBytes :: nat where "maxLFSJSONBodyBytes = 1024 * 1024"
definition sha256HexLength :: nat where "sha256HexLength = 64"

record lfsObjectRequest =
  lor_OID :: string
  lor_Size :: int

text \<open>
  A slice that JSON is decoded into, as its elements and what the array behind it holds after
  them: decoding an array again (for a repeated key) starts each element from the value that the
  array still holds.
\<close>

type_synonym 'a jsonSlice = "'a list \<times> 'a list"

record lfsBatchRequest =
  lbr_Operation :: string
  lbr_Transfers :: "string jsonSlice"
  lbr_Objects :: "lfsObjectRequest jsonSlice"

fun decode_elems :: "(json \<Rightarrow> 'a \<Rightarrow> 'a option) \<Rightarrow> 'a \<Rightarrow> json list \<Rightarrow> 'a list \<Rightarrow> 'a list option" where
  "decode_elems decode zero [] old = Some []"
| "decode_elems decode zero (v # vs) old =
     (case decode v (case old of [] \<Rightarrow> zero | x # xs \<Rightarrow> x) of
        None \<Rightarrow> None
      | Some y \<Rightarrow> map_option ((#) y) (decode_elems decode zero vs (tl old)))"

definition json_to_slice ::
  "(json \<Rightarrow> 'a \<Rightarrow> 'a option) \<Rightarrow> 'a \<Rightarrow> json \<Rightarrow> 'a jsonSlice \<Rightarrow> 'a jsonSlice option" where
  "json_to_slice decode zero v old =
     (case v of
        JNull \<Rightarrow> Some ([], [])
      | JArr [] \<Rightarrow> Some ([], [])
      | JArr vs \<Rightarrow>
          map_option (\<lambda>xs. (xs, drop (length vs) (fst old @ snd old)))
            (decode_elems decode zero vs (fst old @ snd old))
      | _ \<Rightarrow> None)"

definition lfsObjectRequest_zero :: lfsObjectRequest where
  "lfsObjectRequest_zero = \<lparr>lor_OID = [], lor_Size = 0\<rparr>"

definition lfsObjectRequest_field :: "string \<Rightarrow> json \<Rightarrow> lfsObjectRequest \<Rightarrow> lfsObjectRequest option" where
  "lfsObjectRequest_field key v q =
     (case json_field [''oid'', ''size''] key of
        None \<Rightarrow> Some q
      | Some f \<Rightarrow>
          (if f = ''oid'' then map_option (\<lambda>x. q\<lparr>lor_OID := x\<rparr>) (json_to_string v (lor_OID q))
           else map_option (\<lambda>x. q\<lparr>lor_Size := x\<rparr>) (json_to_int v (lor_Size q))))"

definition lfsBatchRequest_zero :: lfsBatchRequest where
  "lfsBatchRequest_zero = \<lparr>lbr_Operation = [], lbr_Transfers = ([], []), lbr_Objects = ([], [])\<rparr>"

definition lfsBatchRequest_field :: "string \<Rightarrow> json \<Rightarrow> lfsBatchRequest \<Rightarrow> lfsBatchRequest option" where
  "lfsBatchRequest_field key v q =
     (case json_field [''operation'', ''transfers'', ''objects''] key of
        None \<Rightarrow> Some q
      | Some f \<Rightarrow>
          (if f = ''operation'' then
             map_option (\<lambda>x. q\<lparr>lbr_Operation := x\<rparr>) (json_to_string v (lbr_Operation q))
           else if f = ''transfers'' then
             map_option (\<lambda>x. q\<lparr>lbr_Transfers := x\<rparr>) (json_to_slice json_to_string [] v (lbr_Transfers q))
           else
             map_option (\<lambda>x. q\<lparr>lbr_Objects := x\<rparr>)
               (json_to_slice (json_struct lfsObjectRequest_field) lfsObjectRequest_zero v (lbr_Objects q))))"

record lfsObjectError =
  loe_Code :: nat
  loe_Message :: string

text \<open>\<open>Actions\<close> maps the name of an action to its \<open>href\<close>; both are left out of the JSON when empty.\<close>

record lfsObjectResponse =
  lop_OID :: string
  lop_Size :: int
  lop_Actions :: "(string, string) gomap"
  lop_Error :: "lfsObjectError option"

definition lfsObjectResponse_json :: "lfsObjectResponse \<Rightarrow> json" where
  "lfsObjectResponse_json p =
     JObj ([(''oid'', JStr (lop_OID p)), (''size'', json_int (lop_Size p))] @
           (if lop_Actions p = [] then []
            else [(''actions'', JObj (map (\<lambda>(k, href). (k, JObj [(''href'', JStr href)])) (lop_Actions p)))]) @
           (case lop_Error p of
              None \<Rightarrow> []
            | Some e \<Rightarrow> [(''error'', JObj [(''code'', json_int (int (loe_Code e))),
                                        (''message'', JStr (loe_Message e))])]))"

definition lfsBatchResponse :: "lfsObjectResponse list \<Rightarrow> json" where
  "lfsBatchResponse objects =
     JObj [(''transfer'', JStr ''basic''), (''objects'', JArr (map lfsObjectResponse_json objects))]"

definition lfsLocksVerifyResponse :: json where
  "lfsLocksVerifyResponse = JObj [(''ours'', JArr []), (''theirs'', JArr [])]"

definition writeLFSJSON :: "nat \<Rightarrow> json \<Rightarrow> responseWriter \<Rightarrow> responseWriter" where
  "writeLFSJSON status v w =
     rw_Write (json_text v @ [newline])
       (rw_WriteHeader status (rw_SetHeader ''Content-Type'' lfsMediaType w))"

definition writeLFSUnauthorized :: "responseWriter \<Rightarrow> responseWriter" where
  "writeLFSUnauthorized w =
     writeLFSJSON 401 (errorResponse ''repo token is required'')
       (rw_SetHeader ''WWW-Authenticate'' (''Basic realm='' @ quote # ''gitrdone'' @ [quote]) w)"

definition writeLFSAccessError :: "go_error \<Rightarrow> responseWriter \<Rightarrow> responseWriter" where
  "writeLFSAccessError err w =
     (if err = errRepoNotFound then writeLFSUnauthorized w
      else if err = errRepoArchived then writeLFSUnauthorized w
      else if err = errRepoTokenInvalid then writeLFSUnauthorized w
      else if err = errRepoTokenForbidden then
        writeLFSJSON 403 (errorResponse ''repo token cannot perform this git lfs operation'') w
      else if err = errRepoStorageNotFound then
        writeLFSJSON 500 (errorResponse ''repo storage is unavailable'') w
      else writeLFSJSON 500 (errorResponse internalServerErrorText) w)"

text \<open>\<open>decodeLFSJSON\<close> accepts unknown fields; its limit is larger than that of \<open>decodeJSON\<close>.\<close>

definition decodeLFSJSON :: "httpRequest \<Rightarrow> lfsBatchRequest \<Rightarrow> lfsBatchRequest option" where
  "decodeLFSJSON r target = decode_body maxLFSJSONBodyBytes (json_struct lfsBatchRequest_field) r target"

definition parseLFSOID :: "(rune \<Rightarrow> rune) \<Rightarrow> string \<Rightarrow> string option" where
  "parseLFSOID low raw =
     (let v = strings_ToLower low (strings_TrimSpace raw)
      in if length v \<noteq> sha256HexLength then None
         else if list_all (\<lambda>char. isASCIIDigit char \<or> 97 \<le> char \<and> char \<le> 102) (runes v) then Some v
         else None)"

definition lfsObjectURL :: "httpRequest \<Rightarrow> string \<Rightarrow> string" where
  "lfsObjectURL r oid =
     (let scheme = (if r_TLS r then ''https'' else ''http'');
          forwardedProto = strings_TrimSpace (Header_Get (r_Header r) ''X-Forwarded-Proto'');
          scheme = (if forwardedProto = ''http'' \<or> forwardedProto = ''https'' then forwardedProto else scheme);
          (repoPrefix, _, _) = strings_Cut (r_Path r) ''/info/lfs/''
      in scheme @ ''://'' @ r_Host r @ repoPrefix @ ''/info/lfs/objects/'' @ oid)"

text \<open>The scheme that a request names is believed whoever the peer is.\<close>

lemma lfs_scheme_any_peer:
  assumes "strings_TrimSpace (Header_Get (r_Header r) ''X-Forwarded-Proto'') = ''https''"
  shows "\<exists>rest. \<forall>peer. lfsObjectURL (r\<lparr>r_RemoteAddr := peer\<rparr>) oid = ''https://'' @ rest"
  using assms by (auto simp: lfsObjectURL_def split: prod.split)

section \<open>Handlers\<close>

definition authorizeLFSAccess ::
  "'s authorizer \<Rightarrow> callEnv \<Rightarrow> httpRequest \<Rightarrow> string \<Rightarrow> gitOperation \<Rightarrow> 's \<Rightarrow> gitAccessGrant result \<times> 's" where
  "authorizeLFSAccess access env r repoID operation s =
     access env \<lparr>az_RepoID = repoID, az_Token = gitTokenFromRequest r, az_Operation = operation\<rparr> s"

text \<open>
  The loop of the batch request: the responses, or the status and the message of the answer that
  ends it.  The operation is \<open>upload\<close> or \<open>download\<close> when it runs.
\<close>

fun batch_objects ::
  "(rune \<Rightarrow> rune) \<Rightarrow> 's lfsObjectStore \<Rightarrow> ctx \<Rightarrow> httpRequest \<Rightarrow> string \<Rightarrow> int \<Rightarrow> string \<Rightarrow>
     lfsObjectRequest list \<Rightarrow> 's \<Rightarrow> (nat \<times> string) + lfsObjectResponse list" where
  "batch_objects low store ctx r repoID maxObjectBytes operation [] s = Inr []"
| "batch_objects low store ctx r repoID maxObjectBytes operation (q # objects) s =
     (case parseLFSOID low (lor_OID q) of
        None \<Rightarrow> Inl (400, ''git lfs object is invalid'')
      | Some oid \<Rightarrow>
          (if lor_Size q < 0 then Inl (400, ''git lfs object is invalid'')
           else
             (let response = \<lparr>lop_OID = oid, lop_Size = lor_Size q, lop_Actions = [], lop_Error = None\<rparr>;
                  rest = batch_objects low store ctx r repoID maxObjectBytes operation objects s;
                  append = (\<lambda>p. map_sum (\<lambda>e. e) ((#) p) rest)
              in if operation = ''upload'' then
                   (if lor_Size q > maxObjectBytes then
                      append (response\<lparr>lop_Error := Some \<lparr>loe_Code = 413, loe_Message = ''object is too large''\<rparr>\<rparr>)
                    else case lfs_Exists store ctx repoID oid (lor_Size q) s of
                           Inl err \<Rightarrow> Inl (500, internalServerErrorText)
                         | Inr exist \<Rightarrow>
                             (if \<not> exist
                              then append (response\<lparr>lop_Actions := [(''upload'', lfsObjectURL r oid)]\<rparr>)
                              else append response))
                 else if operation = ''download'' then
                   (case lfs_Exists store ctx repoID oid (lor_Size q) s of
                      Inl err \<Rightarrow> Inl (500, internalServerErrorText)
                    | Inr exist \<Rightarrow>
                        (if exist
                         then append (response\<lparr>lop_Actions := [(''download'', lfsObjectURL r oid)]\<rparr>)
                         else append (response\<lparr>lop_Error :=
                                Some \<lparr>loe_Code = 404, loe_Message = ''object not found''\<rparr>\<rparr>)))
                 else append response)))"

definition serveLFSBatch ::
  "(rune \<Rightarrow> rune) \<Rightarrow> 's authorizer \<Rightarrow> 's lfsObjectStore \<Rightarrow> string \<Rightarrow> int \<Rightarrow> 's handler" where
  "serveLFSBatch low access store repoID maxObjectBytes = (\<lambda>env r (w, s).
     case decodeLFSJSON r lfsBatchRequest_zero of
       None \<Rightarrow>
         respond (writeLFSJSON 400 (errorResponse ''request body must be valid JSON for git lfs batch'') w) s
     | Some request \<Rightarrow>
         (let operation =
            (if lbr_Operation request = ''download'' then Some gitOperationRead
             else if lbr_Operation request = ''upload'' then Some gitOperationWrite
             else None)
          in case operation of
               None \<Rightarrow> respond (writeLFSJSON 400 (errorResponse ''git lfs operation is invalid'') w) s
             | Some operation \<Rightarrow>
                 (case authorizeLFSAccess access env r repoID operation s of
                    (Inl err, s') \<Rightarrow> respond (writeLFSAccessError err w) s'
                  | (Inr grant, s') \<Rightarrow>
                      (case batch_objects low store (env_ctx env) r (grant_RepoID grant) maxObjectBytes
                              (lbr_Operation request) (fst (lbr_Objects request)) s' of
                         Inl (status, message) \<Rightarrow> respond (writeLFSJSON status (errorResponse message) w) s'
                       | Inr objects \<Rightarrow> respond (writeLFSJSON 200 (lfsBatchResponse objects) w) s'))))"

definition serveLFSUpload ::
  "(rune \<Rightarrow> rune) \<Rightarrow> 's authorizer \<Rightarrow> 's lfsObjectStore \<Rightarrow> string \<Rightarrow> int \<Rightarrow> 's handler" where
  "serveLFSUpload low access store repoID maxObjectBytes = (\<lambda>env r (w, s).
     case authorizeLFSAccess access env r repoID gitOperationWrite s of
       (Inl err, s') \<Rightarrow> respond (writeLFSAccessError err w) s'
     | (Inr grant, s') \<Rightarrow>
         (case parseLFSOID low (PathValue r ''oid'') of
            None \<Rightarrow> respond (writeLFSJSON 400 (errorResponse ''git lfs object id is invalid'') w) s'
          | Some oid \<Rightarrow>
              (if r_ContentLength r < 0 then
                 respond (writeLFSJSON 411 (errorResponse ''git lfs object size is required'') w) s'
               else if r_ContentLength r > maxObjectBytes then
                 respond (writeLFSJSON 413 (errorResponse ''git lfs object is too large'') w) s'
               else
                 (case lfs_Put store (env_ctx env) (grant_RepoID grant) oid (r_ContentLength r) maxObjectBytes
                         (MaxBytesReader (nat maxObjectBytes) (r_Body r)) s' of
                    (None, s'') \<Rightarrow> respond (rw_WriteHeader 200 w) s''
                  | (Some err, s'') \<Rightarrow>
                      (if err = errMaxBytes then
                         respond (writeLFSJSON 413 (errorResponse ''git lfs object is too large'') w) s''
                       else if err = errLFSObjectTooLarge then
                         respond (writeLFSJSON 413 (errorResponse ''git lfs object is too large'') w) s''
                       else if err = errLFSObjectInvalid then
                         respond (writeLFSJSON 422
                           (errorResponse ''git lfs object does not match oid or size'') w) s''
                       else respond (writeLFSJSON 500 (errorResponse internalServerErrorText) w) s'')))))"

definition serveLFSDownload ::
  "(rune \<Rightarrow> rune) \<Rightarrow> 's authorizer \<Rightarrow> 's lfsObjectStore \<Rightarrow> string \<Rightarrow> 's handler" where
  "serveLFSDownload low access store repoID = (\<lambda>env r (w, s).
     case authorizeLFSAccess access env r repoID gitOperationRead s of
       (Inl err, s') \<Rightarrow> respond (writeLFSAccessError err w) s'
     | (Inr grant, s') \<Rightarrow>
         (case parseLFSOID low (PathValue r ''oid'') of
            None \<Rightarrow> respond (writeLFSJSON 400 (errorResponse ''git lfs object id is invalid'') w) s'
          | Some oid \<Rightarrow>
              (case lfs_Open store (env_ctx env) (grant_RepoID grant) oid s' of
                 Inl err \<Rightarrow>
                   (if err = errLFSObjectNotFound then
                      respond (writeLFSJSON 404 (errorResponse ''git lfs object was not found'') w) s'
                    else respond (writeLFSJSON 500 (errorResponse internalServerErrorText) w) s')
               | Inr object \<Rightarrow>
                   (let w = rw_SetHeader ''Content-Type'' ''application/octet-stream'' w;
                        w = rw_SetHeader ''Content-Length'' (strconv_FormatInt (lso_Size object)) w;
                        w = rw_WriteHeader 200 w
                    in respond (rw_Write (body_bytes (lso_Body object)) w) s'))))"

definition serveLFSLocksVerify :: "'s authorizer \<Rightarrow> string \<Rightarrow> 's handler" where
  "serveLFSLocksVerify access repoID = (\<lambda>env r (w, s).
     case authorizeLFSAccess access env r repoID gitOperationWrite s of
       (Inl err, s') \<Rightarrow> respond (writeLFSAccessError err w) s'
     | (Inr grant, s') \<Rightarrow> respond (writeLFSJSON 200 lfsLocksVerifyResponse w) s')"

definition gitLFSHandler ::
  "(rune \<Rightarrow> rune) \<Rightarrow> 's authorizer \<Rightarrow> 's lfsObjectStore option \<Rightarrow> int \<Rightarrow> 's handler" where
  "gitLFSHandler low access store maxObjectBytes = (\<lambda>env r (w, s).
     let maxObjectBytes = normalizeMaxLFSObjectBytes maxObjectBytes
     in case parseRepoControlID (PathValue r ''repoID'') of
          None \<Rightarrow> respond (writeLFSJSON 400 (errorResponse ''repo id is invalid'') w) s
        | Some repoID \<Rightarrow>
            (case store of
               None \<Rightarrow> respond (writeLFSJSON 501 (errorResponse ''git lfs backend is not implemented'') w) s
             | Some store \<Rightarrow>
                 (if r_Method r = ''POST'' \<and> strings_HasSuffix (r_Path r) ''/info/lfs/objects/batch'' then
                    serveLFSBatch low access store repoID maxObjectBytes env r (w, s)
                  else if r_Method r = ''PUT'' \<and> PathValue r ''oid'' \<noteq> [] then
                    serveLFSUpload low access store repoID maxObjectBytes env r (w, s)
                  else if r_Method r = ''GET'' \<and> PathValue r ''oid'' \<noteq> [] then
                    serveLFSDownload low access store repoID env r (w, s)
                  else if r_Method r = ''POST'' \<and> strings_HasSuffix (r_Path r) ''/info/lfs/locks/verify'' then
                    serveLFSLocksVerify access repoID env r (w, s)
                  else respond (writeLFSJSON 400 (errorResponse ''git lfs route is invalid'') w) s)))"

section \<open>Object identifiers and answers\<close>

interpretation oid_char: char_class "\<lambda>char. isASCIIDigit char \<or> 97 \<le> char \<and> char \<le> 102"
  by unfold_locales (auto simp: isASCIIDigit_def)

lemma parseLFSOID_oid:
  assumes "parseLFSOID low raw = Some v"
  shows "lfs_oid v"
proof -
  from assms have "length v = 64" "list_all (\<lambda>char. isASCIIDigit char \<or> 97 \<le> char \<and> char \<le> 102) (runes v)"
    by (auto simp: parseLFSOID_def sha256HexLength_def Let_def split: if_splits)
  then show ?thesis
    unfolding oid_char.runes_bytes by (auto simp: lfs_oid_def list_all_iff isLowerHexDigit_def isASCIIDigit_def)
qed

lemma resp_status_lfs [simp]:
  "rw_Sent w = None \<Longrightarrow> \<not> (100 \<le> status \<and> status \<le> 199) \<Longrightarrow> resp_status (writeLFSJSON status v w) = status"
  by (auto simp: writeLFSJSON_def rw_WriteHeader_def rw_Write_def resp_status_def rw_SetHeader_def Let_def)

lemma rw_Sent_simps [simp]: "rw_Sent new_writer = None" "rw_Sent (rw_SetHeader k v w) = rw_Sent w"
  by (simp_all add: new_writer_def rw_SetHeader_def)

lemma lfs_access_error_status:
  "resp_status (writeLFSAccessError err new_writer) \<in> {401, 403, 500}"
  by (simp add: writeLFSAccessError_def writeLFSUnauthorized_def)

lemma MaxBytesReader_whole: "body_err (MaxBytesReader k b) = None \<Longrightarrow> MaxBytesReader k b = b"
  by (auto simp: MaxBytesReader_def split: if_splits)

lemma normalizeMax_idem [simp]:
  "normalizeMaxLFSObjectBytes (normalizeMaxLFSObjectBytes m) = normalizeMaxLFSObjectBytes m"
  using normalizeMax_pos [of m] by (simp add: normalizeMaxLFSObjectBytes_def)

lemma normalizeMax_bound: "m < 2 ^ 63 - 1 \<Longrightarrow> normalizeMaxLFSObjectBytes m < 2 ^ 63 - 1"
  by (simp add: normalizeMaxLFSObjectBytes_def DefaultMaxLFSObjectBytes_def)

section \<open>The service over its two interfaces\<close>

text \<open>Requests served one after the other, each with a response of its own.\<close>

fun serve_all :: "'s handler \<Rightarrow> (callEnv \<times> httpRequest) list \<Rightarrow> 's \<Rightarrow> 's option" where
  "serve_all h [] s = Some s"
| "serve_all h ((env, r) # reqs) s =
     (case h env r (new_writer, s) of None \<Rightarrow> None | Some (w, s') \<Rightarrow> serve_all h reqs s')"

text \<open>The request asks for an upload of the object \<open>v\<close> of the repository.\<close>

definition uploads :: "(rune \<Rightarrow> rune) \<Rightarrow> string \<Rightarrow> string \<Rightarrow> httpRequest \<Rightarrow> bool" where
  "uploads low repoID v r \<longleftrightarrow> r_Method r = ''PUT'' \<and>
     parseRepoControlID (PathValue r ''repoID'') = Some repoID \<and> parseLFSOID low (PathValue r ''oid'') = Some v"

text \<open>The answer that carries an object.\<close>

definition object_response :: "string \<Rightarrow> responseWriter" where
  "object_response c = rw_Write c (rw_WriteHeader 200
     (rw_SetHeader ''Content-Length'' (strconv_FormatInt (int (length c)))
       (rw_SetHeader ''Content-Type'' ''application/octet-stream'' new_writer)))"

lemma object_response_fields [simp]:
  "resp_status (object_response c) = 200" "rw_Body (object_response c) = c"
  "Header_Get (resp_header (object_response c)) ''Content-Length'' = strconv_FormatInt (int (length c))"
proof -
  have "CanonicalHeaderKey ''Content-Length'' = ''Content-Length''"
    "CanonicalHeaderKey ''Content-Type'' = ''Content-Type''" by code_simp+
  then show "resp_status (object_response c) = 200" "rw_Body (object_response c) = c"
    "Header_Get (resp_header (object_response c)) ''Content-Length'' = strconv_FormatInt (int (length c))"
    by (simp_all add: object_response_def rw_Write_def rw_WriteHeader_def rw_SetHeader_def new_writer_def
        resp_status_def resp_header_def Header_Get_def Header_Set_def Let_def)
qed

text \<open>
  The service relies on the object store and on the access check: it changes nothing that the
  objects are made of, keeps what it relies on itself, and grants the repository it was asked for.
\<close>

locale lfs_service = lfs_storage store object digest
  for store :: "'s lfsObjectStore" and object :: "'s \<Rightarrow> string \<Rightarrow> string \<Rightarrow> string option"
    and digest :: "string \<Rightarrow> string" +
  fixes access :: "('m \<times> 's) authorizer" and ok :: "'m \<Rightarrow> bool"
  assumes access_world: "access env input (m, s) = (res, m', s') \<Longrightarrow> s' = s"
    and access_ok: "ok m \<Longrightarrow> access env input (m, s) = (res, m', s') \<Longrightarrow> ok m'"
    and access_repo: "ok m \<Longrightarrow> access env input (m, s) = (Inr g, m', s') \<Longrightarrow> grant_RepoID g = az_RepoID input"
begin

text \<open>What one upload does: it is refused before the store is asked, or the store decides.\<close>

lemma upload_cases:
  assumes "serveLFSUpload low access (lfs_on store) repoID mx env r (new_writer, m, s) = Some (w', m', s')"
    and "ok m"
  shows "ok m' \<and>
    (s' = s \<and> resp_status w' \<in> {400, 401, 403, 411, 413, 500} \<or>
     (\<exists>g v e. access env \<lparr>az_RepoID = repoID, az_Token = gitTokenFromRequest r, az_Operation = gitOperationWrite\<rparr>
         (m, s) = (Inr g, m', s) \<and>
       parseLFSOID low (PathValue r ''oid'') = Some v \<and> r_ContentLength r \<le> mx \<and>
       lfs_Put store (env_ctx env) repoID v (r_ContentLength r) mx (MaxBytesReader (nat mx) (r_Body r)) s = (e, s') \<and>
       (if e = None then resp_status w' = 200 else resp_status w' \<in> {413, 422, 500})))"
proof -
  let ?in = "\<lparr>az_RepoID = repoID, az_Token = gitTokenFromRequest r, az_Operation = gitOperationWrite\<rparr>"
  obtain res m1 s1 where acc: "access env ?in (m, s) = (res, m1, s1)" by (metis prod_cases3)
  have s1: "s1 = s" "ok m1" using access_world [OF acc] access_ok [OF assms(2) acc] by auto
  show ?thesis
  proof (cases res)
    case (Inl err)
    with assms(1) acc s1 lfs_access_error_status [of err] show ?thesis
      by (auto simp: serveLFSUpload_def authorizeLFSAccess_def)
  next
    case (Inr g)
    have g: "grant_RepoID g = repoID" using access_repo [OF assms(2), of env ?in s g m1 s1] acc Inr by simp
    obtain e s2 where put: "\<And>v. parseLFSOID low (PathValue r ''oid'') = Some v \<Longrightarrow>
        lfs_Put store (env_ctx env) repoID v (r_ContentLength r) mx (MaxBytesReader (nat mx) (r_Body r)) s = (e, s2)"
      by (cases "parseLFSOID low (PathValue r ''oid'')") (auto, metis surj_pair)
    have ans: "resp_status (rw_WriteHeader 200 new_writer) = 200"
      by (simp add: rw_WriteHeader_def new_writer_def resp_status_def)
    from assms(1) acc s1 Inr g put ans show ?thesis
      by (cases e) (auto simp: serveLFSUpload_def authorizeLFSAccess_def lfs_on_def split: option.splits if_splits)
  qed
qed

lemma batch_world:
  "serveLFSBatch low access (lfs_on store) repoID mx env r (w, m, s) = Some (w', m', s') \<Longrightarrow> ok m \<Longrightarrow>
     s' = s \<and> ok m'"
  by (auto simp: serveLFSBatch_def authorizeLFSAccess_def Let_def
      split: option.splits prod.splits sum.splits if_splits dest: access_world access_ok)

lemma download_world:
  "serveLFSDownload low access (lfs_on store) repoID env r (w, m, s) = Some (w', m', s') \<Longrightarrow> ok m \<Longrightarrow>
     s' = s \<and> ok m'"
  by (auto simp: serveLFSDownload_def authorizeLFSAccess_def Let_def
      split: option.splits prod.splits sum.splits if_splits dest: access_world access_ok)

lemma locks_world:
  "serveLFSLocksVerify access repoID env r (w, m, s) = Some (w', m', s') \<Longrightarrow> ok m \<Longrightarrow> s' = s \<and> ok m'"
  by (auto simp: serveLFSLocksVerify_def authorizeLFSAccess_def
      split: prod.splits sum.splits dest: access_world access_ok)

lemma request_cases:
  assumes "gitLFSHandler low access (Some (lfs_on store)) mx env r (new_writer, m, s) = Some (w', m', s')" "ok m"
  shows "ok m' \<and> (s' = s \<or>
    (\<exists>repoID v e. uploads low repoID v r \<and>
       lfs_Put store (env_ctx env) repoID v (r_ContentLength r) (normalizeMaxLFSObjectBytes mx)
         (MaxBytesReader (nat (normalizeMaxLFSObjectBytes mx)) (r_Body r)) s = (e, s')))"
  using assms
  by (auto simp: gitLFSHandler_def uploads_def Let_def split: option.splits if_splits
      dest: upload_cases batch_world download_world locks_world)

lemma upload_request:
  assumes "gitLFSHandler low access (Some (lfs_on store)) mx env r (new_writer, m, s) = Some (w', m', s')"
    and "ok m" "r_Method r = ''PUT''" "resp_status w' = 200"
  obtains repoID v g where "uploads low repoID v r" "ok m'"
    "access env \<lparr>az_RepoID = repoID, az_Token = gitTokenFromRequest r, az_Operation = gitOperationWrite\<rparr>
         (m, s) = (Inr g, m', s)"
    "lfs_Put store (env_ctx env) repoID v (r_ContentLength r) (normalizeMaxLFSObjectBytes mx)
         (MaxBytesReader (nat (normalizeMaxLFSObjectBytes mx)) (r_Body r)) s = (None, s')"
proof -
  from assms(1,3,4) obtain repoID where repo: "parseRepoControlID (PathValue r ''repoID'') = Some repoID"
    and up: "serveLFSUpload low access (lfs_on store) repoID (normalizeMaxLFSObjectBytes mx) env r (new_writer, m, s) =
      Some (w', m', s')"
    by (auto simp: gitLFSHandler_def Let_def split: option.splits if_splits)
  from upload_cases [OF up assms(2)] assms(3,4) repo that show ?thesis
    by (auto simp: uploads_def split: if_splits)
qed

lemma uploads_key: "uploads low repoID v r \<Longrightarrow> lfs_key repoID v"
  by (auto simp: uploads_def lfs_key_def parseLFSOID_oid repo_id.parse_canonical)

text \<open>Requests keep every object they do not upload, and the digests of all of them.\<close>

lemma serve_all_keeps:
  assumes "serve_all (gitLFSHandler low access (Some (lfs_on store)) mx) reqs (m, s) = Some (m', s')"
    and "ok m" "lfs_key repoID v" "list_all (\<lambda>(env, r). \<not> uploads low repoID v r) reqs"
  shows "ok m' \<and> object s' repoID v = object s repoID v"
  using assms
proof (induction reqs arbitrary: m s)
  case (Cons q reqs)
  obtain env r where q: "q = (env, r)" by fastforce
  from Cons.prems(1) q obtain w1 m1 s1 where st:
    "gitLFSHandler low access (Some (lfs_on store)) mx env r (new_writer, m, s) = Some (w1, m1, s1)"
    "serve_all (gitLFSHandler low access (Some (lfs_on store)) mx) reqs (m1, s1) = Some (m', s')"
    by (auto split: option.splits)
  have no: "\<not> uploads low repoID v r" using Cons.prems(4) q by simp
  from request_cases [OF st(1) Cons.prems(2)] have "ok m1 \<and> object s1 repoID v = object s repoID v"
  proof (elim conjE disjE exE)
    fix repo' v' e
    assume up: "uploads low repo' v' r" and put: "lfs_Put store (env_ctx env) repo' v' (r_ContentLength r)
      (normalizeMaxLFSObjectBytes mx) (MaxBytesReader (nat (normalizeMaxLFSObjectBytes mx)) (r_Body r)) s = (e, s1)"
      and "ok m1"
    have "(repoID, v) \<noteq> (repo', v')" using up no by auto
    with put_frame [OF put uploads_key [OF up] Cons.prems(3)] \<open>ok m1\<close> show ?thesis by simp
  qed simp_all
  with Cons.IH [OF st(2) _ Cons.prems(3)] Cons.prems(4) show ?case by simp
qed simp

lemma serve_all_addressed:
  assumes "serve_all (gitLFSHandler low access (Some (lfs_on store)) mx) reqs (m, s) = Some (m', s')"
    and "ok m" "addressed (object s) digest" "mx < 2 ^ 63 - 1"
  shows "ok m' \<and> addressed (object s') digest"
  using assms
proof (induction reqs arbitrary: m s)
  case (Cons q reqs)
  obtain env r where q: "q = (env, r)" by fastforce
  from Cons.prems(1) q obtain w1 m1 s1 where st:
    "gitLFSHandler low access (Some (lfs_on store)) mx env r (new_writer, m, s) = Some (w1, m1, s1)"
    "serve_all (gitLFSHandler low access (Some (lfs_on store)) mx) reqs (m1, s1) = Some (m', s')"
    by (auto split: option.splits)
  from request_cases [OF st(1) Cons.prems(2)] have "ok m1 \<and> addressed (object s1) digest"
    using Cons.prems(3,4) put_addressed [OF Cons.prems(3)] uploads_key normalizeMax_bound by blast
  with Cons.IH [OF st(2)] Cons.prems(4) show ?case by blast
qed simp

lemma parseLFSOID_nonempty: "parseLFSOID low raw = Some v \<Longrightarrow> raw \<noteq> []"
  by (auto simp: parseLFSOID_def strings_ToLower_def sha256HexLength_def Let_def)

lemma download_request:
  assumes "r_Method r = ''GET''" "parseRepoControlID (PathValue r ''repoID'') = Some repoID"
    and "parseLFSOID low (PathValue r ''oid'') = Some v"
  shows "gitLFSHandler low access (Some (lfs_on store)) mx env r (w, m, s) =
    serveLFSDownload low access (lfs_on store) repoID env r (w, m, s)"
  using assms parseLFSOID_nonempty by (fastforce simp: gitLFSHandler_def)

lemma download_object:
  assumes "r_Method r = ''GET''" "parseRepoControlID (PathValue r ''repoID'') = Some repoID"
    and "parseLFSOID low (PathValue r ''oid'') = Some v" "ok m" "env_ctx env = None"
    and "access env \<lparr>az_RepoID = repoID, az_Token = gitTokenFromRequest r, az_Operation = gitOperationRead\<rparr>
           (m, s) = (Inr g, m', s)"
    and "object s repoID v = Some c"
  shows "gitLFSHandler low access (Some (lfs_on store)) mx env r (new_writer, m, s) =
    Some (object_response c, m', s)"
proof -
  have key: "lfs_key repoID v"
    using assms(2,3) by (auto simp: lfs_key_def parseLFSOID_oid repo_id.parse_canonical)
  have "grant_RepoID g = repoID" using access_repo [OF assms(4,6)] by simp
  with assms(3,5,6) open_object [OF key assms(7)] show ?thesis
    unfolding download_request [OF assms(1-3)]
    by (simp add: serveLFSDownload_def authorizeLFSAccess_def lfs_on_def object_response_def Let_def)
qed

lemma download_addressed:
  assumes "gitLFSHandler low access (Some (lfs_on store)) mx env r (new_writer, m, s) = Some (w', m', s')"
    and "ok m" "addressed (object s) digest" "r_Method r = ''GET''" "resp_status w' = 200"
  shows "\<exists>v c. parseLFSOID low (PathValue r ''oid'') = Some v \<and> w' = object_response c \<and> digest c = v"
proof -
  from assms(1,4,5) obtain repoID where repo: "parseRepoControlID (PathValue r ''repoID'') = Some repoID"
    and dl: "serveLFSDownload low access (lfs_on store) repoID env r (new_writer, m, s) = Some (w', m', s')"
    by (auto simp: gitLFSHandler_def Let_def split: option.splits if_splits)
  let ?in = "\<lparr>az_RepoID = repoID, az_Token = gitTokenFromRequest r, az_Operation = gitOperationRead\<rparr>"
  obtain res m1 s1 where acc: "access env ?in (m, s) = (res, m1, s1)" by (metis prod_cases3)
  have s1: "s1 = s" using access_world [OF acc] .
  have "res \<noteq> Inl err" for err
    using dl acc assms(5) lfs_access_error_status [of err]
    by (auto simp: serveLFSDownload_def authorizeLFSAccess_def)
  then obtain g where res: "res = Inr g" by (cases res) auto
  have g: "grant_RepoID g = repoID" using access_repo [OF assms(2), of env ?in s g m1 s1] acc res by simp
  obtain v where v: "parseLFSOID low (PathValue r ''oid'') = Some v"
    using dl acc res assms(5) by (auto simp: serveLFSDownload_def authorizeLFSAccess_def split: option.splits)
  obtain x where op: "lfs_Open store (env_ctx env) repoID v s = Inr x"
    using dl acc res g v s1 assms(5)
    by (auto simp: serveLFSDownload_def authorizeLFSAccess_def lfs_on_def split: sum.splits if_splits)
  have key: "lfs_key repoID v" using repo v by (auto simp: lfs_key_def parseLFSOID_oid repo_id.parse_canonical)
  note x = open_addressed [OF assms(3) key op]
  have "w' = object_response (body_bytes (lso_Body x))"
    using dl acc res g v s1 op x(2)
    by (simp add: serveLFSDownload_def authorizeLFSAccess_def lfs_on_def object_response_def Let_def)
  with v x(1) show ?thesis by blast
qed

end

section \<open>The service of the in-memory server\<close>

text \<open>The LFS handler as the server composes it (\<open>server.go\<close>, line 42), over the in-memory store.\<close>

definition memory_lfs ::
  "(rune \<Rightarrow> rune) \<Rightarrow> (string \<Rightarrow> byte list) \<Rightarrow> 'w repoGitStorage \<Rightarrow> 'w fileHost \<Rightarrow> string \<Rightarrow> int \<Rightarrow>
     (memoryRepoStore \<times> 'w) handler" where
  "memory_lfs low sha256 gs h root mx =
     gitLFSHandler low (AuthorizeGitAccess (memoryStore sha256 gs))
       (Some (lfs_on (filesystemLFSObjectStore h sha256 (newFilesystemLFSObjectStore root)))) mx"

lemma memory_lfs_service:
  assumes "file_host h content"
  shows "lfs_service (filesystemLFSObjectStore h sha256 (newFilesystemLFSObjectStore root))
    (\<lambda>s r v. content s (objectPath (newFilesystemLFSObjectStore root) r v))
    (\<lambda>c. hex_EncodeToString (sha256 c)) (AuthorizeGitAccess (memoryStore sha256 gs)) store_ok"
proof (intro lfs_service.intro lfs_service_axioms.intro fs_lfs_contract [OF assms], unfold Authorize_memoryStore)
  fix env input m s res m' s' g
  assume call: "memory_AuthorizeGitAccess sha256 gs env input (m, s) = (res, m', s')"
  then show "s' = s"
    by (auto simp: memory_AuthorizeGitAccess_def Let_def split: option.splits if_splits sum.splits)
  assume ok: "store_ok m"
  show "store_ok m'"
  proof (cases res)
    case (Inl e)
    with call memory_Authorize_error ok show ?thesis by metis
  next
    case (Inr g)
    with call memory_Authorize_grant [OF ok, of sha256 gs env input s g m' s'] obtain t where
      "granted sha256 gs env input m s g t" "m' = touch_token (env_now env) t m" by blast
    with store_ok_set_token [OF ok, of "tok_ID t" t "t\<lparr>tok_LastUsedAt := env_now env\<rparr>"] show ?thesis
      by (simp add: granted_def presented_token_def touch_token_def)
  qed
next
  fix env input m s g m' s'
  assume "store_ok m" "memory_AuthorizeGitAccess sha256 gs env input (m, s) = (Inr g, m', s')"
  from memory_Authorize_grant [OF this] show "grant_RepoID g = az_RepoID input"
    by (auto simp: granted_def)
qed

interpretation memory_lfs: lfs_service "filesystemLFSObjectStore map_files sha256 (newFilesystemLFSObjectStore root)"
  "\<lambda>s r v. map_of s (objectPath (newFilesystemLFSObjectStore root) r v)" "\<lambda>c. hex_EncodeToString (sha256 c)"
  "AuthorizeGitAccess (memoryStore sha256 gs)" store_ok for sha256 root gs
  by (rule memory_lfs_service [OF map_files.file_host_axioms])

text \<open>
  C28 (serveLFSUpload, serveLFSDownload, filesystemLFSObjectStore).  Round trip: an object whose
  upload was answered with 200 is served back byte for byte, with its length, to every later
  request that is granted read access, whatever other LFS requests were served in between (uploads
  of other objects, refused uploads, batches), as long as none of them uploads the same object
  again.  The configured limit is below the largest 64-bit integer.
\<close>
theorem lfs_upload_download:
  assumes "file_host h content" "store_ok s" "mx < 2 ^ 63 - 1"
    and "memory_lfs low sha256 gs h root mx env r (new_writer, s, wd) = Some (w1, s1, wd1)"
    and "uploads low repoID v r" "resp_status w1 = 200"
    and "serve_all (memory_lfs low sha256 gs h root mx) reqs (s1, wd1) = Some (s2, wd2)"
    and "list_all (\<lambda>(env, q). \<not> uploads low repoID v q) reqs"
    and "r_Method r' = ''GET''" "parseRepoControlID (PathValue r' ''repoID'') = Some repoID"
    and "parseLFSOID low (PathValue r' ''oid'') = Some v" "env_ctx env' = None"
    and "memory_AuthorizeGitAccess sha256 gs env' \<lparr>az_RepoID = repoID, az_Token = gitTokenFromRequest r',
           az_Operation = gitOperationRead\<rparr> (s2, wd2) = (Inr g, s3, wd2)"
  shows "\<exists>w2. memory_lfs low sha256 gs h root mx env' r' (new_writer, s2, wd2) = Some (w2, s3, wd2) \<and>
    resp_status w2 = 200 \<and> rw_Body w2 = body_bytes (r_Body r) \<and>
    Header_Get (resp_header w2) ''Content-Length'' = strconv_FormatInt (int (length (body_bytes (r_Body r))))"
proof -
  let ?obj = "\<lambda>s r v. content s (objectPath (newFilesystemLFSObjectStore root) r v)"
  note sv = memory_lfs_service [OF assms(1), of sha256 root gs]
  note run = assms(4,7) [unfolded memory_lfs_def]
  have key: "lfs_key repoID v" using lfs_service.uploads_key [OF sv assms(5)] .
  from assms(5) have put: "r_Method r = ''PUT''" by (simp add: uploads_def)
  from lfs_service.upload_request [OF sv run(1) assms(2) put assms(6)] assms(5)
  have up: "store_ok s1" "lfs_Put (filesystemLFSObjectStore h sha256 (newFilesystemLFSObjectStore root)) (env_ctx env)
      repoID v (r_ContentLength r) (normalizeMaxLFSObjectBytes mx)
      (MaxBytesReader (nat (normalizeMaxLFSObjectBytes mx)) (r_Body r)) wd = (None, wd1)"
    by (auto simp: uploads_def)
  from lfs_storage.put_done [OF fs_lfs_contract [OF assms(1)] up(2) key normalizeMax_bound [OF assms(3)]]
  have "?obj wd1 repoID v = Some (body_bytes (r_Body r))"
    using MaxBytesReader_whole by (metis (no_types, lifting))
  with lfs_service.serve_all_keeps [OF sv run(2) up(1) key assms(8)]
  have "store_ok s2" "?obj wd2 repoID v = Some (body_bytes (r_Body r))" by auto
  from lfs_service.download_object [OF sv assms(9-11) this(1) assms(12) _ this(2)] assms(13)
  show ?thesis by (simp add: memory_lfs_def)
qed



end
