(* ===== verification/Git_Diff.thy ===== *)
theory Git_Diff
  imports Git_Http
begin

text \<open>
  The diff endpoints (\<open>internal/http/git_diff.go\<close>): the syntax of a diff specification, the
  arguments handed to \<open>git\<close>, the resolution of revisions, and the bounded buffers the output is
  collected in.  Error texts that only lead to the answer 500 are kept without Go's quoting.
\<close>

section \<open>Specifications\<close>

definition maxGitDiffBytes :: nat where "maxGitDiffBytes = 8 * 1024 * 1024"
definition maxGitDiffStderrBytes :: nat where "maxGitDiffStderrBytes = 64 * 1024"
definition minGitObjectIDLength :: nat where "minGitObjectIDLength = 7"
definition maxGitObjectIDLength :: nat where "maxGitObjectIDLength = 64"

datatype gitDiffKind = gitDiffShow | gitDiffCompare

record gitDiffTarget =
  dt_kind :: gitDiffKind
  dt_revspec :: string
  dt_revs :: "string list"

definition isGitObjectID :: "string \<Rightarrow> bool" where
  "isGitObjectID v \<longleftrightarrow>
     \<not> (length v < minGitObjectIDLength \<or> maxGitObjectIDLength < length v) \<and>
     list_all isLowerHexDigit (runes v)"

definition diffSeparator :: "string \<Rightarrow> string" where
  "diffSeparator spec = (if strings_Contains spec ''...'' then ''...'' else ''..'')"

definition parseGitDiffSpec :: "gitDiffKind \<Rightarrow> string \<Rightarrow> gitDiffTarget option" where
  "parseGitDiffSpec kind raw =
     (case strings_CutSuffix (strings_TrimSpace raw) ''.diff'' of
        None \<Rightarrow> None
      | Some spec \<Rightarrow>
          (if spec = [] then None
           else case kind of
                  gitDiffShow \<Rightarrow>
                    (if \<not> isGitObjectID spec then None
                     else Some \<lparr>dt_kind = kind, dt_revspec = spec, dt_revs = [spec]\<rparr>)
                | gitDiffCompare \<Rightarrow>
                    (let separator = diffSeparator spec;
                         (base, head, ok) = strings_Cut spec separator
                     in if \<not> ok \<or> \<not> isGitObjectID base \<or> \<not> isGitObjectID head then None
                        else Some \<lparr>dt_kind = kind, dt_revspec = base @ separator @ head,
                                   dt_revs = [base, head]\<rparr>)))"

definition gitDiffArgs :: "string \<Rightarrow> gitDiffTarget \<Rightarrow> string list" where
  "gitDiffArgs gitDir target =
     (let common = [''--no-color'', ''--no-ext-diff'', ''--no-textconv'', ''--full-index'']
      in case dt_kind target of
           gitDiffShow \<Rightarrow>
             [''--git-dir'', gitDir, ''show'', ''--patch'', ''--format='', ''--diff-merges=first-parent''] @
             common @ [dt_revspec target, ''--'']
         | gitDiffCompare \<Rightarrow>
             [''--git-dir'', gitDir, ''diff''] @ common @ [dt_revspec target, ''--''])"

section \<open>Bounded buffers\<close>

record cappedBuffer =
  cb_buf :: string
  cb_limit :: nat
  cb_truncated :: bool

definition new_cappedBuffer :: "nat \<Rightarrow> cappedBuffer" where
  "new_cappedBuffer limit = \<lparr>cb_buf = [], cb_limit = limit, cb_truncated = False\<rparr>"

text \<open>\<open>Write\<close> gives the number of bytes it reports as written, and the buffer.\<close>

definition cappedBuffer_Write :: "string \<Rightarrow> cappedBuffer \<Rightarrow> nat \<times> cappedBuffer" where
  "cappedBuffer_Write p c =
     (let remaining = int (cb_limit c) - int (length (cb_buf c))
      in if remaining \<le> 0 then (length p, c\<lparr>cb_truncated := True\<rparr>)
         else if remaining < int (length p) then
           (length p, c\<lparr>cb_buf := cb_buf c @ take (nat remaining) p, cb_truncated := True\<rparr>)
         else (length p, c\<lparr>cb_buf := cb_buf c @ p\<rparr>))"

text \<open>A process writes its chunks one after the other (\<open>io.Copy\<close> never writes an empty one).\<close>

definition capped_copy :: "string list \<Rightarrow> cappedBuffer \<Rightarrow> cappedBuffer" where
  "capped_copy chunks c = fold (\<lambda>p c. snd (cappedBuffer_Write p c)) (filter (\<lambda>p. p \<noteq> []) chunks) c"

definition stderr_text :: "procResult \<Rightarrow> string" where
  "stderr_text p =
     strings_TrimSpace (cb_buf (capped_copy (p_stderr p) (new_cappedBuffer maxGitDiffStderrBytes)))"

section \<open>Resolving revisions\<close>

definition isMissingGitRevisionError :: "(rune \<Rightarrow> rune) \<Rightarrow> bool \<Rightarrow> string \<Rightarrow> bool" where
  "isMissingGitRevisionError low exitErr stderr =
     (if \<not> exitErr then False
      else (let message = strings_ToLower low stderr
            in if strings_Contains message ''not a git repository'' then False
               else strings_Contains message ''needed a single revision'' \<or>
                    strings_Contains message ''not a valid object name'' \<or>
                    strings_Contains message ''expected commit type'' \<or>
                    strings_Contains message ''ambiguous''))"

definition isNoMergeBaseGitDiffError :: "(rune \<Rightarrow> rune) \<Rightarrow> bool \<Rightarrow> string \<Rightarrow> bool" where
  "isNoMergeBaseGitDiffError low exitErr stderr =
     (if \<not> exitErr then False else strings_Contains (strings_ToLower low stderr) ''no merge base'')"

definition resolveGitCommit ::
  "'s gitTools \<Rightarrow> ctx \<Rightarrow> string \<Rightarrow> string \<Rightarrow> string \<Rightarrow> 's \<Rightarrow> string result \<times> 's" where
  "resolveGitCommit tools ctx gitPath gitDir revision s =
     (let (p, s') = gt_run tools ctx gitPath
                      [''--git-dir'', gitDir, ''rev-parse'', ''--verify'',
                       revision @ ''^'' @ open_brace # ''commit'' @ [close_brace]]
                      (gitProcessEnv (gt_PATH tools) []) None s
      in case run_err p of
           Some (exitErr, err) \<Rightarrow>
             (case ctx of
                Some ctxErr \<Rightarrow> (Inl ctxErr, s')
              | None \<Rightarrow>
                  (let message = stderr_text p
                   in if isMissingGitRevisionError (gt_low tools) exitErr message then
                        (Inl errGitRevisionNotFound, s')
                      else if message \<noteq> [] then
                        (Inl (errOther (''resolve git revision: '' @ err @ '': '' @ message)), s')
                      else (Inl (errOther (''resolve git revision: '' @ err)), s')))
         | None \<Rightarrow>
             (let commit = strings_TrimSpace (concat (p_stdout p))
              in if \<not> isGitObjectID commit then
                   (Inl (errOther (''resolve git revision returned invalid object id '' @ commit)), s')
                 else (Inr commit, s')))"

fun resolve_revs ::
  "'s gitTools \<Rightarrow> ctx \<Rightarrow> string \<Rightarrow> string \<Rightarrow> string list \<Rightarrow> 's \<Rightarrow> string list result \<times> 's" where
  "resolve_revs tools ctx gitPath gitDir [] s = (Inr [], s)"
| "resolve_revs tools ctx gitPath gitDir (revision # revs) s =
     (case resolveGitCommit tools ctx gitPath gitDir revision s of
        (Inl err, s') \<Rightarrow> (Inl err, s')
      | (Inr resolved, s') \<Rightarrow>
          (case resolve_revs tools ctx gitPath gitDir revs s' of
             (Inl err, s'') \<Rightarrow> (Inl err, s'')
           | (Inr resolvedRevs, s'') \<Rightarrow> (Inr (resolved # resolvedRevs), s'')))"

text \<open>The revisions of a parsed target are one for \<open>show\<close> and two for \<open>compare\<close>, so the indices
  0 and 1 are in range; out of range Go would panic.\<close>

definition resolveGitDiffTarget ::
  "'s gitTools \<Rightarrow> ctx \<Rightarrow> string \<Rightarrow> string \<Rightarrow> gitDiffTarget \<Rightarrow> 's \<Rightarrow> gitDiffTarget result \<times> 's" where
  "resolveGitDiffTarget tools ctx gitPath gitDir target s =
     (case resolve_revs tools ctx gitPath gitDir (dt_revs target) s of
        (Inl err, s') \<Rightarrow> (Inl err, s')
      | (Inr resolvedRevs, s') \<Rightarrow>
          (case dt_kind target of
             gitDiffShow \<Rightarrow>
               (Inr \<lparr>dt_kind = dt_kind target, dt_revspec = resolvedRevs ! 0, dt_revs = resolvedRevs\<rparr>, s')
           | gitDiffCompare \<Rightarrow>
               (Inr \<lparr>dt_kind = dt_kind target,
                     dt_revspec = resolvedRevs ! 0 @ diffSeparator (dt_revspec target) @ resolvedRevs ! 1,
                     dt_revs = resolvedRevs\<rparr>, s')))"

section \<open>Running git diff\<close>

definition runGitDiff ::
  "'s gitTools \<Rightarrow> ctx \<Rightarrow> string \<Rightarrow> string list \<Rightarrow> 's \<Rightarrow> string result \<times> 's" where
  "runGitDiff tools ctx gitPath args s =
     (let (p, s') = gt_run tools ctx gitPath args (gitProcessEnv (gt_PATH tools) []) None s
      in case p_open_stdout p of
           Some e \<Rightarrow> (Inl (errOther (''open git diff stdout: '' @ e)), s')
         | None \<Rightarrow>
             (case p_open_stderr p of
                Some e \<Rightarrow> (Inl (errOther (''open git diff stderr: '' @ e)), s')
              | None \<Rightarrow>
                  (case p_start p of
                     Some e \<Rightarrow> (Inl (errOther (''start git diff: '' @ e)), s')
                   | None \<Rightarrow>
                       (let patch = take (maxGitDiffBytes + 1) (concat (p_stdout p));
                            tooLarge = maxGitDiffBytes < length patch
                        in if tooLarge then (Inl errGitDiffTooLarge, s')
                           else case p_read p of
                                  Some e \<Rightarrow> (Inl (errOther (''read git diff output: '' @ e)), s')
                                | None \<Rightarrow>
                                    (case ctx of
                                       Some ctxErr \<Rightarrow> (Inl ctxErr, s')
                                     | None \<Rightarrow>
                                         (case p_wait p of
                                            Some (exitErr, waitErr) \<Rightarrow>
                                              (let message = stderr_text p
                                               in if isNoMergeBaseGitDiffError (gt_low tools) exitErr message
                                                  then (Inl errGitDiffNoMergeBase, s')
                                                  else if message \<noteq> [] then
                                                    (Inl (errOther (''git diff failed: '' @ waitErr @ '': '' @
                                                                    message)), s')
                                                  else (Inl (errOther (''git diff failed: '' @ waitErr)), s'))
                                          | None \<Rightarrow> (Inr patch, s')))))))"

type_synonym 's gitDiffBackend =
  "callEnv \<Rightarrow> httpRequest \<Rightarrow> gitAccessGrant \<Rightarrow> gitDiffTarget \<Rightarrow> responseWriter \<times> 's \<Rightarrow>
     go_error option \<times> responseWriter \<times> 's"

definition notImplementedGitDiffBackend :: "'s gitDiffBackend" where
  "notImplementedGitDiffBackend = (\<lambda>env r grant target (w, s).
     (None, http_Error ''git diff backend is not implemented'' 501 w, s))"

definition execGitDiffBackend :: "'s gitTools \<Rightarrow> string \<Rightarrow> 's gitDiffBackend" where
  "execGitDiffBackend tools gitPath = (\<lambda>env r grant target (w, s).
     let gitPath = default_git gitPath; ctx = env_ctx env
     in case resolveGitDiffTarget tools ctx gitPath (grant_RepoPath grant) target s of
          (Inl err, s') \<Rightarrow>
            (if err = errGitRevisionNotFound then
               (None, http_Error ''diff revision was not found'' 404 w, s')
             else (Some err, w, s'))
        | (Inr resolvedTarget, s') \<Rightarrow>
            (case runGitDiff tools ctx gitPath (gitDiffArgs (grant_RepoPath grant) resolvedTarget) s' of
               (Inl err, s'') \<Rightarrow> (Some err, w, s'')
             | (Inr patch, s'') \<Rightarrow>
                 (let w = rw_SetHeader ''Content-Type'' ''text/plain; charset=utf-8'' w;
                      w = rw_SetHeader ''X-Content-Type-Options'' ''nosniff'' w
                  in (None, rw_Write patch (rw_WriteHeader 200 w), s''))))"

definition gitDiffHandler ::
  "'s authorizer \<Rightarrow> 's gitDiffBackend option \<Rightarrow> gitDiffKind \<Rightarrow> 's handler" where
  "gitDiffHandler access backend kind = (\<lambda>env r (w, s).
     let backend = (case backend of None \<Rightarrow> notImplementedGitDiffBackend | Some b \<Rightarrow> b)
     in case parseRepoControlID (PathValue r ''repoID'') of
          None \<Rightarrow> respond (http_Error ''repo id is invalid'' 400 w) s
        | Some repoID \<Rightarrow>
            (case parseGitDiffSpec kind (PathValue r ''spec'') of
               None \<Rightarrow> respond (http_Error ''diff revision is invalid'' 400 w) s
             | Some target \<Rightarrow>
                 (case access env \<lparr>az_RepoID = repoID, az_Token = gitTokenFromRequest r,
                                   az_Operation = gitOperationRead\<rparr> s of
                    (Inl err, s') \<Rightarrow> respond (writeGitAccessError err w) s'
                  | (Inr grant, s') \<Rightarrow>
                      (case backend env r grant target (w, s') of
                         (None, w', s'') \<Rightarrow> respond w' s''
                       | (Some err, w', s'') \<Rightarrow>
                           (if err = errGitDiffTooLarge then
                              respond (http_Error ''git diff is too large'' 413 w') s''
                            else if err = errGitDiffNoMergeBase then
                              respond (http_Error ''diff revisions do not share a merge base'' 409 w') s''
                            else respond (http_Error internalServerErrorText 500 w') s'')))))"

section \<open>Object identifiers and specifications\<close>

lemma isGitObjectID_bytes:
  "isGitObjectID v \<longleftrightarrow> 7 \<le> length v \<and> length v \<le> 64 \<and> (\<forall>c \<in> set v. isLowerHexDigit (chr_nat c))"
  by (auto simp: isGitObjectID_def hex.runes_bytes minGitObjectIDLength_def maxGitObjectIDLength_def)

lemma object_id_chars:
  assumes "isGitObjectID v" "c \<in> set v"
  shows "visible c" "c \<noteq> CHR ''.''" "c \<noteq> CHR ''-''" "c \<noteq> CHR ''/''" "c \<noteq> CHR '':''"
  using assms by (auto simp: isGitObjectID_bytes isLowerHexDigit_def visible_def is_space_def)

lemma object_id_nonempty: "isGitObjectID v \<Longrightarrow> v \<noteq> []"
  by (auto simp: isGitObjectID_bytes)

lemma Cut_dots:
  assumes "CHR ''.'' \<notin> set b" "sep = ''..'' \<or> sep = ''...''"
  shows "strings_Cut (b @ sep @ a) sep = (b, a, True)"
  using assms by (induction b) (auto simp: strings_HasPrefix_def)

lemma Contains_dots3:
  assumes "CHR ''.'' \<notin> set b" "CHR ''.'' \<notin> set a"
  shows "strings_Contains (b @ ''...'' @ a) ''...''" "\<not> strings_Contains (b @ ''..'' @ a) ''...''"
proof -
  show "strings_Contains (b @ ''...'' @ a) ''...''" by (auto simp: Contains_iff)
  show "\<not> strings_Contains (b @ ''..'' @ a) ''...''"
  proof
    assume "strings_Contains (b @ ''..'' @ a) ''...''"
    then obtain x y where "b @ ''..'' @ a = x @ ''...'' @ y" by (auto simp: Contains_iff)
    then have "count_list (b @ ''..'' @ a) (CHR ''.'') = count_list (x @ ''...'' @ y) (CHR ''.'')" by simp
    with assms show False by (simp add: count_notin)
  qed
qed

text \<open>
  C33 (parseGitDiffSpec).  The syntax of a comparison is exact: a specification is accepted exactly
  when it is, up to surrounding white space, two object identifiers of 7 to 64 lower-case
  hexadecimal digits joined by two or three dots and followed by \<open>.diff\<close>; the argument for git
  is those identifiers joined by those dots.
\<close>
theorem compare_spec_exact:
  "parseGitDiffSpec gitDiffCompare raw = Some target \<longleftrightarrow>
   (\<exists>base head sep. (sep = ''..'' \<or> sep = ''...'') \<and> isGitObjectID base \<and> isGitObjectID head \<and>
      strings_TrimSpace raw = base @ sep @ head @ ''.diff'' \<and>
      target = \<lparr>dt_kind = gitDiffCompare, dt_revspec = base @ sep @ head, dt_revs = [base, head]\<rparr>)"
  (is "?parse \<longleftrightarrow> ?spec")
proof
  assume ?parse
  then obtain spec base head where spec: "strings_TrimSpace raw = spec @ ''.diff''"
    and cut: "strings_Cut spec (diffSeparator spec) = (base, head, True)"
    and ids: "isGitObjectID base" "isGitObjectID head"
    and target: "target = \<lparr>dt_kind = gitDiffCompare, dt_revspec = base @ diffSeparator spec @ head,
      dt_revs = [base, head]\<rparr>"
    by (auto simp: parseGitDiffSpec_def Let_def CutSuffix_Some split: option.splits if_splits prod.splits)
  moreover have "diffSeparator spec = ''..'' \<or> diffSeparator spec = ''...''"
    by (simp add: diffSeparator_def)
  moreover from Cut_found [OF cut] spec have "strings_TrimSpace raw = base @ diffSeparator spec @ head @ ''.diff''"
    by simp
  ultimately show ?spec by blast
next
  assume ?spec
  then obtain base head sep where sep: "sep = ''..'' \<or> sep = ''...''"
    and ids: "isGitObjectID base" "isGitObjectID head"
    and raw: "strings_TrimSpace raw = base @ sep @ head @ ''.diff''"
    and target: "target = \<lparr>dt_kind = gitDiffCompare, dt_revspec = base @ sep @ head, dt_revs = [base, head]\<rparr>"
    by blast
  have dots: "CHR ''.'' \<notin> set base" "CHR ''.'' \<notin> set head" using ids object_id_chars(2) by blast+
  have "diffSeparator (base @ sep @ head) = sep"
    using sep Contains_dots3 [OF dots] by (auto simp: diffSeparator_def)
  moreover have "strings_CutSuffix (strings_TrimSpace raw) ''.diff'' = Some (base @ sep @ head)"
    using raw by (simp add: CutSuffix_Some)
  ultimately show ?parse
    using Cut_dots [OF dots(1) sep, of head] ids target object_id_nonempty
    by (simp add: parseGitDiffSpec_def)
qed

lemma parsed_revs:
  assumes "parseGitDiffSpec kind raw = Some target"
  shows "list_all isGitObjectID (dt_revs target)" "dt_kind target = kind"
    "length (dt_revs target) = (case kind of gitDiffShow \<Rightarrow> 1 | gitDiffCompare \<Rightarrow> 2)"
  using assms by (auto simp: parseGitDiffSpec_def Let_def split: option.splits if_splits gitDiffKind.splits prod.splits)

section \<open>What is passed to git\<close>

lemma resolve_revs_ids:
  "resolve_revs tools ctx g d revs s = (Inr out, s') \<Longrightarrow>
     length out = length revs \<and> list_all isGitObjectID out"
proof (induction revs arbitrary: out s s')
  case (Cons r revs)
  from Cons.prems obtain x s1 xs where x: "resolveGitCommit tools ctx g d r s = (Inr x, s1)"
    "resolve_revs tools ctx g d revs s1 = (Inr xs, s')" "out = x # xs"
    by (auto split: prod.splits sum.splits)
  have "isGitObjectID x"
    using x(1) by (auto simp: resolveGitCommit_def Let_def split: prod.splits option.splits if_splits)
  with Cons.IH [OF x(2)] x(3) show ?case by simp
qed simp

text \<open>
  C17 (resolveGitDiffTarget, gitDiffArgs).  No request can smuggle an option into the git command:
  whatever the specification and whatever git prints while resolving it, the revision argument of
  the diff command is made of object identifiers and dots, so it does not start with a dash, and
  it is followed by \<open>--\<close>.
\<close>
theorem diff_args_safe:
  assumes "parseGitDiffSpec kind raw = Some target"
    and "resolveGitDiffTarget tools ctx gitPath gitDir target s = (Inr resolved, s')"
  shows "\<exists>pre revspec. gitDiffArgs gitDir resolved = pre @ [revspec, ''--''] \<and>
    set pre \<subseteq> {''--git-dir'', gitDir, ''show'', ''diff'', ''--patch'', ''--format='',
      ''--diff-merges=first-parent'', ''--no-color'', ''--no-ext-diff'', ''--no-textconv'', ''--full-index''} \<and>
    revspec \<noteq> [] \<and> hd revspec \<noteq> CHR ''-'' \<and> list_all (\<lambda>c. isLowerHexDigit (chr_nat c) \<or> c = CHR ''.'') revspec"
proof -
  note revs = parsed_revs [OF assms(1)]
  obtain out where out: "resolve_revs tools ctx gitPath gitDir (dt_revs target) s = (Inr out, s')"
    and resolved: "resolved = \<lparr>dt_kind = kind, dt_revspec = (case kind of gitDiffShow \<Rightarrow> out ! 0
        | gitDiffCompare \<Rightarrow> out ! 0 @ diffSeparator (dt_revspec target) @ out ! 1), dt_revs = out\<rparr>"
    using assms(2) revs(2) by (auto simp: resolveGitDiffTarget_def split: prod.splits sum.splits gitDiffKind.splits)
  from resolve_revs_ids [OF out] revs(3) have
    len: "length out = (case kind of gitDiffShow \<Rightarrow> 1 | gitDiffCompare \<Rightarrow> 2)" "list_all isGitObjectID out" by auto
  have id0: "isGitObjectID (out ! 0)" using len by (cases kind) (auto simp: list_all_length)
  have id1: "kind = gitDiffCompare \<Longrightarrow> isGitObjectID (out ! 1)" using len by (auto simp: list_all_length)
  have hd0: "hd (out ! 0) \<noteq> CHR ''-''" "out ! 0 \<noteq> []"
    using id0 object_id_chars(3) object_id_nonempty by (metis list.set_sel(1))+
  have "list_all (\<lambda>c. isLowerHexDigit (chr_nat c) \<or> c = CHR ''.'') (dt_revspec resolved)"
    using id0 id1 by (cases kind)
      (auto simp: resolved diffSeparator_def isGitObjectID_bytes list_all_iff)
  moreover have "dt_revspec resolved \<noteq> []" "hd (dt_revspec resolved) \<noteq> CHR ''-''"
    using hd0 by (cases kind; simp add: resolved)+
  ultimately show ?thesis
    by (cases kind) (auto simp: gitDiffArgs_def resolved intro!: exI [of _ "dt_revspec resolved"])
qed

section \<open>Bounded buffers\<close>

lemma capped_write:
  assumes "length (cb_buf c) \<le> cb_limit c" "p \<noteq> []"
  shows "snd (cappedBuffer_Write p c) =
    c\<lparr>cb_buf := take (cb_limit c) (cb_buf c @ p),
      cb_truncated := cb_truncated c \<or> cb_limit c < length (cb_buf c @ p)\<rparr>"
  using assms by (cases c) (auto simp: cappedBuffer_Write_def Let_def nat_diff_distrib)

lemma take_take_append: "take n (take n xs @ ys) = take n (xs @ ys)"
  by (cases "n \<le> length xs") simp_all

lemma capped_fold:
  assumes "length (cb_buf c) \<le> cb_limit c" "list_all (\<lambda>p. p \<noteq> []) ps"
  shows "fold (\<lambda>p c. snd (cappedBuffer_Write p c)) ps c =
    c\<lparr>cb_buf := take (cb_limit c) (cb_buf c @ concat ps),
      cb_truncated := cb_truncated c \<or> cb_limit c < length (cb_buf c @ concat ps)\<rparr>"
  using assms
proof (induction ps arbitrary: c)
  case Nil
  then show ?case by (cases c) simp
next
  case (Cons p ps)
  let ?c = "snd (cappedBuffer_Write p c)"
  have c: "?c = c\<lparr>cb_buf := take (cb_limit c) (cb_buf c @ p),
      cb_truncated := cb_truncated c \<or> cb_limit c < length (cb_buf c @ p)\<rparr>"
    using Cons.prems by (intro capped_write) auto
  have "fold (\<lambda>p c. snd (cappedBuffer_Write p c)) ps ?c =
    ?c\<lparr>cb_buf := take (cb_limit ?c) (cb_buf ?c @ concat ps),
      cb_truncated := cb_truncated ?c \<or> cb_limit ?c < length (cb_buf ?c @ concat ps)\<rparr>"
    using Cons.prems by (intro Cons.IH) (auto simp: c)
  then show ?case
    by (simp add: c take_take_append del: take_append) (auto simp: min_def add.assoc)
qed

lemma capped_copy_eq:
  "capped_copy chunks (new_cappedBuffer limit) =
    \<lparr>cb_buf = take limit (concat chunks), cb_limit = limit,
     cb_truncated = (limit < length (concat chunks))\<rparr>"
proof -
  have "concat (filter (\<lambda>p. p \<noteq> []) chunks) = concat chunks" by (induction chunks) auto
  moreover have "list_all (\<lambda>p. p \<noteq> []) (filter (\<lambda>p. p \<noteq> []) chunks)" by (simp add: list_all_iff)
  ultimately show ?thesis
    using capped_fold [of "new_cappedBuffer limit" "filter (\<lambda>p. p \<noteq> []) chunks"]
    by (simp add: capped_copy_def new_cappedBuffer_def)
qed

text \<open>
  \<open>cappedBuffer.Write\<close>.  However a process cuts its output into writes, the buffer ends up with
  the first bytes of the whole output, up to its limit, and it is marked as truncated exactly
  when the output is longer than the limit.
\<close>
lemma capped_copy_exact:
  "capped_copy chunks (new_cappedBuffer limit) =
    \<lparr>cb_buf = take limit (concat chunks), cb_limit = limit,
     cb_truncated = (limit < length (concat chunks))\<rparr>"
  by (rule capped_copy_eq)

section \<open>A diff is never cut short\<close>

lemma runGitDiff_complete:
  assumes "runGitDiff tools ctx gitPath args s = (Inr patch, s')"
  shows "\<exists>p. gt_run tools ctx gitPath args (gitProcessEnv (gt_PATH tools) []) None s = (p, s') \<and>
    patch = concat (p_stdout p) \<and> length patch \<le> maxGitDiffBytes \<and> p_start p = None \<and>
    p_wait p = None \<and> p_read p = None"
  using assms
  by (auto simp: runGitDiff_def Let_def split: prod.splits option.splits if_splits)

text \<open>
  C19 (execGitDiffBackend.ServeGitDiff).  A diff is served whole or not at all: if the backend
  answers 200, the body is the complete output of a git process that ran to its end without an
  error, of at most 8 MiB; an output over the limit never becomes a response.
\<close>
theorem diff_served_whole:
  assumes "execGitDiffBackend tools gitPath env r grant target (new_writer, s) = (err, w', s')"
    and "rw_Sent w' = Some (200, h)"
  shows "\<exists>args p s1. gt_run tools (env_ctx env) (default_git gitPath) args
      (gitProcessEnv (gt_PATH tools) []) None s1 = (p, s') \<and>
    rw_Body w' = concat (p_stdout p) \<and> length (rw_Body w') \<le> 8 * 1024 * 1024 \<and>
    p_wait p = None \<and> p_read p = None \<and> err = None"
proof -
  from assms obtain resolved s1 patch where
    run: "runGitDiff tools (env_ctx env) (default_git gitPath) (gitDiffArgs (grant_RepoPath grant) resolved) s1
      = (Inr patch, s')"
    and "rw_Body w' = patch" "err = None"
    by (auto simp: execGitDiffBackend_def Let_def new_writer_def rw_SetHeader_def rw_WriteHeader_def
        rw_Write_def http_Error_def split: prod.splits sum.splits if_splits)
  moreover from runGitDiff_complete [OF run] obtain p where
    "gt_run tools (env_ctx env) (default_git gitPath) (gitDiffArgs (grant_RepoPath grant) resolved)
      (gitProcessEnv (gt_PATH tools) []) None s1 = (p, s')"
    "patch = concat (p_stdout p)" "length patch \<le> maxGitDiffBytes" "p_wait p = None" "p_read p = None"
    by blast
  ultimately show ?thesis by (auto simp: maxGitDiffBytes_def)
qed

end
