(* ===== verification/Git_Raw.thy ===== *)
theory Git_Raw
  imports Git_Diff
begin

text \<open>
  The raw file endpoint (\<open>internal/http/git_raw.go\<close>): the syntax of a file specification, the
  lookup of the object and the answer with the whole file or an error.
\<close>

section \<open>The endpoint\<close>

definition maxGitRawBytes :: nat where "maxGitRawBytes = 16 * 1024 * 1024"

record gitRawTarget =
  rt_rev :: string
  rt_path :: string

definition parseGitRawSpec :: "string \<Rightarrow> gitRawTarget option" where
  "parseGitRawSpec raw =
     (let (revision, path, ok) = strings_Cut (strings_TrimSpace raw) ''/''
      in if \<not> ok \<or> \<not> isGitObjectID revision then None
         else if path = [] then None
         else if list_ex (\<lambda>segment. segment = [] \<or> segment = ''.'' \<or> segment = ''..'')
                   (strings_Split (CHR ''/'') path) then None
         else Some \<lparr>rt_rev = revision, rt_path = path\<rparr>)"

definition gitObjectType :: "'s gitTools \<Rightarrow> ctx \<Rightarrow> string \<Rightarrow> string \<Rightarrow> string \<Rightarrow> 's \<Rightarrow> string result \<times> 's" where
  "gitObjectType tools ctx gitPath gitDir spec s =
     (let (p, s') = gt_run tools ctx gitPath [''--git-dir'', gitDir, ''cat-file'', ''-t'', spec]
                      (gitProcessEnv (gt_PATH tools) []) None s
      in case run_err p of
           Some (exitErr, err) \<Rightarrow> (Inl (errOther err), s')
         | None \<Rightarrow> (Inr (strings_TrimSpace (concat (p_stdout p))), s'))"

type_synonym 's gitRawBackend =
  "callEnv \<Rightarrow> httpRequest \<Rightarrow> gitAccessGrant \<Rightarrow> gitRawTarget \<Rightarrow> responseWriter \<times> 's \<Rightarrow>
     go_error option \<times> responseWriter \<times> 's"

definition execGitRawBackend :: "'s gitTools \<Rightarrow> string \<Rightarrow> 's gitRawBackend" where
  "execGitRawBackend tools gitPath = (\<lambda>env r grant target (w, s).
     let gitPath = default_git gitPath; ctx = env_ctx env; gitDir = grant_RepoPath grant
     in case resolveGitCommit tools ctx gitPath gitDir (rt_rev target) s of
          (Inl err, s1) \<Rightarrow>
            (if err = errGitRevisionNotFound then
               (None, http_Error ''raw file revision was not found'' 404 w, s1)
             else (Some err, w, s1))
        | (Inr resolvedRev, s1) \<Rightarrow>
            (let spec = resolvedRev @ '':'' @ rt_path target
             in case gitObjectType tools ctx gitPath gitDir spec s1 of
                  (Inl err, s2) \<Rightarrow> (None, http_Error ''raw file path was not found at revision'' 404 w, s2)
                | (Inr objectType, s2) \<Rightarrow>
                    (if objectType \<noteq> ''blob'' then
                       (None, http_Error ''raw file path is not a file'' 400 w, s2)
                     else
                       (let (p, s3) = gt_run tools ctx gitPath
                                        [''--git-dir'', gitDir, ''cat-file'', ''blob'', spec]
                                        (gitProcessEnv (gt_PATH tools) []) None s2;
                            content = capped_copy (p_stdout p) (new_cappedBuffer maxGitRawBytes)
                        in case run_err p of
                             Some (exitErr, err) \<Rightarrow> (Some (errOther err), w, s3)
                           | None \<Rightarrow>
                               (if cb_truncated content then
                                  (None, http_Error ''raw file exceeds the fetch limit'' 413 w, s3)
                                else
                                  (let w = rw_SetHeader ''Content-Type'' ''application/octet-stream'' w;
                                       w = rw_SetHeader ''X-Content-Type-Options'' ''nosniff'' w;
                                       w = rw_SetHeader ''Content-Length''
                                             (strconv_FormatInt (int (length (cb_buf content)))) w
                                   in (None, rw_Write (cb_buf content) (rw_WriteHeader 200 w), s3)))))))"

definition gitRawHandler :: "'s authorizer \<Rightarrow> 's gitRawBackend \<Rightarrow> 's handler" where
  "gitRawHandler access backend = (\<lambda>env r (w, s).
     case parseRepoControlID (PathValue r ''repoID'') of
       None \<Rightarrow> respond (http_Error ''repo id is invalid'' 400 w) s
     | Some repoID \<Rightarrow>
         (case parseGitRawSpec (PathValue r ''spec'') of
            None \<Rightarrow> respond (http_Error ''raw file spec is invalid'' 400 w) s
          | Some target \<Rightarrow>
              (case access env \<lparr>az_RepoID = repoID, az_Token = gitTokenFromRequest r,
                                az_Operation = gitOperationRead\<rparr> s of
                 (Inl err, s') \<Rightarrow> respond (writeGitAccessError err w) s'
               | (Inr grant, s') \<Rightarrow>
                   (case backend env r grant target (w, s') of
                      (Some err, w', s'') \<Rightarrow> respond (http_Error internalServerErrorText 500 w') s''
                    | (None, w', s'') \<Rightarrow> respond w' s''))))"

section \<open>The syntax of a specification\<close>

text \<open>
  A specification is accepted exactly when it is, up to surrounding white
  space, an object identifier, a slash and a path whose components are neither empty nor dot nor
  dot-dot; so the path cannot climb out of the tree, and the argument built from it starts with
  the identifier.
\<close>
lemma raw_spec_exact:
  "parseGitRawSpec raw = Some target \<longleftrightarrow>
     strings_TrimSpace raw = rt_rev target @ ''/'' @ rt_path target \<and> isGitObjectID (rt_rev target) \<and>
     rt_path target \<noteq> [] \<and>
     list_all (\<lambda>segment. segment \<notin> {[], ''.'', ''..''}) (strings_Split (CHR ''/'') (rt_path target))"
  (is "?parse \<longleftrightarrow> ?spec")
proof
  assume ?parse
  then obtain rv path where "strings_Cut (strings_TrimSpace raw) ''/'' = (rv, path, True)"
    "isGitObjectID rv" "path \<noteq> []" "target = \<lparr>rt_rev = rv, rt_path = path\<rparr>"
    "\<not> list_ex (\<lambda>segment. segment = [] \<or> segment = ''.'' \<or> segment = ''..'') (strings_Split (CHR ''/'') path)"
    by (auto simp: parseGitRawSpec_def split: prod.splits if_splits)
  then show ?spec using Cut_found by (fastforce simp: list_all_iff list_ex_iff)
next
  assume spec: ?spec
  then have "CHR ''/'' \<notin> set (rt_rev target)" using object_id_chars(4) by blast
  from Cut_char [OF this, of "rt_path target"] spec show ?parse
    by (cases target) (auto simp: parseGitRawSpec_def list_all_iff list_ex_iff)
qed

section \<open>A file is never cut short\<close>


end
