(* ===== verification/Idempotency.thy ===== *)
theory Idempotency
  imports Repository
begin

text \<open>
  Idempotency keys (\<open>internal/http/idempotency.go\<close>): the interface \<open>idempotencyDoer\<close> and the
  in-memory store.  \<open>Do\<close> runs a call that creates a token at most once for a key: a repeated
  request gets the recorded response, a different request under the same key is refused, and a
  failed call is not recorded.

  \<open>create\<close> acts on a state of type \<open>'c\<close>, the records are a state of type \<open>'i\<close>; \<open>Do\<close> acts on the
  pair.  A call of \<open>create\<close> that never returns is \<^const>\<open>None\<close>, and so is a \<open>Do\<close> that runs it.  The
  mutex of the store is held over the whole of \<open>Do\<close>, so a \<open>Do\<close> is one step.
\<close>

section \<open>The store\<close>

record createRepoTokenResponse =
  ctr_ID :: string
  ctr_Token :: string
  ctr_ExpiresAt :: string
  ctr_GitURL :: string
  ctr_Scope :: string
  ctr_Subject :: string

record idempotencyInput =
  ii_Scope :: string
  ii_Key :: string
  ii_RequestHash :: string

record idempotencyResult =
  ir_Response :: createRepoTokenResponse
  ir_Replayed :: bool

record idempotencyLookupKey =
  ilk_Scope :: string
  ilk_Key :: string

record idempotencyRecord =
  rec_RequestHash :: string
  rec_Response :: createRepoTokenResponse
  rec_ExpiresAt :: time

record memoryIdempotencyStore =
  idem_records :: "(idempotencyLookupKey, idempotencyRecord) gomap"
  idem_ttl :: duration

type_synonym 'c create = "ctx \<Rightarrow> 'c \<Rightarrow> (createRepoTokenResponse result \<times> 'c) option"

record ('i, 'c) idempotencyDoer =
  Do :: "ctx \<Rightarrow> time \<Rightarrow> idempotencyInput \<Rightarrow> 'c create \<Rightarrow> 'i \<times> 'c \<Rightarrow>
           (idempotencyResult result \<times> 'i \<times> 'c) option"

definition defaultIdempotencyRecordTTL :: duration where
  "defaultIdempotencyRecordTTL = 24 * hour"

definition newMemoryIdempotencyStore :: memoryIdempotencyStore where
  "newMemoryIdempotencyStore = \<lparr>idem_records = [], idem_ttl = defaultIdempotencyRecordTTL\<rparr>"

definition lookup_key :: "idempotencyInput \<Rightarrow> idempotencyLookupKey" where
  "lookup_key input = \<lparr>ilk_Scope = ii_Scope input, ilk_Key = ii_Key input\<rparr>"

definition memory_Do_create ::
  "ctx \<Rightarrow> time \<Rightarrow> idempotencyInput \<Rightarrow> 'c create \<Rightarrow> memoryIdempotencyStore \<times> 'c \<Rightarrow>
     (idempotencyResult result \<times> memoryIdempotencyStore \<times> 'c) option" where
  "memory_Do_create ctx now input create = (\<lambda>(store, c).
     case create ctx c of
       None \<Rightarrow> None
     | Some (Inl err, c') \<Rightarrow> Some (Inl err, store, c')
     | Some (Inr response, c') \<Rightarrow>
         Some (Inr \<lparr>ir_Response = response, ir_Replayed = False\<rparr>,
           store\<lparr>idem_records := AList.update (lookup_key input)
               \<lparr>rec_RequestHash = ii_RequestHash input, rec_Response = response,
                rec_ExpiresAt = now + idem_ttl store\<rparr> (idem_records store)\<rparr>, c'))"

definition memory_Do ::
  "ctx \<Rightarrow> time \<Rightarrow> idempotencyInput \<Rightarrow> 'c create \<Rightarrow> memoryIdempotencyStore \<times> 'c \<Rightarrow>
     (idempotencyResult result \<times> memoryIdempotencyStore \<times> 'c) option" where
  "memory_Do ctx now input create = (\<lambda>(store, c).
     case ctx of
       Some err \<Rightarrow> Some (Inl err, store, c)
     | None \<Rightarrow>
         (if ii_Key input = [] then
            (case create ctx c of
               None \<Rightarrow> None
             | Some (Inl err, c') \<Rightarrow> Some (Inl err, store, c')
             | Some (Inr response, c') \<Rightarrow>
                 Some (Inr \<lparr>ir_Response = response, ir_Replayed = False\<rparr>, store, c'))
          else
            (let key = lookup_key input
             in case map_of (idem_records store) key of
                  Some r \<Rightarrow>
                    (if now < rec_ExpiresAt r then
                       (if rec_RequestHash r \<noteq> ii_RequestHash input then
                          Some (Inl errIdempotencyConflict, store, c)
                        else Some (Inr \<lparr>ir_Response = rec_Response r, ir_Replayed = True\<rparr>, store, c))
                     else memory_Do_create ctx now input create
                            (store\<lparr>idem_records := AList.delete key (idem_records store)\<rparr>, c))
                | None \<Rightarrow> memory_Do_create ctx now input create (store, c))))"

definition memoryIdempotency :: "(memoryIdempotencyStore, 'c) idempotencyDoer" where
  "memoryIdempotency = \<lparr>Do = memory_Do\<rparr>"

section \<open>The contract\<close>

text \<open>
  What a client of \<open>Do\<close> relies on, in terms of the records \<open>recorded\<close>: a cancelled request does
  nothing; a request under a key with a live record gets its response, or is refused if it is
  another request, and changes nothing; a request that succeeds leaves a live record of itself
  with its response, provided that the responses its call creates are of a kind the records keep.
\<close>

definition creates :: "'c create \<Rightarrow> (createRepoTokenResponse \<Rightarrow> bool) \<Rightarrow> bool" where
  "creates create P \<longleftrightarrow> (\<forall>ctx c response c'. create ctx c = Some (Inr response, c') \<longrightarrow> P response)"

lemma creates_any [simp]: "creates create (\<lambda>_. True)"
  by (simp add: creates_def)

locale idempotency =
  fixes do_op :: "ctx \<Rightarrow> time \<Rightarrow> idempotencyInput \<Rightarrow> 'c create \<Rightarrow> 'i \<times> 'c \<Rightarrow>
      (idempotencyResult result \<times> 'i \<times> 'c) option"
    and recorded :: "'i \<times> 'c \<Rightarrow> idempotencyLookupKey \<Rightarrow> idempotencyRecord option"
    and good :: "'i \<times> 'c \<Rightarrow> bool"
    and kept :: "createRepoTokenResponse \<Rightarrow> bool"
  assumes cancelled: "do_op (Some e) now input create s = Some (Inl e, s)"
    and hit: "recorded s (lookup_key input) = Some r \<Longrightarrow> now < rec_ExpiresAt r \<Longrightarrow>
      ii_Key input \<noteq> [] \<Longrightarrow>
      do_op None now input create s =
        Some (if rec_RequestHash r = ii_RequestHash input
              then Inr \<lparr>ir_Response = rec_Response r, ir_Replayed = True\<rparr>
              else Inl errIdempotencyConflict, s)"
    and succeeded: "good s \<Longrightarrow> do_op ctx now input create s = Some (Inr res, s') \<Longrightarrow>
      ii_Key input \<noteq> [] \<Longrightarrow> creates create kept \<Longrightarrow>
      \<exists>r. recorded s' (lookup_key input) = Some r \<and> rec_RequestHash r = ii_RequestHash input \<and>
          rec_Response r = ir_Response res \<and> now < rec_ExpiresAt r"
    and good: "good s \<Longrightarrow> do_op ctx now input create s = Some (x, s') \<Longrightarrow> good s'"
begin

lemma retry_replays:
  assumes "good s" "do_op ctx now input create s = Some (Inr res, s')" "ii_Key input \<noteq> []" "creates create kept"
  shows "\<exists>expires > now. \<forall>now' < expires. \<forall>create'.
    do_op None now' input create' s' = Some (Inr \<lparr>ir_Response = ir_Response res, ir_Replayed = True\<rparr>, s')"
proof -
  from succeeded [OF assms] obtain r where "recorded s' (lookup_key input) = Some r"
    "rec_RequestHash r = ii_RequestHash input" "rec_Response r = ir_Response res" "now < rec_ExpiresAt r"
    by blast
  with hit [of s' input r] assms(3) show ?thesis by (intro exI [of _ "rec_ExpiresAt r"]) simp
qed

lemma reuse_refused:
  assumes "good s" "do_op ctx now input create s = Some (Inr res, s')" "ii_Key input \<noteq> []" "creates create kept"
    and "lookup_key input' = lookup_key input" "ii_RequestHash input' \<noteq> ii_RequestHash input"
  shows "do_op None now input' create' s' = Some (Inl errIdempotencyConflict, s')"
proof -
  have key: "ii_Key input' \<noteq> []" using assms(3,5) by (simp add: lookup_key_def)
  from succeeded [OF assms(1-4)] assms(5,6) hit [of s' input' _ now create'] key show ?thesis by auto
qed

end

definition idem_recorded :: "memoryIdempotencyStore \<times> 'c \<Rightarrow> idempotencyLookupKey \<Rightarrow> idempotencyRecord option" where
  "idem_recorded s = map_of (idem_records (fst s))"

definition idem_good :: "memoryIdempotencyStore \<times> 'c \<Rightarrow> bool" where
  "idem_good s \<longleftrightarrow> 0 < idem_ttl (fst s)"

lemma memory_Do_create_cases:
  assumes "memory_Do_create ctx now input create (store, c) = Some (x, store', c')"
  obtains e where "x = Inl e" "store' = store"
  | response where "x = Inr \<lparr>ir_Response = response, ir_Replayed = False\<rparr>"
      "create ctx c = Some (Inr response, c')"
      "store' = store\<lparr>idem_records := AList.update (lookup_key input)
         \<lparr>rec_RequestHash = ii_RequestHash input, rec_Response = response,
          rec_ExpiresAt = now + idem_ttl store\<rparr> (idem_records store)\<rparr>"
  using assms by (auto simp: memory_Do_create_def split: option.splits sum.splits prod.splits)

lemma memory_Do_cases:
  assumes "memory_Do ctx now input create (store, c) = Some (x, store', c')" "ii_Key input \<noteq> []"
  obtains e where "ctx = Some e" "x = Inl e" "store' = store" "c' = c"
  | r where "ctx = None" "map_of (idem_records store) (lookup_key input) = Some r" "now < rec_ExpiresAt r"
      "store' = store" "c' = c"
      "x = (if rec_RequestHash r = ii_RequestHash input
            then Inr \<lparr>ir_Response = rec_Response r, ir_Replayed = True\<rparr> else Inl errIdempotencyConflict)"
  | store1 where "ctx = None"
      "\<And>r. map_of (idem_records store) (lookup_key input) = Some r \<Longrightarrow> rec_ExpiresAt r \<le> now"
      "map_of (idem_records store1) = (map_of (idem_records store))(lookup_key input := None)"
      "idem_ttl store1 = idem_ttl store"
      "memory_Do_create None now input create (store1, c) = Some (x, store', c')"
proof (cases ctx)
  case (Some e)
  with assms that(1) show ?thesis by (simp add: memory_Do_def)
next
  case None
  show ?thesis
  proof (cases "map_of (idem_records store) (lookup_key input)")
    case none: None
    then show ?thesis using None assms that(3) [of store]
      by (auto simp: memory_Do_def Let_def fun_upd_idem)
  next
    case (Some r)
    then show ?thesis
      using None assms that(2) [of r]
        that(3) [of "store\<lparr>idem_records := AList.delete (lookup_key input) (idem_records store)\<rparr>"]
      by (auto simp: memory_Do_def Let_def split: if_splits)
  qed
qed

interpretation memory_idem: idempotency memory_Do idem_recorded idem_good "\<lambda>_. True"
proof (unfold_locales, goal_cases)
  case (1 e now input create s)
  then show ?case by (cases s) (simp add: memory_Do_def)
next
  case (2 s input r now create)
  then show ?case by (cases s) (simp add: memory_Do_def idem_recorded_def)
next
  case (3 s ctx now input create res s')
  obtain st c st' c' where s: "s = (st, c)" "s' = (st', c')" by (cases s; cases s')
  have ttl: "0 < idem_ttl st" using 3(1) by (simp add: s idem_good_def)
  have "memory_Do ctx now input create (st, c) = Some (Inr res, st', c')" using 3(2) by (simp add: s)
  then have "\<exists>r. map_of (idem_records st') (lookup_key input) = Some r \<and>
      rec_RequestHash r = ii_RequestHash input \<and> rec_Response r = ir_Response res \<and> now < rec_ExpiresAt r"
    using 3(3)
  proof (cases rule: memory_Do_cases)
    case (3 st1)
    from 3(5) show ?thesis
      by (cases rule: memory_Do_create_cases) (use ttl 3(4) in auto)
  qed (auto split: if_splits)
  then show ?case by (simp add: s idem_recorded_def)
next
  case (4 s ctx now input create x s')
  obtain st c st' c' where s: "s = (st, c)" "s' = (st', c')" by (cases s; cases s')
  have "idem_ttl st' = idem_ttl st"
    using 4(2) unfolding s memory_Do_def memory_Do_create_def
    by (auto simp: Let_def split: option.splits sum.splits prod.splits if_splits)
  with 4(1) show ?case by (simp add: s idem_good_def)
qed

section \<open>Sequences of calls\<close>

text \<open>Any number of calls of \<open>Do\<close>, one after the other.\<close>

fun memory_Do_all ::
  "(ctx \<times> time \<times> idempotencyInput \<times> 'c create) list \<Rightarrow> memoryIdempotencyStore \<times> 'c \<Rightarrow>
     (memoryIdempotencyStore \<times> 'c) option" where
  "memory_Do_all [] s = Some s"
| "memory_Do_all ((ctx, now, input, create) # calls) s =
     (case memory_Do ctx now input create s of
        None \<Rightarrow> None
      | Some (x, s') \<Rightarrow> memory_Do_all calls s')"

lemma memory_Do_no_key:
  assumes "memory_Do ctx now input create (store, c) = Some (x, store', c')" "ii_Key input = []"
  shows "store' = store"
  using assms by (auto simp: memory_Do_def split: option.splits sum.splits prod.splits)

lemma memory_Do_keeps:
  assumes "memory_Do ctx now input create (store, c) = Some (x, store', c')"
    and "map_of (idem_records store) k = Some r" "now < rec_ExpiresAt r"
  shows "map_of (idem_records store') k = Some r"
proof (cases "ii_Key input = []")
  case True
  with assms memory_Do_no_key show ?thesis by metis
next
  case False
  from assms(1) False show ?thesis
  proof (cases rule: memory_Do_cases)
    case (3 store1)
    then have "k \<noteq> lookup_key input" using assms(2,3) by force
    with 3(3) assms(2) have "map_of (idem_records store1) k = Some r" by simp
    with 3(5) \<open>k \<noteq> lookup_key input\<close> show ?thesis
      by (auto elim!: memory_Do_create_cases)
  qed (use assms in simp_all)
qed

lemma memory_Do_all_keeps:
  assumes "memory_Do_all calls (store, c) = Some (store', c')"
    and "map_of (idem_records store) k = Some r"
    and "list_all (\<lambda>(ctx, now, input, create). now < rec_ExpiresAt r) calls"
  shows "map_of (idem_records store') k = Some r"
  using assms
proof (induction calls arbitrary: store c)
  case (Cons call calls)
  obtain ctx now input create where call: "call = (ctx, now, input, create)" by (cases call)
  with Cons.prems obtain x st1 c1 where st1: "memory_Do ctx now input create (store, c) = Some (x, st1, c1)"
    "memory_Do_all calls (st1, c1) = Some (store', c')"
    by (auto split: option.splits)
  have "now < rec_ExpiresAt r" using Cons.prems(3) call by simp
  from Cons.IH [OF st1(2) memory_Do_keeps [OF st1(1) Cons.prems(2) this]] Cons.prems(3)
  show ?case by simp
qed simp

text \<open>
  C32 (memoryIdempotencyStore.Do).  A call that created a token is replayed until its record
  expires, 24 hours later with the default lifetime: after any other calls of \<open>Do\<close> made before
  that time, the same request under the same key returns the same response, marked as replayed,
  runs nothing and changes nothing.
\<close>
theorem do_replays_until_expiry:
  assumes "memory_Do ctx now input create (store, c) = Some (Inr res, st1)"
    and "\<not> ir_Replayed res" "ii_Key input \<noteq> []"
    and "memory_Do_all calls st1 = Some st2"
    and "list_all (\<lambda>(ctx, t, i, f). t < now + idem_ttl store) calls"
    and "now' < now + idem_ttl store"
  shows "memory_Do None now' input create' st2 =
    Some (Inr \<lparr>ir_Response = ir_Response res, ir_Replayed = True\<rparr>, st2)"
proof -
  obtain s1 c1 s2 c2 where st: "st1 = (s1, c1)" "st2 = (s2, c2)" by (cases st1; cases st2)
  let ?r = "\<lparr>rec_RequestHash = ii_RequestHash input, rec_Response = ir_Response res,
             rec_ExpiresAt = now + idem_ttl store\<rparr>"
  have "map_of (idem_records s1) (lookup_key input) = Some ?r"
    using assms(1,3) unfolding st
  proof (cases rule: memory_Do_cases)
    case (3 store1)
    from 3(5) show ?thesis
      by (cases rule: memory_Do_create_cases) (use 3(4) in auto)
  qed (use assms(2) in \<open>auto split: if_splits\<close>)
  from memory_Do_all_keeps [OF assms(4) [unfolded st] this] assms(5)
  have "map_of (idem_records s2) (lookup_key input) = Some ?r" by simp
  with assms(3,6) show ?thesis by (simp add: memory_Do_def st)
qed

text \<open>
  \<open>memoryIdempotencyStore.Do\<close>.  A failed call is not recorded: if there is no live record for
  the key and \<open>create\<close> fails, \<open>Do\<close> reports its error, and a retry at any time runs \<open>create\<close>
  again.
\<close>
lemma do_failure_not_recorded:
  assumes "create None c = Some (Inl e, c1)" "ii_Key input \<noteq> []"
    and "\<And>r. map_of (idem_records store) (lookup_key input) = Some r \<Longrightarrow> rec_ExpiresAt r \<le> now"
  shows "\<exists>store1. memory_Do None now input create (store, c) = Some (Inl e, store1, c1) \<and>
    memory_Do None now' input create' (store1, c1) =
      memory_Do_create None now' input create' (store1, c1)"
proof (cases "map_of (idem_records store) (lookup_key input)")
  case None
  with assms show ?thesis by (simp add: memory_Do_def memory_Do_create_def)
next
  case (Some r)
  with assms show ?thesis by (force simp: memory_Do_def memory_Do_create_def Let_def)
qed

text \<open>
  \<open>memoryIdempotencyStore.Do\<close>.  A key is bound to its request: after a call that succeeded, a
  request with another hash under the same scope and key is refused at the same time with
  \<open>errIdempotencyConflict\<close>, and neither the records nor the tokens change.
\<close>
lemma do_conflict:
  assumes "0 < idem_ttl store" "memory_Do ctx now input create (store, c) = Some (Inr res, st1)"
    and "ii_Key input \<noteq> []" "ii_Scope input' = ii_Scope input" "ii_Key input' = ii_Key input"
    and "ii_RequestHash input' \<noteq> ii_RequestHash input"
  shows "memory_Do None now input' create' st1 = Some (Inl errIdempotencyConflict, st1)"
  using memory_idem.reuse_refused [OF _ assms(2,3), of input' create'] assms
  by (simp add: idem_good_def lookup_key_def)

section \<open>A concrete run\<close>

definition demo_response :: createRepoTokenResponse where
  "demo_response = \<lparr>ctr_ID = ''token_1'', ctr_Token = ''gtd_x'', ctr_ExpiresAt = [], ctr_GitURL = [],
     ctr_Scope = ''read'', ctr_Subject = ''ann''\<rparr>"

definition demo_count :: "nat create" where
  "demo_count ctx n = Some (Inr demo_response, Suc n)"

definition demo_input :: idempotencyInput where
  "demo_input = \<lparr>ii_Scope = ''s'', ii_Key = ''k'', ii_RequestHash = ''h''\<rparr>"

lemma demo_first_Do:
  "\<exists>st1. memory_Do None 5 demo_input demo_count (newMemoryIdempotencyStore, 0) =
     Some (Inr \<lparr>ir_Response = demo_response, ir_Replayed = False\<rparr>, st1) \<and> snd st1 = 1"
  by (simp add: memory_Do_def memory_Do_create_def demo_input_def demo_count_def
      newMemoryIdempotencyStore_def)

theorem do_replays_until_expiry_witness:
  "\<exists>st1. memory_Do None 5 demo_input demo_count (newMemoryIdempotencyStore, 0) =
     Some (Inr \<lparr>ir_Response = demo_response, ir_Replayed = False\<rparr>, st1) \<and>
   memory_Do None (23 * hour) demo_input demo_count st1 =
     Some (Inr \<lparr>ir_Response = demo_response, ir_Replayed = True\<rparr>, st1)"
proof -
  obtain st1 where st1: "memory_Do None 5 demo_input demo_count (newMemoryIdempotencyStore, 0) =
      Some (Inr \<lparr>ir_Response = demo_response, ir_Replayed = False\<rparr>, st1)"
    using demo_first_Do by blast
  from do_replays_until_expiry [OF this, of "[]" st1 "23 * hour" demo_count] st1 show ?thesis
    by (auto simp: demo_input_def newMemoryIdempotencyStore_def defaultIdempotencyRecordTTL_def)
qed

lemma do_failure_not_recorded_witness:
  "\<exists>store1. memory_Do None 5 demo_input (\<lambda>ctx n. Some (Inl errRepoNotFound, n)) (newMemoryIdempotencyStore, 0 :: nat) =
     Some (Inl errRepoNotFound, store1, 0) \<and>
   memory_Do None 6 demo_input demo_count (store1, 0) =
     memory_Do_create None 6 demo_input demo_count (store1, 0)"
  by (rule do_failure_not_recorded) (simp_all add: demo_input_def newMemoryIdempotencyStore_def)

lemma do_conflict_witness:
  "\<exists>st1. snd st1 = 1 \<and> memory_Do None 5 (demo_input\<lparr>ii_RequestHash := ''other''\<rparr>) demo_count st1 =
     Some (Inl errIdempotencyConflict, st1)"
proof -
  obtain st1 where st1: "memory_Do None 5 demo_input demo_count (newMemoryIdempotencyStore, 0) =
      Some (Inr \<lparr>ir_Response = demo_response, ir_Replayed = False\<rparr>, st1)" "snd st1 = 1"
    using demo_first_Do by blast
  have "memory_Do None 5 (demo_input\<lparr>ii_RequestHash := ''other''\<rparr>) demo_count st1 =
      Some (Inl errIdempotencyConflict, st1)"
    by (rule do_conflict [OF _ st1(1)])
      (simp_all add: demo_input_def newMemoryIdempotencyStore_def defaultIdempotencyRecordTTL_def)
  with st1(2) show ?thesis by blast
qed

end
