(* ===== verification/Tokens.thy ===== *)
theory Tokens
  imports Repos Idempotency
begin

text \<open>
  The control API for repository tokens (\<open>internal/http/tokens.go\<close>): create with an idempotency
  key, list and revoke, over any implementations of the interfaces \<open>repoStore\<close> and
  \<open>idempotencyDoer\<close>.  The create handler works on the pair of the records of the idempotency
  store and the state of the repository store.
\<close>

section \<open>Requests and responses\<close>

definition maxRepoTokenTTLSeconds :: int where
  "maxRepoTokenTTLSeconds = 7 * 24 * 60 * 60"

record createRepoTokenRequest =
  ctq_Scope :: string
  ctq_TTLSeconds :: int
  ctq_Subject :: string

definition createRepoTokenRequest_zero :: createRepoTokenRequest where
  "createRepoTokenRequest_zero = \<lparr>ctq_Scope = [], ctq_TTLSeconds = 0, ctq_Subject = []\<rparr>"

definition createRepoTokenRequest_field ::
  "string \<Rightarrow> json \<Rightarrow> createRepoTokenRequest \<Rightarrow> createRepoTokenRequest option" where
  "createRepoTokenRequest_field key v q =
     (case json_field [''scope'', ''ttlSeconds'', ''subject''] key of
        None \<Rightarrow> None
      | Some f \<Rightarrow>
          (if f = ''scope'' then map_option (\<lambda>x. q\<lparr>ctq_Scope := x\<rparr>) (json_to_string v (ctq_Scope q))
           else if f = ''ttlSeconds'' then
             map_option (\<lambda>x. q\<lparr>ctq_TTLSeconds := x\<rparr>) (json_to_int v (ctq_TTLSeconds q))
           else map_option (\<lambda>x. q\<lparr>ctq_Subject := x\<rparr>) (json_to_string v (ctq_Subject q))))"

definition createRepoTokenResponse_json :: "createRepoTokenResponse \<Rightarrow> json" where
  "createRepoTokenResponse_json p =
     JObj [(''id'', JStr (ctr_ID p)), (''token'', JStr (ctr_Token p)),
           (''expiresAt'', JStr (ctr_ExpiresAt p)), (''gitUrl'', JStr (ctr_GitURL p)),
           (''scope'', JStr (ctr_Scope p)), (''subject'', JStr (ctr_Subject p))]"

definition optionalTime :: "(time \<Rightarrow> int) \<Rightarrow> time \<Rightarrow> json" where
  "optionalTime zone t =
     (if time_IsZero t then JNull else JStr (time_FormatRFC3339 (zone t) t))"

definition repoTokenMetadataFromRecord :: "(time \<Rightarrow> int) \<Rightarrow> repoTokenRecord \<Rightarrow> json" where
  "repoTokenMetadataFromRecord zone t =
     JObj [(''id'', JStr (formatRepoTokenControlID (tok_ID t))),
           (''scope'', JStr (tok_Scope t)),
           (''subject'', JStr (tok_Subject t)),
           (''createdAt'', JStr (time_FormatRFC3339 (zone (tok_CreatedAt t)) (tok_CreatedAt t))),
           (''expiresAt'', JStr (time_FormatRFC3339 (zone (tok_ExpiresAt t)) (tok_ExpiresAt t))),
           (''revokedAt'', optionalTime zone (tok_RevokedAt t)),
           (''lastUsedAt'', optionalTime zone (tok_LastUsedAt t))]"

definition listRepoTokensResponse :: "(time \<Rightarrow> int) \<Rightarrow> repoTokenRecord list \<Rightarrow> json" where
  "listRepoTokensResponse zone records =
     JObj [(''tokens'', JArr (map (repoTokenMetadataFromRecord zone) records))]"

definition isRepoTokenScope :: "string \<Rightarrow> bool" where
  "isRepoTokenScope scope \<longleftrightarrow> scope = ''read'' \<or> scope = ''write'' \<or> scope = ''readwrite''"

definition createRepoTokenIdempotencyScope :: "string \<Rightarrow> string" where
  "createRepoTokenIdempotencyScope repoID =
     ''POST /v1/repos/'' @ formatRepoControlID repoID @ ''/tokens''"

text \<open>The text that is hashed: \<open>json.Marshal\<close> of the payload (it cannot fail on these types).\<close>

definition createRepoTokenPayload :: "string \<Rightarrow> createRepoTokenRequest \<Rightarrow> json" where
  "createRepoTokenPayload repoID request =
     JObj [(''repoID'', JStr repoID), (''scope'', JStr (ctq_Scope request)),
           (''ttlSeconds'', json_int (ctq_TTLSeconds request)), (''subject'', JStr (ctq_Subject request))]"

definition createRepoTokenRequestHash ::
  "(string \<Rightarrow> byte list) \<Rightarrow> string \<Rightarrow> createRepoTokenRequest \<Rightarrow> string" where
  "createRepoTokenRequestHash sha256 repoID request =
     hex_EncodeToString (sha256 (json_text (createRepoTokenPayload repoID request)))"

section \<open>Handlers\<close>

definition writeCreateRepoTokenError :: "go_error \<Rightarrow> responseWriter \<Rightarrow> responseWriter" where
  "writeCreateRepoTokenError err w =
     (if err = errIdempotencyConflict then
        writeError 409 ''idempotency key already used for a different token request'' w
      else if err = errRepoNotFound then writeError 404 ''repo not found'' w
      else writeError 500 ''repo token could not be created'' w)"

text \<open>\<open>repoIDFromPath\<close>: the identifier, or the response that was written.\<close>

definition repoIDFromPath :: "httpRequest \<Rightarrow> responseWriter \<Rightarrow> responseWriter + string" where
  "repoIDFromPath r w =
     (let rawRepoID = strings_TrimSpace (PathValue r ''repoID'')
      in if rawRepoID = [] then Inl (writeError 400 ''repo id is required'' w)
         else case parseRepoControlID rawRepoID of
                None \<Rightarrow> Inl (writeError 400 ''repo id is invalid'' w)
              | Some repoID \<Rightarrow> Inr repoID)"

text \<open>The closure \<open>create\<close> (lines 86 to 104).\<close>

definition create_token_call ::
  "'c repoStore \<Rightarrow> (time \<Rightarrow> int) \<Rightarrow> string \<Rightarrow> callEnv \<Rightarrow> string \<Rightarrow> createRepoTokenRequest \<Rightarrow> 'c create" where
  "create_token_call store zone baseURL env repoID request ctx c =
     (case CreateRepoToken store (env\<lparr>env_ctx := ctx\<rparr>)
             \<lparr>ct_RepoID = repoID, ct_Scope = ctq_Scope request, ct_Subject = ctq_Subject request,
              ct_TTLSeconds = ctq_TTLSeconds request\<rparr> c of
        None \<Rightarrow> None
      | Some (Inl err, c') \<Rightarrow> Some (Inl err, c')
      | Some (Inr token, c') \<Rightarrow>
          Some (Inr \<lparr>ctr_ID = formatRepoTokenControlID (tok_ID token), ctr_Token = tok_Token token,
                     ctr_ExpiresAt = time_FormatRFC3339 (zone (tok_ExpiresAt token)) (tok_ExpiresAt token),
                     ctr_GitURL = repoGitURL baseURL (tok_RepoID token),
                     ctr_Scope = tok_Scope token, ctr_Subject = tok_Subject token\<rparr>, c'))"

text \<open>
  The validated request (lines 61 to 84): the message of the answer 400, or the trimmed request.
\<close>

definition validTokenRequest :: "httpRequest \<Rightarrow> string + createRepoTokenRequest" where
  "validTokenRequest r =
     (case decodeJSON createRepoTokenRequest_field r createRepoTokenRequest_zero of
        None \<Rightarrow> Inl ''request body must be valid JSON for create repo token''
      | Some request \<Rightarrow>
          (let request = request\<lparr>ctq_Scope := strings_TrimSpace (ctq_Scope request),
                                 ctq_Subject := strings_TrimSpace (ctq_Subject request)\<rparr>;
               subjectMessage = validateTokenSubject (ctq_Subject request)
           in if \<not> isRepoTokenScope (ctq_Scope request) then
                Inl ''scope must be read, write, or readwrite''
              else if ctq_Subject request = [] then Inl ''subject is required''
              else if subjectMessage \<noteq> [] then Inl subjectMessage
              else if ctq_TTLSeconds request < 1 \<or> maxRepoTokenTTLSeconds < ctq_TTLSeconds request then
                Inl ''ttlSeconds must be between 1 and 604800''
              else Inr request))"

definition createRepoTokenHandler ::
  "'c repoStore \<Rightarrow> ('i, 'c) idempotencyDoer \<Rightarrow> (string \<Rightarrow> byte list) \<Rightarrow> (time \<Rightarrow> int) \<Rightarrow> string \<Rightarrow>
     ('i \<times> 'c) handler" where
  "createRepoTokenHandler store idem sha256 zone baseURL = (\<lambda>env r (w, i, c).
     let rawRepoID = strings_TrimSpace (PathValue r ''repoID'')
     in if rawRepoID = [] then respond (writeError 400 ''repo id is required'' w) (i, c)
        else case parseRepoControlID rawRepoID of
          None \<Rightarrow> respond (writeError 400 ''repo id is invalid'' w) (i, c)
        | Some repoID \<Rightarrow>
            (case validTokenRequest r of
               Inl message \<Rightarrow> respond (writeError 400 message w) (i, c)
             | Inr request \<Rightarrow>
                 (let create = create_token_call store zone baseURL env repoID request;
                      idempotencyKey = strings_TrimSpace (Header_Get (r_Header r) ''Idempotency-Key'')
                  in if idempotencyKey \<noteq> [] then
                       (case Do idem (env_ctx env) (env_do_now env)
                               \<lparr>ii_Scope = createRepoTokenIdempotencyScope repoID, ii_Key = idempotencyKey,
                                ii_RequestHash = createRepoTokenRequestHash sha256 repoID request\<rparr>
                               create (i, c) of
                          None \<Rightarrow> None
                        | Some (Inl err, s') \<Rightarrow> respond (writeCreateRepoTokenError err w) s'
                        | Some (Inr result, s') \<Rightarrow>
                            respond (writeJSON 201 (createRepoTokenResponse_json (ir_Response result)) w) s')
                     else
                       (case create (env_ctx env) c of
                          None \<Rightarrow> None
                        | Some (Inl err, c') \<Rightarrow> respond (writeCreateRepoTokenError err w) (i, c')
                        | Some (Inr response, c') \<Rightarrow>
                            respond (writeJSON 201 (createRepoTokenResponse_json response) w) (i, c')))))"

definition listRepoTokensHandler :: "'s repoStore \<Rightarrow> (time \<Rightarrow> int) \<Rightarrow> 's handler" where
  "listRepoTokensHandler store zone = (\<lambda>env r (w, s).
     case repoIDFromPath r w of
       Inl w' \<Rightarrow> respond w' s
     | Inr repoID \<Rightarrow>
         (case ListRepoTokens store env repoID s of
            (Inl err, s') \<Rightarrow>
              (if err = errRepoNotFound then respond (writeError 404 ''repo not found'' w) s'
               else respond (writeError 500 ''repo tokens could not be listed'' w) s')
          | (Inr records, s') \<Rightarrow>
              respond (writeJSON 200 (listRepoTokensResponse zone records) w) s'))"

definition revokeRepoTokenHandler :: "'s repoStore \<Rightarrow> (time \<Rightarrow> int) \<Rightarrow> 's handler" where
  "revokeRepoTokenHandler store zone = (\<lambda>env r (w, s).
     case repoIDFromPath r w of
       Inl w' \<Rightarrow> respond w' s
     | Inr repoID \<Rightarrow>
         (case parseRepoTokenControlID (PathValue r ''tokenID'') of
            None \<Rightarrow> respond (writeError 400 ''repo token id is invalid'' w) s
          | Some tokenID \<Rightarrow>
              (case RevokeRepoToken store env \<lparr>rv_RepoID = repoID, rv_TokenID = tokenID\<rparr> s of
                 (Inl err, s') \<Rightarrow>
                   (if err = errRepoNotFound then respond (writeError 404 ''repo not found'' w) s'
                    else if err = errRepoTokenNotFound then
                      respond (writeError 404 ''repo token not found'' w) s'
                    else respond (writeError 500 ''repo token could not be revoked'' w) s')
               | (Inr t, s') \<Rightarrow> respond (writeJSON 200 (repoTokenMetadataFromRecord zone t) w) s')))"

section \<open>The request hash\<close>

text \<open>Requests that passed the validation.\<close>

definition valid_token_request :: "createRepoTokenRequest \<Rightarrow> bool" where
  "valid_token_request q \<longleftrightarrow> isRepoTokenScope (ctq_Scope q) \<and> validateTokenSubject (ctq_Subject q) = [] \<and>
     1 \<le> ctq_TTLSeconds q \<and> ctq_TTLSeconds q \<le> 604800"

lemma validTokenRequest_valid: "validTokenRequest r = Inr q \<Longrightarrow> valid_token_request q"
  by (auto simp: validTokenRequest_def valid_token_request_def maxRepoTokenTTLSeconds_def Let_def
      split: option.splits if_splits)

lemma scope_ascii: "isRepoTokenScope s \<Longrightarrow> ascii s"
  by (auto simp: isRepoTokenScope_def)

lemma subject_ascii: "validateTokenSubject s = [] \<Longrightarrow> ascii s"
  by (auto simp: validateTokenSubject_ok subject_rune_def isASCIILetter_def isASCIIDigit_def list_all_iff
      ascii_runes)

lemma uuid_ascii: "isCanonicalUUID v \<Longrightarrow> ascii v"
  using isCanonicalUUID_chars [of v]
  by (force simp: list_all_iff isLowerHexDigit_def)

lemma payload_plain:
  "isCanonicalUUID v \<Longrightarrow> valid_token_request q \<Longrightarrow>
     json_plain (createRepoTokenPayload v q) \<and> json_depth (createRepoTokenPayload v q) \<le> maxNestingDepth"
  using uuid_ascii scope_ascii subject_ascii
  by (auto simp: createRepoTokenPayload_def valid_token_request_def json_int_def maxNestingDepth_def)

lemma FormatInt_inject:
  assumes "1 \<le> i" "i \<le> 604800" "1 \<le> j" "j \<le> 604800"
  shows "strconv_FormatInt i = strconv_FormatInt j \<longleftrightarrow> i = j"
proof
  assume eq: "strconv_FormatInt i = strconv_FormatInt j"
  have "strconv_ParseInt (strconv_FormatInt i) = Some i"
    by (rule ParseInt_FormatInt) (use assms(1,2) in simp_all)
  moreover have "strconv_ParseInt (strconv_FormatInt j) = Some j"
    by (rule ParseInt_FormatInt) (use assms(3,4) in simp_all)
  ultimately show "i = j" unfolding eq by simp
qed simp

lemma payload_inject:
  assumes "isCanonicalUUID v" "isCanonicalUUID v'" "valid_token_request q" "valid_token_request q'"
  shows "json_text (createRepoTokenPayload v q) = json_text (createRepoTokenPayload v' q') \<longleftrightarrow>
    v = v' \<and> q = q'"
proof -
  have "json_text (createRepoTokenPayload v q) = json_text (createRepoTokenPayload v' q') \<longleftrightarrow>
      createRepoTokenPayload v q = createRepoTokenPayload v' q'"
    using payload_plain [OF assms(1,3)] payload_plain [OF assms(2,4)] by (intro json_text_inject) auto
  also have "\<dots> \<longleftrightarrow> v = v' \<and> q = q'"
    using assms(3,4) FormatInt_inject [of "ctq_TTLSeconds q" "ctq_TTLSeconds q'"]
    by (cases q; cases q') (auto simp: createRepoTokenPayload_def json_int_def valid_token_request_def)
  finally show ?thesis .
qed


section \<open>Retrying\<close>

text \<open>The input of \<open>Do\<close> for a request.\<close>

definition token_idempotency_input :: "(string \<Rightarrow> byte list) \<Rightarrow> httpRequest \<Rightarrow> string \<Rightarrow> createRepoTokenRequest \<Rightarrow> idempotencyInput" where
  "token_idempotency_input sha256 r repoID q =
     \<lparr>ii_Scope = createRepoTokenIdempotencyScope repoID,
      ii_Key = strings_TrimSpace (Header_Get (r_Header r) ''Idempotency-Key''),
      ii_RequestHash = createRepoTokenRequestHash sha256 repoID q\<rparr>"

text \<open>A request that reaches \<open>Do\<close>: its repository, its contents.\<close>

definition keyed_request :: "httpRequest \<Rightarrow> string \<Rightarrow> createRepoTokenRequest \<Rightarrow> bool" where
  "keyed_request r repoID q \<longleftrightarrow>
     strings_TrimSpace (PathValue r ''repoID'') \<noteq> [] \<and>
     parseRepoControlID (strings_TrimSpace (PathValue r ''repoID'')) = Some repoID \<and>
     validTokenRequest r = Inr q \<and>
     strings_TrimSpace (Header_Get (r_Header r) ''Idempotency-Key'') \<noteq> []"

lemma handler_keyed:
  assumes "keyed_request r repoID q"
  shows "createRepoTokenHandler store idem sha zone baseURL env r (w, i, c) =
    (case Do idem (env_ctx env) (env_do_now env) (token_idempotency_input sha r repoID q)
            (create_token_call store zone baseURL env repoID q) (i, c) of
       None \<Rightarrow> None
     | Some (Inl err, s') \<Rightarrow> respond (writeCreateRepoTokenError err w) s'
     | Some (Inr result, s') \<Rightarrow>
         respond (writeJSON 201 (createRepoTokenResponse_json (ir_Response result)) w) s')"
  using assms
  by (simp add: createRepoTokenHandler_def keyed_request_def token_idempotency_input_def Let_def)

lemma handler_unkeyed:
  assumes "createRepoTokenHandler store idem sha zone baseURL env r (new_writer, i, c) = Some (resp, s')"
    and "resp_status resp = 201"
    and "strings_TrimSpace (Header_Get (r_Header r) ''Idempotency-Key'') \<noteq> []"
  obtains repoID q where "keyed_request r repoID q"
  using assms by (auto simp: createRepoTokenHandler_def keyed_request_def Let_def
      split: if_splits option.splits sum.splits)

lemma create_error_status: "resp_status (writeCreateRepoTokenError e new_writer) \<noteq> 201"
  by (simp add: writeCreateRepoTokenError_def)

context idempotency begin

lemma handler_retry:
  assumes "good (i, c)" "Do idem = do_op"
    and "createRepoTokenHandler store idem sha zone baseURL env r (new_writer, i, c) = Some (resp, s')"
    and "resp_status resp = 201"
    and "strings_TrimSpace (Header_Get (r_Header r) ''Idempotency-Key'') \<noteq> []"
    and "\<And>repoID q. keyed_request r repoID q \<Longrightarrow> creates (create_token_call store zone baseURL env repoID q) kept"
  shows "\<exists>expires > env_do_now env. \<forall>env'. env_ctx env' = None \<longrightarrow> env_do_now env' < expires \<longrightarrow>
    createRepoTokenHandler store idem sha zone baseURL env' r (new_writer, s') = Some (resp, s')"
proof -
  obtain repoID q where key: "keyed_request r repoID q"
    using handler_unkeyed [OF assms(3-5)] .
  let ?in = "token_idempotency_input sha r repoID q"
  have ne: "ii_Key ?in \<noteq> []" using assms(5) by (simp add: token_idempotency_input_def)
  from assms(3,4) obtain res where res: "do_op (env_ctx env) (env_do_now env) ?in
      (create_token_call store zone baseURL env repoID q) (i, c) = Some (Inr res, s')"
    and resp: "resp = json_response 201 (createRepoTokenResponse_json (ir_Response res))"
    by (auto simp: handler_keyed [OF key] assms(2) create_error_status split: option.splits sum.splits)
  from retry_replays [OF assms(1) res ne assms(6) [OF key]] obtain expires where ex: "expires > env_do_now env"
    "\<And>now' create'. now' < expires \<Longrightarrow> do_op None now' ?in create' s' =
       Some (Inr \<lparr>ir_Response = ir_Response res, ir_Replayed = True\<rparr>, s')" by blast
  obtain i' c' where s': "s' = (i', c')" by (cases s')
  show ?thesis
    by (rule exI [of _ expires]) (use ex resp in \<open>auto simp: s' handler_keyed [OF key] assms(2)\<close>)
qed

end


section \<open>What the tokens of the store look like\<close>

definition token_valid :: "repoTokenRecord \<Rightarrow> bool" where
  "token_valid t \<longleftrightarrow> isRepoTokenScope (tok_Scope t) \<and> validateTokenSubject (tok_Subject t) = [] \<and>
     tok_CreatedAt t + second \<le> tok_ExpiresAt t \<and> tok_ExpiresAt t \<le> tok_CreatedAt t + 604800 * second"

definition tokens_valid :: "memoryRepoStore \<Rightarrow> bool" where
  "tokens_valid s \<longleftrightarrow> (\<forall>k t. token_at s k = Some t \<longrightarrow> token_valid t)"

lemma CreateRepoToken_memoryStore [simp]:
  "CreateRepoToken (memoryStore sha gs) = memory_CreateRepoToken sha"
  by (simp add: memoryStore_def)

lemma RevokeRepoToken_memoryStore [simp]: "RevokeRepoToken (memoryStore sha gs) = memory_RevokeRepoToken"
  by (simp add: memoryStore_def)

lemma ListRepoTokens_memoryStore [simp]: "ListRepoTokens (memoryStore sha gs) = memory_ListRepoTokens"
  by (simp add: memoryStore_def)

lemma create_call_valid:
  assumes "tokens_valid s" "valid_token_request q"
    and "create_token_call (memoryStore sha gs) zone baseURL env repoID q ctx (s, w) = Some (x, s', w')"
  shows "tokens_valid s'"
proof -
  let ?in = "\<lparr>ct_RepoID = repoID, ct_Scope = ctq_Scope q, ct_Subject = ctq_Subject q,
              ct_TTLSeconds = ctq_TTLSeconds q\<rparr>"
  from assms(3) obtain y where "memory_CreateRepoToken sha (env\<lparr>env_ctx := ctx\<rparr>) ?in (s, w) = Some (y, s', w')"
    by (auto simp: create_token_call_def split: option.splits sum.splits)
  then consider e where "memory_CreateRepoToken sha (env\<lparr>env_ctx := ctx\<rparr>) ?in (s, w) = Some (Inl e, s', w')"
    | tk where "memory_CreateRepoToken sha (env\<lparr>env_ctx := ctx\<rparr>) ?in (s, w) = Some (Inr tk, s', w')"
    by (cases y) auto
  then show ?thesis
  proof cases
    case 1
    from memory_CreateRepoToken_error [OF this] assms(1) show ?thesis by simp
  next
    case 2
    then show ?thesis
    proof (cases rule: memory_CreateRepoToken_created)
      case (1 repo t h v)
      have "int64 (ctq_TTLSeconds q * second) = ctq_TTLSeconds q * second"
        by (rule int64_id) (use assms(2) in \<open>simp_all add: valid_token_request_def\<close>)
      with 1(7) assms(2) have "token_valid (tk\<lparr>tok_Token := []\<rparr>)"
        by (simp add: token_valid_def token_record_def valid_token_request_def)
      with 1(8) assms(1) show ?thesis by (auto simp: tokens_valid_def)
    qed
  qed
qed

lemma memory_Do_state:
  assumes "memory_Do ctx now input create (i, c) = Some (x, i', c')"
  shows "c' = c \<or> (\<exists>y. create ctx c = Some (y, c'))"
  using assms by (auto simp: memory_Do_def memory_Do_create_def Let_def
      split: option.splits sum.splits if_splits)

text \<open>
  C16 (createRepoTokenHandler).  Every token of the store is one the API allows: its scope is read,
  write or readwrite, its subject passes the validation, and it lives between one second and
  seven days; the create handler keeps this for every request, with and without an idempotency
  key.
\<close>
theorem minted_tokens_valid:
  assumes "tokens_valid s"
    and "createRepoTokenHandler (memoryStore sha256 gs) memoryIdempotency sha256 zone baseURL env r
      (new_writer, i, s, w) = Some (resp, i', s', w')"
  shows "tokens_valid s'"
proof -
  have "(s', w') = (s, w) \<or> (\<exists>repoID q ctx x. valid_token_request q \<and>
      create_token_call (memoryStore sha256 gs) zone baseURL env repoID q ctx (s, w) = Some (x, s', w'))"
    using assms(2) validTokenRequest_valid [of r]
    by (auto simp: createRepoTokenHandler_def memoryIdempotency_def Let_def
        split: if_splits option.splits sum.splits dest!: memory_Do_state)
  with assms(1) create_call_valid show ?thesis by (metis prod.inject)
qed

text \<open>
  \<open>revokeRepoTokenHandler\<close>.  A token can only be revoked through its own repository: a revoke
  request that names a token of another repository is answered 404 and changes nothing.
\<close>
lemma revoke_confined:
  assumes "token_at s tokenID = Some t" "tok_RepoID t \<noteq> repoID"
    and "parseRepoControlID (strings_TrimSpace (PathValue r ''repoID'')) = Some repoID"
    and "parseRepoTokenControlID (PathValue r ''tokenID'') = Some tokenID"
  shows "\<exists>m. revokeRepoTokenHandler (memoryStore sha256 gs) zone env r (new_writer, s, w) =
    Some (json_response 404 (errorResponse m), s, w)"
proof -
  have "strings_TrimSpace (PathValue r ''repoID'') \<noteq> []"
    using assms(3) by (auto simp: parseRepoControlID_def strings_CutPrefix_def repoControlIDPrefix_def
        strings_HasPrefix_def)
  with assms show ?thesis
    by (auto simp: revokeRepoTokenHandler_def repoIDFromPath_def memory_RevokeRepoToken_def Let_def)
qed

end
