(* ===== verification/Server.thy ===== *)
theory Server
  imports Access_Log Agent_Docs Git_Lfs Git_Raw Tokens
begin

text \<open>
  The assembly of the service (\<open>internal/http/server.go\<close>): the handlers over one repository store, one
  idempotency store and the programs and files of the host, behind the mux and the access log.
  The locale \<open>state_relation\<close> states what it takes for a relation between states to be kept by the Git
  handlers, whatever the access check, the processes and the object store.

  The state of a server is the text of its access log, the state of the idempotency store and the
  state of the rest: for the in-memory server, the repository store and the world outside, on which
  the \<open>git\<close> processes and the files act.
\<close>

section \<open>Configuration\<close>

text \<open>\<open>AccessLog\<close> tells whether there is a writer; what was written to it is in the state.\<close>

record 'p Config =
  cfg_BaseURL :: string
  cfg_ControlBearer :: string
  cfg_StorageRoot :: string
  cfg_MaxLFSObjectBytes :: int
  cfg_AccessLog :: bool
  cfg_TrustedProxyPrefixes :: "'p list"

text \<open>
  What the handlers take from the standard library: the hash, the offset of the local time zone at a
  time, the lower case of a rune, addresses, the start and the duration of a call, and the answer of
  a redirect.
\<close>

record ('a, 'p) stdlib =
  lib_sha256 :: "string \<Rightarrow> byte list"
  lib_zone :: "time \<Rightarrow> int"
  lib_low :: "rune \<Rightarrow> rune"
  lib_netip :: "('a, 'p) netip"
  lib_timing :: "callEnv \<Rightarrow> time \<times> int"
  lib_redirect :: "string \<Rightarrow> httpRequest \<Rightarrow> responseWriter \<Rightarrow> responseWriter"

text \<open>What the server uses of the host: directories and \<open>git init\<close>, files, and \<open>git\<close> processes.\<close>

record 'w system =
  sys_host :: "'w host"
  sys_files :: "'w fileHost"
  sys_tools :: "'w gitTools"

section \<open>Handlers on a part of the state\<close>

definition on_store :: "'c handler \<Rightarrow> ('i \<times> 'c) handler" where
  "on_store h = (\<lambda>env r (w, i, c).
     case h env r (w, c) of None \<Rightarrow> None | Some (w', c') \<Rightarrow> Some (w', i, c'))"

definition tools_on :: "'w gitTools \<Rightarrow> ('m \<times> 'w) gitTools" where
  "tools_on tools =
     \<lparr>gt_PATH = gt_PATH tools, gt_low = gt_low tools,
      gt_run = (\<lambda>ctx path args envs body (m, w).
        let (p, w') = gt_run tools ctx path args envs body w in (p, m, w'))\<rparr>"

section \<open>The server\<close>

definition internalServerError :: "'s handler" where
  "internalServerError = (\<lambda>env r (w, s). respond (http_Error internalServerErrorText 500 w) s)"

definition noContent :: "'s handler" where
  "noContent = (\<lambda>env r (w, s). respond (rw_WriteHeader 204 w) s)"

text \<open>\<open>lfs\<close> gives the store of LFS objects below a root, over the files of the host.\<close>

definition server_handlers ::
  "('a, 'p) stdlib \<Rightarrow> 'c gitTools \<Rightarrow> (string \<Rightarrow> 'c lfsObjectStore) \<Rightarrow> 'p Config \<Rightarrow> 'c repoStore \<Rightarrow>
     ('i, 'c) idempotencyDoer \<Rightarrow> ('i \<times> 'c) handlers" where
  "server_handlers lib tools lfs config store idem =
     (let control = controlAuth (cfg_ControlBearer config);
          access = AuthorizeGitAccess store; baseURL = cfg_BaseURL config; zone = lib_zone lib
      in \<lparr>h_AgentDocs = Some (agentDocsHandler baseURL),
          h_Healthz = noContent,
          h_CreateRepo = control (on_store (createRepoHandler store baseURL)),
          h_GetRepo = control (on_store (getRepoHandler store baseURL)),
          h_ArchiveRepo = control (on_store (archiveRepoHandler store zone)),
          h_CreateRepoToken = control (createRepoTokenHandler store idem (lib_sha256 lib) zone baseURL),
          h_ListRepoTokens = control (on_store (listRepoTokensHandler store zone)),
          h_RevokeRepoToken = control (on_store (revokeRepoTokenHandler store zone)),
          h_GitSmartHTTP = on_store (gitSmartHTTPHandler access (Some (execGitHTTPBackend tools []))),
          h_GitLFS = on_store (gitLFSHandler (lib_low lib) access
                       (Some (lfs (newFilesystemLFSObjectStore (cfg_StorageRoot config))))
                       (cfg_MaxLFSObjectBytes config)),
          h_GitShowDiff = on_store (gitDiffHandler access (Some (execGitDiffBackend tools [])) gitDiffShow),
          h_GitCompareDiff = on_store (gitDiffHandler access (Some (execGitDiffBackend tools [])) gitDiffCompare),
          h_GitRawFile = on_store (gitRawHandler access (execGitRawBackend tools []))\<rparr>)"

definition NewServerWithStores ::
  "('a, 'p) stdlib \<Rightarrow> 'c gitTools \<Rightarrow> (string \<Rightarrow> 'c lfsObjectStore) \<Rightarrow> 'p Config \<Rightarrow> 'c repoStore \<Rightarrow>
     ('i, 'c) idempotencyDoer \<Rightarrow> (string \<times> 'i \<times> 'c) handler" where
  "NewServerWithStores lib tools lfs config store idem =
     accessLog (lib_low lib) (lib_netip lib) (lib_timing lib) (cfg_AccessLog config)
       (cfg_TrustedProxyPrefixes config)
       (NewMux (lib_redirect lib) (server_handlers lib tools lfs config store idem))"

text \<open>Without an idempotency store the server makes an in-memory one.\<close>

definition NewServerWithoutIdempotency ::
  "('a, 'p) stdlib \<Rightarrow> 'c gitTools \<Rightarrow> (string \<Rightarrow> 'c lfsObjectStore) \<Rightarrow> 'p Config \<Rightarrow> 'c repoStore \<Rightarrow>
     (string \<times> memoryIdempotencyStore \<times> 'c) handler" where
  "NewServerWithoutIdempotency lib tools lfs config store =
     NewServerWithStores lib tools lfs config store memoryIdempotency"

type_synonym 'w serverState = "string \<times> memoryIdempotencyStore \<times> memoryRepoStore \<times> 'w"

definition NewServer :: "('a, 'p) stdlib \<Rightarrow> 'w system \<Rightarrow> 'p Config \<Rightarrow> 'w serverState handler" where
  "NewServer lib sys config =
     NewServerWithStores lib (tools_on (sys_tools sys))
       (\<lambda>root. lfs_on (filesystemLFSObjectStore (sys_files sys) (lib_sha256 lib) root)) config
       (memoryStore (lib_sha256 lib)
          (filesystemGitStorage (sys_host sys) (newFilesystemGitStorage (cfg_StorageRoot config))))
       memoryIdempotency"

text \<open>The state of a server that has served nothing.\<close>

definition new_serverState :: "'w \<Rightarrow> 'w serverState" where
  "new_serverState w = ([], newMemoryIdempotencyStore, newMemoryRepoStore, w)"

section \<open>What a handler keeps\<close>

text \<open>
  A handler keeps a relation when the state it leaves is related to the state it found; likewise an
  access check, the \<open>git\<close> processes, an object store and the backends of the Git handlers.
\<close>

definition handler_keeps :: "('s \<Rightarrow> 's \<Rightarrow> bool) \<Rightarrow> 's handler \<Rightarrow> bool" where
  "handler_keeps R h \<longleftrightarrow> (\<forall>env r w s w' s'. h env r (w, s) = Some (w', s') \<longrightarrow> R s s')"

definition access_keeps :: "('s \<Rightarrow> 's \<Rightarrow> bool) \<Rightarrow> 's authorizer \<Rightarrow> bool" where
  "access_keeps R access \<longleftrightarrow> (\<forall>env input s. R s (snd (access env input s)))"

definition tools_keep :: "('s \<Rightarrow> 's \<Rightarrow> bool) \<Rightarrow> 's gitTools \<Rightarrow> bool" where
  "tools_keep R tools \<longleftrightarrow> (\<forall>ctx path args envs body s. R s (snd (gt_run tools ctx path args envs body s)))"

definition lfs_keeps :: "('s \<Rightarrow> 's \<Rightarrow> bool) \<Rightarrow> 's lfsObjectStore \<Rightarrow> bool" where
  "lfs_keeps R store \<longleftrightarrow> (\<forall>ctx repoID v n k body s. R s (snd (lfs_Put store ctx repoID v n k body s)))"

lemma keepsD:
  "handler_keeps R h \<Longrightarrow> h env r (w, s) = Some (w', s') \<Longrightarrow> R s s'"
  "access_keeps R access \<Longrightarrow> access env input s = (res, s') \<Longrightarrow> R s s'"
  "tools_keep R tools \<Longrightarrow> gt_run tools ctx path args envs body s = (p, s') \<Longrightarrow> R s s'"
  "lfs_keeps R store \<Longrightarrow> lfs_Put store ctx repoID v n k content s = (e, s') \<Longrightarrow> R s s'"
  unfolding handler_keeps_def access_keeps_def tools_keep_def lfs_keeps_def by (blast, (metis snd_conv)+)

lemma handler_keepsI:
  "(\<And>env r w s w' s'. h env r (w, s) = Some (w', s') \<Longrightarrow> R s s') \<Longrightarrow> handler_keeps R h"
  by (auto simp: handler_keeps_def)

locale state_relation =
  fixes R :: "'s \<Rightarrow> 's \<Rightarrow> bool"
  assumes same [simp, intro]: "R s s"
    and chain [trans]: "R a b \<Longrightarrow> R b c \<Longrightarrow> R a c"
begin

lemma answer_keeps: "respond w s = Some (w', s') \<Longrightarrow> R s s'"
  by simp

lemma backend_keeps:
  assumes "tools_keep R tools" "execGitHTTPBackend tools git env r grant (w, s) = (e, w', s')"
  shows "R s s'"
proof -
  obtain p s1 where run: "gt_run tools (env_ctx env) (default_git git) [''http-backend'']
      (gitHTTPBackendEnv (gt_PATH tools) r grant) (Some (r_Body r)) s = (p, s1)" by fastforce
  have "s' = s1"
    using assms(2) by (auto simp: execGitHTTPBackend_def run Let_def split: option.splits prod.splits if_splits)
  with keepsD(3) [OF assms(1) run] show ?thesis by simp
qed

lemma resolve_keeps:
  assumes "tools_keep R tools" "resolveGitCommit tools ctx git dir revision s = (res, s')"
  shows "R s s'"
  using assms(2) keepsD(3) [OF assms(1)]
  by (auto simp: resolveGitCommit_def Let_def split: option.splits prod.splits if_splits)

lemma resolve_revs_keeps:
  assumes "tools_keep R tools" "resolve_revs tools ctx git dir revs s = (res, s')"
  shows "R s s'"
  using assms(2)
proof (induction revs arbitrary: s res)
  case (Cons x revs)
  then show ?case
    using resolve_keeps [OF assms(1)] by (auto split: prod.splits sum.splits) (metis chain)+
qed simp

lemma diff_backend_keeps:
  assumes "tools_keep R tools" "execGitDiffBackend tools git env r grant target (w, s) = (e, w', s')"
  shows "R s s'"
proof -
  obtain res s1 where res: "resolveGitDiffTarget tools (env_ctx env) (default_git git) (grant_RepoPath grant) target s =
    (res, s1)" by fastforce
  then have "R s s1"
    using resolve_revs_keeps [OF assms(1)]
    by (auto simp: resolveGitDiffTarget_def split: prod.splits sum.splits gitDiffKind.splits)
  moreover have "R s1 s'"
  proof (cases res)
    case (Inl err)
    with assms(2) show ?thesis by (auto simp: execGitDiffBackend_def Let_def res split: if_splits)
  next
    case (Inr t)
    let ?args = "gitDiffArgs (grant_RepoPath grant) t"
    obtain p s2 where run: "gt_run tools (env_ctx env) (default_git git) ?args (gitProcessEnv (gt_PATH tools) []) None s1 =
      (p, s2)" by fastforce
    have "snd (runGitDiff tools (env_ctx env) (default_git git) ?args s1) = s2"
      by (auto simp: runGitDiff_def run Let_def split: option.splits)
    with assms(2) Inr have "s' = s2"
      by (auto simp: execGitDiffBackend_def Let_def res split: prod.splits sum.splits)
    with keepsD(3) [OF assms(1) run] show ?thesis by simp
  qed
  ultimately show ?thesis by (rule chain)
qed

lemma raw_backend_keeps:
  assumes "tools_keep R tools" "execGitRawBackend tools git env r grant target (w, s) = (e, w', s')"
  shows "R s s'"
proof -
  have type: "R s s'" if "gitObjectType tools ctx g dir spec s = (res, s')" for ctx g dir spec s res s'
    using that keepsD(3) [OF assms(1)] by (auto simp: gitObjectType_def Let_def split: option.splits prod.splits)
  obtain res s1 where res: "resolveGitCommit tools (env_ctx env) (default_git git) (grant_RepoPath grant) (rt_rev target) s =
    (res, s1)" by fastforce
  from resolve_keeps [OF assms(1) res] have s1: "R s s1" .
  show ?thesis
  proof (cases res)
    case (Inl err)
    with assms(2) s1 show ?thesis by (auto simp: execGitRawBackend_def Let_def res split: if_splits)
  next
    case (Inr rsv)
    let ?spec = "rsv @ CHR '':'' # rt_path target"
    obtain ty s2 where ty: "gitObjectType tools (env_ctx env) (default_git git) (grant_RepoPath grant) ?spec s1 = (ty, s2)"
      by fastforce
    from chain [OF s1 type [OF ty]] have s2: "R s s2" .
    obtain p s3 where run: "gt_run tools (env_ctx env) (default_git git)
        [''--git-dir'', grant_RepoPath grant, ''cat-file'', ''blob'', ?spec] (gitProcessEnv (gt_PATH tools) []) None s2 = (p, s3)"
      by fastforce
    from chain [OF s2 keepsD(3) [OF assms(1) run]] have s3: "R s s3" .
    from assms(2) Inr have "s' = s2 \<or> s' = s3"
      by (auto simp: execGitRawBackend_def Let_def res ty run split: sum.splits if_splits option.splits)
    with s2 s3 show ?thesis by blast
  qed
qed

lemma smart_http_keeps:
  assumes "access_keeps R access" "tools_keep R tools"
  shows "handler_keeps R (gitSmartHTTPHandler access (Some (execGitHTTPBackend tools git)))"
  by (rule handler_keepsI)
    (auto simp: gitSmartHTTPHandler_def Let_def dest!: keepsD(2) [OF assms(1)] backend_keeps [OF assms(2)]
      intro: chain split: option.splits sum.splits prod.splits)

lemma diff_keeps:
  assumes "access_keeps R access" "tools_keep R tools"
  shows "handler_keeps R (gitDiffHandler access (Some (execGitDiffBackend tools git)) kind)"
  by (rule handler_keepsI)
    (auto simp: gitDiffHandler_def Let_def dest!: keepsD(2) [OF assms(1)] diff_backend_keeps [OF assms(2)]
      intro: chain split: option.splits sum.splits prod.splits if_splits)

lemma raw_keeps:
  assumes "access_keeps R access" "tools_keep R tools"
  shows "handler_keeps R (gitRawHandler access (execGitRawBackend tools git))"
  by (rule handler_keepsI)
    (auto simp: gitRawHandler_def Let_def dest!: keepsD(2) [OF assms(1)] raw_backend_keeps [OF assms(2)]
      intro: chain split: option.splits sum.splits prod.splits)

lemma lfs_handler_keeps:
  assumes "access_keeps R access" "lfs_keeps R store"
  shows "handler_keeps R (gitLFSHandler low access (Some store) mx)"
proof (rule handler_keepsI)
  fix env r w s w' s'
  assume h: "gitLFSHandler low access (Some store) mx env r (w, s) = Some (w', s')"
  note steps = keepsD(2) [OF assms(1)] keepsD(4) [OF assms(2)]
  have "R s s'" if "serveLFSBatch low access store repoID mx env r (w, s) = Some (w', s')" for repoID mx
    using that by (auto simp: serveLFSBatch_def authorizeLFSAccess_def Let_def dest: steps
        split: option.splits sum.splits prod.splits if_splits)
  moreover have "R s s'" if "serveLFSUpload low access store repoID mx env r (w, s) = Some (w', s')" for repoID mx
    using that by (auto simp: serveLFSUpload_def authorizeLFSAccess_def Let_def dest!: steps intro: chain
        split: option.splits sum.splits prod.splits if_splits)
  moreover have "R s s'" if "serveLFSDownload low access store repoID env r (w, s) = Some (w', s')" for repoID
    using that by (auto simp: serveLFSDownload_def authorizeLFSAccess_def Let_def dest: steps
        split: option.splits sum.splits prod.splits if_splits)
  moreover have "R s s'" if "serveLFSLocksVerify access repoID env r (w, s) = Some (w', s')" for repoID
    using that by (auto simp: serveLFSLocksVerify_def authorizeLFSAccess_def dest: steps split: sum.splits prod.splits)
  ultimately show "R s s'"
    using h by (auto simp: gitLFSHandler_def Let_def split: option.splits if_splits)
qed

end

end
