(* ===== verification/Command.thy ===== *)
theory Command
  imports Server Complex_Main
begin

text \<open>
  The command (\<open>cmd/gitrdone/main.go\<close>): the configuration from the environment, the assembly of the
  HTTP server, what is removed from an event before it is sent to Sentry, and what \<open>main\<close> does before
  it listens.  The life cycle after that is in \<open>Lifecycle\<close>.

  Parameters are what the command takes from packages outside the sources and from parsers of the
  standard library: durations, floating-point numbers, addresses and prefixes, URLs, \<open>sentry.Init\<close>.
  The signals that end the context, the log and the flush of Sentry at the end are not modelled.
\<close>

section \<open>Configuration\<close>

definition defaultAddr :: string where "defaultAddr = '':8080''"
definition defaultBaseURL :: string where "defaultBaseURL = ''http://localhost:8080''"
definition defaultStorageRoot :: string where "defaultStorageRoot = ''.storage''"
definition defaultReadHeaderTimeout :: duration where "defaultReadHeaderTimeout = 5 * second"
definition defaultIdleTimeout :: duration where "defaultIdleTimeout = 60 * second"
definition defaultMaxHeaderBytes :: int where "defaultMaxHeaderBytes = 32 * 1024"
definition defaultShutdownTimeout :: duration where "defaultShutdownTimeout = 2 * (60 * second)"
definition defaultSentryFlushTimeout :: duration where "defaultSentryFlushTimeout = 2 * second"
definition defaultMaxLFSObjectBytes :: int where "defaultMaxLFSObjectBytes = DefaultMaxLFSObjectBytes"

text \<open>A 64-bit floating-point number, as far as comparisons go.\<close>

datatype float64 = NaN | NegInf | PosInf | Finite rat

fun float64_less :: "float64 \<Rightarrow> float64 \<Rightarrow> bool" where
  "float64_less NaN y = False"
| "float64_less x NaN = False"
| "float64_less PosInf y = False"
| "float64_less NegInf y = (y \<noteq> NegInf)"
| "float64_less (Finite a) (Finite b) = (a < b)"
| "float64_less (Finite a) y = (y = PosInf)"

text \<open>The parsers of the standard library, with the text of their errors where it is reported.\<close>

record ('a, 'p) parsers =
  time_ParseDuration :: "string \<Rightarrow> string + duration"
  strconv_ParseFloat :: "string \<Rightarrow> float64 option"
  netip_ParsePrefix :: "string \<Rightarrow> 'p option"
  netip_Masked :: "'p \<Rightarrow> 'p"
  netip_ParseAddr :: "string \<Rightarrow> 'a option"
  netip_BitLen :: "'a \<Rightarrow> int"
  netip_PrefixFrom :: "'a \<Rightarrow> int \<Rightarrow> 'p"
  strconv_Quote :: "string \<Rightarrow> string"

record 'p config =
  cc_addr :: string
  cc_baseURL :: string
  cc_controlBearer :: string
  cc_storageRoot :: string
  cc_databaseURL :: string
  cc_maxLFSObjectBytes :: int
  cc_trustedProxyPrefixes :: "'p list"
  cc_shutdownTimeout :: duration
  cc_accessLog :: bool
  cc_sentryDSN :: string
  cc_sentryEnvironment :: string
  cc_sentryRelease :: string
  cc_sentryTracesSampleRate :: float64

text \<open>\<open>MustParsePrefix\<close> of two valid literals, which cannot fail.\<close>

definition defaultTrustedProxyPrefixes :: "('a, 'p) parsers \<Rightarrow> 'p list" where
  "defaultTrustedProxyPrefixes ps = List.map_filter (netip_ParsePrefix ps) [''127.0.0.1/32'', ''::1/128'']"

definition parseTrustedProxyPrefix :: "('a, 'p) parsers \<Rightarrow> string \<Rightarrow> 'p option" where
  "parseTrustedProxyPrefix ps v =
     (case netip_ParsePrefix ps v of
        Some prefix \<Rightarrow> Some (netip_Masked ps prefix)
      | None \<Rightarrow>
          (case netip_ParseAddr ps v of
             Some addr \<Rightarrow> Some (netip_PrefixFrom ps addr (netip_BitLen ps addr))
           | None \<Rightarrow> None))"

text \<open>The loop of \<open>parseTrustedProxyPrefixes\<close>: the first part that is no prefix, or the prefixes.\<close>

fun proxy_parts :: "('a, 'p) parsers \<Rightarrow> string list \<Rightarrow> string + 'p list" where
  "proxy_parts ps [] = Inr []"
| "proxy_parts ps (part # parts) =
     (let part = strings_TrimSpace part
      in if part = [] then proxy_parts ps parts
         else case parseTrustedProxyPrefix ps part of
                None \<Rightarrow> Inl (''GITRDONE_TRUSTED_PROXIES contains invalid IP or CIDR '' @ strconv_Quote ps part)
              | Some prefix \<Rightarrow> map_sum (\<lambda>e. e) ((#) prefix) (proxy_parts ps parts))"

definition parseTrustedProxyPrefixes :: "('a, 'p) parsers \<Rightarrow> string \<Rightarrow> string + 'p list" where
  "parseTrustedProxyPrefixes ps raw =
     (case proxy_parts ps (strings_Split (CHR '','') raw) of
        Inl err \<Rightarrow> Inl err
      | Inr prefixes \<Rightarrow>
          (if prefixes = [] then Inl ''GITRDONE_TRUSTED_PROXIES must include at least one IP or CIDR''
           else Inr prefixes))"

text \<open>The optional settings: what the environment sets, or the default (lines 180 to 187 and 202 to 225).\<close>

definition env_proxies :: "('a, 'p) parsers \<Rightarrow> (string \<Rightarrow> string) \<Rightarrow> string + 'p list" where
  "env_proxies ps getenv =
     (let raw = strings_TrimSpace (getenv ''GITRDONE_TRUSTED_PROXIES'')
      in if raw \<noteq> [] then parseTrustedProxyPrefixes ps raw else Inr (defaultTrustedProxyPrefixes ps))"

definition env_timeout :: "('a, 'p) parsers \<Rightarrow> (string \<Rightarrow> string) \<Rightarrow> string + duration" where
  "env_timeout ps getenv =
     (let raw = strings_TrimSpace (getenv ''GITRDONE_SHUTDOWN_TIMEOUT'')
      in if raw \<noteq> [] then
           (case time_ParseDuration ps raw of
              Inl err \<Rightarrow> Inl (''GITRDONE_SHUTDOWN_TIMEOUT must be a valid duration: '' @ err)
            | Inr timeout \<Rightarrow>
                (if timeout \<le> 0 then Inl ''GITRDONE_SHUTDOWN_TIMEOUT must be greater than zero''
                 else Inr timeout))
         else Inr defaultShutdownTimeout)"

definition env_rate :: "('a, 'p) parsers \<Rightarrow> (string \<Rightarrow> string) \<Rightarrow> string + float64" where
  "env_rate ps getenv =
     (let raw = strings_TrimSpace (getenv ''SENTRY_TRACES_SAMPLE_RATE'');
          err = Inl ''SENTRY_TRACES_SAMPLE_RATE must be a number between 0 and 1''
      in if raw \<noteq> [] then
           (case strconv_ParseFloat ps raw of
              None \<Rightarrow> err
            | Some rate \<Rightarrow>
                (if float64_less rate (Finite 0) \<or> float64_less (Finite 1) rate then err else Inr rate))
         else Inr (Finite 0))"

definition env_maxBytes :: "(string \<Rightarrow> string) \<Rightarrow> string + int" where
  "env_maxBytes getenv =
     (let raw = strings_TrimSpace (getenv ''GITRDONE_MAX_LFS_OBJECT_BYTES'');
          err = Inl ''GITRDONE_MAX_LFS_OBJECT_BYTES must be a positive integer''
      in if raw \<noteq> [] then
           (case strconv_ParseInt raw of
              None \<Rightarrow> err
            | Some maxBytes \<Rightarrow> (if maxBytes \<le> 0 then err else Inr maxBytes))
         else Inr defaultMaxLFSObjectBytes)"

definition or_default :: "string \<Rightarrow> string \<Rightarrow> string" where
  "or_default v dflt = (if v = [] then dflt else v)"

definition configFromEnv :: "('a, 'p) parsers \<Rightarrow> (string \<Rightarrow> string) \<Rightarrow> string + 'p config" where
  "configFromEnv ps getenv =
     (let env = (\<lambda>k. strings_TrimSpace (getenv k))
      in case env_proxies ps getenv of
           Inl err \<Rightarrow> Inl err
         | Inr proxies \<Rightarrow>
             (case env_timeout ps getenv of
                Inl err \<Rightarrow> Inl err
              | Inr timeout \<Rightarrow>
                  (case env_rate ps getenv of
                     Inl err \<Rightarrow> Inl err
                   | Inr rate \<Rightarrow>
                       (case env_maxBytes getenv of
                          Inl err \<Rightarrow> Inl err
                        | Inr maxBytes \<Rightarrow>
                            (if env ''GITRDONE_CONTROL_BEARER'' = [] then Inl ''GITRDONE_CONTROL_BEARER is required''
                             else Inr
                               \<lparr>cc_addr = or_default (env ''GITRDONE_ADDR'') defaultAddr,
                                cc_baseURL = or_default (env ''GITRDONE_BASE_URL'') defaultBaseURL,
                                cc_controlBearer = env ''GITRDONE_CONTROL_BEARER'',
                                cc_storageRoot = or_default (env ''GITRDONE_STORAGE_ROOT'') defaultStorageRoot,
                                cc_databaseURL = env ''GITRDONE_DATABASE_URL'',
                                cc_maxLFSObjectBytes = maxBytes,
                                cc_trustedProxyPrefixes = proxies,
                                cc_shutdownTimeout = timeout,
                                cc_accessLog = False,
                                cc_sentryDSN = env ''SENTRY_DSN'',
                                cc_sentryEnvironment = env ''SENTRY_ENVIRONMENT'',
                                cc_sentryRelease = env ''SENTRY_RELEASE'',
                                cc_sentryTracesSampleRate = rate\<rparr>)))))"

section \<open>The HTTP server\<close>

type_synonym 's closer = "'s \<Rightarrow> string option \<times> 's"

record 'h http_Server =
  srv_Addr :: string
  srv_Handler :: 'h
  srv_ReadHeaderTimeout :: duration
  srv_IdleTimeout :: duration
  srv_MaxHeaderBytes :: int

definition server_Config :: "'p config \<Rightarrow> 'p Config" where
  "server_Config cfg =
     \<lparr>cfg_BaseURL = cc_baseURL cfg, cfg_ControlBearer = cc_controlBearer cfg, cfg_StorageRoot = cc_storageRoot cfg,
      cfg_MaxLFSObjectBytes = cc_maxLFSObjectBytes cfg, cfg_AccessLog = cc_accessLog cfg,
      cfg_TrustedProxyPrefixes = cc_trustedProxyPrefixes cfg\<rparr>"

text \<open>
  \<open>newServer\<close> and \<open>newPostgres\<close> are the two constructors of a handler, \<open>sentryHandle\<close> is the middleware of
  Sentry with \<open>Repanic\<close>.
\<close>

definition newHTTPServer ::
  "('p Config \<Rightarrow> 'h) \<Rightarrow> ('p Config \<Rightarrow> string \<Rightarrow> 's \<Rightarrow> (string + 'h \<times> 's closer) \<times> 's) \<Rightarrow> ('h \<Rightarrow> 'h) \<Rightarrow> 'p config \<Rightarrow> 's \<Rightarrow>
     (string + 'h http_Server \<times> 's closer) \<times> 's" where
  "newHTTPServer newServer newPostgres sentryHandle cfg s =
     (let built = (if cc_databaseURL cfg \<noteq> [] then newPostgres (server_Config cfg) (cc_databaseURL cfg) s
                   else (Inr (newServer (server_Config cfg), \<lambda>s. (None, s)), s))
      in case built of
           (Inl err, s') \<Rightarrow> (Inl err, s')
         | (Inr (handler, closeServer), s') \<Rightarrow>
             (Inr (\<lparr>srv_Addr = cc_addr cfg,
                    srv_Handler = (if cc_sentryDSN cfg \<noteq> [] then sentryHandle handler else handler),
                    srv_ReadHeaderTimeout = defaultReadHeaderTimeout,
                    srv_IdleTimeout = defaultIdleTimeout,
                    srv_MaxHeaderBytes = defaultMaxHeaderBytes\<rparr>, closeServer), s'))"

section \<open>Sentry\<close>

text \<open>An event: the parts of its request that the code touches, and the rest.\<close>

record 'e sentryRequest =
  sr_URL :: string
  sr_Data :: string
  sr_QueryString :: string
  sr_Cookies :: string
  sr_Headers :: "(string \<times> string) list option"
  sr_rest :: 'e

record ('e, 'f) sentryEvent =
  ev_Request :: "'e sentryRequest option"
  ev_rest :: 'f

text \<open>A parsed URL: its query, and the rest.\<close>

record 'u url =
  u_RawQuery :: string
  u_ForceQuery :: bool
  u_rest :: 'u

definition sanitizeSentryEvent ::
  "(string \<Rightarrow> 'u url option) \<Rightarrow> ('u url \<Rightarrow> string) \<Rightarrow> ('e, 'f) sentryEvent option \<Rightarrow> ('e, 'f) sentryEvent option" where
  "sanitizeSentryEvent url_Parse url_String event =
     (case event of
        None \<Rightarrow> None
      | Some ev \<Rightarrow>
          (case ev_Request ev of
             None \<Rightarrow> Some ev
           | Some req \<Rightarrow>
               (let req = req\<lparr>sr_Headers := None, sr_Cookies := [], sr_Data := [], sr_QueryString := []\<rparr>;
                    req = (if sr_URL req = [] then req
                           else case url_Parse (sr_URL req) of
                                  None \<Rightarrow>
                                    (let (urlWithoutQuery, _, ok) = strings_Cut (sr_URL req) ''?''
                                     in if ok then req\<lparr>sr_URL := urlWithoutQuery\<rparr> else req)
                                | Some parsed \<Rightarrow>
                                    req\<lparr>sr_URL := url_String (parsed\<lparr>u_RawQuery := [], u_ForceQuery := False\<rparr>)\<rparr>)
                in Some (ev\<lparr>ev_Request := Some req\<rparr>))))"

record 'ev sentryOptions =
  so_Dsn :: string
  so_Environment :: string
  so_Release :: string
  so_EnableTracing :: bool
  so_TracesSampleRate :: float64
  so_SendDefaultPII :: bool
  so_BeforeSend :: "'ev option \<Rightarrow> 'ev option"

text \<open>The function it returns is given by the timeout of its flush, if it flushes.\<close>

definition initSentry ::
  "(string \<Rightarrow> 'u url option) \<Rightarrow> ('u url \<Rightarrow> string) \<Rightarrow> (('e, 'f) sentryEvent sentryOptions \<Rightarrow> string option) \<Rightarrow>
     'p config \<Rightarrow> string + duration option" where
  "initSentry url_Parse url_String sentry_Init cfg =
     (if cc_sentryDSN cfg = [] then Inr None
      else case sentry_Init
                  \<lparr>so_Dsn = cc_sentryDSN cfg, so_Environment = cc_sentryEnvironment cfg,
                   so_Release = cc_sentryRelease cfg,
                   so_EnableTracing = float64_less (Finite 0) (cc_sentryTracesSampleRate cfg),
                   so_TracesSampleRate = cc_sentryTracesSampleRate cfg, so_SendDefaultPII = False,
                   so_BeforeSend = sanitizeSentryEvent url_Parse url_String\<rparr> of
             Some err \<Rightarrow> Inl (''initialize Sentry: '' @ err)
           | None \<Rightarrow> Inr (Some defaultSentryFlushTimeout))"

section \<open>Starting\<close>

text \<open>
  What \<open>main\<close> does before it listens: each error is fatal.  The result has the configuration with its
  access log, the timeout of the flush of Sentry, the server and the function that closes it.
\<close>

definition main_setup ::
  "('p config \<Rightarrow> string + duration option) \<Rightarrow> (string \<Rightarrow> string + string) \<Rightarrow>
     ('p config \<Rightarrow> 's \<Rightarrow> (string + 'h http_Server \<times> 's closer) \<times> 's) \<Rightarrow> string + 'p config \<Rightarrow> 's \<Rightarrow>
     (string + 'p config \<times> duration option \<times> 'h http_Server \<times> 's closer) \<times> 's" where
  "main_setup init_Sentry filepath_Abs new_HTTPServer configured s =
     (case configured of
        Inl err \<Rightarrow> (Inl err, s)
      | Inr cfg \<Rightarrow>
          (case init_Sentry cfg of
             Inl err \<Rightarrow> (Inl err, s)
           | Inr flushSentry \<Rightarrow>
               (let cfg = cfg\<lparr>cc_accessLog := True\<rparr>
                in case filepath_Abs (cc_storageRoot cfg) of
                     Inl err \<Rightarrow> (Inl err, s)
                   | Inr _ \<Rightarrow>
                       (case new_HTTPServer cfg s of
                          (Inl err, s') \<Rightarrow> (Inl err, s')
                        | (Inr (server, closeServer), s') \<Rightarrow> (Inr (cfg, flushSentry, server, closeServer), s')))))"

section \<open>What a configuration guarantees\<close>

lemma env_timeout_pos: "env_timeout ps getenv = Inr d \<Longrightarrow> 0 < d"
  by (auto simp: env_timeout_def defaultShutdownTimeout_def Let_def split: if_splits sum.splits)

lemma env_maxBytes_range: "env_maxBytes getenv = Inr n \<Longrightarrow> 0 < n \<and> n < 2 ^ 63"
  using ParseInt_range
  by (auto simp: env_maxBytes_def defaultMaxLFSObjectBytes_def DefaultMaxLFSObjectBytes_def Let_def
      split: if_splits option.splits)

lemma rate_range:
  "\<not> float64_less rate (Finite 0) \<Longrightarrow> \<not> float64_less (Finite 1) rate \<Longrightarrow>
     rate = NaN \<or> (\<exists>q. rate = Finite q \<and> 0 \<le> q \<and> q \<le> 1)"
  by (cases rate) auto

lemma env_rate_range: "env_rate ps getenv = Inr rate \<Longrightarrow> rate = NaN \<or> (\<exists>q. rate = Finite q \<and> 0 \<le> q \<and> q \<le> 1)"
  by (auto simp: env_rate_def Let_def dest: rate_range split: if_splits option.splits)

lemma or_default_nonempty: "dflt \<noteq> [] \<Longrightarrow> or_default v dflt \<noteq> []"
  by (simp add: or_default_def)

lemma configFromEnv_cases:
  assumes "configFromEnv ps getenv = Inr cfg"
  obtains "env_proxies ps getenv = Inr (cc_trustedProxyPrefixes cfg)" "env_timeout ps getenv = Inr (cc_shutdownTimeout cfg)"
    "env_rate ps getenv = Inr (cc_sentryTracesSampleRate cfg)" "env_maxBytes getenv = Inr (cc_maxLFSObjectBytes cfg)"
    "cc_controlBearer cfg = strings_TrimSpace (getenv ''GITRDONE_CONTROL_BEARER'')" "cc_controlBearer cfg \<noteq> []"
    "cc_addr cfg \<noteq> []" "cc_baseURL cfg \<noteq> []" "cc_storageRoot cfg \<noteq> []" "\<not> cc_accessLog cfg"
  using assms that
  by (auto simp: configFromEnv_def Let_def or_default_def defaultAddr_def defaultBaseURL_def defaultStorageRoot_def
      split: sum.splits if_splits)

text \<open>
  C25 (configFromEnv).  The process only starts with settings that are in range: whatever the
  environment holds, an accepted configuration has a control token, an address, a base URL and a
  storage root, a positive timeout for the shutdown, a limit for LFS objects that is a positive
  64-bit number, and a sample rate between 0 and 1, unless the rate was given as a NaN, which
  passes both comparisons.
\<close>
theorem config_in_range:
  assumes "configFromEnv ps getenv = Inr cfg"
  shows "cc_controlBearer cfg \<noteq> [] \<and> cc_addr cfg \<noteq> [] \<and> cc_baseURL cfg \<noteq> [] \<and> cc_storageRoot cfg \<noteq> [] \<and>
    0 < cc_shutdownTimeout cfg \<and> 0 < cc_maxLFSObjectBytes cfg \<and> cc_maxLFSObjectBytes cfg < 2 ^ 63 \<and>
    (cc_sentryTracesSampleRate cfg = NaN \<or>
     (\<exists>q. cc_sentryTracesSampleRate cfg = Finite q \<and> 0 \<le> q \<and> q \<le> 1))"
  using assms
  by (cases rule: configFromEnv_cases)
    (use env_timeout_pos [of ps getenv "cc_shutdownTimeout cfg"] env_maxBytes_range [of getenv "cc_maxLFSObjectBytes cfg"]
      env_rate_range [of ps getenv "cc_sentryTracesSampleRate cfg"] in blast)

text \<open>No event that is sent carries headers, cookies, a body or a query of a request.\<close>

lemma sanitized_event:
  assumes "sanitizeSentryEvent parse unparse (Some ev) = Some ev'" "ev_Request ev' = Some req"
  shows "sr_Headers req = None \<and> sr_Cookies req = [] \<and> sr_Data req = [] \<and> sr_QueryString req = []"
  using assms by (auto simp: sanitizeSentryEvent_def Let_def split: option.splits prod.splits if_splits)

text \<open>A NaN is accepted: a sample rate that is no number between 0 and 1.\<close>

lemma nan_rate_accepted:
  assumes "strings_TrimSpace (getenv ''SENTRY_TRACES_SAMPLE_RATE'') = raw" "raw \<noteq> []" "strconv_ParseFloat ps raw = Some NaN"
  shows "env_rate ps getenv = Inr NaN"
  using assms by (simp add: env_rate_def)

section \<open>A configuration\<close>

definition demo_parsers :: "(string, string) parsers" where
  "demo_parsers =
     \<lparr>time_ParseDuration = (\<lambda>s. Inl ''bad''), strconv_ParseFloat = (\<lambda>s. if s = ''NaN'' then Some NaN else None),
      netip_ParsePrefix = Some, netip_Masked = (\<lambda>p. p), netip_ParseAddr = Some, netip_BitLen = (\<lambda>a. 32),
      netip_PrefixFrom = (\<lambda>a n. a), strconv_Quote = (\<lambda>s. s)\<rparr>"

definition demo_getenv :: "string \<Rightarrow> string" where
  "demo_getenv k =
     (if k = ''GITRDONE_CONTROL_BEARER'' then ''boss'' else if k = ''SENTRY_TRACES_SAMPLE_RATE'' then ''NaN''
      else if k = ''GITRDONE_MAX_LFS_OBJECT_BYTES'' then ''7'' else [])"

theorem config_in_range_witness:
  "\<exists>cfg. configFromEnv demo_parsers demo_getenv = Inr cfg \<and> cc_controlBearer cfg = ''boss'' \<and>
     cc_maxLFSObjectBytes cfg = 7 \<and> cc_sentryTracesSampleRate cfg = NaN \<and> 0 < cc_shutdownTimeout cfg"
proof -
  have [simp]: "strings_TrimSpace ''boss'' = ''boss''" "strings_TrimSpace ''NaN'' = ''NaN''" "strings_TrimSpace ''7'' = ''7''"
    by (rule TrimSpace_all_visible; simp add: visible_def is_space_def)+
  have "strconv_FormatInt 7 = ''7''" by code_simp
  with ParseInt_FormatInt [of 7] have [simp]: "strconv_ParseInt ''7'' = Some 7" by simp
  let ?cfg = "projr (configFromEnv demo_parsers demo_getenv)"
  have cfg: "configFromEnv demo_parsers demo_getenv = Inr ?cfg"
    and "cc_controlBearer ?cfg = ''boss'' \<and> cc_maxLFSObjectBytes ?cfg = 7 \<and> cc_sentryTracesSampleRate ?cfg = NaN"
    by (simp_all add: configFromEnv_def env_proxies_def env_timeout_def env_rate_def env_maxBytes_def demo_getenv_def
        demo_parsers_def Let_def)
  with config_in_range [OF cfg] show ?thesis by blast
qed

end
