(* ===== verification/Lifecycle.thy ===== *)
theory Lifecycle
  imports Command
begin

text \<open>
  The life cycle of the process (\<open>runServer\<close>, \<open>closeResources\<close> in \<open>cmd/gitrdone/main.go\<close>) as a transition
  relation.  The goroutine listens until \<open>ListenAndServe\<close> returns and sends its error into the
  channel; the caller waits for it or for the end of the context, shuts the server down, receives
  the error and closes the resources.  The steps of the two interleave freely; what the calls return
  is in the labels.
\<close>

section \<open>Errors\<close>

text \<open>\<open>errors.Join\<close>: no error when all are nil, else the texts of the others, one per line.\<close>

fun join_lines :: "string list \<Rightarrow> string" where
  "join_lines [] = []"
| "join_lines [e] = e"
| "join_lines (e # es) = e @ newline # join_lines es"

definition errors_Join :: "string option list \<Rightarrow> string option" where
  "errors_Join errs =
     (let es = List.map_filter (\<lambda>e. e) errs in if es = [] then None else Some (join_lines es))"

text \<open>What \<open>ListenAndServe\<close> returns: an error, and whether it is \<open>http.ErrServerClosed\<close>.\<close>

definition listenError :: "(bool \<times> string) option \<Rightarrow> string option" where
  "listenError err = (case err of None \<Rightarrow> None | Some (serverClosed, e) \<Rightarrow> if serverClosed then None else Some e)"

definition shutdown_timeout :: "duration \<Rightarrow> duration" where
  "shutdown_timeout timeout = (if timeout \<le> 0 then defaultShutdownTimeout else timeout)"

section \<open>States and steps\<close>

text \<open>The goroutine and its channel: still listening, the error is in the channel, or was received.\<close>

datatype listener = Listening | Sent "string option" | Received

text \<open>Where \<open>runServer\<close> is; the errors collected so far are those it will join.\<close>

datatype runPoint =
    Selecting | ShuttingDown duration | AwaitingListener "string option" | Closing "string option list"
  | Returned "string option"

record lifecycle =
  lc_listener :: listener
  lc_done :: bool
  lc_point :: runPoint

datatype lifecycleEvent =
    ListenReturns "(bool \<times> string) option" | ContextDone | SelectError | SelectDone
  | ShutdownReturns "string option" | ReceiveError | CloseReturns "string option"

definition lifecycle_start :: lifecycle where
  "lifecycle_start = \<lparr>lc_listener = Listening, lc_done = False, lc_point = Selecting\<rparr>"

text \<open>
  One step.  \<open>has_close\<close> tells whether there is a function that closes the resources; without one
  \<open>closeResources\<close> gives nil.
\<close>

inductive lifecycle_step :: "bool \<Rightarrow> duration \<Rightarrow> lifecycle \<Rightarrow> lifecycleEvent \<Rightarrow> lifecycle \<Rightarrow> bool" for has_close timeout where
  listen_returns: "lc_listener s = Listening \<Longrightarrow>
    lifecycle_step has_close timeout s (ListenReturns err) (s\<lparr>lc_listener := Sent (listenError err)\<rparr>)"
| context_done: "\<not> lc_done s \<Longrightarrow> lifecycle_step has_close timeout s ContextDone (s\<lparr>lc_done := True\<rparr>)"
| select_error: "lc_point s = Selecting \<Longrightarrow> lc_listener s = Sent err \<Longrightarrow>
    lifecycle_step has_close timeout s SelectError (s\<lparr>lc_listener := Received, lc_point := Closing [err]\<rparr>)"
| select_done: "lc_point s = Selecting \<Longrightarrow> lc_done s \<Longrightarrow>
    lifecycle_step has_close timeout s SelectDone (s\<lparr>lc_point := ShuttingDown (shutdown_timeout timeout)\<rparr>)"
| shutdown_returns: "lc_point s = ShuttingDown t \<Longrightarrow>
    lifecycle_step has_close timeout s (ShutdownReturns err) (s\<lparr>lc_point := AwaitingListener err\<rparr>)"
| receive_error: "lc_point s = AwaitingListener shutdownErr \<Longrightarrow> lc_listener s = Sent err \<Longrightarrow>
    lifecycle_step has_close timeout s ReceiveError
      (s\<lparr>lc_listener := Received, lc_point := Closing [shutdownErr, err]\<rparr>)"
| close_returns: "lc_point s = Closing errs \<Longrightarrow> has_close \<or> err = None \<Longrightarrow>
    lifecycle_step has_close timeout s (CloseReturns err) (s\<lparr>lc_point := Returned (errors_Join (errs @ [err]))\<rparr>)"

inductive_cases lifecycle_stepE: "lifecycle_step has_close timeout s e s'"

inductive_simps lifecycle_step_simps:
  "lifecycle_step has_close timeout s (ListenReturns err) s'"
  "lifecycle_step has_close timeout s (CloseReturns err) s'"

fun lifecycle_run :: "bool \<Rightarrow> duration \<Rightarrow> lifecycle \<Rightarrow> lifecycleEvent list \<Rightarrow> lifecycle \<Rightarrow> bool" where
  "lifecycle_run has_close timeout s [] s' \<longleftrightarrow> s' = s"
| "lifecycle_run has_close timeout s (e # es) s' \<longleftrightarrow>
     (\<exists>s1. lifecycle_step has_close timeout s e s1 \<and> lifecycle_run has_close timeout s1 es s')"

lemma lifecycle_run_append:
  "lifecycle_run hc t s (xs @ ys) s' \<longleftrightarrow> (\<exists>s1. lifecycle_run hc t s xs s1 \<and> lifecycle_run hc t s1 ys s')"
  by (induction xs arbitrary: s) auto

section \<open>The history of a state\<close>

text \<open>The errors of a history, by the call that returned them.\<close>

definition listen_errors :: "lifecycleEvent list \<Rightarrow> string option list" where
  "listen_errors es = List.map_filter (\<lambda>e. case e of ListenReturns err \<Rightarrow> Some (listenError err) | _ \<Rightarrow> None) es"

definition shutdown_errors :: "lifecycleEvent list \<Rightarrow> string option list" where
  "shutdown_errors es = List.map_filter (\<lambda>e. case e of ShutdownReturns err \<Rightarrow> Some err | _ \<Rightarrow> None) es"

definition close_errors :: "lifecycleEvent list \<Rightarrow> string option list" where
  "close_errors es = List.map_filter (\<lambda>e. case e of CloseReturns err \<Rightarrow> Some err | _ \<Rightarrow> None) es"

lemma map_filter_append: "List.map_filter f (xs @ ys) = List.map_filter f xs @ List.map_filter f ys"
  by (simp add: List.map_filter_def)

lemmas history_simps = listen_errors_def shutdown_errors_def close_errors_def map_filter_append map_filter_simps

text \<open>What the history says of a state that it leads to.\<close>

definition history_fits :: "lifecycleEvent list \<Rightarrow> lifecycle \<Rightarrow> bool" where
  "history_fits es s \<longleftrightarrow>
     (case lc_listener s of
        Listening \<Rightarrow> listen_errors es = []
      | Sent err \<Rightarrow> listen_errors es = [err]
      | Received \<Rightarrow> length (listen_errors es) = 1) \<and>
     (case lc_point s of
        Selecting \<Rightarrow> lc_listener s \<noteq> Received \<and> shutdown_errors es = [] \<and> close_errors es = []
      | ShuttingDown t \<Rightarrow> lc_listener s \<noteq> Received \<and> lc_done s \<and> shutdown_errors es = [] \<and> close_errors es = []
      | AwaitingListener err \<Rightarrow> lc_listener s \<noteq> Received \<and> shutdown_errors es = [err] \<and> close_errors es = []
      | Closing errs \<Rightarrow> lc_listener s = Received \<and> errs = shutdown_errors es @ listen_errors es \<and>
          length (shutdown_errors es) \<le> 1 \<and> close_errors es = []
      | Returned err \<Rightarrow> lc_listener s = Received \<and> length (shutdown_errors es) \<le> 1 \<and> length (close_errors es) = 1 \<and>
          err = errors_Join (shutdown_errors es @ listen_errors es @ close_errors es))"

lemma history_start: "history_fits [] lifecycle_start"
  by (simp add: history_fits_def lifecycle_start_def history_simps)

lemma history_step:
  assumes "lifecycle_step hc t s e s'" "history_fits es s"
  shows "history_fits (es @ [e]) s'"
  using assms by (cases rule: lifecycle_step.cases) (auto simp: history_fits_def history_simps split: listener.splits runPoint.splits)

lemma history_run:
  "lifecycle_run hc t lifecycle_start es s \<Longrightarrow> history_fits es s"
proof (induction es arbitrary: s rule: rev_induct)
  case Nil
  then show ?case by (simp add: history_start)
next
  case (snoc e es)
  then obtain s1 where "lifecycle_run hc t lifecycle_start es s1" "lifecycle_step hc t s1 e s"
    by (auto simp: lifecycle_run_append)
  with snoc.IH history_step show ?case by blast
qed

text \<open>Before a resource is closed the server no longer listens.\<close>

definition closes_late :: "lifecycleEvent list \<Rightarrow> bool" where
  "closes_late es \<longleftrightarrow> (\<forall>xs err ys. es = xs @ CloseReturns err # ys \<longrightarrow> listen_errors xs \<noteq> [] \<and> close_errors xs = [])"

lemma closing_listened: "history_fits es s \<Longrightarrow> lc_point s = Closing errs \<Longrightarrow> listen_errors es \<noteq> [] \<and> close_errors es = []"
  by (auto simp: history_fits_def split: listener.splits)

lemma run_closes_late:
  assumes "lifecycle_run hc t lifecycle_start es s"
  shows "closes_late es"
  unfolding closes_late_def
proof (intro allI impI)
  fix xs err ys assume "es = xs @ CloseReturns err # ys"
  with assms obtain s1 s2 where run: "lifecycle_run hc t lifecycle_start xs s1"
      and "lifecycle_step hc t s1 (CloseReturns err) s2" by (auto simp: lifecycle_run_append)
  then obtain errs where "lc_point s1 = Closing errs" by (auto simp: lifecycle_step_simps)
  with history_run [OF run] show "listen_errors xs \<noteq> [] \<and> close_errors xs = []" by (rule closing_listened)
qed

text \<open>
  C23 (runServer).  However the goroutine that listens, the end of the context and the shutdown
  interleave, when \<open>runServer\<close> has returned the server has stopped listening, the resources have been
  closed exactly once, and not before the server stopped listening; the error is the one that joins
  those of the shutdown (if the context ended first), of the listener and of closing, in this order.
\<close>
theorem lifecycle_closes_once:
  assumes "lifecycle_run hc t lifecycle_start es s" "lc_point s = Returned err"
  shows "lc_listener s = Received \<and> length (listen_errors es) = 1 \<and> length (shutdown_errors es) \<le> 1 \<and>
    length (close_errors es) = 1 \<and> closes_late es \<and>
    err = errors_Join (shutdown_errors es @ listen_errors es @ close_errors es)"
  using history_run [OF assms(1)] assms(2) run_closes_late [OF assms(1)] by (auto simp: history_fits_def)

section \<open>Every run ends\<close>

definition remaining :: "lifecycle \<Rightarrow> nat" where
  "remaining s =
     (if lc_listener s = Listening then 1 else 0) + (if lc_done s then 0 else 1) +
     (case lc_point s of Selecting \<Rightarrow> 4 | ShuttingDown t \<Rightarrow> 3 | AwaitingListener e \<Rightarrow> 2 | Closing es \<Rightarrow> 1 | Returned e \<Rightarrow> 0)"

lemma step_remaining: "lifecycle_step hc t s e s' \<Longrightarrow> remaining s' < remaining s"
  by (cases rule: lifecycle_step.cases) (auto simp: remaining_def)

lemma run_remaining: "lifecycle_run hc t s es s' \<Longrightarrow> length es + remaining s' \<le> remaining s"
  by (induction es arbitrary: s) (auto dest!: step_remaining, fastforce)

text \<open>A state in which nothing can happen any more is one where \<open>runServer\<close> has returned.\<close>

definition lifecycle_over :: "bool \<Rightarrow> duration \<Rightarrow> lifecycle \<Rightarrow> bool" where
  "lifecycle_over hc t s \<longleftrightarrow> (\<forall>e s'. \<not> lifecycle_step hc t s e s')"

lemma over_returned:
  assumes "lifecycle_over hc t s" "history_fits es s"
  shows "\<exists>err. lc_point s = Returned err"
proof (rule ccontr)
  assume open_point: "\<nexists>err. lc_point s = Returned err"
  note over = assms(1) [unfolded lifecycle_over_def, rule_format]
  have "lc_listener s \<noteq> Listening" "lc_done s"
    using over lifecycle_step.listen_returns lifecycle_step.context_done by blast+
  moreover have "\<not> (lc_point s = Selecting \<and> lc_done s)" "lc_point s \<noteq> ShuttingDown d" "lc_point s \<noteq> Closing errs" for d errs
    using over lifecycle_step.select_done lifecycle_step.shutdown_returns lifecycle_step.close_returns by blast+
  moreover have "\<not> (lc_point s = AwaitingListener e1 \<and> lc_listener s = Sent e2)" for e1 e2
    using over lifecycle_step.receive_error by blast
  ultimately show False
    using assms(2) open_point by (cases "lc_point s"; cases "lc_listener s") (auto simp: history_fits_def)
qed

text \<open>
  C24 (runServer).  Once the server starts, whatever happens, at most six events happen, and when nothing more
  can happen \<open>runServer\<close> has returned: it never waits for ever once the calls it waits for return, and
  in particular the goroutine that listens never blocks on its channel.
\<close>
theorem lifecycle_ends:
  assumes "lifecycle_run hc t lifecycle_start es s"
  shows "length es \<le> 6 \<and> (lifecycle_over hc t s \<longleftrightarrow> (\<exists>err. lc_point s = Returned err) \<and> lc_done s)"
proof -
  have "remaining lifecycle_start = 6" by (simp add: remaining_def lifecycle_start_def)
  with run_remaining [OF assms] have "length es \<le> 6" by simp
  moreover have "lifecycle_over hc t s" if "lc_point s = Returned err" "lc_done s" for err
    using that history_run [OF assms] by (auto simp: lifecycle_over_def history_fits_def elim!: lifecycle_step.cases)
  moreover have "lc_done s" if "lifecycle_over hc t s"
    using that lifecycle_step.context_done unfolding lifecycle_over_def by blast
  ultimately show ?thesis using over_returned [OF _ history_run [OF assms]] by blast
qed

section \<open>Two runs\<close>

text \<open>A shutdown that fails, and a listener that fails before the context ends.\<close>

definition demo_shutdown :: "lifecycleEvent list" where
  "demo_shutdown =
     [ContextDone, SelectDone, ListenReturns (Some (True, ''http: Server closed'')), ShutdownReturns (Some ''slow''),
      ReceiveError, CloseReturns (Some ''pool'')]"

definition demo_failure :: "lifecycleEvent list" where
  "demo_failure = [ListenReturns (Some (False, ''in use'')), SelectError, ContextDone, CloseReturns None]"

lemma demo_shutdown_runs:
  "lifecycle_run True 0 lifecycle_start demo_shutdown
     \<lparr>lc_listener = Received, lc_done = True, lc_point = Returned (errors_Join [Some ''slow'', None, Some ''pool''])\<rparr>"
  by (simp add: demo_shutdown_def lifecycle_start_def lifecycle_step.simps listenError_def)

lemma demo_failure_runs:
  "lifecycle_run False 0 lifecycle_start demo_failure
     \<lparr>lc_listener = Received, lc_done = True, lc_point = Returned (errors_Join [Some ''in use'', None])\<rparr>"
  by (simp add: demo_failure_def lifecycle_start_def lifecycle_step.simps listenError_def)

theorem lifecycle_closes_once_witness:
  "closes_late demo_shutdown \<and> close_errors demo_shutdown = [Some ''pool''] \<and>
     errors_Join [Some ''slow'', None, Some ''pool''] = Some (''slow'' @ newline # ''pool'')"
  using lifecycle_closes_once [OF demo_shutdown_runs]
  by (simp add: demo_shutdown_def history_simps errors_Join_def)

theorem lifecycle_ends_witness:
  "lifecycle_over False 0
     \<lparr>lc_listener = Received, lc_done = True, lc_point = Returned (errors_Join [Some ''in use'', None])\<rparr> \<and>
   length demo_failure \<le> 6"
  using lifecycle_ends [OF demo_failure_runs] by simp

end
