(* ===== verification/Repository_Demo.thy ===== *)
theory Repository_Demo
  imports Repository_Safety
begin

text \<open>
  A concrete run of the in-memory store on a file-system storage (the host of
  \<open>Git_Storage\<close> whose world is a list of directories): create a repository, mint a token for it,
  use it, revoke it, archive the repository.  The run shows that the hypotheses of the properties
  of the store hold together, and each property is applied to it.
\<close>

section \<open>The run\<close>

definition demo_storage :: "string list repoGitStorage" where
  "demo_storage = filesystemGitStorage dir_host defaultGitStorageRoot"

definition demo_sha :: "string \<Rightarrow> byte list" where "demo_sha secret = []"

definition demo_repo_id :: string where "demo_repo_id = ''00000000-0000-4000-8000-000000000000''"
definition demo_token_id :: string where "demo_token_id = ''01010101-0101-4101-8101-010101010101''"

definition demo_env :: "byte \<Rightarrow> time \<Rightarrow> callEnv" where
  "demo_env b now = \<lparr>env_ctx = None, env_now = now, env_do_now = now, env_uuid = Inr (\<lambda>i. b), env_tokens = (\<lambda>n. Inr (\<lambda>i. b))\<rparr>"

definition demo_create :: createRepoInput where
  "demo_create = \<lparr>cr_Namespace = ''acme'', cr_Name = ''site'', cr_DefaultBranch = ''main''\<rparr>"

definition demo_repo :: repoRecord where
  "demo_repo = \<lparr>repo_ID = demo_repo_id, repo_Namespace = ''acme'', repo_Name = ''site'',
     repo_DefaultBranch = ''main'', repo_ArchivedAt = 0\<rparr>"

definition demo_path :: string where "demo_path = repoPath defaultGitStorageRoot demo_repo_id"
definition demo_world :: "string list" where "demo_world = [demo_path, filepath_Dir demo_path]"

definition demo_store :: memoryRepoStore where
  "demo_store = \<lparr>repos = [(demo_repo_id, demo_repo)], byName = [(''acme/site'', demo_repo_id)],
     tokens = [], tokenIDsByHash = []\<rparr>"

definition demo_mint :: createRepoTokenInput where
  "demo_mint = \<lparr>ct_RepoID = demo_repo_id, ct_Scope = ''read'', ct_Subject = ''ann'', ct_TTLSeconds = 60\<rparr>"

definition demo_secret :: string where
  "demo_secret = ''gtd_'' @ RawURLEncoding (rand_bytes 32 (\<lambda>i. 1))"

definition demo_token :: repoTokenRecord where
  "demo_token = token_record demo_repo demo_mint 7 demo_token_id demo_secret []"

definition demo_store2 :: memoryRepoStore where
  "demo_store2 = demo_store\<lparr>tokens := [(demo_token_id, demo_token\<lparr>tok_Token := []\<rparr>)],
     tokenIDsByHash := [([], demo_token_id)]\<rparr>"

lemma newUUID_demo:
  "newUUID (Inr (\<lambda>i. 0)) = Inr demo_repo_id" "newUUID (Inr (\<lambda>i. 1)) = Inr demo_token_id"
  by code_simp+

lemma demo_ids [simp]: "demo_repo_id \<noteq> demo_token_id" "demo_token_id \<noteq> demo_repo_id"
  by (simp_all add: demo_repo_id_def demo_token_id_def)

lemma demo_canonical [simp]: "isCanonicalUUID demo_repo_id" "isCanonicalUUID demo_token_id"
  using newUUID_demo newUUID_canonical by blast+

lemma demo_env_fields [simp]:
  "env_ctx (demo_env b now) = None" "env_now (demo_env b now) = now"
  "env_do_now (demo_env b now) = now"
  "env_uuid (demo_env b now) = Inr (\<lambda>i. b)" "env_tokens (demo_env b now) n = Inr (\<lambda>i. b)"
  by (simp_all add: demo_env_def)

lemma demo_hash [simp]: "hashRepoToken demo_sha x = []"
  by (simp add: hashRepoToken_def demo_sha_def hex_EncodeToString_def)

lemma demo_Init:
  "InitBareRepo demo_storage None demo_repo_id ''main'' [] = (None, demo_world)"
  by (simp add: demo_storage_def filesystemGitStorage_def filesystem_InitBareRepo_def runGit_def
      dir_host_def demo_world_def demo_path_def Let_def)

lemma demo_Path [simp]:
  "BareRepoPath demo_storage ctx demo_repo_id demo_world = Inr demo_path"
  by (simp add: demo_storage_def filesystemGitStorage_def dir_host.BareRepoPath_dir demo_world_def
      demo_path_def)

lemma demo_run_create:
  "memory_CreateRepo demo_storage (demo_env 0 5) demo_create (newMemoryRepoStore, []) =
     (Inr demo_repo, demo_store, demo_world)"
  by (simp add: memory_CreateRepo_def newMemoryRepoStore_def demo_create_def newUUID_demo demo_Init
      demo_repo_def demo_store_def Let_def)

lemma demo_run_mint:
  "memory_CreateRepoToken demo_sha (demo_env 1 7) demo_mint (demo_store, w) =
     Some (Inr demo_token, demo_store2, w)"
proof -
  have "generateRepoToken (env_tokens (demo_env 1 7) 0) = Inr demo_secret"
    by (simp add: generateRepoToken_def demo_secret_def)
  from draw_token_new [where draws = "env_tokens (demo_env 1 7)" and i = 0, OF this, of "tokenIDsByHash demo_store" demo_sha]
  have "draw_token demo_sha (tokenIDsByHash demo_store) (env_tokens (demo_env 1 7)) 0 =
    Some (Inr (demo_secret, []))" by (simp add: demo_store_def)
  then show ?thesis
    by (simp add: memory_CreateRepoToken_def demo_mint_def demo_store_def demo_store2_def newUUID_demo
        demo_token_def token_record_def Let_def)
qed

lemma demo_fresh: "fresh_uuid (demo_env 0 5) newMemoryRepoStore" "fresh_uuid (demo_env 1 7) demo_store"
  by (simp_all add: fresh_uuid_def newUUID_demo newMemoryRepoStore_def demo_store_def)

lemma demo_reach:
  "store_reachable demo_sha demo_storage (newMemoryRepoStore, []) (demo_store, demo_world)"
  by (meson reach_start reach_step store_step.create_repo demo_fresh(1) demo_run_create)

lemma demo_store_ok [simp]: "store_ok demo_store" "store_ok demo_store2"
proof -
  show "store_ok demo_store"
    using memory_CreateRepo_ok [OF store_ok_init demo_fresh(1) demo_run_create] .
  then show "store_ok demo_store2"
    using memory_CreateRepoToken_ok [OF _ demo_fresh(2) demo_run_mint] by blast
qed

lemma demo_secret_nonempty [simp]: "demo_secret \<noteq> []"
  by (simp add: demo_secret_def)

lemma demo_token_fields [simp]:
  "tok_ID demo_token = demo_token_id" "tok_Token demo_token = demo_secret"
  "tok_RepoID demo_token = demo_repo_id" "tok_TokenHash demo_token = []"
  "tok_RevokedAt demo_token = 0" "tok_Scope demo_token = ''read''" "tok_Subject demo_token = ''ann''"
  by (simp_all add: demo_token_def token_record_def demo_repo_def demo_mint_def zero_token_def)

lemma demo_expires [simp]: "tok_ExpiresAt demo_token = 7 + 60 * second"
  by (simp add: demo_token_def token_record_def demo_mint_def int64_id)

lemma demo_presented: "presented_token demo_sha demo_store2 demo_secret (demo_token\<lparr>tok_Token := []\<rparr>)"
  by (simp add: presented_token_def demo_store2_def)

lemma demo_lookups [simp]:
  "repo_at demo_store2 demo_repo_id = Some demo_repo" "repo_at demo_store demo_repo_id = Some demo_repo"
  "token_at demo_store2 demo_token_id = Some (demo_token\<lparr>tok_Token := []\<rparr>)"
  "repo_ArchivedAt demo_repo = 0" "repo_ID demo_repo = demo_repo_id"
  by (simp_all add: demo_store_def demo_store2_def demo_repo_def)

section \<open>The properties on this run\<close>

definition demo_access :: authorizeGitAccessInput where
  "demo_access = \<lparr>az_RepoID = demo_repo_id, az_Token = demo_secret, az_Operation = gitOperationRead\<rparr>"

definition demo_grant :: gitAccessGrant where
  "demo_grant = \<lparr>grant_RepoID = demo_repo_id, grant_RepoPath = demo_path, grant_Subject = ''ann''\<rparr>"

lemma demo_granted:
  "granted demo_sha demo_storage (demo_env 0 8) demo_access demo_store2 demo_world demo_grant
     (demo_token\<lparr>tok_Token := []\<rparr>)"
  using demo_presented
  by (simp add: granted_def usable_token_def scopeAllowsGitOperation_def demo_access_def demo_grant_def)

theorem authorize_iff_granted_witness:
  "store_ok demo_store2 \<and>
   (\<exists>st. memory_AuthorizeGitAccess demo_sha demo_storage (demo_env 0 8) demo_access
      (demo_store2, demo_world) = (Inr demo_grant, st))"
  using authorize_iff_granted [OF demo_store_ok(2)] demo_granted by (metis demo_store_ok(2))


definition demo_store3 :: memoryRepoStore where
  "demo_store3 = demo_store2\<lparr>tokens := [(demo_token_id, demo_token\<lparr>tok_Token := [], tok_RevokedAt := 9\<rparr>)]\<rparr>"

lemma demo_run_revoke:
  "memory_RevokeRepoToken (demo_env 0 9) \<lparr>rv_RepoID = demo_repo_id, rv_TokenID = demo_token_id\<rparr>
     (demo_store2, w) = (Inr (demo_token\<lparr>tok_Token := [], tok_RevokedAt := 9\<rparr>), demo_store3, w)"
  by (simp add: memory_RevokeRepoToken_def time_IsZero_def Let_def demo_store3_def)
    (simp add: demo_store2_def)

theorem revoked_token_never_authorized_witness:
  "memory_AuthorizeGitAccess demo_sha demo_storage (demo_env 0 10)
     \<lparr>az_RepoID = demo_repo_id, az_Token = demo_secret, az_Operation = gitOperationRead\<rparr>
     (demo_store3, demo_world) \<noteq>
   (Inr \<lparr>grant_RepoID = demo_repo_id, grant_RepoPath = demo_path, grant_Subject = ''ann''\<rparr>,
    demo_store3, demo_world)"
  by (rule revoked_token_never_authorized [where env = "demo_env 0 9" and s = demo_store2 and
        s' = demo_store3 and w = demo_world and w' = demo_world and repoID = demo_repo_id,
        OF demo_store_ok(2) demo_presented _ _ reach_start])
    (simp_all add: demo_run_revoke)

definition demo_archived :: repoRecord where "demo_archived = demo_repo\<lparr>repo_ArchivedAt := 11\<rparr>"

definition demo_store4 :: memoryRepoStore where
  "demo_store4 = demo_store2\<lparr>repos := [(demo_repo_id, demo_archived)]\<rparr>"

lemma demo_run_archive:
  "memory_ArchiveRepo (demo_env 0 11) demo_repo_id (demo_store2, w) = (Inr demo_archived, demo_store4, w)"
  by (simp add: memory_ArchiveRepo_def time_IsZero_def Let_def demo_store4_def demo_archived_def)
    (simp add: demo_store2_def demo_store_def)

theorem archived_repo_never_authorized_witness:
  "memory_AuthorizeGitAccess demo_sha demo_storage (demo_env 0 12)
     \<lparr>az_RepoID = demo_repo_id, az_Token = demo_secret, az_Operation = gitOperationRead\<rparr>
     (demo_store4, demo_world) = (Inl errRepoArchived, demo_store4, demo_world)"
proof -
  have "env_now (demo_env 0 11) \<noteq> 0" by simp
  from archived_repo_never_authorized
    [OF demo_store_ok(2) demo_run_archive this reach_start [of demo_sha demo_storage], of "demo_env 0 12"]
  show ?thesis by blast
qed


theorem minted_token_confined_witness:
  "memory_AuthorizeGitAccess demo_sha demo_storage (demo_env 0 8)
     \<lparr>az_RepoID = demo_token_id, az_Token = demo_secret, az_Operation = gitOperationRead\<rparr>
     (demo_store2, demo_world) \<noteq>
   (Inr \<lparr>grant_RepoID = demo_token_id, grant_RepoPath = demo_path, grant_Subject = ''ann''\<rparr>,
    demo_store2, demo_world)"
  using minted_token_confined [OF demo_store_ok(1) demo_fresh(2) demo_run_mint
      reach_start [of demo_sha demo_storage], of demo_token_id "demo_env 0 8" gitOperationRead]
  by (simp add: demo_mint_def)

theorem list_tokens_exact_witness:
  "\<exists>ts. memory_ListRepoTokens (demo_env 0 8) demo_repo_id (demo_store2, demo_world) =
      (Inr ts, demo_store2, demo_world) \<and> demo_token\<lparr>tok_Token := []\<rparr> \<in> set ts"
  using list_tokens_exact [OF demo_store_ok(2), of demo_repo_id "demo_env 0 8" demo_world] by auto

theorem create_repo_storage_witness:
  "fs_storage dir_host defaultGitStorageRoot \<and> all_stored demo_storage demo_store demo_world"
proof -
  have "all_stored (filesystemGitStorage dir_host defaultGitStorageRoot) newMemoryRepoStore []"
    by (simp add: all_stored_def newMemoryRepoStore_def)
  from create_repo_storage [OF dir_host.fs_storage_axioms store_ok_init demo_fresh(1) this]
    demo_run_create dir_host.fs_storage_axioms
  show ?thesis by (simp add: demo_storage_def)
qed

end
