(* ===== verification/Api_Demo.thy ===== *)
theory Api_Demo
  imports Repository_Demo Tokens Git_Raw
begin

text \<open>
  Concrete requests to the control API and to the Git endpoints, on the states of the run of
  \<open>Repository_Demo\<close>; each property of the handlers is applied to them.
\<close>

section \<open>Requests\<close>

definition demo_request :: "string \<Rightarrow> (string, string) gomap \<Rightarrow> header \<Rightarrow> string \<Rightarrow> httpRequest" where
  "demo_request method values header body =
     \<lparr>r_Method = method, r_Scheme = [], r_Path = [], r_EscapedPath = [], r_RawQuery = [], r_PathValues = values, r_Header = header,
      r_Host = ''localhost'', r_TLS = False, r_RemoteAddr = [], r_ContentLength = -1,
      r_Body = \<lparr>body_bytes = body, body_err = None\<rparr>\<rparr>"

definition demo_create_json :: json where
  "demo_create_json = JObj [(''namespace'', JStr ''acme''), (''name'', JStr ''site'')]"

definition demo_create_request :: httpRequest where
  "demo_create_request = demo_request ''POST'' [] [] (json_text demo_create_json)"

lemma demo_short: "length (json_text demo_create_json) \<le> 100"
  by code_simp

lemma decode_plain:
  assumes "json_plain v" "json_depth v \<le> maxNestingDepth" "length (json_text v) \<le> 65536"
  shows "decodeJSON set_field (demo_request m vs h (json_text v)) a = json_struct set_field v a"
  using json_roundtrip [OF assms(1,2), of "[]"] assms(3)
  by (simp add: decodeJSON_def decode_body_def MaxBytesReader_def maxJSONBodyBytes_def demo_request_def)

lemma demo_create_decoded:
  "decodeJSON createRepoRequest_field demo_create_request createRepoRequest_zero =
     Some \<lparr>crq_Namespace = ''acme'', crq_Name = ''site'', crq_DefaultBranch = []\<rparr>"
  unfolding demo_create_request_def
  by (subst decode_plain)
    (use demo_short in \<open>auto simp: demo_create_json_def maxNestingDepth_def json_struct_def
      createRepoRequest_field_def json_field_def json_to_string_def createRepoRequest_zero_def\<close>)

lemma demo_trim [simp]:
  "strings_TrimSpace ''acme'' = ''acme''" "strings_TrimSpace ''site'' = ''site''"
  "strings_TrimSpace ''read'' = ''read''" "strings_TrimSpace ''ann'' = ''ann''" "strings_TrimSpace ''k'' = ''k''"
  by (rule TrimSpace_all_visible; simp add: visible_def is_space_def)+

lemma demo_names [simp]:
  "validateRepoSlug f ''acme'' = []" "validateRepoSlug f ''site'' = []" "validateRepoSlug f ''other'' = []"
  "validateDefaultBranch ''main'' = []" "validateTokenSubject ''ann'' = []"
  by (simp_all add: validateRepoSlug_ok validateDefaultBranch_ok validateTokenSubject_ok branch_ok_def
      within_limit_def slug_rune_def branch_rune_def subject_rune_def ascii_runes strings_HasPrefix_def
      strings_HasSuffix_def component_ok_def)

lemma demo_run_post_repo:
  "createRepoHandler (memoryStore demo_sha demo_storage) ''http://h'' (demo_env 0 5) demo_create_request
     (new_writer, newMemoryRepoStore, []) =
   Some (json_response 201 (createRepoResponse ''http://h'' demo_repo), demo_store, demo_world)"
  using demo_run_create
  by (simp add: createRepoHandler_def demo_create_decoded normalizeCreateRepoRequest_def demo_create_def Let_def)

section \<open>Repositories\<close>

lemma create_repo_retry_witness:
  "createRepoHandler (memoryStore demo_sha demo_storage) ''http://h'' (demo_env 9 30) demo_create_request
     (new_writer, demo_store, demo_world) =
   Some (json_response 201 (createRepoResponse ''http://h'' demo_repo), demo_store, demo_world)"
  by (rule create_repo_retry [OF store_ok_init demo_run_post_repo]) simp

definition demo_other :: createRepoInput where
  "demo_other = \<lparr>cr_Namespace = ''acme'', cr_Name = ''other'', cr_DefaultBranch = ''main''\<rparr>"

lemma demo_fresh_other: "fresh_uuid (demo_env 1 20) demo_store"
  by (simp add: fresh_uuid_def newUUID_demo demo_store_def)

lemma distinct_names_distinct_repos_witness:
  "\<exists>repo' st. memory_CreateRepo demo_storage (demo_env 1 20) demo_other (demo_store, demo_world) = (Inr repo', st) \<and>
     repo_ID demo_repo \<noteq> repo_ID repo'"
proof -
  have "\<exists>w'. InitBareRepo demo_storage None demo_token_id ''main'' demo_world = (None, w')"
    by (simp add: demo_storage_def filesystemGitStorage_def filesystem_InitBareRepo_def runGit_def dir_host_def Let_def)
  then obtain repo' s' w' where run:
    "memory_CreateRepo demo_storage (demo_env 1 20) demo_other (demo_store, demo_world) = (Inr repo', s', w')"
    by (auto simp: memory_CreateRepo_def demo_other_def newUUID_demo demo_store_def Let_def)
  have "repo_ID demo_repo \<noteq> repo_ID repo'"
    by (rule distinct_names_distinct_repos [OF store_ok_init demo_fresh(1) demo_run_create
          reach_start [of demo_sha demo_storage] demo_fresh_other run])
      (simp_all add: demo_create_def demo_other_def)
  with run show ?thesis by blast
qed

definition demo_repo_request :: httpRequest where
  "demo_repo_request = demo_request ''GET'' [(''repoID'', formatRepoControlID demo_repo_id)] [] []"

lemma demo_repo_request_path: "PathValue demo_repo_request ''repoID'' = formatRepoControlID demo_repo_id"
  by (simp add: demo_repo_request_def demo_request_def PathValue_def)

theorem get_after_archive_witness:
  "\<exists>s'. getRepoHandler (memoryStore demo_sha demo_storage) ''http://h'' (demo_env 0 40) demo_repo_request
      (new_writer, s', demo_world) =
    Some (json_response 200 (JObj
        [(''id'', JStr (formatRepoControlID demo_repo_id)), (''repo'', JStr (repo_name demo_repo)),
         (''gitUrl'', JStr (repoGitURL ''http://h'' demo_repo_id)), (''archived'', JBool False)]), s', demo_world)"
  using get_after_archive [OF demo_store_ok(2) demo_lookups(1) demo_repo_request_path,
      of demo_sha demo_storage "\<lambda>t. 0" "demo_env 0 11" demo_world "''http://h''" "demo_env 0 40"]
  by blast

section \<open>Tokens\<close>

definition demo_mint_json :: json where
  "demo_mint_json = JObj [(''scope'', JStr ''read''), (''ttlSeconds'', json_int 60), (''subject'', JStr ''ann'')]"

definition demo_mint_request :: httpRequest where
  "demo_mint_request = demo_request ''POST'' [(''repoID'', formatRepoControlID demo_repo_id)]
     [(''Idempotency-Key'', [''k''])] (json_text demo_mint_json)"

definition demo_mint_fields :: createRepoTokenRequest where
  "demo_mint_fields = \<lparr>ctq_Scope = ''read'', ctq_TTLSeconds = 60, ctq_Subject = ''ann''\<rparr>"

lemma demo_mint_short: "length (json_text demo_mint_json) \<le> 100"
  by code_simp

lemma demo_60: "strconv_ParseInt (strconv_FormatInt 60) = Some 60"
  by (rule ParseInt_FormatInt) simp_all

lemma demo_mint_decoded:
  "decodeJSON createRepoTokenRequest_field demo_mint_request createRepoTokenRequest_zero = Some demo_mint_fields"
  unfolding demo_mint_request_def
  by (subst decode_plain)
    (use demo_mint_short in \<open>auto simp: demo_mint_json_def maxNestingDepth_def json_struct_def json_int_def demo_60
      createRepoTokenRequest_field_def json_field_def json_to_string_def json_to_int_def
      createRepoTokenRequest_zero_def demo_mint_fields_def\<close>)

lemma demo_mint_valid: "validTokenRequest demo_mint_request = Inr demo_mint_fields"
  by (simp add: validTokenRequest_def demo_mint_decoded demo_mint_fields_def isRepoTokenScope_def
      maxRepoTokenTTLSeconds_def Let_def)

lemma demo_key: "Header_Get (r_Header demo_mint_request) ''Idempotency-Key'' = ''k''"
proof -
  have "CanonicalHeaderKey ''Idempotency-Key'' = ''Idempotency-Key''" by code_simp
  then show ?thesis by (simp add: Header_Get_def demo_mint_request_def demo_request_def)
qed

lemma demo_repo_path:
  "strings_TrimSpace (formatRepoControlID demo_repo_id) = formatRepoControlID demo_repo_id"
  "parseRepoControlID (formatRepoControlID demo_repo_id) = Some demo_repo_id"
  "formatRepoControlID demo_repo_id \<noteq> []"
  by (simp_all add: repo_id.format_trim repo_id.parse_format)
    (simp add: formatRepoControlID_def repoControlIDPrefix_def)

lemma demo_keyed: "keyed_request demo_mint_request demo_repo_id demo_mint_fields"
  by (simp add: keyed_request_def demo_mint_valid demo_key)
    (simp add: demo_mint_request_def demo_request_def PathValue_def demo_repo_path)

lemma demo_run_post_token:
  "\<exists>p i'. createRepoTokenHandler (memoryStore demo_sha demo_storage) memoryIdempotency demo_sha (\<lambda>t. 0)
     ''http://h'' (demo_env 1 7) demo_mint_request (new_writer, newMemoryIdempotencyStore, demo_store, demo_world) =
   Some (json_response 201 p, i', demo_store2, demo_world)"
proof -
  have "(demo_env 1 7)\<lparr>env_ctx := None\<rparr> = demo_env 1 7" by (simp add: demo_env_def)
  then obtain resp where "create_token_call (memoryStore demo_sha demo_storage) (\<lambda>t. 0) ''http://h'' (demo_env 1 7)
      demo_repo_id demo_mint_fields None (demo_store, demo_world) = Some (Inr resp, demo_store2, demo_world)"
    using demo_run_mint [of demo_world]
    by (simp add: create_token_call_def demo_mint_fields_def demo_mint_def)
  then show ?thesis
    by (intro exI [of _ "createRepoTokenResponse_json resp"])
      (simp add: handler_keyed [OF demo_keyed] memoryIdempotency_def memory_Do_def memory_Do_create_def
        newMemoryIdempotencyStore_def token_idempotency_input_def demo_key)
qed



theorem minted_tokens_valid_witness: "tokens_valid demo_store2"
proof -
  obtain p i' where run: "createRepoTokenHandler (memoryStore demo_sha demo_storage) memoryIdempotency demo_sha (\<lambda>t. 0)
     ''http://h'' (demo_env 1 7) demo_mint_request (new_writer, newMemoryIdempotencyStore, demo_store, demo_world) =
   Some (json_response 201 p, i', demo_store2, demo_world)" using demo_run_post_token by blast
  have "tokens_valid demo_store" by (simp add: tokens_valid_def demo_store_def)
  from minted_tokens_valid [OF this run] show ?thesis .
qed

definition demo_revoke_request :: httpRequest where
  "demo_revoke_request = demo_request ''POST'' [(''repoID'', formatRepoControlID demo_token_id),
     (''tokenID'', formatRepoTokenControlID demo_token_id)] [] []"

lemma revoke_confined_witness:
  "\<exists>m. revokeRepoTokenHandler (memoryStore demo_sha demo_storage) (\<lambda>t. 0) (demo_env 0 9) demo_revoke_request
     (new_writer, demo_store2, demo_world) = Some (json_response 404 (errorResponse m), demo_store2, demo_world)"
  by (rule revoke_confined [where repoID = demo_token_id, OF demo_lookups(3)])
    (simp_all add: demo_revoke_request_def demo_request_def PathValue_def repo_id.format_trim repo_id.parse_format
      token_id.parse_format)

section \<open>Git\<close>

definition demo_fetch :: "string \<Rightarrow> httpRequest" where
  "demo_fetch repoID = demo_request ''POST'' [(''repoID'', formatRepoControlID repoID), (''gitPath'', ''git-upload-pack'')] [] []"

lemma demo_fetch_fields:
  "isCanonicalUUID v \<Longrightarrow> parseRepoControlID (PathValue (demo_fetch v) ''repoID'') = Some v"
  "gitOperationFromRequest (demo_fetch v) = Some gitOperationRead"
  by (simp_all add: demo_fetch_def demo_request_def PathValue_def repo_id.parse_format gitOperationFromRequest_def)


theorem no_existence_oracle_witness:
  "gitSmartHTTPHandler (AuthorizeGitAccess (memoryStore demo_sha demo_storage)) None (demo_env 0 8)
     (demo_fetch demo_token_id) (new_writer, demo_store2, demo_world) =
   Some (unauthorized_response, demo_store2, demo_world)"
  by (rule no_existence_oracle [where e = errRepoNotFound and st' = "(demo_store2, demo_world)",
        OF demo_fetch_fields(1) demo_fetch_fields(2)])
    (simp_all add: memory_AuthorizeGitAccess_def demo_store2_def demo_store_def)

theorem backend_env_confined_witness:
  "''PATH_INFO=/'' @ demo_repo_id @ ''.git/'' @ ''git-upload-pack''
     \<in> set (gitHTTPBackendEnv ''/usr/bin'' (demo_fetch demo_repo_id) demo_grant)"
proof -
  have "defaultGitStorageRoot \<noteq> []" by (simp add: defaultGitStorageRoot_def)
  from backend_env_confined [OF demo_store_ok(2) demo_granted [unfolded demo_storage_def] this,
      of "''/usr/bin''" "demo_fetch demo_repo_id"]
  show ?thesis by (simp add: demo_access_def demo_fetch_def demo_request_def PathValue_def)
qed

text \<open>A git that prints an object identifier, a type or a file, whatever it is asked for.\<close>

definition demo_proc :: "string \<Rightarrow> procResult" where
  "demo_proc out = \<lparr>p_open_stdout = None, p_open_stderr = None, p_start = None, p_stdout = [out], p_read = None,
     p_stderr = [], p_wait = None\<rparr>"

definition demo_git_grant :: gitAccessGrant where
  "demo_git_grant = \<lparr>grant_RepoID = demo_repo_id, grant_RepoPath = ''/r.git'', grant_Subject = ''ann''\<rparr>"

definition demo_tools :: "unit gitTools" where
  "demo_tools = \<lparr>gt_PATH = ''/usr/bin'', gt_low = (\<lambda>r. r),
     gt_run = (\<lambda>ctx g args env body s.
       (demo_proc (if ''rev-parse'' \<in> set args then ''0123456'' else if ''-t'' \<in> set args then ''blob'' else ''data''), s))\<rparr>"

lemma demo_oid: "isGitObjectID ''0123456''"
  by (simp add: isGitObjectID_bytes isLowerHexDigit_def)

lemma demo_trim_git: "strings_TrimSpace ''0123456'' = ''0123456''" "strings_TrimSpace ''blob'' = ''blob''"
  "strings_TrimSpace ''0123456.diff'' = ''0123456.diff''" "strings_TrimSpace ''git'' = ''git''"
  by (rule TrimSpace_all_visible; simp add: visible_def is_space_def)+

definition demo_target :: gitDiffTarget where
  "demo_target = \<lparr>dt_kind = gitDiffShow, dt_revspec = ''0123456'', dt_revs = [''0123456'']\<rparr>"

lemma demo_parse_show: "parseGitDiffSpec gitDiffShow ''0123456.diff'' = Some demo_target"
proof -
  have "strings_CutSuffix ''0123456.diff'' ''.diff'' = Some ''0123456''" by (simp add: CutSuffix_Some)
  then show ?thesis by (simp add: parseGitDiffSpec_def demo_trim_git demo_oid demo_target_def)
qed

lemma demo_resolve_commit: "resolveGitCommit demo_tools None g d v s = (Inr ''0123456'', s)"
  by (simp add: resolveGitCommit_def demo_tools_def demo_proc_def run_err_def demo_trim_git demo_oid)

lemma demo_resolve: "resolveGitDiffTarget demo_tools None g d demo_target s = (Inr demo_target, s)"
  by (simp add: resolveGitDiffTarget_def demo_target_def demo_resolve_commit)

theorem diff_args_safe_witness:
  "\<exists>pre revspec. gitDiffArgs ''/r.git'' demo_target = pre @ [revspec, ''--''] \<and> hd revspec \<noteq> CHR ''-''"
  using diff_args_safe [OF demo_parse_show demo_resolve [of "''git''" "''/r.git''" "()"]] by blast

theorem diff_served_whole_witness:
  "\<exists>err w' s'. execGitDiffBackend demo_tools [] (demo_env 0 8) (demo_fetch demo_repo_id) demo_git_grant demo_target
      (new_writer, ()) = (err, w', s') \<and> rw_Body w' = ''data'' \<and> length (rw_Body w') \<le> 8 * 1024 * 1024"
proof -
  have "runGitDiff demo_tools None g (gitDiffArgs ''/r.git'' demo_target) s = (Inr ''data'', s)" for g s
    by (simp add: runGitDiff_def demo_tools_def demo_proc_def maxGitDiffBytes_def gitDiffArgs_def demo_target_def)
  then obtain w' h where run: "execGitDiffBackend demo_tools [] (demo_env 0 8) (demo_fetch demo_repo_id)
      demo_git_grant demo_target (new_writer, ()) = (None, w', ())" "rw_Sent w' = Some (200, h)" "rw_Body w' = ''data''"
    by (simp add: execGitDiffBackend_def demo_resolve demo_git_grant_def Let_def new_writer_def rw_SetHeader_def
        rw_WriteHeader_def rw_Write_def)
  from diff_served_whole [OF run(1,2)] run show ?thesis by blast
qed


end
