(* ===== verification/Lfs_Demo.thy ===== *)
theory Lfs_Demo
  imports Api_Demo Git_Lfs
begin

text \<open>
  A concrete upload and download of a Git LFS object, on a host whose files are a map and with a
  digest of 32 bytes; the properties of \<open>Git_Lfs\<close> are applied to it.
\<close>

definition zero_sha :: "string \<Rightarrow> byte list" where "zero_sha c = replicate 32 0"
definition zero_oid :: string where "zero_oid = replicate 64 (CHR ''0'')"

definition path_storage :: "'w repoGitStorage" where
  "path_storage = noopRepoGitStorage\<lparr>BareRepoPath := (\<lambda>ctx repoID w. Inr ''r.git'')\<rparr>"

definition lfs_token :: repoTokenRecord where
  "lfs_token = zero_token\<lparr>tok_ID := demo_token_id, tok_RepoID := demo_repo_id,
     tok_RepoNamespace := ''acme'', tok_RepoName := ''site'', tok_TokenHash := zero_oid,
     tok_Scope := ''readwrite'', tok_Subject := ''ann'', tok_ExpiresAt := 100\<rparr>"

definition lfs_store :: memoryRepoStore where
  "lfs_store = demo_store\<lparr>tokens := [(demo_token_id, lfs_token)], tokenIDsByHash := [(zero_oid, demo_token_id)]\<rparr>"

definition lfs_request :: "string \<Rightarrow> string \<Rightarrow> httpRequest" where
  "lfs_request method body =
     (demo_request method [(''repoID'', formatRepoControlID demo_repo_id), (''oid'', zero_oid)]
        [(''Authorization'', [''Bearer x''])] body)\<lparr>r_ContentLength := int (length body)\<rparr>"

definition demo_lfs :: "(memoryRepoStore \<times> (string, string) gomap) handler" where
  "demo_lfs = memory_lfs (\<lambda>r. r) zero_sha path_storage map_files [] 0"

lemma zero_digest [simp]: "hex_EncodeToString (zero_sha c) = zero_oid"
proof -
  have "hex_EncodeToString (replicate 32 0) = replicate 64 (CHR ''0'')" by code_simp
  then show ?thesis by (simp add: zero_sha_def zero_oid_def)
qed

lemma lfs_store_ok: "store_ok lfs_store"
proof -
  have [simp]: "zero_oid \<noteq> []" by (simp add: zero_oid_def)
  show ?thesis
    by (simp add: store_ok_defs lfs_store_def demo_store_def lfs_token_def zero_token_def name_key_def demo_repo_def)
qed

lemma zero_oid_parsed: "parseLFSOID (\<lambda>r. r) zero_oid = Some zero_oid"
proof -
  have ascii: "list_all (\<lambda>c. chr_nat c < 128) zero_oid" by (simp add: zero_oid_def list_all_iff)
  have "strings_TrimSpace zero_oid = zero_oid"
    by (rule TrimSpace_all_visible) (simp add: zero_oid_def list_all_iff visible_def is_space_def)
  moreover have "char_of (ascii_lower (chr_nat (CHR ''0''))) = CHR ''0''" by code_simp
  then have "strings_ToLower (\<lambda>r. r) zero_oid = zero_oid"
    unfolding ToLower_ascii [OF ascii] by (simp only: zero_oid_def map_replicate)
  moreover have "length zero_oid = sha256HexLength" by (simp add: zero_oid_def sha256HexLength_def)
  moreover have "list_all (\<lambda>char. isASCIIDigit char \<or> 97 \<le> char \<and> char \<le> 102) (runes zero_oid)"
    unfolding runes_ascii [OF ascii] by (simp add: zero_oid_def list_all_iff isASCIIDigit_def)
  ultimately show ?thesis by (simp add: parseLFSOID_def)
qed

lemma lfs_request_fields [simp]:
  "r_Method (lfs_request m b) = m" "PathValue (lfs_request m b) ''oid'' = zero_oid"
  "PathValue (lfs_request m b) ''repoID'' = formatRepoControlID demo_repo_id"
  "r_Body (lfs_request m b) = \<lparr>body_bytes = b, body_err = None\<rparr>" "r_ContentLength (lfs_request m b) = int (length b)"
  "r_Path (lfs_request m b) = []"
  by (simp_all add: lfs_request_def demo_request_def PathValue_def)

lemma bearer_token:
  assumes "Header_Get (r_Header r) ''Authorization'' = ''Bearer '' @ secret" "strings_TrimSpace secret = secret"
  shows "gitTokenFromRequest r = secret"
proof -
  have six: "take 6 (''Bearer '' @ secret) = ''Bearer''" by simp
  have basic: "map to_lower ''Bearer'' \<noteq> ''basic ''" by code_simp
  have "BasicAuth r = None"
    unfolding BasicAuth_def assms(1) Let_def six by (rule if_P) (rule disjI2, rule basic)
  then show ?thesis
    unfolding gitTokenFromRequest_def assms(1) by (simp only: option.case CutPrefix_append assms(2))
qed

lemma lfs_request_token: "gitTokenFromRequest (lfs_request m b) = ''x''"
proof (rule bearer_token)
  have "Header_Get [(''Authorization'', [''Bearer x''])] ''Authorization'' = ''Bearer x''" by code_simp
  then show "Header_Get (r_Header (lfs_request m b)) ''Authorization'' = ''Bearer '' @ ''x''"
    by (simp add: lfs_request_def demo_request_def)
  show "strings_TrimSpace ''x'' = ''x''" by (rule TrimSpace_all_visible) (simp add: visible_def is_space_def)
qed

lemma lfs_granted:
  assumes "scopeAllowsGitOperation ''readwrite'' operation" "s = lfs_store \<or> s = touch_token t1 lfs_token lfs_store" "now < 100"
  shows "\<exists>g t s'. memory_AuthorizeGitAccess zero_sha path_storage (demo_env 0 now)
    \<lparr>az_RepoID = demo_repo_id, az_Token = ''x'', az_Operation = operation\<rparr> (s, wd) = (Inr g, s', wd) \<and>
    grant_RepoID g = demo_repo_id \<and> s' = touch_token now lfs_token lfs_store"
  using assms
  by (auto simp: memory_AuthorizeGitAccess_def hashRepoToken_def lfs_store_def demo_store_def demo_repo_def
      lfs_token_def zero_token_def path_storage_def noopRepoGitStorage_def touch_token_def time_IsZero_def Let_def)

abbreviation lfs_upload :: httpRequest where "lfs_upload \<equiv> lfs_request ''PUT'' ''hi''"
abbreviation lfs_download :: httpRequest where "lfs_download \<equiv> lfs_request ''GET'' []"
abbreviation lfs_touched :: "time \<Rightarrow> memoryRepoStore" where
  "lfs_touched t \<equiv> touch_token t lfs_token lfs_store"

lemma lfs_uploads: "uploads (\<lambda>r. r) demo_repo_id zero_oid lfs_upload"
  by (simp add: uploads_def zero_oid_parsed repo_id.parse_format)

lemma lfs_put_run:
  "fst (filesystem_Put map_files zero_sha root None repoID zero_oid 2 DefaultMaxLFSObjectBytes
     \<lparr>body_bytes = ''hi'', body_err = None\<rparr> wd) = None"
proof -
  have "int64 (DefaultMaxLFSObjectBytes + 1) = DefaultMaxLFSObjectBytes + 1"
    by (rule int64_id) (simp_all add: DefaultMaxLFSObjectBytes_def)
  then show ?thesis
    by (simp add: filesystem_Put_def put_temp_def copy_to_file_def LimitedReader_def map_files_def Let_def
        normalizeMaxLFSObjectBytes_def DefaultMaxLFSObjectBytes_def)
qed

lemma lfs_upload_run:
  "\<exists>w1 wd1. demo_lfs (demo_env 0 8) lfs_upload (new_writer, lfs_store, []) = Some (w1, lfs_touched 8, wd1) \<and>
     resp_status w1 = 200"
proof -
  obtain g where g: "memory_AuthorizeGitAccess zero_sha path_storage (demo_env 0 8)
      \<lparr>az_RepoID = demo_repo_id, az_Token = ''x'', az_Operation = gitOperationWrite\<rparr>
      (lfs_store, [] :: (string, string) gomap) = (Inr g, lfs_touched 8, [])" "grant_RepoID g = demo_repo_id"
    using lfs_granted [of gitOperationWrite lfs_store 0 8 "[]"]
    by (auto simp: scopeAllowsGitOperation_def gitOperationWrite_def gitOperationRead_def)
  let ?root = "newFilesystemLFSObjectStore []"
  obtain wd1 where put: "filesystem_Put map_files zero_sha ?root None demo_repo_id zero_oid 2 DefaultMaxLFSObjectBytes
      \<lparr>body_bytes = ''hi'', body_err = None\<rparr> [] = (None, wd1)"
    using lfs_put_run [of ?root demo_repo_id "[]"] by (metis prod.collapse)
  have "zero_oid \<noteq> []" by (simp add: zero_oid_def)
  with g put show ?thesis
    by (simp add: demo_lfs_def memory_lfs_def gitLFSHandler_def serveLFSUpload_def authorizeLFSAccess_def
        lfs_request_token zero_oid_parsed repo_id.parse_format lfs_on_def filesystemLFSObjectStore_def
        normalizeMaxLFSObjectBytes_def DefaultMaxLFSObjectBytes_def MaxBytesReader_def rw_WriteHeader_def
        new_writer_def resp_status_def)
qed

lemma lfs_other_request:
  "\<exists>w. demo_lfs env (lfs_request ''DELETE'' []) (new_writer, s, wd) = Some (w, s, wd)"
  by (simp add: demo_lfs_def memory_lfs_def gitLFSHandler_def repo_id.parse_format)

theorem lfs_upload_download_witness:
  "\<exists>w1 wd1 w2 st. demo_lfs (demo_env 0 8) lfs_upload (new_writer, lfs_store, []) = Some (w1, lfs_touched 8, wd1) \<and>
     resp_status w1 = 200 \<and>
     demo_lfs (demo_env 0 9) lfs_download (new_writer, lfs_touched 8, wd1) = Some (w2, st) \<and>
     resp_status w2 = 200 \<and> rw_Body w2 = ''hi''"
proof -
  obtain w1 wd1 where up:
    "demo_lfs (demo_env 0 8) lfs_upload (new_writer, lfs_store, []) = Some (w1, lfs_touched 8, wd1)"
    "resp_status w1 = 200" using lfs_upload_run by blast
  obtain w where "demo_lfs (demo_env 0 8) (lfs_request ''DELETE'' []) (new_writer, lfs_touched 8, wd1) =
      Some (w, lfs_touched 8, wd1)" using lfs_other_request by blast
  then have other: "serve_all demo_lfs [(demo_env 0 8, lfs_request ''DELETE'' [])] (lfs_touched 8, wd1) =
      Some (lfs_touched 8, wd1)" by simp
  obtain g where g: "memory_AuthorizeGitAccess zero_sha path_storage (demo_env 0 9)
      \<lparr>az_RepoID = demo_repo_id, az_Token = gitTokenFromRequest lfs_download, az_Operation = gitOperationRead\<rparr>
      (lfs_touched 8, wd1) = (Inr g, lfs_touched 9, wd1)"
    using lfs_granted [of gitOperationRead "lfs_touched 8" 8 9 wd1]
    by (auto simp: scopeAllowsGitOperation_def gitOperationRead_def lfs_request_token)
  have "list_all (\<lambda>(env, q). \<not> uploads (\<lambda>r. r) demo_repo_id zero_oid q) [(demo_env 0 8, lfs_request ''DELETE'' [])]"
    by (simp add: uploads_def)
  from lfs_upload_download [OF map_files.file_host_axioms lfs_store_ok _ up(1) [unfolded demo_lfs_def] lfs_uploads up(2)
      other [unfolded demo_lfs_def] this _ _ _ _ g] up
  show ?thesis by (auto simp: demo_lfs_def repo_id.parse_format zero_oid_parsed)
qed



end
