(* ===== verification/Postgres.thy ===== *)
theory Postgres
  imports Tokens
begin

text \<open>
  The PostgreSQL stores (\<open>internal/http/postgres.go\<close>): the repository store and the idempotency
  store on the tables \<open>repos\<close>, \<open>repo_tokens\<close> and \<open>idempotency_records\<close>.

  Each SQL statement of the source is a definition on the tables, with the constraints of the
  schema (primary keys, unique indexes, the foreign key of a token).  What the database and the
  environment answer during one call is the record \<open>pgCall\<close>: an error instead of the n-th execution
  of a statement (the connection, the server or the cancelled context; a statement that fails has no
  effect), the outcome of a commit (an error after which the transaction may have taken effect or
  not), the readings of the clock and the random bytes.  \<open>pg_time\<close> is the precision of a
  \<open>timestamptz\<close>.  A call is one step, so transactions of different calls do not interleave; the
  transaction that \<open>Do\<close> passes in the context is the field \<open>pg_tx\<close> of the state (present, and
  whether it is aborted), and a rollback restores the tables.  Identifiers are canonical UUIDs in
  every call of the handlers, so the casts to \<open>uuid\<close> compare texts.
\<close>

section \<open>Tables\<close>

record repoRow =
  rr_id :: string
  rr_namespace :: string
  rr_name :: string
  rr_default_branch :: string
  rr_archived_at :: "time option"
  rr_created_at :: time

record tokenRow =
  tr_id :: string
  tr_repo_id :: string
  tr_token_hash :: string
  tr_scope :: string
  tr_subject :: string
  tr_expires_at :: time
  tr_created_at :: time
  tr_revoked_at :: "time option"
  tr_last_used_at :: "time option"

record idempotencyRow =
  im_scope :: string
  im_key :: string
  im_request_hash :: string
  im_response :: json
  im_expires_at :: time

record pgTables =
  pg_repos :: "repoRow list"
  pg_tokens :: "tokenRow list"
  pg_idempotency :: "idempotencyRow list"

record pgState =
  pg_db :: pgTables
  pg_tx :: "bool option"

datatype pgStmt =
    PgBegin | PgSelectRepoByName | PgInsertRepo | PgSelectRepo | PgArchiveRepo | PgInsertToken
  | PgListTokens | PgRevokeToken | PgSelectToken | PgTouchToken | PgLock | PgSelectIdempotency
  | PgDeleteIdempotency | PgInsertIdempotency

record pgCall =
  pc_fault :: "pgStmt \<Rightarrow> nat \<Rightarrow> go_error option"
  pc_commit :: "(go_error \<times> bool) option"
  pc_now :: "nat \<Rightarrow> time"
  pc_uuid :: "nat \<Rightarrow> rand_read"

record postgres =
  pg_time :: "time \<Rightarrow> time"
  pg_call :: "callEnv \<Rightarrow> pgCall"
  pg_do :: "ctx \<Rightarrow> time \<Rightarrow> pgCall"

text \<open>The error of an \<open>INSERT\<close>: \<open>isPostgresUniqueViolation\<close> holds of the first kind.\<close>

datatype pgError = UniqueViolation | PgError go_error

definition isPostgresUniqueViolation :: "pgError \<Rightarrow> bool" where
  "isPostgresUniqueViolation err = (case err of UniqueViolation \<Rightarrow> True | PgError e \<Rightarrow> False)"

fun pg_error :: "pgError \<Rightarrow> go_error" where
  "pg_error UniqueViolation = errOther ''duplicate key value violates unique constraint''"
| "pg_error (PgError e) = e"

definition errTxAborted :: go_error where
  "errTxAborted = errOther ''current transaction is aborted, commands ignored until end of transaction block''"

section \<open>Rows\<close>

definition timeFromPostgres :: "time option \<Rightarrow> time" where
  "timeFromPostgres t = (case t of None \<Rightarrow> 0 | Some x \<Rightarrow> x)"

definition scanRepo :: "repoRow \<Rightarrow> repoRecord" where
  "scanRepo row =
     \<lparr>repo_ID = rr_id row, repo_Namespace = rr_namespace row, repo_Name = rr_name row,
      repo_DefaultBranch = rr_default_branch row, repo_ArchivedAt = timeFromPostgres (rr_archived_at row)\<rparr>"

text \<open>A row of \<open>repo_tokens\<close> with the namespace and the name of its repository.\<close>

definition scanRepoToken :: "string \<Rightarrow> string \<Rightarrow> tokenRow \<Rightarrow> repoTokenRecord" where
  "scanRepoToken ns name row =
     zero_token\<lparr>tok_ID := tr_id row, tok_RepoID := tr_repo_id row, tok_RepoNamespace := ns,
       tok_RepoName := name, tok_TokenHash := tr_token_hash row, tok_Scope := tr_scope row,
       tok_Subject := tr_subject row, tok_ExpiresAt := tr_expires_at row, tok_CreatedAt := tr_created_at row,
       tok_RevokedAt := timeFromPostgres (tr_revoked_at row),
       tok_LastUsedAt := timeFromPostgres (tr_last_used_at row)\<rparr>"

section \<open>Statements on the tables\<close>

definition repo_row :: "string \<Rightarrow> pgTables \<Rightarrow> repoRow option" where
  "repo_row ident db = find (\<lambda>r. rr_id r = ident) (pg_repos db)"

text \<open>\<open>repo_tokens t JOIN repos r ON r.id = t.repo_id\<close>, for one row of \<open>repo_tokens\<close>.\<close>

definition joined_token :: "pgTables \<Rightarrow> tokenRow \<Rightarrow> repoTokenRecord option" where
  "joined_token db t =
     map_option (\<lambda>r. scanRepoToken (rr_namespace r) (rr_name r) t) (repo_row (tr_repo_id t) db)"

definition selectRepoByName ::
  "pgCall \<Rightarrow> string \<Rightarrow> string \<Rightarrow> pgTables \<Rightarrow> repoRecord option result" where
  "selectRepoByName c ns name db =
     (case pc_fault c PgSelectRepoByName 0 of
        Some err \<Rightarrow> Inl err
      | None \<Rightarrow>
          Inr (map_option scanRepo (find (\<lambda>r. rr_namespace r = ns \<and> rr_name r = name) (pg_repos db))))"

definition insertRepo ::
  "postgres \<Rightarrow> pgCall \<Rightarrow> repoRecord \<Rightarrow> time \<Rightarrow> pgTables \<Rightarrow> pgTables result" where
  "insertRepo pg c repo createdAt db =
     (case pc_fault c PgInsertRepo 0 of
        Some err \<Rightarrow> Inl err
      | None \<Rightarrow>
          (if list_ex (\<lambda>r. rr_id r = repo_ID repo \<or>
                rr_namespace r = repo_Namespace repo \<and> rr_name r = repo_Name repo) (pg_repos db)
           then Inl (pg_error UniqueViolation)
           else Inr (db\<lparr>pg_repos := pg_repos db @
                  [\<lparr>rr_id = repo_ID repo, rr_namespace = repo_Namespace repo, rr_name = repo_Name repo,
                    rr_default_branch = repo_DefaultBranch repo, rr_archived_at = None,
                    rr_created_at = pg_time pg createdAt\<rparr>]\<rparr>)))"

text \<open>A statement that fails inside the transaction of the context aborts that transaction.\<close>

definition abort_tx :: "pgState \<Rightarrow> pgState" where
  "abort_tx st = st\<lparr>pg_tx := map_option (\<lambda>_. True) (pg_tx st)\<rparr>"

text \<open>\<open>getRepoWithQueryer\<close>; the flag tells whether the queryer is the transaction of the context.\<close>

definition getRepoWithQueryer ::
  "pgCall \<Rightarrow> bool \<Rightarrow> string \<Rightarrow> pgState \<Rightarrow> repoRecord result \<times> pgState" where
  "getRepoWithQueryer c tx ident st =
     (if tx \<and> pg_tx st = Some True then (Inl errTxAborted, st)
      else case pc_fault c PgSelectRepo 0 of
             Some err \<Rightarrow> (Inl err, if tx then abort_tx st else st)
           | None \<Rightarrow>
               (case repo_row ident (pg_db st) of
                  None \<Rightarrow> (Inl errRepoNotFound, st)
                | Some row \<Rightarrow> (Inr (scanRepo row), st)))"

definition token_row :: "postgres \<Rightarrow> repoTokenRecord \<Rightarrow> tokenRow" where
  "token_row pg record =
     \<lparr>tr_id = tok_ID record, tr_repo_id = tok_RepoID record, tr_token_hash = tok_TokenHash record,
      tr_scope = tok_Scope record, tr_subject = tok_Subject record,
      tr_expires_at = pg_time pg (tok_ExpiresAt record), tr_created_at = pg_time pg (tok_CreatedAt record),
      tr_revoked_at = None, tr_last_used_at = None\<rparr>"

definition insertToken ::
  "postgres \<Rightarrow> pgCall \<Rightarrow> nat \<Rightarrow> repoTokenRecord \<Rightarrow> pgState \<Rightarrow> pgError option \<times> pgState" where
  "insertToken pg c i record st =
     (if pg_tx st = Some True then (Some (PgError errTxAborted), st)
      else case pc_fault c PgInsertToken i of
             Some err \<Rightarrow> (Some (PgError err), abort_tx st)
           | None \<Rightarrow>
               (let db = pg_db st
                in if list_ex (\<lambda>t. tr_id t = tok_ID record \<or> tr_token_hash t = tok_TokenHash record) (pg_tokens db)
                   then (Some UniqueViolation, abort_tx st)
                   else if repo_row (tok_RepoID record) db = None
                   then (Some (PgError (errOther ''insert or update on table violates foreign key constraint'')),
                         abort_tx st)
                   else (None, st\<lparr>pg_db := db\<lparr>pg_tokens := pg_tokens db @
                           [token_row pg record]\<rparr>\<rparr>)))"

text \<open>The three \<open>UPDATE\<close>s, on one row; the first two use \<open>COALESCE\<close> and keep a time that is set.\<close>

definition archive_row :: "time \<Rightarrow> string \<Rightarrow> repoRow \<Rightarrow> repoRow" where
  "archive_row now ident r =
     (if rr_id r = ident
      then r\<lparr>rr_archived_at := Some (case rr_archived_at r of Some t \<Rightarrow> t | None \<Rightarrow> now)\<rparr> else r)"

definition revoke_hits :: "revokeRepoTokenInput \<Rightarrow> tokenRow \<Rightarrow> bool" where
  "revoke_hits input t \<longleftrightarrow> tr_id t = rv_TokenID input \<and> tr_repo_id t = rv_RepoID input"

definition revoke_row :: "time \<Rightarrow> revokeRepoTokenInput \<Rightarrow> tokenRow \<Rightarrow> tokenRow" where
  "revoke_row now input t =
     (if revoke_hits input t
      then t\<lparr>tr_revoked_at := Some (case tr_revoked_at t of Some x \<Rightarrow> x | None \<Rightarrow> now)\<rparr> else t)"

definition touch_row :: "time \<Rightarrow> string \<Rightarrow> tokenRow \<Rightarrow> tokenRow" where
  "touch_row now ident t = (if tr_id t = ident then t\<lparr>tr_last_used_at := Some now\<rparr> else t)"

section \<open>The repository store\<close>

definition postgres_CreateRepo ::
  "postgres \<Rightarrow> 'w repoGitStorage \<Rightarrow> callEnv \<Rightarrow> createRepoInput \<Rightarrow> pgState \<times> 'w \<Rightarrow>
     repoRecord result \<times> pgState \<times> 'w" where
  "postgres_CreateRepo pg gs env input = (\<lambda>(st, w).
     let c = pg_call pg env; db = pg_db st
     in case pc_fault c PgBegin 0 of
          Some err \<Rightarrow> (Inl err, st, w)
        | None \<Rightarrow>
            (case selectRepoByName c (cr_Namespace input) (cr_Name input) db of
               Inl err \<Rightarrow> (Inl err, st, w)
             | Inr (Some repo) \<Rightarrow>
                 (case pc_commit c of
                    Some (err, applied) \<Rightarrow> (Inl err, st, w)
                  | None \<Rightarrow> (Inr repo, st, w))
             | Inr None \<Rightarrow>
                 (case newUUID (pc_uuid c 0) of
                    Inl err \<Rightarrow> (Inl err, st, w)
                  | Inr repoID \<Rightarrow>
                      (let repo = \<lparr>repo_ID = repoID, repo_Namespace = cr_Namespace input,
                                   repo_Name = cr_Name input, repo_DefaultBranch = cr_DefaultBranch input,
                                   repo_ArchivedAt = 0\<rparr>
                       in case insertRepo pg c repo (pc_now c 0) db of
                            Inl err \<Rightarrow> (Inl err, st, w)
                          | Inr db1 \<Rightarrow>
                              (case InitBareRepo gs (env_ctx env) repoID (cr_DefaultBranch input) w of
                                 (Some err, w1) \<Rightarrow>
                                   (Inl err, st, snd (DeleteBareRepo gs (env_ctx env) repoID w1))
                               | (None, w1) \<Rightarrow>
                                   (case pc_commit c of
                                      Some (err, applied) \<Rightarrow>
                                        (Inl err, if applied then st\<lparr>pg_db := db1\<rparr> else st,
                                         snd (DeleteBareRepo gs (env_ctx env) repoID w1))
                                    | None \<Rightarrow> (Inr repo, st\<lparr>pg_db := db1\<rparr>, w1)))))))"

definition postgres_GetRepo ::
  "postgres \<Rightarrow> callEnv \<Rightarrow> string \<Rightarrow> pgState \<times> 'w \<Rightarrow> repoRecord result \<times> pgState \<times> 'w" where
  "postgres_GetRepo pg env repoID = (\<lambda>(st, w).
     let (r, st') = getRepoWithQueryer (pg_call pg env) False repoID st in (r, st', w))"

definition postgres_ArchiveRepo ::
  "postgres \<Rightarrow> callEnv \<Rightarrow> string \<Rightarrow> pgState \<times> 'w \<Rightarrow> repoRecord result \<times> pgState \<times> 'w" where
  "postgres_ArchiveRepo pg env repoID = (\<lambda>(st, w).
     let c = pg_call pg env; db = pg_db st;
         db' = db\<lparr>pg_repos := map (archive_row (pg_time pg (pc_now c 0)) repoID) (pg_repos db)\<rparr>
     in case pc_fault c PgArchiveRepo 0 of
          Some err \<Rightarrow> (Inl err, st, w)
        | None \<Rightarrow>
            (case repo_row repoID db' of
               None \<Rightarrow> (Inl errRepoNotFound, st, w)
             | Some row \<Rightarrow> (Inr (scanRepo row), st\<lparr>pg_db := db'\<rparr>, w)))"

text \<open>The loop of \<open>createRepoTokenWithQueryer\<close>, from its \<open>i\<close>-th round on.\<close>

partial_function (option) create_token_loop ::
  "postgres \<Rightarrow> (string \<Rightarrow> byte list) \<Rightarrow> pgCall \<Rightarrow> (nat \<Rightarrow> rand_read) \<Rightarrow> repoRecord \<Rightarrow> createRepoTokenInput \<Rightarrow> nat \<Rightarrow>
     pgState \<Rightarrow> (repoTokenRecord result \<times> pgState) option" where
  "create_token_loop pg sha256 c draws repo input i st =
     (case generateRepoToken (draws i) of
        Inl err \<Rightarrow> Some (Inl err, st)
      | Inr generated \<Rightarrow>
          (let tokenHash = hashRepoToken sha256 generated; now = pc_now c i
           in case newUUID (pc_uuid c i) of
                Inl err \<Rightarrow> Some (Inl err, st)
              | Inr tokenID \<Rightarrow>
                  (let record = token_record repo input now tokenID generated tokenHash;
                       (err, st') = insertToken pg c i record st
                   in case err of
                        None \<Rightarrow> Some (Inr record, st')
                      | Some err \<Rightarrow>
                          (if isPostgresUniqueViolation err
                           then create_token_loop pg sha256 c draws repo input (Suc i) st'
                           else Some (Inl (pg_error err), st')))))"

definition createRepoTokenWithQueryer ::
  "postgres \<Rightarrow> (string \<Rightarrow> byte list) \<Rightarrow> pgCall \<Rightarrow> (nat \<Rightarrow> rand_read) \<Rightarrow> createRepoTokenInput \<Rightarrow> pgState \<Rightarrow>
     (repoTokenRecord result \<times> pgState) option" where
  "createRepoTokenWithQueryer pg sha256 c draws input st =
     (case getRepoWithQueryer c (pg_tx st \<noteq> None) (ct_RepoID input) st of
        (Inl err, st') \<Rightarrow> Some (Inl err, st')
      | (Inr repo, st') \<Rightarrow> create_token_loop pg sha256 c draws repo input 0 st')"

text \<open>The queryer is the transaction of the context when there is one, the pool otherwise.\<close>

definition postgres_CreateRepoToken ::
  "postgres \<Rightarrow> (string \<Rightarrow> byte list) \<Rightarrow> callEnv \<Rightarrow> createRepoTokenInput \<Rightarrow> pgState \<times> 'w \<Rightarrow>
     (repoTokenRecord result \<times> pgState \<times> 'w) option" where
  "postgres_CreateRepoToken pg sha256 env input = (\<lambda>(st, w).
     map_option (\<lambda>(r, st'). (r, st', w))
       (createRepoTokenWithQueryer pg sha256 (pg_call pg env) (env_tokens env) input st))"

definition postgres_ListRepoTokens ::
  "postgres \<Rightarrow> callEnv \<Rightarrow> string \<Rightarrow> pgState \<times> 'w \<Rightarrow> repoTokenRecord list result \<times> pgState \<times> 'w" where
  "postgres_ListRepoTokens pg env repoID = (\<lambda>(st, w).
     let c = pg_call pg env; db = pg_db st
     in case getRepoWithQueryer c False repoID st of
          (Inl err, _) \<Rightarrow> (Inl err, st, w)
        | (Inr repo, _) \<Rightarrow>
            (case pc_fault c PgListTokens 0 of
               Some err \<Rightarrow> (Inl err, st, w)
             | None \<Rightarrow>
                 (Inr (sort_key token_sort_key
                    (List.map_filter (joined_token db) (filter (\<lambda>t. tr_repo_id t = repoID) (pg_tokens db)))),
                  st, w)))"

definition postgres_RevokeRepoToken ::
  "postgres \<Rightarrow> callEnv \<Rightarrow> revokeRepoTokenInput \<Rightarrow> pgState \<times> 'w \<Rightarrow> repoTokenRecord result \<times> pgState \<times> 'w" where
  "postgres_RevokeRepoToken pg env input = (\<lambda>(st, w).
     let c = pg_call pg env; db = pg_db st;
         db' = db\<lparr>pg_tokens := map (revoke_row (pg_time pg (pc_now c 0)) input) (pg_tokens db)\<rparr>
     in case getRepoWithQueryer c False (rv_RepoID input) st of
          (Inl err, _) \<Rightarrow> (Inl err, st, w)
        | (Inr repo, _) \<Rightarrow>
            (case pc_fault c PgRevokeToken 0 of
               Some err \<Rightarrow> (Inl err, st, w)
             | None \<Rightarrow>
                 (case Option.bind (find (revoke_hits input) (pg_tokens db')) (joined_token db') of
                    None \<Rightarrow> (Inl errRepoTokenNotFound, st, w)
                  | Some token \<Rightarrow> (Inr token, st\<lparr>pg_db := db'\<rparr>, w))))"

definition postgres_AuthorizeGitAccess ::
  "postgres \<Rightarrow> (string \<Rightarrow> byte list) \<Rightarrow> 'w repoGitStorage \<Rightarrow> callEnv \<Rightarrow> authorizeGitAccessInput \<Rightarrow> pgState \<times> 'w \<Rightarrow>
     gitAccessGrant result \<times> pgState \<times> 'w" where
  "postgres_AuthorizeGitAccess pg sha256 gs env input = (\<lambda>(st, w).
     let c = pg_call pg env; db = pg_db st
     in case getRepoWithQueryer c False (az_RepoID input) st of
          (Inl err, _) \<Rightarrow> (Inl err, st, w)
        | (Inr repo, _) \<Rightarrow>
            (if \<not> time_IsZero (repo_ArchivedAt repo) then (Inl errRepoArchived, st, w)
             else if az_Token input = [] then (Inl errRepoTokenInvalid, st, w)
             else case pc_fault c PgSelectToken 0 of
                    Some err \<Rightarrow> (Inl err, st, w)
                  | None \<Rightarrow>
                      (case Option.bind (find (\<lambda>t. tr_token_hash t = hashRepoToken sha256 (az_Token input)) (pg_tokens db))
                              (joined_token db) of
                         None \<Rightarrow> (Inl errRepoTokenInvalid, st, w)
                       | Some token \<Rightarrow>
                           (let now = pc_now c 0
                            in if tok_RepoID token \<noteq> repo_ID repo then (Inl errRepoTokenInvalid, st, w)
                               else if \<not> time_IsZero (tok_RevokedAt token) then (Inl errRepoTokenInvalid, st, w)
                               else if \<not> now < tok_ExpiresAt token then (Inl errRepoTokenInvalid, st, w)
                               else if \<not> scopeAllowsGitOperation (tok_Scope token) (az_Operation input) then
                                 (Inl errRepoTokenForbidden, st, w)
                               else case BareRepoPath gs (env_ctx env) (repo_ID repo) w of
                                      Inl err \<Rightarrow> (Inl err, st, w)
                                    | Inr path \<Rightarrow>
                                        (case pc_fault c PgTouchToken 0 of
                                           Some err \<Rightarrow> (Inl err, st, w)
                                         | None \<Rightarrow>
                                             (Inr \<lparr>grant_RepoID = repo_ID repo, grant_RepoPath = path,
                                                   grant_Subject = tok_Subject token\<rparr>,
                                              st\<lparr>pg_db := db\<lparr>pg_tokens := map (touch_row (pg_time pg now) (tok_ID token))
                                                                    (pg_tokens db)\<rparr>\<rparr>, w))))))"

definition postgresStore ::
  "postgres \<Rightarrow> (string \<Rightarrow> byte list) \<Rightarrow> 'w repoGitStorage \<Rightarrow> (pgState \<times> 'w) repoStore" where
  "postgresStore pg sha256 gs =
     \<lparr>CreateRepo = postgres_CreateRepo pg gs,
      GetRepo = postgres_GetRepo pg,
      ArchiveRepo = postgres_ArchiveRepo pg,
      CreateRepoToken = postgres_CreateRepoToken pg sha256,
      ListRepoTokens = postgres_ListRepoTokens pg,
      RevokeRepoToken = postgres_RevokeRepoToken pg,
      AuthorizeGitAccess = postgres_AuthorizeGitAccess pg sha256 gs\<rparr>"

section \<open>The idempotency store\<close>

text \<open>
  The response is stored as \<open>jsonb\<close>: the value of the text that \<open>json.Marshal\<close> gives.  It is read
  back with \<open>json.Unmarshal\<close>, which ignores members that name no field.
\<close>

definition createRepoTokenResponse_zero :: createRepoTokenResponse where
  "createRepoTokenResponse_zero =
     \<lparr>ctr_ID = [], ctr_Token = [], ctr_ExpiresAt = [], ctr_GitURL = [], ctr_Scope = [], ctr_Subject = []\<rparr>"

definition createRepoTokenResponse_field ::
  "string \<Rightarrow> json \<Rightarrow> createRepoTokenResponse \<Rightarrow> createRepoTokenResponse option" where
  "createRepoTokenResponse_field key v p =
     (case json_field [''id'', ''token'', ''expiresAt'', ''gitUrl'', ''scope'', ''subject''] key of
        None \<Rightarrow> Some p
      | Some f \<Rightarrow>
          (if f = ''id'' then map_option (\<lambda>x. p\<lparr>ctr_ID := x\<rparr>) (json_to_string v (ctr_ID p))
           else if f = ''token'' then map_option (\<lambda>x. p\<lparr>ctr_Token := x\<rparr>) (json_to_string v (ctr_Token p))
           else if f = ''expiresAt'' then
             map_option (\<lambda>x. p\<lparr>ctr_ExpiresAt := x\<rparr>) (json_to_string v (ctr_ExpiresAt p))
           else if f = ''gitUrl'' then map_option (\<lambda>x. p\<lparr>ctr_GitURL := x\<rparr>) (json_to_string v (ctr_GitURL p))
           else if f = ''scope'' then map_option (\<lambda>x. p\<lparr>ctr_Scope := x\<rparr>) (json_to_string v (ctr_Scope p))
           else map_option (\<lambda>x. p\<lparr>ctr_Subject := x\<rparr>) (json_to_string v (ctr_Subject p))))"

definition idempotency_row :: "idempotencyInput \<Rightarrow> idempotencyRow \<Rightarrow> bool" where
  "idempotency_row input row \<longleftrightarrow> im_scope row = ii_Scope input \<and> im_key row = ii_Key input"

definition selectIdempotencyRecord ::
  "pgCall \<Rightarrow> idempotencyInput \<Rightarrow> pgTables \<Rightarrow> idempotencyRecord option result" where
  "selectIdempotencyRecord c input db =
     (case pc_fault c PgSelectIdempotency 0 of
        Some err \<Rightarrow> Inl err
      | None \<Rightarrow>
          (case find (idempotency_row input) (pg_idempotency db) of
             None \<Rightarrow> Inr None
           | Some row \<Rightarrow>
               (case json_struct createRepoTokenResponse_field (im_response row) createRepoTokenResponse_zero of
                  None \<Rightarrow> Inl (errOther ''json: cannot unmarshal'')
                | Some response \<Rightarrow>
                    Inr (Some \<lparr>rec_RequestHash = im_request_hash row, rec_Response = response,
                               rec_ExpiresAt = im_expires_at row\<rparr>))))"

definition deleteIdempotencyRecord :: "pgCall \<Rightarrow> idempotencyInput \<Rightarrow> pgTables \<Rightarrow> pgTables result" where
  "deleteIdempotencyRecord c input db =
     (case pc_fault c PgDeleteIdempotency 0 of
        Some err \<Rightarrow> Inl err
      | None \<Rightarrow> Inr (db\<lparr>pg_idempotency := filter (\<lambda>row. \<not> idempotency_row input row) (pg_idempotency db)\<rparr>))"

definition insertIdempotencyRecord ::
  "postgres \<Rightarrow> pgCall \<Rightarrow> idempotencyInput \<Rightarrow> createRepoTokenResponse \<Rightarrow> time \<Rightarrow> pgState \<Rightarrow> pgTables result" where
  "insertIdempotencyRecord pg c input response expires st =
     (if pg_tx st = Some True then Inl errTxAborted
      else case pc_fault c PgInsertIdempotency 0 of
             Some err \<Rightarrow> Inl err
           | None \<Rightarrow>
               (if list_ex (idempotency_row input) (pg_idempotency (pg_db st))
                then Inl (pg_error UniqueViolation)
                else case json_single (json_text (createRepoTokenResponse_json response)) of
                       None \<Rightarrow> Inl (errOther ''invalid input syntax for type json'')
                     | Some raw \<Rightarrow>
                         Inr ((pg_db st)\<lparr>pg_idempotency := pg_idempotency (pg_db st) @
                           [\<lparr>im_scope = ii_Scope input, im_key = ii_Key input,
                             im_request_hash = ii_RequestHash input, im_response = raw,
                             im_expires_at = pg_time pg expires\<rparr>]\<rparr>)))"

text \<open>
  From the creation on (lines 390 to 407), in the transaction: \<open>st\<close> is the state before it, to
  which every failure returns, \<open>db\<close> holds the tables at this point.
\<close>

definition postgres_Do_create ::
  "postgres \<Rightarrow> duration \<Rightarrow> pgCall \<Rightarrow> ctx \<Rightarrow> time \<Rightarrow> idempotencyInput \<Rightarrow> (pgState \<times> 'w) create \<Rightarrow> pgTables \<Rightarrow>
     pgState \<times> 'w \<Rightarrow> (idempotencyResult result \<times> unit \<times> pgState \<times> 'w) option" where
  "postgres_Do_create pg ttl c ctx now input create db = (\<lambda>(st, w).
     case create ctx (st\<lparr>pg_db := db, pg_tx := Some False\<rparr>, w) of
       None \<Rightarrow> None
     | Some (Inl err, st1, w1) \<Rightarrow> Some (Inl err, (), st, w1)
     | Some (Inr response, st1, w1) \<Rightarrow>
         (case insertIdempotencyRecord pg c input response (now + ttl) st1 of
            Inl err \<Rightarrow> Some (Inl err, (), st, w1)
          | Inr db' \<Rightarrow>
              (case pc_commit c of
                 Some (err, applied) \<Rightarrow>
                   Some (Inl err, (), if applied then st\<lparr>pg_db := db'\<rparr> else st, w1)
               | None \<Rightarrow>
                   Some (Inr \<lparr>ir_Response = response, ir_Replayed = False\<rparr>, (), st\<lparr>pg_db := db'\<rparr>, w1))))"

definition postgres_Do ::
  "postgres \<Rightarrow> duration \<Rightarrow> ctx \<Rightarrow> time \<Rightarrow> idempotencyInput \<Rightarrow> (pgState \<times> 'w) create \<Rightarrow>
     unit \<times> pgState \<times> 'w \<Rightarrow> (idempotencyResult result \<times> unit \<times> pgState \<times> 'w) option" where
  "postgres_Do pg ttl ctx now input create = (\<lambda>(u, st, w).
     case ctx of
       Some err \<Rightarrow> Some (Inl err, u, st, w)
     | None \<Rightarrow>
         (if ii_Key input = [] then
            (case create ctx (st, w) of
               None \<Rightarrow> None
             | Some (Inl err, c') \<Rightarrow> Some (Inl err, u, c')
             | Some (Inr response, c') \<Rightarrow>
                 Some (Inr \<lparr>ir_Response = response, ir_Replayed = False\<rparr>, u, c'))
          else
            (let c = pg_do pg ctx now; db = pg_db st
             in case pc_fault c PgBegin 0 of
                  Some err \<Rightarrow> Some (Inl err, u, st, w)
                | None \<Rightarrow>
                    (case pc_fault c PgLock 0 of
                       Some err \<Rightarrow> Some (Inl err, u, st, w)
                     | None \<Rightarrow>
                         (case selectIdempotencyRecord c input db of
                            Inl err \<Rightarrow> Some (Inl err, u, st, w)
                          | Inr (Some r) \<Rightarrow>
                              (if now < rec_ExpiresAt r then
                                 (if rec_RequestHash r \<noteq> ii_RequestHash input then
                                    Some (Inl errIdempotencyConflict, u, st, w)
                                  else case pc_commit c of
                                         Some (err, applied) \<Rightarrow> Some (Inl err, u, st, w)
                                       | None \<Rightarrow>
                                           Some (Inr \<lparr>ir_Response = rec_Response r, ir_Replayed = True\<rparr>, u, st, w))
                               else case deleteIdempotencyRecord c input db of
                                      Inl err \<Rightarrow> Some (Inl err, u, st, w)
                                    | Inr db' \<Rightarrow> postgres_Do_create pg ttl c ctx now input create db' (st, w))
                          | Inr None \<Rightarrow> postgres_Do_create pg ttl c ctx now input create db (st, w))))))"

definition postgresIdempotency :: "postgres \<Rightarrow> (unit, pgState \<times> 'w) idempotencyDoer" where
  "postgresIdempotency pg = \<lparr>Do = postgres_Do pg defaultIdempotencyRecordTTL\<rparr>"

section \<open>Transactions of \<open>Do\<close>\<close>

lemma find_append: "find p (xs @ ys) = (case find p xs of None \<Rightarrow> find p ys | Some x \<Rightarrow> Some x)"
  by (induction xs) auto

lemma insertToken_effect:
  "insertToken pg c i rec st = (e, st') \<Longrightarrow>
     pg_db st' = (if e = None then (pg_db st)\<lparr>pg_tokens := pg_tokens (pg_db st) @ [token_row pg rec]\<rparr> else pg_db st)"
  by (auto simp: insertToken_def abort_tx_def Let_def split: if_splits option.splits)

definition token_effect :: "postgres \<Rightarrow> repoTokenRecord result \<Rightarrow> pgTables \<Rightarrow> pgTables \<Rightarrow> bool" where
  "token_effect pg res db db' \<longleftrightarrow>
     (case res of Inl e \<Rightarrow> db' = db | Inr rec \<Rightarrow> db' = db\<lparr>pg_tokens := pg_tokens db @ [token_row pg rec]\<rparr>)"

lemma create_token_loop_effect:
  assumes "create_token_loop pg sha c draws repo input i st = Some (res, st')"
  shows "token_effect pg res (pg_db st) (pg_db st')"
proof -
  have "token_effect pg (fst (res, st')) (pg_db st) (pg_db (snd (res, st')))"
  proof (rule create_token_loop.raw_induct
      [where P = "\<lambda>pg sha c draws repo input i st x. token_effect pg (fst x) (pg_db st) (pg_db (snd x))", OF _ assms])
    fix f pg sha c draws repo input i st x
    assume IH: "\<And>pg sha c draws repo input i st x. f pg sha c draws repo input i st = Some x \<Longrightarrow>
        token_effect pg (fst x) (pg_db st) (pg_db (snd x))"
      and eq: "(case generateRepoToken (draws i) of
        Inl err \<Rightarrow> Some (Inl err, st)
      | Inr generated \<Rightarrow>
          (let tokenHash = hashRepoToken sha generated; now = pc_now c i
           in case newUUID (pc_uuid c i) of
                Inl err \<Rightarrow> Some (Inl err, st)
              | Inr tokenID \<Rightarrow>
                  (let record = token_record repo input now tokenID generated tokenHash;
                       (err, st') = insertToken pg c i record st
                   in case err of
                        None \<Rightarrow> Some (Inr record, st')
                      | Some err \<Rightarrow>
                          (if isPostgresUniqueViolation err
                           then f pg sha c draws repo input (Suc i) st'
                           else Some (Inl (pg_error err), st'))))) = Some x"
    then show "token_effect pg (fst x) (pg_db st) (pg_db (snd x))"
      by (auto simp: token_effect_def Let_def split: sum.splits option.splits prod.splits if_splits
          dest!: insertToken_effect IH)
  qed
  then show ?thesis by simp
qed

lemma createRepoTokenWithQueryer_effect:
  assumes "createRepoTokenWithQueryer pg sha c draws input st = Some (res, st')"
  shows "token_effect pg res (pg_db st) (pg_db st')"
proof -
  obtain r st1 where get: "getRepoWithQueryer c (pg_tx st \<noteq> None) (ct_RepoID input) st = (r, st1)" by fastforce
  then have db: "pg_db st1 = pg_db st"
    by (auto simp: getRepoWithQueryer_def abort_tx_def split: if_splits option.splits)
  show ?thesis
  proof (cases r)
    case (Inl e)
    with assms get db show ?thesis by (auto simp: createRepoTokenWithQueryer_def token_effect_def)
  next
    case (Inr repo)
    with assms get have "create_token_loop pg sha c draws repo input 0 st1 = Some (res, st')"
      by (simp add: createRepoTokenWithQueryer_def)
    from create_token_loop_effect [OF this] db show ?thesis by simp
  qed
qed

text \<open>
  A draw that collides inside the transaction of \<open>Do\<close> aborts it, so that the next round of the
  loop ends the call with an error instead of a token: the retry of lines 210 to 212 cannot succeed
  there.
\<close>

lemma collision_in_transaction:
  assumes "pg_tx st = Some False" "generateRepoToken (draws i) = Inr t" "newUUID (pc_uuid c i) = Inr v"
    and "pc_fault c PgInsertToken i = None"
    and "list_ex (\<lambda>r. tr_id r = v \<or> tr_token_hash r = hashRepoToken sha t) (pg_tokens (pg_db st))"
    and "generateRepoToken (draws (Suc i)) = Inr t'" "newUUID (pc_uuid c (Suc i)) = Inr v'"
  shows "\<exists>st'. create_token_loop pg sha c draws repo input i st = Some (Inl errTxAborted, st')"
proof -
  let ?rec = "token_record repo input (pc_now c i) v t (hashRepoToken sha t)"
  have "tok_ID ?rec = v" "tok_TokenHash ?rec = hashRepoToken sha t" by (simp_all add: token_record_def zero_token_def)
  with assms(1,4,5) have "insertToken pg c i ?rec st = (Some UniqueViolation, st\<lparr>pg_tx := Some True\<rparr>)"
    by (simp add: insertToken_def abort_tx_def)
  moreover have "insertToken pg c (Suc i) rec (st\<lparr>pg_tx := Some True\<rparr>) =
      (Some (PgError errTxAborted), st\<lparr>pg_tx := Some True\<rparr>)" for rec
    by (simp add: insertToken_def)
  ultimately show ?thesis
    using assms(2,3,6,7)
    by (simp add: create_token_loop.simps [of pg sha c draws repo input i] isPostgresUniqueViolation_def
        create_token_loop.simps [of pg sha c draws repo input "Suc i"])
qed

text \<open>
  C31 (postgresIdempotencyStore.Do, postgresRepoStore.CreateRepoToken).  Minting under an
  idempotency key is atomic: whatever fails in between (a statement, the random source, the
  recording of the response), either all tables are as they were, or the call succeeded, exactly
  one token was added, and the one record of the key (an expired one is replaced) holds the hash of
  the request; so no token exists without its record.  The only exception is a commit that took
  effect although its acknowledgement was lost.
\<close>
theorem postgres_mint_atomic:
  assumes "postgres_Do pg ttl ctx now input
      (create_token_call (postgresStore pg sha256 gs) zone baseURL env repoID q) (u, st, w) = Some (res, u', st', w')"
    and "ii_Key input \<noteq> []" "\<And>e. pc_commit (pg_do pg ctx now) \<noteq> Some (e, True)"
  shows "st' = st \<or>
    (\<exists>response token row. res = Inr \<lparr>ir_Response = response, ir_Replayed = False\<rparr> \<and>
       ctr_ID response = formatRepoTokenControlID (tok_ID token) \<and>
       pg_repos (pg_db st') = pg_repos (pg_db st) \<and>
       pg_tokens (pg_db st') = pg_tokens (pg_db st) @ [token_row pg token] \<and>
       pg_idempotency (pg_db st') = filter (\<lambda>r. \<not> idempotency_row input r) (pg_idempotency (pg_db st)) @ [row] \<and>
       idempotency_row input row \<and> im_request_hash row = ii_RequestHash input)"
proof -
  let ?c = "pg_do pg ctx now" and ?create = "create_token_call (postgresStore pg sha256 gs) zone baseURL env repoID q"
  let ?rest = "filter (\<lambda>r. \<not> idempotency_row input r) (pg_idempotency (pg_db st))"
  have "st' = st \<or> (\<exists>db. db = (pg_db st)\<lparr>pg_idempotency := ?rest\<rparr> \<and>
      postgres_Do_create pg ttl ?c ctx now input ?create db (st, w) = Some (res, u', st', w'))"
  proof -
    have "pg_db st = (pg_db st)\<lparr>pg_idempotency := ?rest\<rparr>" if "find (idempotency_row input) (pg_idempotency (pg_db st)) = None"
    proof -
      from that have "?rest = pg_idempotency (pg_db st)" by (simp add: find_None_iff filter_id_conv)
      then show ?thesis by simp
    qed
    with assms(1,2) show ?thesis
      by (auto simp: postgres_Do_def selectIdempotencyRecord_def deleteIdempotencyRecord_def Let_def
          split: option.splits sum.splits prod.splits if_splits)
  qed
  then show ?thesis
  proof (elim disjE exE conjE)
    fix db
    assume db: "db = (pg_db st)\<lparr>pg_idempotency := ?rest\<rparr>"
      and run: "postgres_Do_create pg ttl ?c ctx now input ?create db (st, w) = Some (res, u', st', w')"
    let ?st = "st\<lparr>pg_db := db, pg_tx := Some False\<rparr>"
    show ?thesis
    proof (cases "st' = st")
      case False
      with run assms(3) obtain response st1 w1 db' where cr: "?create ctx (?st, w) = Some (Inr response, st1, w1)"
        and ins: "insertIdempotencyRecord pg ?c input response (now + ttl) st1 = Inr db'"
        and res: "res = Inr \<lparr>ir_Response = response, ir_Replayed = False\<rparr>" "st' = st\<lparr>pg_db := db'\<rparr>"
        by (auto simp: postgres_Do_create_def split: option.splits sum.splits prod.splits if_splits)
      from cr obtain token where tok: "token_effect pg (Inr token) db (pg_db st1)"
        "ctr_ID response = formatRepoTokenControlID (tok_ID token)"
        by (auto simp: create_token_call_def postgresStore_def postgres_CreateRepoToken_def
            split: option.splits sum.splits prod.splits dest!: createRepoTokenWithQueryer_effect)
      from ins obtain row where "db' = (pg_db st1)\<lparr>pg_idempotency := pg_idempotency (pg_db st1) @ [row]\<rparr>"
        "idempotency_row input row" "im_request_hash row = ii_RequestHash input"
        by (auto simp: insertIdempotencyRecord_def idempotency_row_def split: if_splits option.splits)
      with res tok db show ?thesis by (auto simp: token_effect_def)
    qed simp
  qed simp
qed

end
