(* ===== verification/Postgres_Refinement.thy ===== *)
theory Postgres_Refinement
  imports Postgres
begin

text \<open>
  The PostgreSQL store refines the in-memory store: the tables stand for the maps of
  \<open>memoryRepoStore\<close> (\<open>memory_of\<close>), and as long as the database answers, each operation on the tables
  returns what the operation on the maps returns and leaves tables that stand for its state.  The
  invariant \<open>pg_ok\<close> holds what the schema enforces and what the operations keep.
\<close>

section \<open>Association lists from rows\<close>

lemma map_of_rows: "map_of (map (\<lambda>r. (f r, g r)) xs) k = map_option g (find (\<lambda>r. f r = k) xs)"
  by (induction xs) auto

lemma find_None_iff_keys: "find (\<lambda>r. f r = k) xs = None \<longleftrightarrow> k \<notin> f ` set xs"
  by (induction xs) auto

lemma update_rows_new:
  "k \<notin> f ` set xs \<Longrightarrow> AList.update k v (map (\<lambda>r. (f r, g r)) xs) = map (\<lambda>r. (f r, g r)) xs @ [(k, v)]"
  by (induction xs) auto

lemma update_rows_present:
  assumes "distinct (map f xs)" "find (\<lambda>r. f r = k) xs = Some x" "g' x = v"
    and "\<And>r. r \<in> set xs \<Longrightarrow> f r \<noteq> k \<Longrightarrow> g' r = g r"
  shows "AList.update k v (map (\<lambda>r. (f r, g r)) xs) = map (\<lambda>r. (f r, g' r)) xs"
  using assms
proof (induction xs)
  case (Cons a xs)
  show ?case
  proof (cases "f a = k")
    case True
    with Cons.prems have k: "k \<notin> f ` set xs" "a = x" by auto
    then have "g' r = g r" if "r \<in> set xs" for r using that Cons.prems(4) [of r] by auto
    with k True Cons.prems(3) show ?thesis by simp
  next
    case False
    with Cons show ?thesis by auto
  qed
qed simp

lemma find_map_rows:
  assumes "\<And>r. f (h r) = f r"
  shows "find (\<lambda>r. f r = k) (map h xs) = map_option h (find (\<lambda>r. f r = k) xs)"
  by (induction xs) (auto simp: assms)

lemma find_distinct: "distinct (map f xs) \<Longrightarrow> x \<in> set xs \<Longrightarrow> find (\<lambda>r. f r = f x) xs = Some x"
  by (induction xs) (auto simp: image_iff)

lemma find_key_and:
  "distinct (map f xs) \<Longrightarrow> find (\<lambda>r. f r = k \<and> q r) xs =
     (case find (\<lambda>r. f r = k) xs of None \<Rightarrow> None | Some r \<Rightarrow> if q r then Some r else None)"
proof (induction xs)
  case (Cons a xs)
  then show ?case
  proof (cases "f a = k")
    case True
    with Cons.prems have "find (\<lambda>r. f r = k) xs = None" "find (\<lambda>r. f r = k \<and> q r) xs = None"
      by (auto simp: find_None_iff image_iff)
    with True show ?thesis by simp
  qed simp
qed simp

lemma find_Some_prop: "find p xs = Some x \<Longrightarrow> p x \<and> x \<in> set xs"
  by (induction xs) (auto split: if_splits)

section \<open>Tables as maps\<close>

definition token_of :: "pgTables \<Rightarrow> tokenRow \<Rightarrow> repoTokenRecord" where
  "token_of db t = (case joined_token db t of Some x \<Rightarrow> x | None \<Rightarrow> zero_token)"

definition memory_of :: "pgTables \<Rightarrow> memoryRepoStore" where
  "memory_of db =
     \<lparr>repos = map (\<lambda>r. (rr_id r, scanRepo r)) (pg_repos db),
      byName = map (\<lambda>r. (rr_namespace r @ ''/'' @ rr_name r, rr_id r)) (pg_repos db),
      tokens = map (\<lambda>t. (tr_id t, token_of db t)) (pg_tokens db),
      tokenIDsByHash = map (\<lambda>t. (tr_token_hash t, tr_id t)) (pg_tokens db)\<rparr>"

definition repo_row_ok :: "repoRow \<Rightarrow> bool" where
  "repo_row_ok r \<longleftrightarrow> CHR ''/'' \<notin> set (rr_namespace r) \<and> rr_archived_at r \<noteq> Some 0"

definition token_row_ok :: "pgTables \<Rightarrow> tokenRow \<Rightarrow> bool" where
  "token_row_ok db t \<longleftrightarrow> repo_row (tr_repo_id t) db \<noteq> None \<and> tr_revoked_at t \<noteq> Some 0"

definition pg_ok :: "pgTables \<Rightarrow> bool" where
  "pg_ok db \<longleftrightarrow> distinct (map rr_id (pg_repos db)) \<and> distinct (map tr_id (pg_tokens db)) \<and>
     distinct (map tr_token_hash (pg_tokens db)) \<and> list_all repo_row_ok (pg_repos db) \<and>
     list_all (token_row_ok db) (pg_tokens db)"

text \<open>The database answers, its clock and its random source are those of the call.\<close>

definition pg_faithful :: "postgres \<Rightarrow> callEnv \<Rightarrow> bool" where
  "pg_faithful pg env \<longleftrightarrow> pc_fault (pg_call pg env) = (\<lambda>q n. None) \<and> pc_commit (pg_call pg env) = None \<and>
     pc_now (pg_call pg env) = (\<lambda>n. env_now env) \<and> pc_uuid (pg_call pg env) = (\<lambda>n. env_uuid env) \<and>
     pg_time pg (env_now env) = env_now env \<and> env_now env \<noteq> 0"

definition abs_pg :: "'r \<times> pgState \<times> 'w \<Rightarrow> 'r \<times> memoryRepoStore \<times> 'w" where
  "abs_pg = (\<lambda>(r, st, w). (r, memory_of (pg_db st), w))"

lemma abs_pg_simps [simp]: "abs_pg (r, st, w) = (r, memory_of (pg_db st), w)"
  by (simp add: abs_pg_def)

lemma memory_of_lookups [simp]:
  "map_of (repos (memory_of db)) k = map_option scanRepo (repo_row k db)"
  "map_of (tokens (memory_of db)) k = map_option (token_of db) (find (\<lambda>t. tr_id t = k) (pg_tokens db))"
  "map_of (tokenIDsByHash (memory_of db)) h = map_option tr_id (find (\<lambda>t. tr_token_hash t = h) (pg_tokens db))"
  by (simp_all add: memory_of_def map_of_rows repo_row_def)

lemma name_key_slash:
  assumes "CHR ''/'' \<notin> set n" "CHR ''/'' \<notin> set n'"
  shows "n @ ''/'' @ m = n' @ ''/'' @ m' \<longleftrightarrow> n = n' \<and> m = m'"
proof
  assume "n @ ''/'' @ m = n' @ ''/'' @ m'"
  then have "strings_Cut (n @ CHR ''/'' # m) ''/'' = strings_Cut (n' @ CHR ''/'' # m') ''/''" by simp
  then show "n = n' \<and> m = m'" unfolding Cut_char [OF assms(1)] Cut_char [OF assms(2)] by simp
qed simp

lemma memory_of_name:
  assumes "pg_ok db" "CHR ''/'' \<notin> set ns"
  shows "map_of (byName (memory_of db)) (ns @ ''/'' @ name) =
    map_option rr_id (find (\<lambda>r. rr_namespace r = ns \<and> rr_name r = name) (pg_repos db))"
proof -
  have "CHR ''/'' \<notin> set (rr_namespace r)" if "r \<in> set (pg_repos db)" for r
    using assms(1) that by (auto simp: pg_ok_def list_all_iff repo_row_ok_def)
  then have "find (\<lambda>r. rr_namespace r @ ''/'' @ rr_name r = ns @ ''/'' @ name) (pg_repos db) =
      find (\<lambda>r. rr_namespace r = ns \<and> rr_name r = name) (pg_repos db)"
    using name_key_slash [OF _ assms(2)] by (intro find_cong) auto
  then show ?thesis by (simp add: memory_of_def map_of_rows)
qed

lemma scanRepo_ID [simp]: "repo_ID (scanRepo r) = rr_id r"
  by (simp add: scanRepo_def)

lemma repo_row_ID: "repo_row k db = Some r \<Longrightarrow> rr_id r = k \<and> r \<in> set (pg_repos db)"
  unfolding repo_row_def by (auto dest: find_Some_prop)

lemma row_of_repo:
  assumes "pg_ok db" "r \<in> set (pg_repos db)"
  shows "repo_row (rr_id r) db = Some r"
  using assms find_distinct [of rr_id "pg_repos db" r] by (simp add: pg_ok_def repo_row_def)

lemma token_of_fields [simp]:
  assumes "pg_ok db" "t \<in> set (pg_tokens db)"
  shows "joined_token db t = Some (token_of db t)" "tok_ID (token_of db t) = tr_id t"
    "tok_RepoID (token_of db t) = tr_repo_id t" "tok_Token (token_of db t) = []"
    "tok_TokenHash (token_of db t) = tr_token_hash t" "tok_Scope (token_of db t) = tr_scope t"
    "tok_Subject (token_of db t) = tr_subject t" "tok_ExpiresAt (token_of db t) = tr_expires_at t"
    "tok_RevokedAt (token_of db t) = timeFromPostgres (tr_revoked_at t)"
proof -
  obtain r where "repo_row (tr_repo_id t) db = Some r"
    using assms by (auto simp: pg_ok_def list_all_iff token_row_ok_def)
  then show "joined_token db t = Some (token_of db t)" "tok_ID (token_of db t) = tr_id t"
    "tok_RepoID (token_of db t) = tr_repo_id t" "tok_Token (token_of db t) = []"
    "tok_TokenHash (token_of db t) = tr_token_hash t" "tok_Scope (token_of db t) = tr_scope t"
    "tok_Subject (token_of db t) = tr_subject t" "tok_ExpiresAt (token_of db t) = tr_expires_at t"
    "tok_RevokedAt (token_of db t) = timeFromPostgres (tr_revoked_at t)"
    by (simp_all add: token_of_def joined_token_def scanRepoToken_def zero_token_def)
qed

section \<open>Updates of rows\<close>

text \<open>An \<open>UPDATE\<close> that keeps the keys of the rows of \<open>repos\<close> and the names.\<close>

definition keeps_repo :: "(repoRow \<Rightarrow> repoRow) \<Rightarrow> bool" where
  "keeps_repo h \<longleftrightarrow> (\<forall>r. rr_id (h r) = rr_id r \<and> rr_namespace (h r) = rr_namespace r \<and> rr_name (h r) = rr_name r)"

lemma update_repos:
  assumes "keeps_repo h"
  shows "repo_row k (db\<lparr>pg_repos := map h (pg_repos db)\<rparr>) = map_option h (repo_row k db)"
    and "token_of (db\<lparr>pg_repos := map h (pg_repos db)\<rparr>) t = token_of db t"
    and "memory_of (db\<lparr>pg_repos := map h (pg_repos db)\<rparr>) =
      (memory_of db)\<lparr>repos := map (\<lambda>r. (rr_id r, scanRepo (h r))) (pg_repos db)\<rparr>"
proof -
  show row: "repo_row k (db\<lparr>pg_repos := map h (pg_repos db)\<rparr>) = map_option h (repo_row k db)" for k
    using assms by (simp add: repo_row_def find_map_rows keeps_repo_def)
  show tok: "token_of (db\<lparr>pg_repos := map h (pg_repos db)\<rparr>) t = token_of db t" for t
    using assms by (simp add: token_of_def joined_token_def row keeps_repo_def option.map_comp o_def)
  show "memory_of (db\<lparr>pg_repos := map h (pg_repos db)\<rparr>) =
      (memory_of db)\<lparr>repos := map (\<lambda>r. (rr_id r, scanRepo (h r))) (pg_repos db)\<rparr>"
    using assms tok by (simp add: memory_of_def keeps_repo_def o_def)
qed

lemma update_repos_ok:
  assumes "pg_ok db" "keeps_repo h" "\<And>r. repo_row_ok r \<Longrightarrow> repo_row_ok (h r)"
  shows "pg_ok (db\<lparr>pg_repos := map h (pg_repos db)\<rparr>)"
proof -
  have "map rr_id (map h (pg_repos db)) = map rr_id (pg_repos db)" using assms(2) by (simp add: keeps_repo_def)
  with assms update_repos(1) [OF assms(2)] show ?thesis
    by (auto simp: pg_ok_def list_all_iff token_row_ok_def simp del: map_map)
qed

text \<open>An \<open>UPDATE\<close> that keeps the keys of the rows of \<open>repo_tokens\<close>.\<close>

definition keeps_token :: "(tokenRow \<Rightarrow> tokenRow) \<Rightarrow> bool" where
  "keeps_token h \<longleftrightarrow>
     (\<forall>t. tr_id (h t) = tr_id t \<and> tr_repo_id (h t) = tr_repo_id t \<and> tr_token_hash (h t) = tr_token_hash t)"

lemma tokens_only [simp]:
  "repo_row k (db\<lparr>pg_tokens := ts\<rparr>) = repo_row k db" "token_of (db\<lparr>pg_tokens := ts\<rparr>) t = token_of db t"
  "joined_token (db\<lparr>pg_tokens := ts\<rparr>) t = joined_token db t"
  by (simp_all add: repo_row_def token_of_def joined_token_def)

lemma update_tokens:
  assumes "keeps_token h"
  shows "memory_of (db\<lparr>pg_tokens := map h (pg_tokens db)\<rparr>) =
      (memory_of db)\<lparr>tokens := map (\<lambda>t. (tr_id t, token_of db (h t))) (pg_tokens db)\<rparr>"
  using assms by (simp add: memory_of_def keeps_token_def o_def)

lemma update_tokens_ok:
  assumes "pg_ok db" "keeps_token h" "\<And>t. token_row_ok db t \<Longrightarrow> token_row_ok db (h t)"
  shows "pg_ok (db\<lparr>pg_tokens := map h (pg_tokens db)\<rparr>)"
proof -
  have "map tr_id (map h (pg_tokens db)) = map tr_id (pg_tokens db)"
    "map tr_token_hash (map h (pg_tokens db)) = map tr_token_hash (pg_tokens db)"
    using assms(2) by (simp_all add: keeps_token_def)
  moreover have "token_row_ok (db\<lparr>pg_tokens := ts\<rparr>) = token_row_ok db" for ts
    by (simp add: token_row_ok_def fun_eq_iff)
  ultimately show ?thesis
    using assms by (auto simp: pg_ok_def list_all_iff simp del: map_map)
qed

text \<open>Such an \<open>UPDATE\<close> of the one row with a given identifier is the update of that key of the map.\<close>

lemma update_one_token:
  assumes "pg_ok db" "keeps_token h" "t \<in> set (pg_tokens db)" "tr_id t = k" "token_of db (h t) = v"
    and "\<And>t'. t' \<in> set (pg_tokens db) \<Longrightarrow> tr_id t' \<noteq> k \<Longrightarrow> h t' = t'"
  shows "memory_of (db\<lparr>pg_tokens := map h (pg_tokens db)\<rparr>) =
    (memory_of db)\<lparr>tokens := AList.update k v (tokens (memory_of db))\<rparr>"
proof -
  have "distinct (map tr_id (pg_tokens db))" using assms(1) by (simp add: pg_ok_def)
  moreover from this find_distinct [OF this assms(3)] assms(4)
  have "find (\<lambda>t. tr_id t = k) (pg_tokens db) = Some t" by simp
  ultimately have "AList.update k v (map (\<lambda>t. (tr_id t, token_of db t)) (pg_tokens db)) =
      map (\<lambda>t. (tr_id t, token_of db (h t))) (pg_tokens db)"
    by (rule update_rows_present) (use assms(5,6) in auto)
  with update_tokens [OF assms(2), of db] show ?thesis by (simp add: memory_of_def)
qed

section \<open>Each operation\<close>

lemma getRepo_faithful:
  "pg_faithful pg env \<Longrightarrow> getRepoWithQueryer (pg_call pg env) False k st =
     (case repo_row k (pg_db st) of None \<Rightarrow> (Inl errRepoNotFound, st) | Some row \<Rightarrow> (Inr (scanRepo row), st))"
  by (simp add: getRepoWithQueryer_def pg_faithful_def)

lemma pg_GetRepo:
  assumes "pg_faithful pg env" "pg_ok (pg_db st)" "postgres_GetRepo pg env k (st, w) = (r, st', w')"
  shows "memory_GetRepo env k (memory_of (pg_db st), w) = (r, memory_of (pg_db st'), w')"
    and "pg_ok (pg_db st')" "pg_tx st' = pg_tx st"
  using assms by (auto simp: postgres_GetRepo_def getRepo_faithful memory_GetRepo_def split: option.splits)

definition slash_free :: "createRepoInput \<Rightarrow> bool" where
  "slash_free input \<longleftrightarrow> CHR ''/'' \<notin> set (cr_Namespace input)"

lemma insert_repo_row:
  assumes "pg_ok db" "repo_row v db = None" "CHR ''/'' \<notin> set (rr_namespace row)" "rr_id row = v"
    "rr_archived_at row = None"
    and "find (\<lambda>r. rr_namespace r = rr_namespace row \<and> rr_name r = rr_name row) (pg_repos db) = None"
  shows "memory_of (db\<lparr>pg_repos := pg_repos db @ [row]\<rparr>) =
      (memory_of db)\<lparr>repos := AList.update v (scanRepo row) (repos (memory_of db)),
        byName := AList.update (rr_namespace row @ ''/'' @ rr_name row) v (byName (memory_of db))\<rparr>"
    and "pg_ok (db\<lparr>pg_repos := pg_repos db @ [row]\<rparr>)"
proof -
  let ?db = "db\<lparr>pg_repos := pg_repos db @ [row]\<rparr>"
  have new: "v \<notin> rr_id ` set (pg_repos db)" using assms(2) by (simp add: repo_row_def find_None_iff_keys)
  have row: "repo_row k ?db = Some r" if "repo_row k db = Some r" for k r
    using that by (simp add: repo_row_def find_append)
  have "\<exists>r. repo_row (tr_repo_id t) db = Some r" if "t \<in> set (pg_tokens db)" for t
    using assms(1) that by (auto simp: pg_ok_def list_all_iff token_row_ok_def)
  with row have tok: "token_of ?db t = token_of db t" if "t \<in> set (pg_tokens db)" for t
    using that by (force simp: token_of_def joined_token_def)
  have "map_of (byName (memory_of db)) (rr_namespace row @ ''/'' @ rr_name row) = None"
    using memory_of_name [OF assms(1,3)] assms(6) by simp
  then have nm: "rr_namespace row @ ''/'' @ rr_name row \<notin> (\<lambda>r. rr_namespace r @ ''/'' @ rr_name r) ` set (pg_repos db)"
    by (simp add: memory_of_def map_of_rows find_None_iff_keys)
  show "memory_of ?db = (memory_of db)\<lparr>repos := AList.update v (scanRepo row) (repos (memory_of db)),
        byName := AList.update (rr_namespace row @ ''/'' @ rr_name row) v (byName (memory_of db))\<rparr>"
    using update_rows_new [OF new, of "scanRepo row" scanRepo] update_rows_new [OF nm, of v rr_id] tok assms(4)
    by (simp add: memory_of_def)
  show "pg_ok ?db"
    using assms(1,3,4,5) new row by (auto simp: pg_ok_def list_all_iff token_row_ok_def repo_row_ok_def)
qed

lemma pg_CreateRepo:
  assumes "pg_faithful pg env" "pg_ok (pg_db st)" "slash_free input" "fresh_uuid env (memory_of (pg_db st))"
    and "postgres_CreateRepo pg gs env input (st, w) = (r, st', w')"
  shows "memory_CreateRepo gs env input (memory_of (pg_db st), w) = (r, memory_of (pg_db st'), w') \<and>
    pg_ok (pg_db st') \<and> pg_tx st' = pg_tx st"
proof -
  let ?db = "pg_db st" and ?ns = "cr_Namespace input" and ?nm = "cr_Name input"
  have ns: "CHR ''/'' \<notin> set ?ns" using assms(3) by (simp add: slash_free_def)
  note name = memory_of_name [OF assms(2) ns, of ?nm]
  note fa = assms(1) [unfolded pg_faithful_def]
  show ?thesis
  proof (cases "find (\<lambda>r. rr_namespace r = ?ns \<and> rr_name r = ?nm) (pg_repos ?db)")
    case (Some row)
    then have "row \<in> set (pg_repos ?db)" using find_Some_prop by fast
    with row_of_repo [OF assms(2)] have "repo_row (rr_id row) ?db = Some row" by blast
    with Some name fa assms(2,5) show ?thesis
      by (auto simp: postgres_CreateRepo_def selectRepoByName_def memory_CreateRepo_def Let_def)
  next
    case None
    show ?thesis
    proof (cases "newUUID (env_uuid env)")
      case (Inl e)
      with None name fa assms(2,5) show ?thesis
        by (auto simp: postgres_CreateRepo_def selectRepoByName_def memory_CreateRepo_def Let_def)
    next
      case (Inr v)
      let ?row = "\<lparr>rr_id = v, rr_namespace = ?ns, rr_name = ?nm, rr_default_branch = cr_DefaultBranch input,
        rr_archived_at = None, rr_created_at = env_now env\<rparr>"
      have free: "repo_row v ?db = None" using assms(4) Inr by (simp add: fresh_uuid_def)
      have ins: "insertRepo pg (pg_call pg env) \<lparr>repo_ID = v, repo_Namespace = ?ns, repo_Name = ?nm,
          repo_DefaultBranch = cr_DefaultBranch input, repo_ArchivedAt = 0\<rparr> (env_now env) ?db =
          Inr (?db\<lparr>pg_repos := pg_repos ?db @ [?row]\<rparr>)"
        using fa free None by (auto simp: insertRepo_def repo_row_def find_None_iff list_ex_iff)
      from insert_repo_row [OF assms(2) free, of ?row] None ns
      have step: "memory_of (?db\<lparr>pg_repos := pg_repos ?db @ [?row]\<rparr>) = (memory_of ?db)
          \<lparr>repos := AList.update v (scanRepo ?row) (repos (memory_of ?db)),
           byName := AList.update (?ns @ ''/'' @ ?nm) v (byName (memory_of ?db))\<rparr>"
        "pg_ok (?db\<lparr>pg_repos := pg_repos ?db @ [?row]\<rparr>)" by simp_all
      obtain e w1 where init: "InitBareRepo gs (env_ctx env) v (cr_DefaultBranch input) w = (e, w1)" by fastforce
      show ?thesis
        using None Inr name fa assms(2,5) ins step init
        by (cases e) (auto simp: postgres_CreateRepo_def selectRepoByName_def memory_CreateRepo_def Let_def
            scanRepo_def timeFromPostgres_def)
    qed
  qed
qed

lemma pg_ArchiveRepo:
  assumes "pg_faithful pg env" "pg_ok (pg_db st)" "postgres_ArchiveRepo pg env k (st, w) = (r, st', w')"
  shows "memory_ArchiveRepo env k (memory_of (pg_db st), w) = (r, memory_of (pg_db st'), w') \<and>
    pg_ok (pg_db st') \<and> pg_tx st' = pg_tx st"
proof -
  let ?db = "pg_db st"
  let ?h = "archive_row (env_now env) k"
  let ?db' = "?db\<lparr>pg_repos := map ?h (pg_repos ?db)\<rparr>"
  note fa = assms(1) [unfolded pg_faithful_def]
  have keep: "keeps_repo ?h" by (simp add: keeps_repo_def archive_row_def)
  have ok': "pg_ok ?db'"
    by (rule update_repos_ok [OF assms(2) keep]) (use fa in \<open>auto simp: repo_row_ok_def archive_row_def split: option.splits\<close>)
  have run: "(r, st', w') = (case repo_row k ?db of None \<Rightarrow> (Inl errRepoNotFound, st, w)
      | Some row \<Rightarrow> (Inr (scanRepo (?h row)), st\<lparr>pg_db := ?db'\<rparr>, w))"
    using assms(3) fa update_repos(1) [OF keep, of k ?db]
    by (cases "repo_row k ?db") (simp_all add: postgres_ArchiveRepo_def Let_def)
  show ?thesis
  proof (cases "repo_row k ?db")
    case None
    with run assms(2) show ?thesis by (simp add: memory_ArchiveRepo_def)
  next
    case (Some row)
    then have id: "rr_id row = k" "row \<in> set (pg_repos ?db)" using repo_row_ID by auto
    have dist: "distinct (map rr_id (pg_repos ?db))" using assms(2) by (simp add: pg_ok_def)
    have upd: "map (\<lambda>r. (rr_id r, scanRepo (?h r))) (pg_repos ?db) =
        AList.update k (scanRepo (?h row)) (repos (memory_of ?db))"
      unfolding memory_of_def
      using update_rows_present [OF dist, of k row "scanRepo \<circ> ?h" "scanRepo (?h row)" scanRepo] Some
      by (simp add: repo_row_def archive_row_def)
    have same: "AList.update k (scanRepo row) (repos (memory_of ?db)) = repos (memory_of ?db)"
      unfolding memory_of_def
      using update_rows_present [OF dist, of k row scanRepo "scanRepo row" scanRepo] Some
      by (simp add: repo_row_def)
    have mem: "memory_of ?db' = (memory_of ?db)\<lparr>repos := AList.update k (scanRepo (?h row)) (repos (memory_of ?db))\<rparr>"
      using update_repos(3) [OF keep, of ?db] upd by simp
    have "rr_archived_at row \<noteq> Some 0"
      using assms(2) id(2) by (auto simp: pg_ok_def list_all_iff repo_row_ok_def)
    then have "(?h row = row \<and> repo_ArchivedAt (scanRepo row) \<noteq> 0) \<or>
        (scanRepo (?h row) = (scanRepo row)\<lparr>repo_ArchivedAt := env_now env\<rparr> \<and> repo_ArchivedAt (scanRepo row) = 0)"
      using id by (cases "rr_archived_at row") (auto simp: archive_row_def scanRepo_def timeFromPostgres_def)
    then show ?thesis
      using run Some mem same id ok' by (auto simp: memory_ArchiveRepo_def time_IsZero_def Let_def)
  qed
qed

lemma pg_ListRepoTokens:
  assumes "pg_faithful pg env" "pg_ok (pg_db st)" "postgres_ListRepoTokens pg env k (st, w) = (r, st', w')"
  shows "memory_ListRepoTokens env k (memory_of (pg_db st), w) = (r, memory_of (pg_db st'), w') \<and>
    pg_ok (pg_db st') \<and> pg_tx st' = pg_tx st"
proof -
  let ?db = "pg_db st"
  have "List.map_filter (joined_token ?db) (filter (\<lambda>t. tr_repo_id t = k) ts) =
      map (\<lambda>token. token\<lparr>tok_Token := []\<rparr>) (filter (\<lambda>token. tok_RepoID token = k) (map (token_of ?db) ts))"
    if "set ts \<subseteq> set (pg_tokens ?db)" for ts
    using that
  proof (induction ts)
    case (Cons t ts)
    then have "t \<in> set (pg_tokens ?db)" by simp
    note fields = token_of_fields [OF assms(2) this]
    have "(token_of ?db t)\<lparr>tok_Token := []\<rparr> = token_of ?db t" using fields(4) by simp
    with Cons fields(1,3) show ?case by (simp add: map_filter_simps)
  qed (simp add: map_filter_simps)
  from this [OF subset_refl]
  show ?thesis
    using assms
    by (auto simp: postgres_ListRepoTokens_def getRepo_faithful memory_ListRepoTokens_def sortRepoTokenRecords_def
        memory_of_def o_def pg_faithful_def map_of_rows repo_row_def Let_def split: option.splits)
qed

lemma pg_token_lookup:
  assumes "pg_ok db" "find (\<lambda>t. tr_token_hash t = h) (pg_tokens db) = Some t"
  shows "t \<in> set (pg_tokens db)" "find (\<lambda>t'. tr_id t' = tr_id t) (pg_tokens db) = Some t"
proof -
  show t: "t \<in> set (pg_tokens db)" using find_Some_prop [OF assms(2)] by simp
  have "distinct (map tr_id (pg_tokens db))" using assms(1) by (simp add: pg_ok_def)
  from find_distinct [OF this t] show "find (\<lambda>t'. tr_id t' = tr_id t) (pg_tokens db) = Some t" .
qed

lemma pg_RevokeRepoToken:
  assumes "pg_faithful pg env" "pg_ok (pg_db st)" "postgres_RevokeRepoToken pg env input (st, w) = (r, st', w')"
  shows "memory_RevokeRepoToken env input (memory_of (pg_db st), w) = (r, memory_of (pg_db st'), w') \<and>
    pg_ok (pg_db st') \<and> pg_tx st' = pg_tx st"
proof -
  let ?db = "pg_db st" and ?k = "rv_TokenID input"
  let ?h = "revoke_row (env_now env) input"
  let ?db' = "?db\<lparr>pg_tokens := map ?h (pg_tokens ?db)\<rparr>"
  note fa = assms(1) [unfolded pg_faithful_def]
  have keep: "keeps_token ?h" by (simp add: keeps_token_def revoke_row_def)
  have ok': "pg_ok ?db'"
    by (rule update_tokens_ok [OF assms(2) keep])
      (use fa in \<open>auto simp: token_row_ok_def revoke_row_def split: option.splits\<close>)
  have dist: "distinct (map tr_id (pg_tokens ?db))" using assms(2) by (simp add: pg_ok_def)
  have hits: "find (revoke_hits input) (pg_tokens ?db) =
      (case find (\<lambda>t. tr_id t = ?k) (pg_tokens ?db) of None \<Rightarrow> None
       | Some t \<Rightarrow> if tr_repo_id t = rv_RepoID input then Some t else None)"
    using find_key_and [OF dist, of ?k "\<lambda>t. tr_repo_id t = rv_RepoID input"] by (simp add: revoke_hits_def [abs_def])
  have "revoke_hits input (?h t) = revoke_hits input t" for t by (simp add: revoke_row_def revoke_hits_def)
  then have found: "find (revoke_hits input) (map ?h (pg_tokens ?db)) =
      map_option ?h (find (revoke_hits input) (pg_tokens ?db))"
    using find_map_rows [of "revoke_hits input" ?h True] by (simp add: o_def)
  show ?thesis
  proof (cases "repo_row (rv_RepoID input) ?db = None \<or> find (revoke_hits input) (pg_tokens ?db) = None")
    case True
    with assms fa found hits show ?thesis
      by (auto simp: postgres_RevokeRepoToken_def getRepo_faithful [OF assms(1)] memory_RevokeRepoToken_def Let_def
          split: option.splits if_splits dest: find_Some_prop)
  next
    case False
    then obtain row t where row: "repo_row (rv_RepoID input) ?db = Some row"
      and t: "find (revoke_hits input) (pg_tokens ?db) = Some t" by auto
    then have ft: "find (\<lambda>t. tr_id t = ?k) (pg_tokens ?db) = Some t" "tr_repo_id t = rv_RepoID input"
      using hits by (auto split: option.splits if_splits)
    then have tin: "t \<in> set (pg_tokens ?db)" "tr_id t = ?k" using find_Some_prop by fast+
    note fields = token_of_fields [OF assms(2) tin(1)]
    have joined: "joined_token ?db (?h t) = Some (token_of ?db (?h t))"
      using row ft(2) by (simp add: joined_token_def token_of_def revoke_row_def)
    have mem: "memory_of ?db' = (memory_of ?db)\<lparr>tokens := AList.update ?k (token_of ?db (?h t)) (tokens (memory_of ?db))\<rparr>"
      by (rule update_one_token [OF assms(2) keep tin refl]) (simp add: revoke_row_def revoke_hits_def)
    have same: "AList.update ?k (token_of ?db t) (tokens (memory_of ?db)) = tokens (memory_of ?db)"
      unfolding memory_of_def
      using update_rows_present [OF dist ft(1), of "token_of ?db" "token_of ?db t" "token_of ?db"] by simp
    have "tr_revoked_at t \<noteq> Some 0" using assms(2) tin(1) by (auto simp: pg_ok_def list_all_iff token_row_ok_def)
    then have cases: "(?h t = t \<and> tok_RevokedAt (token_of ?db t) \<noteq> 0) \<or>
        (token_of ?db (?h t) = (token_of ?db t)\<lparr>tok_RevokedAt := env_now env\<rparr> \<and> tok_RevokedAt (token_of ?db t) = 0)"
      using row ft(2) tin(2)
      by (cases "tr_revoked_at t") (auto simp: revoke_row_def revoke_hits_def token_of_def joined_token_def
          scanRepoToken_def timeFromPostgres_def zero_token_def)
    have run: "r = Inr (token_of ?db (?h t))" "st' = st\<lparr>pg_db := ?db'\<rparr>" "w' = w"
      using assms(3) fa row t found joined
      by (auto simp: postgres_RevokeRepoToken_def getRepo_faithful [OF assms(1)] Let_def)
    with cases mem same row ft tin fields(2,3) ok' show ?thesis
      by (auto simp: memory_RevokeRepoToken_def time_IsZero_def Let_def)
  qed
qed

lemma pg_AuthorizeGitAccess:
  assumes "pg_faithful pg env" "pg_ok (pg_db st)"
    and "postgres_AuthorizeGitAccess pg sha gs env input (st, w) = (r, st', w')"
  shows "memory_AuthorizeGitAccess sha gs env input (memory_of (pg_db st), w) = (r, memory_of (pg_db st'), w') \<and>
    pg_ok (pg_db st') \<and> pg_tx st' = pg_tx st"
proof -
  let ?db = "pg_db st" and ?hash = "hashRepoToken sha (az_Token input)"
  note fa = assms(1) [unfolded pg_faithful_def]
  note defs = postgres_AuthorizeGitAccess_def getRepo_faithful [OF assms(1)] memory_AuthorizeGitAccess_def Let_def
  show ?thesis
  proof (cases "find (\<lambda>t. tr_token_hash t = ?hash) (pg_tokens ?db)")
    case None
    with assms(2,3) fa show ?thesis by (auto simp: defs split: option.splits if_splits)
  next
    case (Some t)
    note t = pg_token_lookup [OF assms(2) Some]
    note fields = token_of_fields [OF assms(2) t(1)]
    let ?h = "touch_row (env_now env) (tr_id t)"
    let ?db' = "?db\<lparr>pg_tokens := map ?h (pg_tokens ?db)\<rparr>"
    have keep: "keeps_token ?h" by (simp add: keeps_token_def touch_row_def)
    have ok': "pg_ok ?db'"
      by (rule update_tokens_ok [OF assms(2) keep]) (auto simp: token_row_ok_def touch_row_def)
    have "token_of ?db (?h t) = (token_of ?db t)\<lparr>tok_LastUsedAt := env_now env\<rparr>"
      using fields(1) by (auto simp: token_of_def joined_token_def touch_row_def scanRepoToken_def timeFromPostgres_def)
    then have mem: "memory_of ?db' = (memory_of ?db)
        \<lparr>tokens := AList.update (tr_id t) ((token_of ?db t)\<lparr>tok_LastUsedAt := env_now env\<rparr>) (tokens (memory_of ?db))\<rparr>"
      by (intro update_one_token [OF assms(2) keep t(1) refl]) (simp_all add: touch_row_def)
    from Some t(2) fields fa assms(2,3) mem ok' show ?thesis
      by (auto simp: defs split: option.splits if_splits sum.splits)
  qed
qed

text \<open>One round of the loop of \<open>CreateRepoToken\<close> on the pool, when the identifier it draws is new.\<close>

lemma insertToken_pool:
  assumes "pg_faithful pg env" "pg_tx st = None" "tok_ID rec \<notin> tr_id ` set (pg_tokens (pg_db st))"
    and "repo_row (tok_RepoID rec) (pg_db st) \<noteq> None"
  shows "insertToken pg (pg_call pg env) i rec st =
    (if map_of (tokenIDsByHash (memory_of (pg_db st))) (tok_TokenHash rec) \<noteq> None then (Some UniqueViolation, st)
     else (None, st\<lparr>pg_db := (pg_db st)\<lparr>pg_tokens := pg_tokens (pg_db st) @ [token_row pg rec]\<rparr>\<rparr>))"
proof -
  have "list_ex (\<lambda>t. tr_id t = tok_ID rec \<or> tr_token_hash t = tok_TokenHash rec) (pg_tokens (pg_db st)) \<longleftrightarrow>
      find (\<lambda>t. tr_token_hash t = tok_TokenHash rec) (pg_tokens (pg_db st)) \<noteq> None"
    using assms(3) by (auto simp: list_ex_iff find_None_iff image_iff)
  moreover have "abort_tx st = st" using assms(2) by (simp add: abort_tx_def)
  ultimately show ?thesis
    using assms(1,2,4) by (auto simp: insertToken_def pg_faithful_def Let_def)
qed

definition with_token :: "postgres \<Rightarrow> repoTokenRecord \<Rightarrow> pgState \<Rightarrow> pgState" where
  "with_token pg rec st = st\<lparr>pg_db := (pg_db st)\<lparr>pg_tokens := pg_tokens (pg_db st) @ [token_row pg rec]\<rparr>\<rparr>"

lemma token_record_fields:
  "tok_ID (token_record repo input now v t h) = v" "tok_RepoID (token_record repo input now v t h) = repo_ID repo"
  "tok_TokenHash (token_record repo input now v t h) = h"
  by (simp_all add: token_record_def zero_token_def)

text \<open>What the loop gives, in terms of the loop of the in-memory store.\<close>

definition loop_result ::
  "postgres \<Rightarrow> time \<Rightarrow> string \<Rightarrow> repoRecord \<Rightarrow> createRepoTokenInput \<Rightarrow> pgState \<Rightarrow> (string \<times> string) result \<Rightarrow>
     repoTokenRecord result \<times> pgState" where
  "loop_result pg now v repo input st res =
     (case res of
        Inl err \<Rightarrow> (Inl err, st)
      | Inr (t, h) \<Rightarrow>
          (let rec = token_record repo input now v t h in (Inr rec, with_token pg rec st)))"

lemma create_token_loop_unfold:
  assumes "pg_faithful pg env" "pg_tx st = None" "newUUID (env_uuid env) = Inr v"
    and "v \<notin> tr_id ` set (pg_tokens (pg_db st))" "repo_row (repo_ID repo) (pg_db st) \<noteq> None"
  shows "create_token_loop pg sha (pg_call pg env) draws repo input i st =
    (if draw_stops sha (tokenIDsByHash (memory_of (pg_db st))) (draws i)
     then Some (loop_result pg (env_now env) v repo input st (draw_result sha (draws i)))
     else create_token_loop pg sha (pg_call pg env) draws repo input (Suc i) st)"
proof (cases "generateRepoToken (draws i)")
  case (Inl e)
  then show ?thesis
    by (simp add: create_token_loop.simps [of pg sha _ draws] draw_stops_def draw_result_def loop_result_def)
next
  case (Inr t)
  let ?rec = "token_record repo input (env_now env) v t (hashRepoToken sha t)"
  have "tok_ID ?rec \<notin> tr_id ` set (pg_tokens (pg_db st))" "repo_row (tok_RepoID ?rec) (pg_db st) \<noteq> None"
    using assms(4,5) by (simp_all add: token_record_fields)
  note ins = insertToken_pool [OF assms(1,2) this, of i]
  have "pc_now (pg_call pg env) i = env_now env" "pc_uuid (pg_call pg env) i = env_uuid env"
    using assms(1) by (simp_all add: pg_faithful_def)
  with Inr assms(3) ins show ?thesis
    by (subst create_token_loop.simps)
      (simp add: draw_stops_def draw_result_def loop_result_def with_token_def isPostgresUniqueViolation_def
        token_record_fields Let_def)
qed

lemma draw_token_stops_from:
  assumes "draw_token sha known draws i = Some r"
  shows "\<exists>n \<ge> i. draw_stops sha known (draws n)"
proof (rule draw_token.raw_induct
    [where P = "\<lambda>sha known draws i r. \<exists>n \<ge> i. draw_stops sha known (draws n)", OF _ assms])
  fix f sha known draws i r
  assume IH: "\<And>sha known draws i r. f sha known draws i = Some r \<Longrightarrow> \<exists>n \<ge> i. draw_stops sha known (draws n)"
    and eq: "(case generateRepoToken (draws i) of
        Inl err \<Rightarrow> Some (Inl err)
      | Inr generated \<Rightarrow>
          let hash = hashRepoToken sha generated
          in if map_of known hash \<noteq> None then f sha known draws (Suc i) else Some (Inr (generated, hash))) = Some r"
  show "\<exists>n \<ge> i. draw_stops sha known (draws n)"
  proof (cases "draw_stops sha known (draws i)")
    case False
    with eq have "f sha known draws (Suc i) = Some r" by (auto simp: draw_stops_def split: sum.splits)
    from IH [OF this] show ?thesis by (meson Suc_leD)
  qed auto
qed

lemma loop_stops_from:
  assumes "pg_faithful pg env" "pg_tx st = None" "newUUID (env_uuid env) = Inr v"
    and "v \<notin> tr_id ` set (pg_tokens (pg_db st))" "repo_row (repo_ID repo) (pg_db st) \<noteq> None"
    and "create_token_loop pg sha (pg_call pg env) draws repo input i st = Some x"
  shows "\<exists>n \<ge> i. draw_stops sha (tokenIDsByHash (memory_of (pg_db st))) (draws n)"
proof -
  let ?known = "tokenIDsByHash (memory_of (pg_db st))"
  have "(pg, sha, pg_call pg env, draws, repo, input, st) = (pg, sha, pg_call pg env, draws, repo, input, st) \<longrightarrow>
      (\<exists>n \<ge> i. draw_stops sha ?known (draws n))"
  proof (rule create_token_loop.raw_induct [where
      P = "\<lambda>pg' sha' c' draws' repo' input' i st' x.
        (pg', sha', c', draws', repo', input', st') = (pg, sha, pg_call pg env, draws, repo, input, st) \<longrightarrow>
        (\<exists>n \<ge> i. draw_stops sha ?known (draws n))", OF _ assms(6)], rule impI)
    fix f and pg' :: postgres and sha' c' draws' repo' input' i st' x
    assume IH: "\<And>pg' sha' c' draws' repo' input' i st' x. f pg' sha' c' draws' repo' input' i st' = Some x \<Longrightarrow>
        (pg', sha', c', draws', repo', input', st') = (pg, sha, pg_call pg env, draws, repo, input, st) \<longrightarrow>
        (\<exists>n \<ge> i. draw_stops sha ?known (draws n))"
      and eq: "(case generateRepoToken (draws' i) of
        Inl err \<Rightarrow> Some (Inl err, st')
      | Inr generated \<Rightarrow>
          (let tokenHash = hashRepoToken sha' generated; now = pc_now c' i
           in case newUUID (pc_uuid c' i) of
                Inl err \<Rightarrow> Some (Inl err, st')
              | Inr tokenID \<Rightarrow>
                  (let record = token_record repo' input' now tokenID generated tokenHash;
                       (err, st'') = insertToken pg' c' i record st'
                   in case err of
                        None \<Rightarrow> Some (Inr record, st'')
                      | Some err \<Rightarrow>
                          (if isPostgresUniqueViolation err
                           then f pg' sha' c' draws' repo' input' (Suc i) st''
                           else Some (Inl (pg_error err), st''))))) = Some x"
      and same: "(pg', sha', c', draws', repo', input', st') = (pg, sha, pg_call pg env, draws, repo, input, st)"
    show "\<exists>n \<ge> i. draw_stops sha ?known (draws n)"
    proof (cases "draw_stops sha ?known (draws i)")
      case False
      then obtain t where t: "generateRepoToken (draws i) = Inr t" "map_of ?known (hashRepoToken sha t) \<noteq> None"
        by (auto simp: draw_stops_def split: sum.splits)
      let ?rec = "token_record repo input (env_now env) v t (hashRepoToken sha t)"
      have "tok_ID ?rec \<notin> tr_id ` set (pg_tokens (pg_db st))" "repo_row (tok_RepoID ?rec) (pg_db st) \<noteq> None"
        using assms(4,5) by (simp_all add: token_record_fields)
      with insertToken_pool [OF assms(1,2) this, of i] t(2)
      have "insertToken pg (pg_call pg env) i ?rec st = (Some UniqueViolation, st)"
        by (simp add: token_record_fields)
      moreover have "pc_now (pg_call pg env) i = env_now env" "pc_uuid (pg_call pg env) i = env_uuid env"
        using assms(1) by (simp_all add: pg_faithful_def)
      ultimately have "f pg sha (pg_call pg env) draws repo input (Suc i) st = Some x"
        using eq same t assms(3) by (simp add: isPostgresUniqueViolation_def)
      from IH [OF this] show ?thesis by (meson Suc_leD)
    qed auto
  qed
  then show ?thesis by simp
qed

lemma create_token_loop_draws:
  assumes "pg_faithful pg env" "pg_tx st = None" "newUUID (env_uuid env) = Inr v"
    and "v \<notin> tr_id ` set (pg_tokens (pg_db st))" "repo_row (repo_ID repo) (pg_db st) \<noteq> None"
  shows "create_token_loop pg sha (pg_call pg env) draws repo input i st =
    map_option (loop_result pg (env_now env) v repo input st)
      (draw_token sha (tokenIDsByHash (memory_of (pg_db st))) draws i)"
proof -
  let ?known = "tokenIDsByHash (memory_of (pg_db st))"
  let ?loop = "\<lambda>i. create_token_loop pg sha (pg_call pg env) draws repo input i st"
  note unfold = create_token_loop_unfold [OF assms, of sha draws input]
  show ?thesis
  proof (cases "\<exists>n \<ge> i. draw_stops sha ?known (draws n)")
    case True
    then obtain n where n: "i \<le> n" "draw_stops sha ?known (draws n)"
      "\<And>j. i \<le> j \<Longrightarrow> j < n \<Longrightarrow> \<not> draw_stops sha ?known (draws j)"
      using exists_least_iff [of "\<lambda>n. i \<le> n \<and> draw_stops sha ?known (draws n)"] by auto
    have "?loop j = Some (loop_result pg (env_now env) v repo input st (draw_result sha (draws n)))"
      if "i \<le> j" "j \<le> n" for j
      using that
    proof (induction "n - j" arbitrary: j)
      case 0
      with n(2) unfold [of n] show ?case by simp
    next
      case (Suc m)
      with n(3) [of j] unfold [of j] show ?case by simp
    qed
    with n(1) draw_token_skip [of i n sha ?known draws, OF n(3) n(1)] draw_token_here [of sha ?known draws n, OF n(2)]
    show ?thesis by simp
  next
    case False
    have "draw_token sha ?known draws i = None"
    proof (rule ccontr)
      assume "draw_token sha ?known draws i \<noteq> None"
      then obtain r where "draw_token sha ?known draws i = Some r" by auto
      with draw_token_stops_from [of sha ?known draws i r] False show False by blast
    qed
    moreover have "?loop i = None"
    proof (rule ccontr)
      assume "?loop i \<noteq> None"
      then obtain x where x: "?loop i = Some x" by auto
      have "\<exists>n \<ge> i. draw_stops sha ?known (draws n)"
        by (rule loop_stops_from [OF assms x])
      with False show False by blast
    qed
    ultimately show ?thesis by simp
  qed
qed

text \<open>The times of a token that is created at this call are stored as they are.\<close>

definition exact_expiry :: "postgres \<Rightarrow> callEnv \<Rightarrow> createRepoTokenInput \<Rightarrow> bool" where
  "exact_expiry pg env input \<longleftrightarrow>
     (let e = env_now env + int64 (ct_TTLSeconds input * second) in pg_time pg e = e)"

lemma insert_token_row:
  assumes "pg_faithful pg env" "exact_expiry pg env input" "pg_ok (pg_db st)"
    and "repo_row (ct_RepoID input) (pg_db st) = Some row"
    and "v \<notin> tr_id ` set (pg_tokens (pg_db st))" "map_of (tokenIDsByHash (memory_of (pg_db st))) h = None"
    and "rec = token_record (scanRepo row) input (env_now env) v t h"
  shows "memory_of (pg_db (with_token pg rec st)) = (memory_of (pg_db st))
      \<lparr>tokens := AList.update v (rec\<lparr>tok_Token := []\<rparr>) (tokens (memory_of (pg_db st))),
       tokenIDsByHash := AList.update h v (tokenIDsByHash (memory_of (pg_db st)))\<rparr>"
    and "pg_ok (pg_db (with_token pg rec st))" "pg_tx (with_token pg rec st) = pg_tx st"
proof -
  let ?db = "pg_db st"
  have id: "rr_id row = ct_RepoID input" using repo_row_ID [OF assms(4)] by simp
  have h: "h \<notin> tr_token_hash ` set (pg_tokens ?db)" using assms(6) by (simp add: find_None_iff_keys)
  have tr: "tr_id (token_row pg rec) = v" "tr_token_hash (token_row pg rec) = h"
    "tr_repo_id (token_row pg rec) = ct_RepoID input" "tr_revoked_at (token_row pg rec) = None"
    using assms(7) id by (simp_all add: token_row_def token_record_fields)
  have tok: "token_of ?db (token_row pg rec) = rec\<lparr>tok_Token := []\<rparr>"
    using assms(1,2,4,7) id tr(3)
    by (simp add: token_of_def joined_token_def token_row_def token_record_def scanRepoToken_def scanRepo_def
        zero_token_def timeFromPostgres_def exact_expiry_def pg_faithful_def Let_def)
  show "memory_of (pg_db (with_token pg rec st)) = (memory_of ?db)
      \<lparr>tokens := AList.update v (rec\<lparr>tok_Token := []\<rparr>) (tokens (memory_of ?db)),
       tokenIDsByHash := AList.update h v (tokenIDsByHash (memory_of ?db))\<rparr>"
    using update_rows_new [OF assms(5), of "rec\<lparr>tok_Token := []\<rparr>" "token_of ?db"] update_rows_new [OF h, of v tr_id]
      tok tr by (simp add: with_token_def memory_of_def)
  have "token_row_ok (?db\<lparr>pg_tokens := ts\<rparr>) = token_row_ok ?db" for ts
    by (simp add: token_row_ok_def fun_eq_iff)
  then show "pg_ok (pg_db (with_token pg rec st))"
    using assms(3,4,5) h tr by (auto simp: pg_ok_def with_token_def token_row_ok_def)
  show "pg_tx (with_token pg rec st) = pg_tx st" by (simp add: with_token_def)
qed

lemma pg_CreateRepoToken:
  assumes "pg_faithful pg env" "pg_ok (pg_db st)" "pg_tx st = None" "exact_expiry pg env input"
    and "newUUID (env_uuid env) = Inr v" "fresh_uuid env (memory_of (pg_db st))"
  shows "map_option abs_pg (postgres_CreateRepoToken pg sha env input (st, w)) =
      memory_CreateRepoToken sha env input (memory_of (pg_db st), w)"
    and "postgres_CreateRepoToken pg sha env input (st, w) = Some (r, st', w') \<Longrightarrow>
      pg_ok (pg_db st') \<and> pg_tx st' = None"
proof -
  let ?db = "pg_db st"
  have v: "v \<notin> tr_id ` set (pg_tokens ?db)"
    using assms(5,6) by (simp add: fresh_uuid_def find_None_iff_keys)
  have "map_option abs_pg (postgres_CreateRepoToken pg sha env input (st, w)) =
      memory_CreateRepoToken sha env input (memory_of ?db, w) \<and>
    (\<forall>r st' w'. postgres_CreateRepoToken pg sha env input (st, w) = Some (r, st', w') \<longrightarrow>
       pg_ok (pg_db st') \<and> pg_tx st' = None)"
  proof (cases "repo_row (ct_RepoID input) ?db")
    case None
    with assms(2,3) getRepo_faithful [OF assms(1), of "ct_RepoID input" st] show ?thesis
      by (auto simp: postgres_CreateRepoToken_def createRepoTokenWithQueryer_def memory_CreateRepoToken_def)
  next
    case (Some row)
    then have id: "rr_id row = ct_RepoID input" using repo_row_ID by blast
    let ?draw = "draw_token sha (tokenIDsByHash (memory_of ?db)) (env_tokens env) 0"
    have run: "postgres_CreateRepoToken pg sha env input (st, w) =
        map_option (\<lambda>(r, st'). (r, st', w))
          (map_option (loop_result pg (env_now env) v (scanRepo row) input st) ?draw)"
      using create_token_loop_draws [OF assms(1,3,5) v, of "scanRepo row" sha "env_tokens env" input 0]
        getRepo_faithful [OF assms(1), of "ct_RepoID input" st] Some id assms(3)
      by (simp add: postgres_CreateRepoToken_def createRepoTokenWithQueryer_def)
    show ?thesis
    proof (cases ?draw)
      case None
      with run Some show ?thesis by (simp add: memory_CreateRepoToken_def)
    next
      case draw: (Some res)
      show ?thesis
      proof (cases res)
        case (Inl e)
        with run draw Some assms(2,3) show ?thesis by (simp add: memory_CreateRepoToken_def loop_result_def)
      next
        case (Inr th)
        obtain t h where th: "th = (t, h)" by fastforce
        have "map_of (tokenIDsByHash (memory_of ?db)) h = None"
          using draw_token_fresh(1) draw Inr th by blast
        note ins = insert_token_row [OF assms(1,4,2) Some v this refl, of t]
        show ?thesis
          using run draw Inr th Some ins assms(3,5)
          by (simp add: memory_CreateRepoToken_def loop_result_def token_record_fields Let_def)
      qed
    qed
  qed
  then show "map_option abs_pg (postgres_CreateRepoToken pg sha env input (st, w)) =
      memory_CreateRepoToken sha env input (memory_of (pg_db st), w)"
    and "postgres_CreateRepoToken pg sha env input (st, w) = Some (r, st', w') \<Longrightarrow>
      pg_ok (pg_db st') \<and> pg_tx st' = None"
    by auto
qed

section \<open>Sequences of calls\<close>

text \<open>The calls of the interface \<open>repoStore\<close>, what they answer, and runs of them on any store.\<close>

datatype storeOp =
    OpCreateRepo createRepoInput | OpGetRepo string | OpArchiveRepo string
  | OpCreateRepoToken createRepoTokenInput | OpListRepoTokens string
  | OpRevokeRepoToken revokeRepoTokenInput | OpAuthorizeGitAccess authorizeGitAccessInput

datatype storeAnswer =
    AnsRepo "repoRecord result" | AnsToken "repoTokenRecord result"
  | AnsTokens "repoTokenRecord list result" | AnsGrant "gitAccessGrant result"

fun exec_op :: "'s repoStore \<Rightarrow> callEnv \<Rightarrow> storeOp \<Rightarrow> 's \<Rightarrow> (storeAnswer \<times> 's) option" where
  "exec_op store env (OpCreateRepo input) s = Some (map_prod AnsRepo id (CreateRepo store env input s))"
| "exec_op store env (OpGetRepo k) s = Some (map_prod AnsRepo id (GetRepo store env k s))"
| "exec_op store env (OpArchiveRepo k) s = Some (map_prod AnsRepo id (ArchiveRepo store env k s))"
| "exec_op store env (OpCreateRepoToken input) s =
     map_option (map_prod AnsToken id) (CreateRepoToken store env input s)"
| "exec_op store env (OpListRepoTokens k) s = Some (map_prod AnsTokens id (ListRepoTokens store env k s))"
| "exec_op store env (OpRevokeRepoToken input) s = Some (map_prod AnsToken id (RevokeRepoToken store env input s))"
| "exec_op store env (OpAuthorizeGitAccess input) s =
     Some (map_prod AnsGrant id (AuthorizeGitAccess store env input s))"

fun run_ops :: "'s repoStore \<Rightarrow> (callEnv \<times> storeOp) list \<Rightarrow> 's \<Rightarrow> (storeAnswer list \<times> 's) option" where
  "run_ops store [] s = Some ([], s)"
| "run_ops store ((env, op) # ops) s =
     (case exec_op store env op s of
        None \<Rightarrow> None
      | Some (a, s') \<Rightarrow> map_option (map_prod ((#) a) id) (run_ops store ops s'))"

text \<open>
  What a call has to meet: the database answers, a namespace has no slash (the handlers accept
  none), the random source gives an identifier that is not in use, and the times fit.
\<close>

fun op_ready :: "postgres \<Rightarrow> callEnv \<Rightarrow> storeOp \<Rightarrow> memoryRepoStore \<Rightarrow> bool" where
  "op_ready pg env (OpCreateRepo input) s \<longleftrightarrow> pg_faithful pg env \<and> slash_free input \<and> fresh_uuid env s"
| "op_ready pg env (OpCreateRepoToken input) s \<longleftrightarrow>
     pg_faithful pg env \<and> exact_expiry pg env input \<and> fresh_uuid env s \<and> (\<exists>v. newUUID (env_uuid env) = Inr v)"
| "op_ready pg env op s \<longleftrightarrow> pg_faithful pg env"

fun ops_ready ::
  "postgres \<Rightarrow> (string \<Rightarrow> byte list) \<Rightarrow> 'w repoGitStorage \<Rightarrow> (callEnv \<times> storeOp) list \<Rightarrow> memoryRepoStore \<times> 'w \<Rightarrow> bool" where
  "ops_ready pg sha gs [] s \<longleftrightarrow> True"
| "ops_ready pg sha gs ((env, op) # ops) s \<longleftrightarrow> op_ready pg env op (fst s) \<and>
     (case exec_op (memoryStore sha gs) env op s of None \<Rightarrow> True | Some (a, s') \<Rightarrow> ops_ready pg sha gs ops s')"

lemma exec_op_refines:
  assumes "pg_ok (pg_db st)" "pg_tx st = None" "op_ready pg env op (memory_of (pg_db st))"
  shows "map_option abs_pg (exec_op (postgresStore pg sha gs) env op (st, w)) =
      exec_op (memoryStore sha gs) env op (memory_of (pg_db st), w)"
    and "exec_op (postgresStore pg sha gs) env op (st, w) = Some (a, st', w') \<Longrightarrow> pg_ok (pg_db st') \<and> pg_tx st' = None"
proof -
  note sel = postgresStore_def memoryStore_def
  have "map_option abs_pg (exec_op (postgresStore pg sha gs) env op (st, w)) =
      exec_op (memoryStore sha gs) env op (memory_of (pg_db st), w) \<and>
    (\<forall>a st' w'. exec_op (postgresStore pg sha gs) env op (st, w) = Some (a, st', w') \<longrightarrow>
      pg_ok (pg_db st') \<and> pg_tx st' = None)"
  proof (cases op)
    case (OpCreateRepo input)
    obtain r st' w' where run: "postgres_CreateRepo pg gs env input (st, w) = (r, st', w')" by (metis prod_cases3)
    with pg_CreateRepo [OF _ assms(1) _ _ run] assms(2,3) OpCreateRepo show ?thesis by (simp add: sel)
  next
    case (OpGetRepo k)
    obtain r st' w' where run: "postgres_GetRepo pg env k (st, w) = (r, st', w')" by (metis prod_cases3)
    with pg_GetRepo [OF _ assms(1) run] assms(2,3) OpGetRepo show ?thesis by (simp add: sel)
  next
    case (OpArchiveRepo k)
    obtain r st' w' where run: "postgres_ArchiveRepo pg env k (st, w) = (r, st', w')" by (metis prod_cases3)
    with pg_ArchiveRepo [OF _ assms(1) run] assms(2,3) OpArchiveRepo show ?thesis by (simp add: sel)
  next
    case (OpCreateRepoToken input)
    then obtain v where ready: "pg_faithful pg env" "exact_expiry pg env input" "newUUID (env_uuid env) = Inr v"
      "fresh_uuid env (memory_of (pg_db st))" using assms(3) by auto
    note call = pg_CreateRepoToken [OF ready(1) assms(1,2) ready(2-4), of sha w]
    from call(1) [symmetric] call(2) OpCreateRepoToken show ?thesis
      by (cases "postgres_CreateRepoToken pg sha env input (st, w)") (auto simp: sel abs_pg_def split_def)
  next
    case (OpListRepoTokens k)
    obtain r st' w' where run: "postgres_ListRepoTokens pg env k (st, w) = (r, st', w')" by (metis prod_cases3)
    with pg_ListRepoTokens [OF _ assms(1) run] assms(2,3) OpListRepoTokens show ?thesis by (simp add: sel)
  next
    case (OpRevokeRepoToken input)
    obtain r st' w' where run: "postgres_RevokeRepoToken pg env input (st, w) = (r, st', w')" by (metis prod_cases3)
    with pg_RevokeRepoToken [OF _ assms(1) run] assms(2,3) OpRevokeRepoToken show ?thesis by (simp add: sel)
  next
    case (OpAuthorizeGitAccess input)
    obtain r st' w' where run: "postgres_AuthorizeGitAccess pg sha gs env input (st, w) = (r, st', w')"
      by (metis prod_cases3)
    with pg_AuthorizeGitAccess [OF _ assms(1) run] assms(2,3) OpAuthorizeGitAccess show ?thesis by (simp add: sel)
  qed
  then show "map_option abs_pg (exec_op (postgresStore pg sha gs) env op (st, w)) =
      exec_op (memoryStore sha gs) env op (memory_of (pg_db st), w)"
    and "exec_op (postgresStore pg sha gs) env op (st, w) = Some (a, st', w') \<Longrightarrow> pg_ok (pg_db st') \<and> pg_tx st' = None"
    by auto
qed


end
