(* ===== verification/Postgres_Idempotency.thy ===== *)
theory Postgres_Idempotency
  imports Postgres
begin

text \<open>
  The idempotency store on PostgreSQL meets the contract of \<open>Idempotency\<close>, as long as the database
  answers: the responses it keeps are those that survive the way through \<open>json.Marshal\<close>, \<open>jsonb\<close> and
  \<open>json.Unmarshal\<close>, and every response the token handler creates under an ASCII base URL is one of them.
\<close>

section \<open>Responses that are kept\<close>

definition response_kept :: "createRepoTokenResponse \<Rightarrow> bool" where
  "response_kept p \<longleftrightarrow>
     Option.bind (json_single (json_text (createRepoTokenResponse_json p)))
       (\<lambda>raw. json_struct createRepoTokenResponse_field raw createRepoTokenResponse_zero) = Some p"

definition ascii_response :: "createRepoTokenResponse \<Rightarrow> bool" where
  "ascii_response p \<longleftrightarrow> ascii (ctr_ID p) \<and> ascii (ctr_Token p) \<and> ascii (ctr_ExpiresAt p) \<and> ascii (ctr_GitURL p) \<and>
     ascii (ctr_Scope p) \<and> ascii (ctr_Subject p)"

lemma response_fields:
  "json_field [''id'', ''token'', ''expiresAt'', ''gitUrl'', ''scope'', ''subject''] ''id'' = Some ''id''"
  "json_field [''id'', ''token'', ''expiresAt'', ''gitUrl'', ''scope'', ''subject''] ''token'' = Some ''token''"
  "json_field [''id'', ''token'', ''expiresAt'', ''gitUrl'', ''scope'', ''subject''] ''expiresAt'' = Some ''expiresAt''"
  "json_field [''id'', ''token'', ''expiresAt'', ''gitUrl'', ''scope'', ''subject''] ''gitUrl'' = Some ''gitUrl''"
  "json_field [''id'', ''token'', ''expiresAt'', ''gitUrl'', ''scope'', ''subject''] ''scope'' = Some ''scope''"
  "json_field [''id'', ''token'', ''expiresAt'', ''gitUrl'', ''scope'', ''subject''] ''subject'' = Some ''subject''"
  by code_simp+

lemma ascii_response_kept:
  assumes "ascii_response p"
  shows "response_kept p"
proof -
  have "json_plain (createRepoTokenResponse_json p)" "json_depth (createRepoTokenResponse_json p) \<le> maxNestingDepth"
    using assms by (simp_all add: ascii_response_def createRepoTokenResponse_json_def maxNestingDepth_def)
  from json_roundtrip [OF this, of "[]"]
  have "json_single (json_text (createRepoTokenResponse_json p)) = Some (createRepoTokenResponse_json p)" by simp
  then show ?thesis
    by (simp add: response_kept_def createRepoTokenResponse_json_def json_struct_def createRepoTokenResponse_field_def
        response_fields json_to_string_def createRepoTokenResponse_zero_def)
qed

section \<open>The contract\<close>

text \<open>The database answers every statement of \<open>Do\<close> and acknowledges every commit.\<close>

definition pg_answers :: "postgres \<Rightarrow> bool" where
  "pg_answers pg \<longleftrightarrow> (\<forall>ctx now. pc_commit (pg_do pg ctx now) = None \<and> (\<forall>q n. pc_fault (pg_do pg ctx now) q n = None))"

definition row_at :: "idempotencyLookupKey \<Rightarrow> idempotencyRow \<Rightarrow> bool" where
  "row_at k row \<longleftrightarrow> im_scope row = ilk_Scope k \<and> im_key row = ilk_Key k"

definition row_record :: "idempotencyRow \<Rightarrow> idempotencyRecord option" where
  "row_record row =
     map_option (\<lambda>response. \<lparr>rec_RequestHash = im_request_hash row, rec_Response = response, rec_ExpiresAt = im_expires_at row\<rparr>)
       (json_struct createRepoTokenResponse_field (im_response row) createRepoTokenResponse_zero)"

definition pg_recorded :: "unit \<times> pgState \<times> 'w \<Rightarrow> idempotencyLookupKey \<Rightarrow> idempotencyRecord option" where
  "pg_recorded s k = Option.bind (find (row_at k) (pg_idempotency (pg_db (fst (snd s))))) row_record"

lemma row_at_lookup: "row_at (lookup_key input) = idempotency_row input"
  by (rule ext) (simp add: row_at_def lookup_key_def idempotency_row_def)

lemma select_recorded:
  assumes "pg_recorded (u, st, w) (lookup_key input) = Some r" "pc_fault c PgSelectIdempotency 0 = None"
  shows "selectIdempotencyRecord c input (pg_db st) = Inr (Some r)"
  using assms
  by (auto simp: pg_recorded_def row_at_lookup row_record_def selectIdempotencyRecord_def bind_eq_Some_conv)

lemma recorded_select:
  assumes "selectIdempotencyRecord c input (pg_db st) = Inr (Some r)"
  shows "pg_recorded (u, st, w) (lookup_key input) = Some r"
  using assms
  by (auto simp: pg_recorded_def row_at_lookup row_record_def selectIdempotencyRecord_def split: option.splits)

lemma insert_recorded:
  assumes "insertIdempotencyRecord pg c input response expires st1 = Inr db'" "response_kept response" "pg_db st' = db'"
  shows "pg_recorded (u, st', w) (lookup_key input) =
    Some \<lparr>rec_RequestHash = ii_RequestHash input, rec_Response = response, rec_ExpiresAt = pg_time pg expires\<rparr>"
proof -
  from assms(1) obtain raw where new: "find (idempotency_row input) (pg_idempotency (pg_db st1)) = None"
    and raw: "json_single (json_text (createRepoTokenResponse_json response)) = Some raw"
    and db': "pg_idempotency db' = pg_idempotency (pg_db st1) @
      [\<lparr>im_scope = ii_Scope input, im_key = ii_Key input, im_request_hash = ii_RequestHash input, im_response = raw,
        im_expires_at = pg_time pg expires\<rparr>]"
    by (auto simp: insertIdempotencyRecord_def find_None_iff list_ex_iff split: if_splits option.splits)
  have "find (idempotency_row input) (pg_idempotency db') = Some (last (pg_idempotency db'))"
    using new by (simp add: db' find_append) (simp add: idempotency_row_def)
  with assms(2,3) raw db' show ?thesis
    by (simp add: pg_recorded_def row_at_lookup row_record_def response_kept_def)
qed

locale answering_postgres =
  fixes pg :: postgres and ttl :: duration
  assumes answers: "pg_answers pg" and lives: "t < pg_time pg (t + ttl)"
begin

lemma do_answers [simp]: "pc_commit (pg_do pg ctx now) = None" "pc_fault (pg_do pg ctx now) q n = None"
  using answers by (simp_all add: pg_answers_def)

lemma Do_create_records:
  assumes "postgres_Do_create pg ttl (pg_do pg ctx now) ctx now input create db (st, w) = Some (Inr res, u', st', w')"
    and "creates create response_kept"
  shows "\<exists>r. pg_recorded (u', st', w') (lookup_key input) = Some r \<and> rec_RequestHash r = ii_RequestHash input \<and>
    rec_Response r = ir_Response res \<and> now < rec_ExpiresAt r"
proof -
  from assms(1) obtain response st1 w1 db' where
    created: "create ctx (st\<lparr>pg_db := db, pg_tx := Some False\<rparr>, w) = Some (Inr response, st1, w1)"
    and ins: "insertIdempotencyRecord pg (pg_do pg ctx now) input response (now + ttl) st1 = Inr db'"
    and res: "res = \<lparr>ir_Response = response, ir_Replayed = False\<rparr>" "pg_db st' = db'"
    by (auto simp: postgres_Do_create_def split: option.splits sum.splits prod.splits)
  from created assms(2) have "response_kept response" unfolding creates_def by blast
  from insert_recorded [OF ins this res(2), of u' w'] res(1) lives [of now] show ?thesis by auto
qed

end

sublocale answering_postgres \<subseteq> idempotency "postgres_Do pg ttl" pg_recorded "\<lambda>_. True" response_kept
proof (unfold_locales, goal_cases)
  case (1 e now input create s)
  then show ?case by (cases s) (simp add: postgres_Do_def)
next
  case (2 s input r now create)
  obtain u st w where s: "s = (u, st, w)" by (metis prod_cases3)
  with 2 select_recorded [of u st w input r "pg_do pg None now"] show ?case
    by (simp add: postgres_Do_def Let_def)
next
  case (3 s ctx now input create res s')
  obtain u st w u' st' w' where s: "s = (u, st, w)" "s' = (u', st', w')" by (metis prod_cases3)
  let ?sel = "selectIdempotencyRecord (pg_do pg None now) input (pg_db st)"
  have ctx: "ctx = None" using 3(2) by (auto simp: s postgres_Do_def split: option.splits)
  note run = 3(2) [unfolded s postgres_Do_def ctx]
  consider r where "?sel = Inr (Some r)" "now < rec_ExpiresAt r" |
    db where "postgres_Do_create pg ttl (pg_do pg None now) None now input create db (st, w) = Some (Inr res, u', st', w')"
    using run 3(3) by (auto simp: Let_def split: sum.splits option.splits if_splits)
  then show ?case
  proof cases
    case (1 r)
    with run 3(3) have "st' = st" "res = \<lparr>ir_Response = rec_Response r, ir_Replayed = True\<rparr>"
      "rec_RequestHash r = ii_RequestHash input" by (auto simp: Let_def split: if_splits)
    with recorded_select [OF 1(1), of u w'] 1(2) show ?thesis by (auto simp: s)
  next
    case (2 db)
    from Do_create_records [OF 2 3(4)] show ?thesis by (simp add: s)
  qed
qed simp

section \<open>What the token handler creates\<close>

lemma ascii_FormatInt: "ascii (strconv_FormatInt i)"
proof -
  have "ascii (dec_digits n)" for n
    using dec_digits_all [of n] by (rule list.pred_mono_strong) (simp add: is_dec_def)
  then show ?thesis by (simp add: strconv_FormatInt_def)
qed

lemma ascii_RFC3339: "ascii (time_FormatRFC3339 off t)"
proof -
  have pad: "ascii (pad_left n (strconv_FormatInt i))" for n i
  proof -
    have "ascii (replicate k (CHR ''0''))" for k by (induction k) simp_all
    then show ?thesis by (simp add: pad_left_def ascii_FormatInt)
  qed
  show ?thesis
    by (simp add: time_FormatRFC3339_def Let_def pad split: prod.split)
qed

lemma ascii_RawURLEncoding: "ascii (RawURLEncoding bs)"
proof (induction bs rule: RawURLEncoding.induct)
  have digit: "chr_nat (base64url_digit n) < 128" if "n < 64" for n
    using that by (auto simp: base64url_digit_def)
  case (1 a b c bs)
  have "(unat a * 65536 + unat b * 256 + unat c) div 262144 < 64"
    using byte_less [of a] byte_less [of b] byte_less [of c] by linarith
  with 1 show ?case by (simp add: Let_def digit)
next
  have digit: "chr_nat (base64url_digit n) < 128" if "n < 64" for n
    using that by (auto simp: base64url_digit_def)
  case (2 a b)
  have "(unat a * 65536 + unat b * 256) div 262144 < 64"
    using byte_less [of a] byte_less [of b] by linarith
  then show ?case by (simp add: Let_def digit)
next
  have digit: "chr_nat (base64url_digit n) < 128" if "n < 64" for n
    using that by (auto simp: base64url_digit_def)
  case (3 a)
  have "unat a * 65536 div 262144 < 64" using byte_less [of a] by linarith
  then show ?case by (simp add: Let_def digit)
qed simp

lemma ascii_GitURL: "ascii baseURL \<Longrightarrow> isCanonicalUUID v \<Longrightarrow> ascii (repoGitURL baseURL v)"
  using uuid_ascii
  by (auto simp: repoGitURL_def formatRepoControlID_def repoControlIDPrefix_def strings_TrimRight_def list_all_iff
      dest!: set_dropWhileD)

text \<open>A token that the loop makes was drawn by it for the repository and with the scope and the subject it was asked for.\<close>

definition drawn_for :: "repoRecord \<Rightarrow> createRepoTokenInput \<Rightarrow> repoTokenRecord \<Rightarrow> bool" where
  "drawn_for repo input rec \<longleftrightarrow> isCanonicalUUID (tok_ID rec) \<and> ascii (tok_Token rec) \<and> tok_RepoID rec = repo_ID repo \<and>
     tok_Scope rec = ct_Scope input \<and> tok_Subject rec = ct_Subject input"

lemma token_record_drawn:
  assumes "generateRepoToken draw = Inr t" "newUUID draw' = Inr v"
  shows "drawn_for repo input (token_record repo input now v t h)"
  using assms newUUID_canonical [OF assms(2)] ascii_RawURLEncoding
  by (auto simp: drawn_for_def token_record_def zero_token_def generateRepoToken_def split: sum.splits)

lemma create_token_loop_drawn:
  assumes "create_token_loop pg sha c draws repo input i st = Some (Inr rec, st')"
  shows "drawn_for repo input rec"
proof -
  have "\<forall>rec'. fst (Inr rec :: repoTokenRecord result, st') = Inr rec' \<longrightarrow> drawn_for repo input rec'"
  proof (rule create_token_loop.raw_induct
      [where P = "\<lambda>pg sha c draws repo input i st x. \<forall>rec. fst x = Inr rec \<longrightarrow> drawn_for repo input rec", OF _ assms])
    fix f pg sha c draws repo input i st x
    assume IH: "\<And>pg sha c draws repo input i st x. f pg sha c draws repo input i st = Some x \<Longrightarrow>
        \<forall>rec. fst x = Inr rec \<longrightarrow> drawn_for repo input rec"
      and eq: "(case generateRepoToken (draws i) of
        Inl err \<Rightarrow> Some (Inl err, st)
      | Inr generated \<Rightarrow>
          (let tokenHash = hashRepoToken sha generated; now = pc_now c i
           in case newUUID (pc_uuid c i) of
                Inl err \<Rightarrow> Some (Inl err, st)
              | Inr tokenID \<Rightarrow>
                  (let record = token_record repo input now tokenID generated tokenHash;
                       (err, st') = insertToken pg c i record st
                   in case err of
                        None \<Rightarrow> Some (Inr record, st')
                      | Some err \<Rightarrow>
                          (if isPostgresUniqueViolation err
                           then f pg sha c draws repo input (Suc i) st'
                           else Some (Inl (pg_error err), st'))))) = Some x"
    then show "\<forall>rec. fst x = Inr rec \<longrightarrow> drawn_for repo input rec"
      by (auto simp: Let_def intro: token_record_drawn dest!: IH split: sum.splits option.splits prod.splits if_splits)
  qed
  then show ?thesis by simp
qed

lemma postgres_creates_kept:
  assumes "ascii baseURL" "isCanonicalUUID repoID" "valid_token_request q"
  shows "creates (create_token_call (postgresStore pg sha gs) zone baseURL env repoID q) response_kept"
  unfolding creates_def
proof (intro allI impI)
  fix ctx c response c'
  assume run: "create_token_call (postgresStore pg sha gs) zone baseURL env repoID q ctx c = Some (Inr response, c')"
  obtain st w where c: "c = (st, w)" by fastforce
  let ?in = "\<lparr>ct_RepoID = repoID, ct_Scope = ctq_Scope q, ct_Subject = ctq_Subject q, ct_TTLSeconds = ctq_TTLSeconds q\<rparr>"
  from run obtain token st' where
    token: "createRepoTokenWithQueryer pg sha (pg_call pg (env\<lparr>env_ctx := ctx\<rparr>)) (env_tokens env) ?in st = Some (Inr token, st')"
    and response: "response = \<lparr>ctr_ID = formatRepoTokenControlID (tok_ID token), ctr_Token = tok_Token token,
      ctr_ExpiresAt = time_FormatRFC3339 (zone (tok_ExpiresAt token)) (tok_ExpiresAt token),
      ctr_GitURL = repoGitURL baseURL (tok_RepoID token), ctr_Scope = tok_Scope token, ctr_Subject = tok_Subject token\<rparr>"
    by (auto simp: c create_token_call_def postgresStore_def postgres_CreateRepoToken_def split: option.splits sum.splits prod.splits)
  from token obtain repo st1 where
    get: "getRepoWithQueryer (pg_call pg (env\<lparr>env_ctx := ctx\<rparr>)) (pg_tx st \<noteq> None) repoID st = (Inr repo, st1)"
    and loop: "create_token_loop pg sha (pg_call pg (env\<lparr>env_ctx := ctx\<rparr>)) (env_tokens env) repo ?in 0 st1 = Some (Inr token, st')"
    by (auto simp: createRepoTokenWithQueryer_def split: prod.splits sum.splits)
  have "repo_ID repo = repoID"
    using get by (auto simp: getRepoWithQueryer_def repo_row_def scanRepo_def find_Some_iff split: if_splits option.splits)
  with create_token_loop_drawn [OF loop] assms have "ascii_response response"
    using ascii_RFC3339 ascii_GitURL uuid_ascii scope_ascii subject_ascii
    by (auto simp: response ascii_response_def drawn_for_def valid_token_request_def formatRepoTokenControlID_def
        repoTokenControlIDPrefix_def)
  then show "response_kept response" by (rule ascii_response_kept)
qed

context answering_postgres begin

lemma token_handler_retry:
  assumes "ascii baseURL" "ttl = defaultIdempotencyRecordTTL"
    and "createRepoTokenHandler (postgresStore pg sha256 gs) (postgresIdempotency pg) sha256 zone baseURL env r
      (new_writer, u, c) = Some (resp, s')"
    and "resp_status resp = 201"
    and "strings_TrimSpace (Header_Get (r_Header r) ''Idempotency-Key'') \<noteq> []"
  shows "\<exists>expires > env_do_now env. \<forall>env'. env_ctx env' = None \<longrightarrow> env_do_now env' < expires \<longrightarrow>
    createRepoTokenHandler (postgresStore pg sha256 gs) (postgresIdempotency pg) sha256 zone baseURL env' r
      (new_writer, s') = Some (resp, s')"
proof (rule handler_retry [OF _ _ assms(3-5)])
  show "creates (create_token_call (postgresStore pg sha256 gs) zone baseURL env repoID q) response_kept"
    if key: "keyed_request r repoID q" for repoID q
    using key repo_id.parse_canonical validTokenRequest_valid
    by (intro postgres_creates_kept [OF assms(1)]) (auto simp: keyed_request_def)
qed (simp_all add: postgresIdempotency_def assms(2))

end


end
