(* ===== verification/Postgres_Demo.thy ===== *)
theory Postgres_Demo
  imports Lfs_Demo Postgres_Refinement Postgres_Idempotency
begin

text \<open>
  A run on an empty database that answers every statement: a repository is created and a token
  minted, as in \<open>Repository_Demo\<close>; the properties of the PostgreSQL stores are applied to it.
\<close>

definition demo_call :: "time \<Rightarrow> rand_read \<Rightarrow> pgCall" where
  "demo_call now uuid =
     \<lparr>pc_fault = (\<lambda>q n. None), pc_commit = None, pc_now = (\<lambda>n. now), pc_uuid = (\<lambda>n. uuid)\<rparr>"

definition demo_pg :: postgres where
  "demo_pg = \<lparr>pg_time = (\<lambda>t. t), pg_call = (\<lambda>env. demo_call (env_now env) (env_uuid env)),
     pg_do = (\<lambda>ctx now. demo_call now (Inr (\<lambda>i. 0)))\<rparr>"

definition empty_db :: pgState where
  "empty_db = \<lparr>pg_db = \<lparr>pg_repos = [], pg_tokens = [], pg_idempotency = []\<rparr>, pg_tx = None\<rparr>"

lemma empty_db_memory: "memory_of (pg_db empty_db) = newMemoryRepoStore"
  by (simp add: empty_db_def memory_of_def newMemoryRepoStore_def)

definition demo_ops :: "(callEnv \<times> storeOp) list" where
  "demo_ops = [(demo_env 0 5, OpCreateRepo demo_create), (demo_env 1 7, OpCreateRepoToken demo_mint)]"

lemma demo_memory_ops:
  "run_ops (memoryStore demo_sha demo_storage) demo_ops (newMemoryRepoStore, []) =
     Some ([AnsRepo (Inr demo_repo), AnsToken (Inr demo_token)], demo_store2, demo_world)"
  by (simp add: demo_ops_def memoryStore_def demo_run_create demo_run_mint)

lemma demo_faithful: "now \<noteq> 0 \<Longrightarrow> pg_faithful demo_pg (demo_env b now)"
  by (simp add: pg_faithful_def demo_pg_def demo_call_def)

lemma demo_slash_free: "slash_free demo_create"
  by (simp add: slash_free_def demo_create_def)

lemma demo_exact: "exact_expiry demo_pg env input"
  by (simp add: exact_expiry_def demo_pg_def Let_def)

lemma demo_ops_ready: "ops_ready demo_pg demo_sha demo_storage demo_ops (newMemoryRepoStore, [])"
  using demo_fresh newUUID_demo
  by (simp add: demo_ops_def memoryStore_def demo_run_create demo_run_mint demo_faithful demo_slash_free demo_exact)


definition demo_row :: repoRow where
  "demo_row = \<lparr>rr_id = demo_repo_id, rr_namespace = ''acme'', rr_name = ''site'', rr_default_branch = ''main'',
     rr_archived_at = None, rr_created_at = 5\<rparr>"

definition repo_db :: pgState where
  "repo_db = \<lparr>pg_db = \<lparr>pg_repos = [demo_row], pg_tokens = [], pg_idempotency = []\<rparr>, pg_tx = None\<rparr>"

text \<open>A call under a key whose \<open>INSERT\<close> of the record fails: the token is rolled back.\<close>

definition failing_pg :: postgres where
  "failing_pg = demo_pg\<lparr>pg_do := (\<lambda>ctx now. (demo_call now (Inr (\<lambda>i. 0)))
     \<lparr>pc_fault := (\<lambda>q n. if q = PgInsertIdempotency then Some (errOther ''connection lost'') else None)\<rparr>)\<rparr>"

theorem postgres_mint_atomic_witness:
  "\<exists>res u' st' w'. postgres_Do failing_pg (24 * hour) None 7
      \<lparr>ii_Scope = ''s'', ii_Key = ''k'', ii_RequestHash = ''h''\<rparr>
      (create_token_call (postgresStore failing_pg demo_sha demo_storage) (\<lambda>t. 0) ''http://h'' (demo_env 1 7)
        demo_repo_id demo_mint_fields) ((), repo_db, demo_world) = Some (res, u', st', w') \<and> st' = repo_db"
proof -
  let ?create = "create_token_call (postgresStore failing_pg demo_sha demo_storage) (\<lambda>t. 0) ''http://h'' (demo_env 1 7)
        demo_repo_id demo_mint_fields"
  let ?in = "\<lparr>ii_Scope = ''s'', ii_Key = ''k'', ii_RequestHash = ''h''\<rparr>"
  let ?st = "repo_db\<lparr>pg_db := pg_db repo_db, pg_tx := Some False\<rparr>"
  have gen: "generateRepoToken (env_tokens (demo_env 1 7) 0) = Inr demo_secret"
    by (simp add: generateRepoToken_def demo_secret_def)
  have row: "repo_row demo_repo_id (pg_db ?st) = Some demo_row"
    by (simp add: repo_row_def repo_db_def demo_row_def)
  obtain x where "?create None (?st, demo_world) = Some x"
    using gen row newUUID_demo(2)
    by (simp add: create_token_call_def postgresStore_def postgres_CreateRepoToken_def createRepoTokenWithQueryer_def
        getRepoWithQueryer_def failing_pg_def demo_pg_def demo_call_def create_token_loop.simps
        insertToken_def repo_db_def token_record_def scanRepo_def demo_row_def zero_token_def repo_row_def
        demo_env_def Let_def)
  then obtain res st1 w1 where cr: "?create None (?st, demo_world) = Some (res, st1, w1)" by (metis prod_cases3)
  have "\<exists>err w'. postgres_Do failing_pg (24 * hour) None 7 ?in ?create ((), repo_db, demo_world) =
      Some (Inl err, (), repo_db, w')"
    using cr
    by (cases res; cases "pg_tx st1 = Some True")
      (auto simp: postgres_Do_def postgres_Do_create_def selectIdempotencyRecord_def insertIdempotencyRecord_def
        failing_pg_def demo_call_def repo_db_def Let_def)
  then obtain err w' where run: "postgres_Do failing_pg (24 * hour) None 7 ?in ?create ((), repo_db, demo_world) =
      Some (Inl err, (), repo_db, w')" by blast
  have "pc_commit (pg_do failing_pg None 7) \<noteq> Some (e, True)" for e
    by (simp add: failing_pg_def demo_call_def)
  from postgres_mint_atomic [OF run _ this] run show ?thesis by auto
qed

section \<open>A retry\<close>

text \<open>The database of \<open>demo_pg\<close> answers every call of \<open>Do\<close>.\<close>

interpretation demo_idem: answering_postgres demo_pg defaultIdempotencyRecordTTL
  by unfold_locales (simp_all add: pg_answers_def demo_pg_def demo_call_def defaultIdempotencyRecordTTL_def)

lemma demo_pg_created:
  "\<exists>response st1. create_token_call (postgresStore demo_pg demo_sha demo_storage) (\<lambda>t. 0) ''http://h'' (demo_env 1 7)
     demo_repo_id demo_mint_fields None (repo_db\<lparr>pg_tx := Some False\<rparr>, demo_world) = Some (Inr response, st1, demo_world) \<and>
   pg_tx st1 = Some False \<and> pg_idempotency (pg_db st1) = []"
proof -
  have "generateRepoToken (env_tokens (demo_env 1 7) 0) = Inr demo_secret"
    by (simp add: generateRepoToken_def demo_secret_def)
  moreover have "repo_row demo_repo_id (pg_db (repo_db\<lparr>pg_tx := Some False\<rparr>)) = Some demo_row"
    by (simp add: repo_row_def repo_db_def demo_row_def)
  ultimately show ?thesis
    using newUUID_demo(2)
    by (simp add: create_token_call_def postgresStore_def postgres_CreateRepoToken_def createRepoTokenWithQueryer_def
        getRepoWithQueryer_def demo_pg_def demo_call_def create_token_loop.simps
        insertToken_def repo_db_def token_record_def scanRepo_def demo_row_def zero_token_def repo_row_def
        demo_env_def demo_mint_fields_def Let_def)
qed

lemma demo_pg_minted:
  "\<exists>p s'. createRepoTokenHandler (postgresStore demo_pg demo_sha demo_storage) (postgresIdempotency demo_pg) demo_sha
     (\<lambda>t. 0) ''http://h'' (demo_env 1 7) demo_mint_request (new_writer, (), repo_db, demo_world) = Some (json_response 201 p, s')"
proof -
  let ?create = "create_token_call (postgresStore demo_pg demo_sha demo_storage) (\<lambda>t. 0) ''http://h'' (demo_env 1 7)
    demo_repo_id demo_mint_fields"
  obtain response st1 where created: "?create None (repo_db\<lparr>pg_tx := Some False\<rparr>, demo_world) = Some (Inr response, st1, demo_world)"
    and st1: "pg_tx st1 = Some False" "pg_idempotency (pg_db st1) = []" using demo_pg_created by blast
  have "creates ?create response_kept"
    using validTokenRequest_valid [OF demo_mint_valid] demo_canonical(1) by (intro postgres_creates_kept) auto
  with created have "response_kept response" unfolding creates_def by blast
  then obtain raw where "json_single (json_text (createRepoTokenResponse_json response)) = Some raw"
    by (auto simp: response_kept_def bind_eq_Some_conv)
  with created st1 have "\<exists>res s'. postgres_Do demo_pg defaultIdempotencyRecordTTL None 7
      (token_idempotency_input demo_sha demo_mint_request demo_repo_id demo_mint_fields) ?create
      ((), repo_db, demo_world) = Some (Inr res, s')"
    by (simp add: postgres_Do_def postgres_Do_create_def selectIdempotencyRecord_def insertIdempotencyRecord_def
        token_idempotency_input_def demo_key demo_pg_def demo_call_def repo_db_def Let_def)
  then show ?thesis
    by (auto simp: handler_keyed [OF demo_keyed] postgresIdempotency_def)
qed


end
