(* ===== verification/Server_Safety.thy ===== *)
theory Server_Safety
  imports Server
begin

text \<open>
  What holds of the assembled server.  Over any stores, a request without the control token keeps every
  relation that the access check, the \<open>git\<close> processes and the object store keep (in the context of
  \<open>state_relation\<close>).  For the in-memory server: without the control token nothing but the last use
  of a token changes, whatever is requested a revoked token stays refused on every route, and every
  request is answered.
\<close>

section \<open>What Git requests change\<close>

definition unused :: "repoTokenRecord \<Rightarrow> repoTokenRecord" where
  "unused t = t\<lparr>tok_LastUsedAt := 0\<rparr>"

text \<open>The stores differ at most in the times at which tokens were last used.\<close>

definition only_used :: "memoryRepoStore \<Rightarrow> memoryRepoStore \<Rightarrow> bool" where
  "only_used m m' \<longleftrightarrow> repos m' = repos m \<and> byName m' = byName m \<and> tokenIDsByHash m' = tokenIDsByHash m \<and>
     (\<forall>k. map_option unused (token_at m' k) = map_option unused (token_at m k))"

definition git_touch :: "memoryRepoStore \<times> 'w \<Rightarrow> memoryRepoStore \<times> 'w \<Rightarrow> bool" where
  "git_touch s s' \<longleftrightarrow> (store_ok (fst s) \<longrightarrow> store_ok (fst s') \<and> only_used (fst s) (fst s'))"

interpretation git: state_relation git_touch
  by unfold_locales (auto simp: git_touch_def only_used_def)

lemma touch_only_used:
  assumes "store_ok s" "token_at s (tok_ID t) = Some t"
  shows "only_used s (touch_token now t s)"
  using assms by (simp add: only_used_def touch_token_def unused_def)

lemma authorize_touches: "access_keeps git_touch (memory_AuthorizeGitAccess sha (gs :: 'w repoGitStorage))"
  unfolding access_keeps_def
proof (intro allI)
  fix env input and s :: "memoryRepoStore \<times> 'w"
  obtain m w where s: "s = (m, w)" by fastforce
  obtain r m' w' where call: "memory_AuthorizeGitAccess sha gs env input (m, w) = (r, m', w')" by (metis prod_cases3)
  have "git_touch (m, w) (m', w')"
  proof (cases r)
    case (Inl e)
    with call memory_Authorize_error show ?thesis by (metis git.same)
  next
    case (Inr g)
    have "store_ok m' \<and> only_used m m'" if ok: "store_ok m"
    proof -
      from memory_Authorize_grant [OF ok call [unfolded Inr]] obtain t where
        "granted sha gs env input m w g t" "m' = touch_token (env_now env) t m" by blast
      then have "only_used m m'"
        using touch_only_used [OF ok, of t "env_now env"] by (simp add: granted_def presented_token_def)
      with memory_Authorize_ok [OF ok call] show ?thesis by simp
    qed
    then show ?thesis by (simp add: git_touch_def)
  qed
  with s call show "git_touch s (snd (memory_AuthorizeGitAccess sha gs env input s))" by simp
qed

lemma tools_touch: "tools_keep git_touch (tools_on tools)"
  by (auto simp: tools_keep_def tools_on_def git_touch_def only_used_def split: prod.split)

lemma lfs_touches: "lfs_keeps git_touch (lfs_on store)"
  by (auto simp: lfs_keeps_def lfs_on_def git_touch_def only_used_def split: prod.split)

section \<open>Requests without the control token\<close>

definition carries_control :: "'p Config \<Rightarrow> httpRequest \<Rightarrow> bool" where
  "carries_control config r \<longleftrightarrow> cfg_ControlBearer config \<noteq> [] \<and>
     Header_Get (r_Header r) ''Authorization'' = ''Bearer '' @ cfg_ControlBearer config"

lemma controlAuth_refuses:
  assumes "\<not> carries_control config r"
  shows "controlAuth (cfg_ControlBearer config) h env r (w, s) = Some (rw_WriteHeader 401 w, s)"
proof (cases "strings_CutPrefix (Header_Get (r_Header r) ''Authorization'') ''Bearer ''")
  case (Some got)
  then have "Header_Get (r_Header r) ''Authorization'' = ''Bearer '' @ got" by (simp add: CutPrefix_Some)
  with assms have "got = [] \<or> cfg_ControlBearer config = [] \<or> got \<noteq> cfg_ControlBearer config"
    by (auto simp: carries_control_def)
  with Some show ?thesis by (auto simp: controlAuth_def)
qed (simp add: controlAuth_def)

lemma on_store_keeps:
  "handler_keeps R h \<Longrightarrow> on_store h env r (w, i, c) = Some (w', i', c') \<Longrightarrow> i' = i \<and> R c c'"
  by (auto simp: on_store_def handler_keeps_def split: option.splits)

text \<open>What the mux calls: a handler of its table on the request with its path values, or nothing.\<close>

lemma NewMux_cases:
  assumes "NewMux redirect h env r (w, s) = Some (w', s')"
  obtains "s' = s" | route b where "findHandler (r_Method r) (r_Path r) (r_EscapedPath r) = Found route b"
    "route_handler h route env (r\<lparr>r_PathValues := b\<rparr>) (w, s) = Some (w', s')"
proof (cases "findHandler (r_Method r) (r_Path r) (r_EscapedPath r)")
  case (Found route b)
  with assms that(2) show ?thesis by (simp add: NewMux_def)
qed (use assms that(1) in \<open>simp_all add: NewMux_def\<close>)

lemma gitRepoRoute_cases:
  assumes "gitRepoRoute h env r (w, s) = Some (w', s')"
  obtains "s' = s" "w' = http_NotFound w" | repoID where "h env (SetPathValue ''repoID'' repoID r) (w, s) = Some (w', s')"
proof (cases "strings_CutSuffix (PathValue r ''repoGitID'') ''.git''")
  case None
  with assms that(1) show ?thesis by (simp add: gitRepoRoute_def)
next
  case (Some repoID)
  with assms that show ?thesis by (cases "repoID = []") (simp_all add: gitRepoRoute_def)
qed

lemma accessLog_cases:
  assumes "accessLog low ip timing writer trusted next env r (w, log, s) = Some (w', log', s')"
  shows "next env r (w, s) = Some (w', s')"
  using assms by (auto simp: accessLog_def split: option.splits if_splits)

section \<open>Every route of a server over any stores\<close>

text \<open>The routes behind the control token, and those behind the access check of a repository.\<close>

definition control_routes :: "routeName list" where
  "control_routes =
     [CreateRepoRoute, GetRepoRoute, ArchiveRepoRoute, CreateRepoTokenRoute, ListRepoTokensRoute, RevokeRepoTokenRoute]"

definition git_routes :: "routeName list" where
  "git_routes = [GitSmartHTTP, GitLFS, GitShowDiff, GitCompareDiff, GitRawFile]"

lemma route_kinds: "route \<in> set control_routes \<or> route \<in> set git_routes \<or> route = AgentDocs \<or> route = Healthz"
  by (cases route) (simp_all add: control_routes_def git_routes_def)

lemma stores_found:
  assumes "findHandler (r_Method r) (r_Path r) (r_EscapedPath r) = Found route b"
    and "route_handler (server_handlers lib tools lfs config store idem) route env (r\<lparr>r_PathValues := b\<rparr>) (w, st) =
      Some (w', st')"
  shows "\<exists>log'. NewServerWithStores lib tools lfs config store idem env r (w, log, st) = Some (w', log', st')"
proof -
  have "NewMux (lib_redirect lib) (server_handlers lib tools lfs config store idem) env r (w, st) = Some (w', st')"
    using assms by (simp add: NewMux_def)
  then show ?thesis unfolding NewServerWithStores_def accessLog_def by simp
qed

lemma control_route:
  assumes "route \<in> set control_routes"
  obtains h where "route_handler (server_handlers lib tools lfs config store idem) route =
    controlAuth (cfg_ControlBearer config) h"
  using assms that by (auto simp: control_routes_def server_handlers_def route_handler_def Let_def)

lemma public_route:
  assumes "route = AgentDocs \<or> route = Healthz"
    and "route_handler (server_handlers lib tools lfs config store idem) route env r (w, st) = Some (w', st')"
  shows "st' = st"
  using assms
  by (auto simp: server_handlers_def route_handler_def agentDocs_or_NotFound_def
      agentDocsHandler_def noContent_def Let_def split: if_splits)

context state_relation begin

lemma git_route:
  assumes "route \<in> set git_routes" "access_keeps R (AuthorizeGitAccess store)" "tools_keep R tools"
    and "lfs_keeps R (lfs (newFilesystemLFSObjectStore (cfg_StorageRoot config)))"
  obtains h where "route_handler (server_handlers lib tools lfs config store idem) route = gitRepoRoute (on_store h)"
    "handler_keeps R h"
  using assms(1) that smart_http_keeps [OF assms(2,3)] diff_keeps [OF assms(2,3)] raw_keeps [OF assms(2,3)]
    lfs_handler_keeps [OF assms(2,4)]
  by (auto simp: git_routes_def server_handlers_def route_handler_def Let_def)

lemma request_without_control:
  assumes "NewServerWithStores lib tools lfs config store idem env r (w, log, i, c) = Some (w', log', i', c')"
    and "\<not> carries_control config r" and keeps: "access_keeps R (AuthorizeGitAccess store)" "tools_keep R tools"
      "lfs_keeps R (lfs (newFilesystemLFSObjectStore (cfg_StorageRoot config)))"
  shows "i' = i \<and> R c c'"
  using accessLog_cases [OF assms(1) [unfolded NewServerWithStores_def]]
proof (cases rule: NewMux_cases)
  case 1
  then show ?thesis by simp
next
  case (2 route b)
  let ?r = "r\<lparr>r_PathValues := b\<rparr>"
  have no: "\<not> carries_control config ?r" using assms(2) by (simp add: carries_control_def)
  consider "route \<in> set control_routes" | "route \<in> set git_routes" | "route = AgentDocs \<or> route = Healthz"
    using route_kinds by blast
  then show ?thesis
  proof cases
    case 1
    obtain h where "route_handler (server_handlers lib tools lfs config store idem) route =
      controlAuth (cfg_ControlBearer config) h" using control_route [OF 1] .
    with 2(2) controlAuth_refuses [OF no, of h env w "(i, c)"] show ?thesis by simp
  next
    case git: 2
    obtain h where h: "route_handler (server_handlers lib tools lfs config store idem) route = gitRepoRoute (on_store h)"
      "handler_keeps R h" by (rule git_route [where idem = idem and lib = lib and lfs = lfs and config = config, OF git keeps])
    from 2(2) [unfolded h(1)] show ?thesis
      by (cases rule: gitRepoRoute_cases) (auto dest: on_store_keeps [OF h(2)])
  next
    case 3
    from public_route [OF this 2(2)] show ?thesis by simp
  qed
qed

lemma requests_without_control:
  assumes "serve_all (NewServerWithStores lib tools lfs config store idem) reqs (log, i, c) = Some (log', i', c')"
    and "list_all (\<lambda>(env, r). \<not> carries_control config r) reqs" "access_keeps R (AuthorizeGitAccess store)"
      "tools_keep R tools" "lfs_keeps R (lfs (newFilesystemLFSObjectStore (cfg_StorageRoot config)))"
  shows "i' = i \<and> R c c'"
  using assms(1,2)
proof (induction reqs arbitrary: log i c)
  case (Cons q reqs)
  obtain env r where q: "q = (env, r)" by fastforce
  from Cons.prems(1) obtain w1 log1 i1 c1 where
    one: "NewServerWithStores lib tools lfs config store idem env r (new_writer, log, i, c) = Some (w1, log1, i1, c1)" and
    rest: "serve_all (NewServerWithStores lib tools lfs config store idem) reqs (log1, i1, c1) = Some (log', i', c')"
    by (auto simp: q split: option.splits)
  from Cons.prems(2) have "\<not> carries_control config r" "list_all (\<lambda>(env, r). \<not> carries_control config r) reqs"
    by (simp_all add: q)
  with request_without_control [where lfs = lfs and config = config, OF one _ assms(3-5)] Cons.IH [OF rest] show ?case by (blast intro: chain)
qed simp

end

section \<open>The routes of the in-memory server\<close>

definition memory_handlers ::
  "('a, 'p) stdlib \<Rightarrow> 'w system \<Rightarrow> 'p Config \<Rightarrow> (memoryIdempotencyStore \<times> memoryRepoStore \<times> 'w) handlers" where
  "memory_handlers lib sys config =
     server_handlers lib (tools_on (sys_tools sys))
       (\<lambda>root. lfs_on (filesystemLFSObjectStore (sys_files sys) (lib_sha256 lib) root)) config
       (memoryStore (lib_sha256 lib)
          (filesystemGitStorage (sys_host sys) (newFilesystemGitStorage (cfg_StorageRoot config))))
       memoryIdempotency"

lemma NewServer_cases:
  assumes "NewServer lib sys config env r (w, log, st) = Some (w', log', st')"
  obtains "st' = st" | route b where "findHandler (r_Method r) (r_Path r) (r_EscapedPath r) = Found route b"
    "route_handler (memory_handlers lib sys config) route env (r\<lparr>r_PathValues := b\<rparr>) (w, st) = Some (w', st')"
  using accessLog_cases [OF assms [unfolded NewServer_def NewServerWithStores_def]] that
  unfolding memory_handlers_def by (blast elim: NewMux_cases)

text \<open>The handler behind \<open>gitRepoRoute\<close> on a Git route.\<close>

definition git_handler ::
  "('a, 'p) stdlib \<Rightarrow> 'w system \<Rightarrow> 'p Config \<Rightarrow> routeName \<Rightarrow> (memoryRepoStore \<times> 'w) handler" where
  "git_handler lib sys config route =
     (let tools = tools_on (sys_tools sys); root = cfg_StorageRoot config;
          access = memory_AuthorizeGitAccess (lib_sha256 lib)
                     (filesystemGitStorage (sys_host sys) (newFilesystemGitStorage root))
      in case route of
           GitSmartHTTP \<Rightarrow> gitSmartHTTPHandler access (Some (execGitHTTPBackend tools []))
         | GitLFS \<Rightarrow> gitLFSHandler (lib_low lib) access
             (Some (lfs_on (filesystemLFSObjectStore (sys_files sys) (lib_sha256 lib) (newFilesystemLFSObjectStore root))))
             (cfg_MaxLFSObjectBytes config)
         | GitShowDiff \<Rightarrow> gitDiffHandler access (Some (execGitDiffBackend tools [])) gitDiffShow
         | GitCompareDiff \<Rightarrow> gitDiffHandler access (Some (execGitDiffBackend tools [])) gitDiffCompare
         | _ \<Rightarrow> gitRawHandler access (execGitRawBackend tools []))"

lemma memory_git:
  assumes "route \<in> set git_routes"
  shows "route_handler (memory_handlers lib sys config) route = gitRepoRoute (on_store (git_handler lib sys config route))"
  using assms
  by (auto simp: git_routes_def memory_handlers_def server_handlers_def route_handler_def git_handler_def Let_def)

text \<open>
  C6 (NewServerWithStores, controlAuth).  Whoever does not hold the control token changes nothing
  but the time at which tokens were last used: over any sequence of requests without the token,
  whatever their routes, bodies and repository tokens, the repositories, the names, the tokens and
  the recorded idempotent answers stay as they are.
\<close>
theorem no_control_no_change:
  assumes "serve_all (NewServer lib sys config) reqs (log, i, m, w) = Some (log', i', m', w')"
    and "list_all (\<lambda>(env, r). \<not> carries_control config r) reqs" "store_ok m"
  shows "i' = i \<and> only_used m m' \<and> store_ok m'"
  using git.requests_without_control [OF assms(1) [unfolded NewServer_def] assms(2)] assms(3)
  by (simp add: authorize_touches tools_touch lfs_touches memoryStore_def) (simp add: git_touch_def)

section \<open>The server runs the store's operations\<close>

lemma store_reachable_trans:
  "store_reachable sha gs y z \<Longrightarrow> store_reachable sha gs x y \<Longrightarrow> store_reachable sha gs x z"
  by (induction rule: store_reachable.induct) (auto intro: store_reachable.intros)

interpretation store: state_relation "store_reachable sha gs" for sha gs
  by unfold_locales (blast intro: store_reachable.intros store_reachable_trans)+

lemma reach_one: "store_step sha gs x y \<Longrightarrow> store_reachable sha gs x y"
  by (rule reach_step [OF reach_start])

lemma authorize_reaches: "access_keeps (store_reachable sha gs) (memory_AuthorizeGitAccess sha gs)"
  unfolding access_keeps_def
proof (intro allI)
  fix env input and x :: "memoryRepoStore \<times> 'a"
  obtain m w where x: "x = (m, w)" by fastforce
  obtain r m' w' where call: "memory_AuthorizeGitAccess sha gs env input (m, w) = (r, m', w')" by (metis prod_cases3)
  from reach_one [OF authorize [OF this]] x call
  show "store_reachable sha gs x (snd (memory_AuthorizeGitAccess sha gs env input x))" by simp
qed

lemma tools_reach: "tools_keep (store_reachable sha gs) (tools_on tools)"
  by (auto simp: tools_keep_def tools_on_def intro: reach_one world split: prod.split)

lemma lfs_reaches: "lfs_keeps (store_reachable sha gs) (lfs_on store)"
  by (auto simp: lfs_keeps_def lfs_on_def intro: reach_one world split: prod.split)

lemmas git_handlers_reach =
  store.smart_http_keeps [OF authorize_reaches tools_reach] store.diff_keeps [OF authorize_reaches tools_reach]
  store.raw_keeps [OF authorize_reaches tools_reach] store.lfs_handler_keeps [OF authorize_reaches lfs_reaches]

abbreviation server_storage :: "'w system \<Rightarrow> 'p Config \<Rightarrow> 'w repoGitStorage" where
  "server_storage sys config \<equiv> filesystemGitStorage (sys_host sys) (newFilesystemGitStorage (cfg_StorageRoot config))"

lemma git_handler_reaches:
  "handler_keeps (store_reachable (lib_sha256 lib) (server_storage sys config)) (git_handler lib sys config route)"
  by (cases route) (simp_all add: git_handler_def Let_def git_handlers_reach)

text \<open>A control handler runs at most one operation of the store.\<close>

lemma create_repo_reaches:
  assumes "createRepoHandler (memoryStore sha gs) baseURL env r (w, m, wd) = Some (w', c')" "fresh_uuid env m"
  shows "store_reachable sha gs (m, wd) c'"
proof -
  have "c' = (m, wd) \<or> (\<exists>input res. memory_CreateRepo gs env input (m, wd) = (res, c'))"
    using assms(1) by (auto simp: createRepoHandler_def Let_def split: option.splits sum.splits prod.splits if_splits)
  with assms(2) show ?thesis by (cases c') (auto intro: reach_one create_repo reach_start)
qed

lemma get_repo_reaches:
  assumes "getRepoHandler (memoryStore sha gs) baseURL env r (w, m, wd) = Some (w', c')"
  shows "store_reachable sha gs (m, wd) c'"
proof -
  have "c' = (m, wd) \<or> (\<exists>v res. memory_GetRepo env v (m, wd) = (res, c'))"
    using assms by (auto simp: getRepoHandler_def memoryStore_def Let_def split: option.splits sum.splits prod.splits if_splits)
  then show ?thesis by (cases c') (auto intro: reach_one get_repo reach_start)
qed

lemma archive_repo_reaches:
  assumes "archiveRepoHandler (memoryStore sha gs) zone env r (w, m, wd) = Some (w', c')"
  shows "store_reachable sha gs (m, wd) c'"
proof -
  have "c' = (m, wd) \<or> (\<exists>v res. memory_ArchiveRepo env v (m, wd) = (res, c'))"
    using assms by (auto simp: archiveRepoHandler_def memoryStore_def Let_def split: option.splits sum.splits prod.splits if_splits)
  then show ?thesis by (cases c') (auto intro: reach_one archive_repo reach_start)
qed

lemma list_tokens_reaches:
  assumes "listRepoTokensHandler (memoryStore sha gs) zone env r (w, m, wd) = Some (w', c')"
  shows "store_reachable sha gs (m, wd) c'"
proof -
  have "c' = (m, wd) \<or> (\<exists>v res. memory_ListRepoTokens env v (m, wd) = (res, c'))"
    using assms by (auto simp: listRepoTokensHandler_def memoryStore_def split: option.splits sum.splits prod.splits if_splits)
  then show ?thesis by (cases c') (auto intro: reach_one list_tokens reach_start)
qed

lemma revoke_token_reaches:
  assumes "revokeRepoTokenHandler (memoryStore sha gs) zone env r (w, m, wd) = Some (w', c')"
  shows "store_reachable sha gs (m, wd) c'"
proof -
  have "c' = (m, wd) \<or> (\<exists>input res. memory_RevokeRepoToken env input (m, wd) = (res, c'))"
    using assms by (auto simp: revokeRepoTokenHandler_def memoryStore_def split: option.splits sum.splits prod.splits if_splits)
  then show ?thesis by (cases c') (auto intro: reach_one revoke_token reach_start)
qed

lemma memory_Do_once:
  assumes "memory_Do ctx now input create (i, c) = Some (res, i', c')"
  shows "c' = c \<or> (\<exists>x. create ctx c = Some (x, c'))"
  using assms
  by (auto simp: memory_Do_def memory_Do_create_def Let_def split: option.splits sum.splits if_splits)

lemma create_token_reaches:
  assumes "createRepoTokenHandler (memoryStore sha gs) memoryIdempotency h zone baseURL env r (w, i, m, wd) = Some (w', i', c')"
    and "fresh_uuid env m"
  shows "store_reachable sha gs (m, wd) c'"
proof -
  have "c' = (m, wd) \<or> (\<exists>repoID q ctx x.
      create_token_call (memoryStore sha gs) zone baseURL env repoID q ctx (m, wd) = Some (x, c'))"
    using assms(1) memory_Do_once
    by (fastforce simp: createRepoTokenHandler_def memoryIdempotency_def Let_def
        split: option.splits sum.splits prod.splits if_splits)
  then consider "c' = (m, wd)" | repoID q ctx x where
    "create_token_call (memoryStore sha gs) zone baseURL env repoID q ctx (m, wd) = Some (x, c')" by blast
  then show ?thesis
  proof cases
    case 2
    then obtain input y where "memory_CreateRepoToken sha (env\<lparr>env_ctx := ctx\<rparr>) input (m, wd) = Some (y, c')"
      by (auto simp: create_token_call_def memoryStore_def split: option.splits sum.splits)
    moreover have "fresh_uuid (env\<lparr>env_ctx := ctx\<rparr>) m" using assms(2) by (simp add: fresh_uuid_def)
    ultimately show ?thesis by (cases c') (auto intro: reach_one create_token)
  qed (simp add: reach_start)
qed

text \<open>The handler behind the control token on a control route.\<close>

definition control_handler ::
  "('a, 'p) stdlib \<Rightarrow> 'w system \<Rightarrow> 'p Config \<Rightarrow> routeName \<Rightarrow> (memoryIdempotencyStore \<times> memoryRepoStore \<times> 'w) handler" where
  "control_handler lib sys config route =
     (let store = memoryStore (lib_sha256 lib) (server_storage sys config);
          baseURL = cfg_BaseURL config; zone = lib_zone lib
      in case route of
           CreateRepoRoute \<Rightarrow> on_store (createRepoHandler store baseURL)
         | GetRepoRoute \<Rightarrow> on_store (getRepoHandler store baseURL)
         | ArchiveRepoRoute \<Rightarrow> on_store (archiveRepoHandler store zone)
         | CreateRepoTokenRoute \<Rightarrow> createRepoTokenHandler store memoryIdempotency (lib_sha256 lib) zone baseURL
         | ListRepoTokensRoute \<Rightarrow> on_store (listRepoTokensHandler store zone)
         | _ \<Rightarrow> on_store (revokeRepoTokenHandler store zone))"

lemma memory_control_handler:
  assumes "route \<in> set control_routes"
  shows "route_handler (memory_handlers lib sys config) route =
    controlAuth (cfg_ControlBearer config) (control_handler lib sys config route)"
  using assms
  by (auto simp: control_routes_def memory_handlers_def server_handlers_def route_handler_def control_handler_def Let_def)

lemma controlAuth_either:
  "controlAuth expected h env r (w, s) \<in> {Some (rw_WriteHeader 401 w, s), h env r (w, s)}"
proof (cases "strings_CutPrefix (Header_Get (r_Header r) ''Authorization'') ''Bearer ''")
  case None
  then show ?thesis by (simp add: controlAuth_def)
next
  case (Some got)
  then show ?thesis by (simp add: controlAuth_def)
qed

lemma controlAuth_cases:
  assumes "controlAuth expected h env r (w, s) = Some (w', s')"
  obtains "s' = s" "w' = rw_WriteHeader 401 w" | "h env r (w, s) = Some (w', s')"
proof -
  from assms have "Some (w', s') \<in> {Some (rw_WriteHeader 401 w, s), h env r (w, s)}"
    using controlAuth_either [of expected h env r w s] by metis
  with that show ?thesis by auto
qed

lemma on_store_call:
  assumes "on_store h env r (w, i, c) = Some (w', i', c')"
  shows "i' = i" "h env r (w, c) = Some (w', c')"
  using assms by (auto simp: on_store_def split: option.splits)

lemma control_handler_reaches:
  assumes "route \<in> set control_routes" "fresh_uuid env m"
    and "control_handler lib sys config route env r (w, i, m, wd) = Some (w', i', c')"
  shows "store_reachable (lib_sha256 lib) (server_storage sys config) (m, wd) c'"
  using assms
  by (auto simp: control_routes_def control_handler_def Let_def dest!: on_store_call(2)
      intro: create_repo_reaches get_repo_reaches archive_repo_reaches list_tokens_reaches revoke_token_reaches
        create_token_reaches)

lemma request_reaches:
  assumes "NewServer lib sys config env r (w, log, i, m, wd) = Some (w', log', i', c')" "fresh_uuid env m"
  shows "store_reachable (lib_sha256 lib) (server_storage sys config) (m, wd) c'"
  using assms(1)
proof (cases rule: NewServer_cases)
  case (2 route b)
  consider "route \<in> set control_routes" | "route \<in> set git_routes" | "route = AgentDocs \<or> route = Healthz"
    using route_kinds by blast
  then show ?thesis
  proof cases
    case control: 1
    from 2(2) [unfolded memory_control_handler [OF control]] show ?thesis
      by (cases rule: controlAuth_cases) (auto intro: control_handler_reaches [OF control assms(2)])
  next
    case git: 2
    from 2(2) [unfolded memory_git [OF git]] show ?thesis
      by (cases rule: gitRepoRoute_cases) (auto dest: on_store_keeps [OF git_handler_reaches])
  next
    case 3
    from public_route [OF this 2(2) [unfolded memory_handlers_def]] show ?thesis by simp
  qed
qed simp

text \<open>No request of the sequence draws an identifier that is taken when it is served.\<close>

fun fresh_along :: "'w serverState handler \<Rightarrow> (callEnv \<times> httpRequest) list \<Rightarrow> 'w serverState \<Rightarrow> bool" where
  "fresh_along h [] st = True"
| "fresh_along h ((env, r) # reqs) st =
     (fresh_uuid env (fst (snd (snd st))) \<and>
      (case h env r (new_writer, st) of None \<Rightarrow> True | Some (w, st') \<Rightarrow> fresh_along h reqs st'))"

lemma requests_reach:
  assumes "serve_all (NewServer lib sys config) reqs (log, i, m, wd) = Some (log', i', m', wd')"
    and "fresh_along (NewServer lib sys config) reqs (log, i, m, wd)"
  shows "store_reachable (lib_sha256 lib) (server_storage sys config) (m, wd) (m', wd')"
  using assms
proof (induction reqs arbitrary: log i m wd)
  case Nil
  then show ?case by simp
next
  case (Cons q reqs)
  obtain env r where q: "q = (env, r)" by fastforce
  from Cons.prems(1) obtain w1 log1 i1 m1 s1 where
    one: "NewServer lib sys config env r (new_writer, log, i, m, wd) = Some (w1, log1, i1, m1, s1)" and
    rest: "serve_all (NewServer lib sys config) reqs (log1, i1, m1, s1) = Some (log', i', m', wd')"
    by (auto simp: q split: option.splits)
  with Cons.prems(2) have "fresh_uuid env m" "fresh_along (NewServer lib sys config) reqs (log1, i1, m1, s1)"
    by (simp_all add: q)
  with request_reaches [OF one] Cons.IH [OF rest] show ?case by (blast intro: store.chain)
qed


section \<open>Refused tokens\<close>

definition refuses :: "'s authorizer \<Rightarrow> 's \<Rightarrow> string \<Rightarrow> bool" where
  "refuses access s token \<longleftrightarrow> (\<forall>env input. az_Token input = token \<longrightarrow> (\<exists>e. access env input s = (Inl e, s)))"

definition refused :: "'s \<Rightarrow> (responseWriter \<times> 's) option \<Rightarrow> bool" where
  "refused s answer \<longleftrightarrow> (\<exists>w. answer = Some (w, s) \<and> 400 \<le> resp_status w)"

lemma refused_respond [intro]: "400 \<le> resp_status w \<Longrightarrow> refused s (respond w s)"
  by (simp add: refused_def)

lemma access_error_status: "400 \<le> resp_status (writeGitAccessError err new_writer)"
  by (simp add: writeGitAccessError_def writeGitUnauthorized_def http_Error_status)

lemma http_Error_new: "400 \<le> code \<Longrightarrow> 400 \<le> resp_status (http_Error message code new_writer)"
  by (simp add: http_Error_status)

lemma writeLFSJSON_new: "400 \<le> status \<Longrightarrow> 400 \<le> resp_status (writeLFSJSON status v new_writer)"
  by simp

lemma lfs_error_status: "400 \<le> resp_status (writeLFSAccessError err new_writer)"
  using lfs_access_error_status [of err] by auto

text \<open>The error a refused access gives, as a function of what it asks for.\<close>

lemma refuses_error:
  assumes "refuses access s token"
  obtains err where "\<And>v x. access env \<lparr>az_RepoID = v, az_Token = token, az_Operation = x\<rparr> s = (Inl (err v x), s)"
proof -
  have "\<forall>v x. \<exists>e. access env \<lparr>az_RepoID = v, az_Token = token, az_Operation = x\<rparr> s = (Inl e, s)"
    using assms by (simp add: refuses_def)
  then show ?thesis using that by metis
qed

lemmas refused_intros = refused_respond access_error_status lfs_error_status http_Error_new writeLFSJSON_new

lemma smart_http_refused:
  assumes "refuses access s (gitTokenFromRequest r)"
  shows "refused s (gitSmartHTTPHandler access backend env r (new_writer, s))"
proof -
  obtain err where "\<And>v x. access env \<lparr>az_RepoID = v, az_Token = gitTokenFromRequest r, az_Operation = x\<rparr> s =
    (Inl (err v x), s)" using refuses_error [OF assms] by blast
  then show ?thesis by (auto simp: gitSmartHTTPHandler_def Let_def split: option.split intro!: refused_intros)
qed

lemma diff_refused:
  assumes "refuses access s (gitTokenFromRequest r)"
  shows "refused s (gitDiffHandler access backend kind env r (new_writer, s))"
proof -
  obtain err where "\<And>v x. access env \<lparr>az_RepoID = v, az_Token = gitTokenFromRequest r, az_Operation = x\<rparr> s =
    (Inl (err v x), s)" using refuses_error [OF assms] by blast
  then show ?thesis by (auto simp: gitDiffHandler_def Let_def split: option.split intro!: refused_intros)
qed

lemma raw_refused:
  assumes "refuses access s (gitTokenFromRequest r)"
  shows "refused s (gitRawHandler access backend env r (new_writer, s))"
proof -
  obtain err where "\<And>v x. access env \<lparr>az_RepoID = v, az_Token = gitTokenFromRequest r, az_Operation = x\<rparr> s =
    (Inl (err v x), s)" using refuses_error [OF assms] by blast
  then show ?thesis by (auto simp: gitRawHandler_def split: option.split intro!: refused_intros)
qed

lemma lfs_refused:
  assumes "refuses access s (gitTokenFromRequest r)"
  shows "refused s (gitLFSHandler low access store mx env r (new_writer, s))"
proof -
  obtain err where "\<And>v x. access env \<lparr>az_RepoID = v, az_Token = gitTokenFromRequest r, az_Operation = x\<rparr> s =
    (Inl (err v x), s)" using refuses_error [OF assms] by blast
  then have "\<And>repoID op. \<exists>e. authorizeLFSAccess access env r repoID op s = (Inl e, s)"
    by (simp add: authorizeLFSAccess_def)
  then have "\<forall>repoID op. \<exists>e. authorizeLFSAccess access env r repoID op s = (Inl e, s)" by blast
  then obtain err where "\<And>repoID op. authorizeLFSAccess access env r repoID op s = (Inl (err repoID op), s)" by metis
  then show ?thesis
    by (auto simp: gitLFSHandler_def serveLFSBatch_def serveLFSUpload_def serveLFSDownload_def serveLFSLocksVerify_def
        Let_def split: option.split intro!: refused_intros)
qed

lemma git_handler_refused:
  assumes "refuses (memory_AuthorizeGitAccess (lib_sha256 lib) (server_storage sys config)) s (gitTokenFromRequest r)"
  shows "refused s (git_handler lib sys config route env r (new_writer, s))"
  using assms
  by (cases route) (simp_all add: git_handler_def Let_def smart_http_refused diff_refused raw_refused lfs_refused)

lemma revoked_refuses:
  assumes "store_ok m" "presented_token sha m secret t" "tok_RevokedAt t \<noteq> 0"
  shows "refuses (memory_AuthorizeGitAccess sha gs) (m, wd) secret"
  unfolding refuses_def
proof (intro allI impI)
  fix env and input :: authorizeGitAccessInput
  assume input: "az_Token input = secret"
  obtain res m' wd' where call: "memory_AuthorizeGitAccess sha gs env input (m, wd) = (res, m', wd')" by (metis prod_cases3)
  have "\<not> usable_token (env_now env) input t" using assms(3) by (simp add: usable_token_def)
  moreover have "presented_token sha m (az_Token input) t" using assms(2) input by simp
  ultimately have "res \<noteq> Inr g" for g
    using no_grant_if_unusable [OF assms(1), of sha input t env gs wd g "(m', wd')"] call by auto
  then obtain e where "res = Inl e" by (cases res) auto
  with call memory_Authorize_error [of sha gs env input m wd e m' wd'] 
  show "\<exists>e. memory_AuthorizeGitAccess sha gs env input (m, wd) = (Inl e, m, wd)" by auto
qed

lemma token_of_routed [simp]:
  "gitTokenFromRequest (SetPathValue k v r) = gitTokenFromRequest r"
  "gitTokenFromRequest (r\<lparr>r_PathValues := b\<rparr>) = gitTokenFromRequest r"
  by (simp_all add: gitTokenFromRequest_def BasicAuth_def SetPathValue_def cong: option.case_cong)

text \<open>The answer of the server is that of the mux: the access log does not change it.\<close>

lemma NewServer_found:
  assumes "findHandler (r_Method r) (r_Path r) (r_EscapedPath r) = Found route b"
    and "route_handler (memory_handlers lib sys config) route env (r\<lparr>r_PathValues := b\<rparr>) (w, st) = Some (w', st')"
  shows "\<exists>log'. NewServer lib sys config env r (w, log, st) = Some (w', log', st')"
  unfolding NewServer_def by (rule stores_found [OF assms(1) assms(2) [unfolded memory_handlers_def]])

lemma refused_on_route:
  assumes "findHandler (r_Method r) (r_Path r) (r_EscapedPath r) = Found route b" "route \<in> set git_routes"
    and "refuses (memory_AuthorizeGitAccess (lib_sha256 lib) (server_storage sys config)) c (gitTokenFromRequest r)"
  shows "\<exists>w log'. NewServer lib sys config env r (new_writer, log, i, c) = Some (w, log', i, c) \<and> 400 \<le> resp_status w"
proof -
  let ?r = "r\<lparr>r_PathValues := b\<rparr>"
  have "refused (i, c) (gitRepoRoute (on_store (git_handler lib sys config route)) env ?r (new_writer, i, c))"
  proof (cases "strings_CutSuffix (PathValue ?r ''repoGitID'') ''.git''")
    case None
    then show ?thesis by (auto simp: gitRepoRoute_def http_NotFound_def intro!: refused_intros)
  next
    case (Some v)
    have "refused c (git_handler lib sys config route env (SetPathValue ''repoID'' v ?r) (new_writer, c))"
      by (rule git_handler_refused) (simp add: assms(3))
    with Some show ?thesis
      by (auto simp: gitRepoRoute_def http_NotFound_def on_store_def refused_def http_Error_new)
  qed
  then obtain w where "route_handler (memory_handlers lib sys config) route env ?r (new_writer, i, c) = Some (w, i, c)"
    and "400 \<le> resp_status w"
    by (auto simp: memory_git [OF assms(2)] refused_def)
  with NewServer_found [OF assms(1), of lib sys config env new_writer "(i, c)" w "(i, c)" log] show ?thesis by blast
qed

text \<open>
  C8 (revocation over HTTP).  Once a token is revoked, every request that presents it on a route of
  a repository, be it for Git, for LFS, for a diff or for a file, is answered with an error status
  and changes nothing, however many requests of whoever the server has served in between.
\<close>
theorem revoked_token_refused_over_http:
  assumes "store_ok m" "presented_token (lib_sha256 lib) m secret t" "tok_RevokedAt t \<noteq> 0"
    and "serve_all (NewServer lib sys config) reqs (log, i, m, wd) = Some (log', i', m', wd')"
    and "fresh_along (NewServer lib sys config) reqs (log, i, m, wd)"
    and "findHandler (r_Method r) (r_Path r) (r_EscapedPath r) = Found route b" "route \<in> set git_routes"
    and "gitTokenFromRequest r = secret"
  shows "\<exists>w log''. NewServer lib sys config env r (new_writer, log', i', m', wd') = Some (w, log'', i', m', wd') \<and>
    400 \<le> resp_status w"
proof -
  have grown: "store_ok m'" "store_grows m m'"
    using reachable_grows [OF requests_reach [OF assms(4,5)] assms(1)] by auto
  from presented_grows [OF assms(1) grown(2,1) assms(2)] obtain t' where
    t': "presented_token (lib_sha256 lib) m' secret t'" "token_grows t t'" .
  then have "tok_RevokedAt t' \<noteq> 0" using assms(3) by (simp add: token_grows_def)
  from revoked_refuses [OF grown(1) t'(1) this] assms(8)
  have "refuses (memory_AuthorizeGitAccess (lib_sha256 lib) (server_storage sys config)) (m', wd') (gitTokenFromRequest r)"
    by simp
  from refused_on_route [OF assms(6,7) this] show ?thesis .
qed

section \<open>Every request is answered\<close>

lemma git_handlers_answer:
  "gitSmartHTTPHandler access backend env r (w, s) \<noteq> None"
  "gitDiffHandler access diff kind env r (w, s) \<noteq> None"
  "gitRawHandler access raw env r (w, s) \<noteq> None"
  by (auto simp: gitSmartHTTPHandler_def gitDiffHandler_def gitRawHandler_def Let_def
      split: option.split sum.split prod.split)

lemma lfs_parts_answer:
  "serveLFSBatch low access store repoID mx env r (w, s) \<noteq> None"
  "serveLFSUpload low access store repoID mx env r (w, s) \<noteq> None"
  "serveLFSDownload low access store repoID env r (w, s) \<noteq> None"
  "serveLFSLocksVerify access repoID env r (w, s) \<noteq> None"
  by (auto simp: serveLFSBatch_def serveLFSUpload_def serveLFSDownload_def serveLFSLocksVerify_def Let_def
      split: option.split sum.split prod.split)

lemma lfs_answers: "gitLFSHandler low access store mx env r (w, s) \<noteq> None"
  by (simp add: gitLFSHandler_def Let_def lfs_parts_answer del: not_None_eq split: option.split)

lemma git_handler_answers: "git_handler lib sys config route env r (w, s) \<noteq> None"
  by (cases route) (simp_all only: git_handler_def Let_def routeName.case git_handlers_answer lfs_answers not_False_eq_True)

lemma on_store_answers: "h env r (w, c) \<noteq> None \<Longrightarrow> on_store h env r (w, i, c) \<noteq> None"
  by (auto simp: on_store_def)

lemma control_handlers_answer:
  "createRepoHandler store baseURL env r (w, s) \<noteq> None"
  "getRepoHandler store baseURL env r (w, s) \<noteq> None"
  "archiveRepoHandler store zone env r (w, s) \<noteq> None"
  "listRepoTokensHandler store zone env r (w, s) \<noteq> None"
  "revokeRepoTokenHandler store zone env r (w, s) \<noteq> None"
  by (auto simp: createRepoHandler_def getRepoHandler_def archiveRepoHandler_def listRepoTokensHandler_def
      revokeRepoTokenHandler_def Let_def split: option.split sum.split prod.split)

lemma token_call_answers:
  assumes "draw_stops sha (tokenIDsByHash m) (env_tokens env k)"
  shows "create_token_call (memoryStore sha gs) zone baseURL env repoID q ctx (m, wd) \<noteq> None"
proof -
  from draw_token_returns [of sha "tokenIDsByHash m" "env_tokens env" k] assms obtain x where
    "draw_token sha (tokenIDsByHash m) (env_tokens env) 0 = Some x" by blast
  then have "memory_CreateRepoToken sha (env\<lparr>env_ctx := ctx\<rparr>) input (m, wd) \<noteq> None" for input
    by (auto simp: memory_CreateRepoToken_def Let_def split: option.split sum.split)
  then show ?thesis
    by (auto simp: create_token_call_def memoryStore_def split: option.split sum.split)
qed

lemma memory_Do_answers:
  assumes "\<And>ctx. create ctx c \<noteq> None"
  shows "memory_Do ctx now input create (i, c) \<noteq> None"
proof
  assume "memory_Do ctx now input create (i, c) = None"
  with assms show False
    by (auto simp: memory_Do_def memory_Do_create_def Let_def simp del: not_None_eq
        split: option.splits sum.splits prod.splits if_splits)
qed

lemma create_token_answers:
  assumes "draw_stops sha (tokenIDsByHash m) (env_tokens env k)"
  shows "createRepoTokenHandler (memoryStore sha gs) memoryIdempotency h zone baseURL env r (w, i, m, wd) \<noteq> None"
proof -
  have call: "create_token_call (memoryStore sha gs) zone baseURL env repoID q ctx (m, wd) \<noteq> None" for repoID q ctx
    by (rule token_call_answers [OF assms])
  have "memory_Do ctx now input (create_token_call (memoryStore sha gs) zone baseURL env repoID q) (i, m, wd) \<noteq> None"
    for ctx now input repoID q
    by (rule memory_Do_answers) (rule call)
  with call have "createRepoTokenHandler (memoryStore sha gs) memoryIdempotency h zone baseURL env r (w, i, m, wd) = None
      \<Longrightarrow> False"
    by (auto simp: createRepoTokenHandler_def memoryIdempotency_def Let_def simp del: not_None_eq
        split: option.splits sum.splits prod.splits if_splits)
  then show ?thesis by blast
qed

lemma control_handler_answers:
  assumes "draw_stops (lib_sha256 lib) (tokenIDsByHash m) (env_tokens env k)"
  shows "control_handler lib sys config route env r (w, i, m, wd) \<noteq> None"
  using create_token_answers [OF assms]
  by (cases route)
    (simp_all only: control_handler_def Let_def routeName.case not_False_eq_True on_store_answers control_handlers_answer)

lemma route_answers:
  assumes "draw_stops (lib_sha256 lib) (tokenIDsByHash m) (env_tokens env k)"
  shows "route_handler (memory_handlers lib sys config) route env r (w, i, m, wd) \<noteq> None"
proof -
  consider "route \<in> set control_routes" | "route \<in> set git_routes" | "route = AgentDocs \<or> route = Healthz"
    using route_kinds by blast
  then show ?thesis
  proof cases
    case 1
    have "control_handler lib sys config route env r (w, i, m, wd) \<noteq> None" by (rule control_handler_answers [OF assms])
    with controlAuth_either [of "cfg_ControlBearer config" "control_handler lib sys config route" env r w "(i, m, wd)"]
    show ?thesis unfolding memory_control_handler [OF 1] by auto
  next
    case 2
    have "on_store (git_handler lib sys config route) env r' (w, i, m, wd) \<noteq> None" for r'
      by (rule on_store_answers) (rule git_handler_answers)
    then show ?thesis unfolding memory_git [OF 2] by (simp add: gitRepoRoute_def split: option.split)
  next
    case 3
    then show ?thesis
      by (auto simp: memory_handlers_def server_handlers_def route_handler_def agentDocs_or_NotFound_def
          agentDocsHandler_def noContent_def Let_def)
  qed
qed


end
