(* ===== verification/Postgres_Server.thy ===== *)
theory Postgres_Server
  imports Postgres Server_Safety
begin

text \<open>
  The server on PostgreSQL (\<open>NewPostgresServer\<close> in \<open>internal/http/postgres.go\<close>): the pool is opened, the
  migrations are executed in order, and the handlers run over the stores of \<open>Postgres\<close>.  What holds of
  the assembled server without the control token is proved from the rules of \<open>state_relation\<close>, as for
  the in-memory server.

  The pool is the record \<open>pgxpool\<close> on a state of type \<open>'s\<close>; what the database answers to the statements
  of the stores is a \<open>postgres\<close>, a parameter that depends on the pool.
\<close>

section \<open>Migrations\<close>

definition tabs :: "nat \<Rightarrow> string" where "tabs n = replicate n (CHR 0x09)"

text \<open>A text of several lines, without a newline at its end.\<close>

fun sql :: "string list \<Rightarrow> string" where
  "sql [] = []"
| "sql [l] = l"
| "sql (l # ls) = l @ newline # sql ls"

definition postgresMigrations :: "string list" where
  "postgresMigrations = [
     sql [
        ''CREATE TABLE IF NOT EXISTS repos ('',
        tabs 2 @ ''id uuid PRIMARY KEY,'',
        tabs 2 @ ''namespace text NOT NULL,'',
        tabs 2 @ ''name text NOT NULL,'',
        tabs 2 @ ''default_branch text NOT NULL,'',
        tabs 2 @ ''archived_at timestamptz,'',
        tabs 2 @ ''created_at timestamptz NOT NULL'',
        tabs 1 @ '')''],
     ''CREATE UNIQUE INDEX IF NOT EXISTS repos_namespace_name_key ON repos(namespace, name)'',
     sql [
        ''CREATE TABLE IF NOT EXISTS repo_tokens ('',
        tabs 2 @ ''id uuid PRIMARY KEY,'',
        tabs 2 @ ''repo_id uuid NOT NULL REFERENCES repos(id) ON DELETE CASCADE,'',
        tabs 2 @ ''token_hash text NOT NULL,'',
        tabs 2 @ ''scope text NOT NULL,'',
        tabs 2 @ ''subject text NOT NULL,'',
        tabs 2 @ ''expires_at timestamptz NOT NULL,'',
        tabs 2 @ ''created_at timestamptz NOT NULL,'',
        tabs 2 @ ''revoked_at timestamptz,'',
        tabs 2 @ ''last_used_at timestamptz'',
        tabs 1 @ '')''],
     ''CREATE UNIQUE INDEX IF NOT EXISTS repo_tokens_token_hash_key ON repo_tokens(token_hash)'',
     ''CREATE INDEX IF NOT EXISTS repo_tokens_repo_created_id_idx ON repo_tokens(repo_id, created_at, id)'',
     sql [
        ''CREATE TABLE IF NOT EXISTS idempotency_records ('',
        tabs 2 @ ''scope text NOT NULL,'',
        tabs 2 @ ''key text NOT NULL,'',
        tabs 2 @ ''request_hash text NOT NULL,'',
        tabs 2 @ ''response jsonb NOT NULL,'',
        tabs 2 @ ''expires_at timestamptz NOT NULL,'',
        tabs 2 @ ''PRIMARY KEY (scope, key)'',
        tabs 1 @ '')''],
     ''CREATE INDEX IF NOT EXISTS idempotency_records_expires_at_idx ON idempotency_records(expires_at)'']"

record ('db, 's) pgxpool =
  pool_New :: "string \<Rightarrow> 's \<Rightarrow> (string + 'db) \<times> 's"
  pool_Exec :: "'db \<Rightarrow> string \<Rightarrow> 's \<Rightarrow> string option \<times> 's"
  pool_Close :: "'db \<Rightarrow> 's \<Rightarrow> 's"

definition openPostgresPool :: "('db, 's) pgxpool \<Rightarrow> string \<Rightarrow> 's \<Rightarrow> (string + 'db) \<times> 's" where
  "openPostgresPool pool databaseURL = pool_New pool databaseURL"

fun exec_all :: "('db, 's) pgxpool \<Rightarrow> 'db \<Rightarrow> string list \<Rightarrow> 's \<Rightarrow> string option \<times> 's" where
  "exec_all pool db [] s = (None, s)"
| "exec_all pool db (migration # migrations) s =
     (case pool_Exec pool db migration s of
        (Some err, s') \<Rightarrow> (Some err, s')
      | (None, s') \<Rightarrow> exec_all pool db migrations s')"

definition migratePostgres :: "('db, 's) pgxpool \<Rightarrow> 'db \<Rightarrow> 's \<Rightarrow> string option \<times> 's" where
  "migratePostgres pool db = exec_all pool db postgresMigrations"

section \<open>The server\<close>

type_synonym 'w pgServerState = "string \<times> unit \<times> pgState \<times> 'w"

definition postgresServer ::
  "('a, 'p) stdlib \<Rightarrow> 'w system \<Rightarrow> 'p Config \<Rightarrow> postgres \<Rightarrow> 'w pgServerState handler" where
  "postgresServer lib sys config pg =
     NewServerWithStores lib (tools_on (sys_tools sys))
       (\<lambda>root. lfs_on (filesystemLFSObjectStore (sys_files sys) (lib_sha256 lib) root)) config
       (postgresStore pg (lib_sha256 lib)
          (filesystemGitStorage (sys_host sys) (newFilesystemGitStorage (cfg_StorageRoot config))))
       (postgresIdempotency pg)"

definition NewPostgresServer ::
  "('db, 's) pgxpool \<Rightarrow> ('db \<Rightarrow> postgres) \<Rightarrow> ('a, 'p) stdlib \<Rightarrow> 'w system \<Rightarrow> 'p Config \<Rightarrow> string \<Rightarrow> 's \<Rightarrow>
     (string + 'w pgServerState handler \<times> ('s \<Rightarrow> string option \<times> 's)) \<times> 's" where
  "NewPostgresServer pool answers lib sys config databaseURL s =
     (case openPostgresPool pool databaseURL s of
        (Inl err, s1) \<Rightarrow> (Inl err, s1)
      | (Inr db, s1) \<Rightarrow>
          (case migratePostgres pool db s1 of
             (Some err, s2) \<Rightarrow> (Inl err, pool_Close pool db s2)
           | (None, s2) \<Rightarrow>
               (Inr (postgresServer lib sys config (answers db), \<lambda>s. (None, pool_Close pool db s)), s2)))"

section \<open>What opening does\<close>

lemma exec_all_append:
  "exec_all pool db (xs @ ys) s =
     (case exec_all pool db xs s of (None, s') \<Rightarrow> exec_all pool db ys s' | failed \<Rightarrow> failed)"
  by (induction xs arbitrary: s) (simp_all split: prod.splits option.splits)

text \<open>A migration that fails is the last one executed.\<close>

lemma exec_all_failed:
  assumes "exec_all pool db xs s = (Some err, s')"
  obtains ys x zs s1 where "xs = ys @ x # zs" "exec_all pool db ys s = (None, s1)" "pool_Exec pool db x s1 = (Some err, s')"
  using assms
proof (induction xs arbitrary: s thesis)
  case (Cons x xs)
  obtain e s1 where x: "pool_Exec pool db x s = (e, s1)" by fastforce
  show ?case
  proof (cases e)
    case None
    with Cons.prems(2) x have "exec_all pool db xs s1 = (Some err, s')" by simp
    then obtain ys y zs s2 where "xs = ys @ y # zs" "exec_all pool db ys s1 = (None, s2)" "pool_Exec pool db y s2 = (Some err, s')"
      by (rule Cons.IH [rotated])
    with x None Cons.prems(1) [of "x # ys" y zs s2] show thesis by simp
  next
    case (Some err')
    with Cons.prems x show thesis by (intro Cons.prems(1) [of "[]" x xs s]) auto
  qed
qed simp

lemma NewPostgresServer_cases:
  assumes "NewPostgresServer pool answers lib sys config url s = (Inr (handler, closeServer), s')"
  obtains db s1 where "pool_New pool url s = (Inr db, s1)" "exec_all pool db postgresMigrations s1 = (None, s')"
    "handler = postgresServer lib sys config (answers db)" "closeServer = (\<lambda>s. (None, pool_Close pool db s))"
  using assms that
  by (auto simp: NewPostgresServer_def openPostgresPool_def migratePostgres_def split: sum.splits prod.splits option.splits)

section \<open>Requests without the control token\<close>

text \<open>The tables differ at most in the times at which tokens were last used.\<close>

definition unused_row :: "tokenRow \<Rightarrow> tokenRow" where
  "unused_row t = t\<lparr>tr_last_used_at := None\<rparr>"

definition only_used_rows :: "pgTables \<Rightarrow> pgTables \<Rightarrow> bool" where
  "only_used_rows db db' \<longleftrightarrow> pg_repos db' = pg_repos db \<and> pg_idempotency db' = pg_idempotency db \<and>
     map unused_row (pg_tokens db') = map unused_row (pg_tokens db)"

definition pg_touch :: "pgState \<times> 'w \<Rightarrow> pgState \<times> 'w \<Rightarrow> bool" where
  "pg_touch s s' \<longleftrightarrow> pg_tx (fst s') = pg_tx (fst s) \<and> only_used_rows (pg_db (fst s)) (pg_db (fst s'))"

interpretation pgs: state_relation pg_touch
  by unfold_locales (auto simp: pg_touch_def only_used_rows_def)

lemma unused_touch_row: "unused_row (touch_row now ident t) = unused_row t"
  by (simp add: touch_row_def unused_row_def)

lemma postgres_authorize_touches: "access_keeps pg_touch (postgres_AuthorizeGitAccess pg sha gs)"
  by (auto simp: access_keeps_def postgres_AuthorizeGitAccess_def Let_def
      split: prod.splits sum.splits option.splits)
    (simp_all add: pg_touch_def only_used_rows_def unused_touch_row)

lemma pg_tools_touch: "tools_keep pg_touch (tools_on tools)"
  by (auto simp: tools_keep_def tools_on_def pg_touch_def only_used_rows_def split: prod.split)

lemma pg_lfs_touches: "lfs_keeps pg_touch (lfs_on store)"
  by (auto simp: lfs_keeps_def lfs_on_def pg_touch_def only_used_rows_def split: prod.split)

text \<open>
  C7 (NewPostgresServer).  Whoever does not hold the control token changes no row: on a server that
  \<open>NewPostgresServer\<close> returned, over any sequence of requests without the token, and whatever statements
  of the database fail, the repositories and the recorded idempotent answers stay as they are and the
  tokens change at most in the time of their last use.
\<close>
theorem postgres_no_control_no_change:
  assumes "NewPostgresServer pool answers lib sys config url s = (Inr (handler, closeServer), s')"
    and "serve_all handler reqs (log, u, st, w) = Some (log', u', st', w')"
    and "list_all (\<lambda>(env, r). \<not> carries_control config r) reqs"
  shows "pg_tx st' = pg_tx st \<and> only_used_rows (pg_db st) (pg_db st')"
  using assms(1)
proof (cases rule: NewPostgresServer_cases)
  case (1 db s1)
  with pgs.requests_without_control [OF assms(2) [unfolded 1(3) postgresServer_def] assms(3)] show ?thesis
    by (simp add: postgres_authorize_touches pg_tools_touch pg_lfs_touches postgresStore_def) (simp add: pg_touch_def)
qed

end
