(* ===== verification/Server_Demo.thy ===== *)
theory Server_Demo
  imports Lfs_Demo Server_Safety
begin

text \<open>
  A concrete server on the host of \<open>Repository_Demo\<close>, and the properties of \<open>Server_Safety\<close> applied to
  requests it serves: a repository is created over HTTP, a request without the control token is
  refused, a revoked token is presented.
\<close>

section \<open>The server\<close>

definition demo_lib :: "(unit, unit) stdlib" where
  "demo_lib = \<lparr>lib_sha256 = demo_sha, lib_zone = (\<lambda>t. 0), lib_low = (\<lambda>r. r),
     lib_netip = \<lparr>ParseAddr = (\<lambda>s. None), Addr_String = (\<lambda>a. []), Prefix_Contains = (\<lambda>p a. False)\<rparr>,
     lib_timing = (\<lambda>env. (0, 0)), lib_redirect = (\<lambda>path r w. rw_WriteHeader 301 w)\<rparr>"

text \<open>A disk without any file: nothing can be written, nothing is found.\<close>

definition no_files :: "'s fileHost" where
  "no_files = \<lparr>fh_MkdirAll = (\<lambda>p s. (None, s)), fh_CreateTemp = (\<lambda>d p s. (Inl (errOther ''full''), s)),
     fh_Write = (\<lambda>p b s. ((0, Some (errOther ''full'')), s)), fh_Close = (\<lambda>p s. (None, s)),
     fh_Rename = (\<lambda>p q s. (Some (errOther ''full''), s)), fh_Remove = (\<lambda>p s. (None, s)),
     fh_Stat = (\<lambda>p s. Inl ErrNotExist), fh_Open = (\<lambda>p s. Inl ErrNotExist)\<rparr>"

definition demo_system :: "string list system" where
  "demo_system = \<lparr>sys_host = dir_host, sys_files = no_files,
     sys_tools = \<lparr>gt_PATH = [], gt_low = (\<lambda>r. r), gt_run = (\<lambda>ctx g args env body s. (demo_proc [], s))\<rparr>\<rparr>"

definition demo_config :: "unit Config" where
  "demo_config = \<lparr>cfg_BaseURL = ''http://h'', cfg_ControlBearer = ''boss'', cfg_StorageRoot = [],
     cfg_MaxLFSObjectBytes = 0, cfg_AccessLog = False, cfg_TrustedProxyPrefixes = []\<rparr>"

abbreviation demo_server :: "string list serverState handler" where
  "demo_server \<equiv> NewServer demo_lib demo_system demo_config"

definition http_request :: "string \<Rightarrow> string \<Rightarrow> header \<Rightarrow> string \<Rightarrow> httpRequest" where
  "http_request method path header body = (demo_request method [] header body)\<lparr>r_Path := path, r_EscapedPath := path\<rparr>"

lemma http_request_fields [simp]:
  "r_Method (http_request m p h b) = m" "r_Path (http_request m p h b) = p" "r_EscapedPath (http_request m p h b) = p"
  "r_Header (http_request m p h b) = h" "r_Body (http_request m p h b) = \<lparr>body_bytes = b, body_err = None\<rparr>"
  by (simp_all add: http_request_def demo_request_def)

lemma demo_config_fields [simp]:
  "lib_sha256 demo_lib = demo_sha" "lib_zone demo_lib = (\<lambda>t. 0)" "cfg_ControlBearer demo_config = ''boss''"
  "cfg_BaseURL demo_config = ''http://h''"
  by (simp_all add: demo_lib_def demo_config_def)

lemma demo_server_storage [simp]: "server_storage demo_system demo_config = demo_storage"
proof -
  have "newFilesystemGitStorage [] = defaultGitStorageRoot" by code_simp
  then show ?thesis by (simp add: demo_system_def demo_config_def demo_storage_def)
qed

section \<open>Requests\<close>

definition demo_health :: httpRequest where "demo_health = http_request ''GET'' ''/healthz'' [] []"

definition demo_post :: "header \<Rightarrow> httpRequest" where
  "demo_post header = http_request ''POST'' ''/v1/repos'' header (json_text demo_create_json)"

lemma demo_health_served:
  "\<exists>log'. demo_server env demo_health (new_writer, log, st) = Some (rw_WriteHeader 204 new_writer, log', st)"
proof (rule NewServer_found)
  show "findHandler (r_Method demo_health) (r_Path demo_health) (r_EscapedPath demo_health) = Found Healthz []"
    unfolding demo_health_def by code_simp
qed (simp add: memory_handlers_def server_handlers_def route_handler_def noContent_def Let_def)

lemma demo_post_found:
  "findHandler (r_Method (demo_post h)) (r_Path (demo_post h)) (r_EscapedPath (demo_post h)) = Found CreateRepoRoute []"
proof -
  have "findHandler ''POST'' ''/v1/repos'' ''/v1/repos'' = Found CreateRepoRoute []" by code_simp
  then show ?thesis by (simp add: demo_post_def)
qed

lemma create_route [simp]: "CreateRepoRoute \<in> set control_routes"
  by (simp add: control_routes_def)

lemma demo_post_no_control: "\<not> carries_control demo_config (demo_post [])"
  by (simp add: carries_control_def demo_post_def Header_Get_def)

lemma demo_post_refused:
  "\<exists>log'. demo_server env (demo_post []) (new_writer, log, st) = Some (rw_WriteHeader 401 new_writer, log', st)"
proof (rule NewServer_found [OF demo_post_found])
  have "\<not> carries_control demo_config ((demo_post [])\<lparr>r_PathValues := []\<rparr>)"
    using demo_post_no_control by (simp add: carries_control_def)
  then show "route_handler (memory_handlers demo_lib demo_system demo_config) CreateRepoRoute env
      ((demo_post [])\<lparr>r_PathValues := []\<rparr>) (new_writer, st) = Some (rw_WriteHeader 401 new_writer, st)"
    unfolding memory_control_handler [OF create_route] by (rule controlAuth_refuses)
qed

text \<open>The request with the control token creates the repository.\<close>

definition demo_boss :: header where "demo_boss = [(''Authorization'', [''Bearer boss''])]"

lemma demo_boss_control:
  assumes "r_Header r = demo_boss"
  shows "controlAuth ''boss'' h env r x = h env r x"
proof -
  have "strings_CutPrefix (Header_Get demo_boss ''Authorization'') ''Bearer '' = Some ''boss''" by code_simp
  with assms show ?thesis by (cases x) (simp add: controlAuth_def)
qed

lemma demo_post_created:
  "\<exists>log'. demo_server (demo_env 0 5) (demo_post demo_boss) (new_writer, log, i, newMemoryRepoStore, []) =
     Some (json_response 201 (createRepoResponse ''http://h'' demo_repo), log', i, demo_store, demo_world)"
proof (rule NewServer_found [OF demo_post_found])
  let ?r = "(demo_post demo_boss)\<lparr>r_PathValues := []\<rparr>"
  have r: "r_Header ?r = demo_boss" by (simp add: demo_post_def)
  have "decodeJSON f ?r a = decodeJSON f demo_create_request a" for f and a :: createRepoRequest
    by (simp add: decodeJSON_def decode_body_def demo_post_def demo_create_request_def demo_request_def)
  then have "createRepoHandler (memoryStore demo_sha demo_storage) ''http://h'' (demo_env 0 5) ?r
      (new_writer, newMemoryRepoStore, []) =
    Some (json_response 201 (createRepoResponse ''http://h'' demo_repo), demo_store, demo_world)"
    using demo_run_post_repo by (simp add: createRepoHandler_def)
  then have "control_handler demo_lib demo_system demo_config CreateRepoRoute (demo_env 0 5) ?r
      (new_writer, i, newMemoryRepoStore, []) =
    Some (json_response 201 (createRepoResponse ''http://h'' demo_repo), i, demo_store, demo_world)"
    by (simp add: control_handler_def on_store_def Let_def)
  then show "route_handler (memory_handlers demo_lib demo_system demo_config) CreateRepoRoute (demo_env 0 5) ?r
      (new_writer, i, newMemoryRepoStore, []) =
    Some (json_response 201 (createRepoResponse ''http://h'' demo_repo), i, demo_store, demo_world)"
    unfolding memory_control_handler [OF create_route] demo_config_fields by (simp only: demo_boss_control [OF r])
qed

section \<open>The properties\<close>

theorem no_control_no_change_witness:
  "\<exists>log' i' m' w'. serve_all demo_server [(demo_env 0 5, demo_post []), (demo_env 0 6, demo_health)]
       ([], newMemoryIdempotencyStore, demo_store2, demo_world) = Some (log', i', m', w') \<and>
     i' = newMemoryIdempotencyStore \<and> only_used demo_store2 m'"
proof -
  let ?st = "(newMemoryIdempotencyStore, demo_store2, demo_world)"
  obtain log1 where "demo_server (demo_env 0 5) (demo_post []) (new_writer, [], ?st) =
      Some (rw_WriteHeader 401 new_writer, log1, ?st)" using demo_post_refused by blast
  moreover obtain log2 where "demo_server (demo_env 0 6) demo_health (new_writer, log1, ?st) =
      Some (rw_WriteHeader 204 new_writer, log2, ?st)" using demo_health_served by blast
  ultimately have run: "serve_all demo_server [(demo_env 0 5, demo_post []), (demo_env 0 6, demo_health)] ([], ?st) =
      Some (log2, ?st)" by simp
  have "list_all (\<lambda>(env, r). \<not> carries_control demo_config r) [(demo_env 0 5, demo_post []), (demo_env 0 6, demo_health)]"
    using demo_post_no_control by (simp add: carries_control_def demo_health_def Header_Get_def)
  from no_control_no_change [OF run this demo_store_ok(2)] run show ?thesis by blast
qed



section \<open>A revoked token\<close>

definition demo_git_id :: string where "demo_git_id = formatRepoControlID demo_repo_id @ ''.git''"

definition demo_clone :: httpRequest where
  "demo_clone = http_request ''GET'' (below [''git'', ''repos'', demo_git_id] @ below [''info'', ''refs''])
     [(''Authorization'', [''Bearer x''])] []"

lemma demo_clone_found:
  "findHandler (r_Method demo_clone) (r_Path demo_clone) (r_EscapedPath demo_clone) =
     Found GitSmartHTTP [(''repoGitID'', demo_git_id), (''gitPath'', pathUnescape (tl (below [''info'', ''refs''])))]"
proof -
  have "plain_part demo_git_id \<and> CHR ''%'' \<notin> set demo_git_id"
    by (simp add: demo_git_id_def formatRepoControlID_def repoControlIDPrefix_def plain_part_def demo_repo_id_def)
  then show ?thesis
    unfolding demo_clone_def http_request_fields by (intro routed_to_transport) auto
qed

lemma demo_clone_token: "gitTokenFromRequest demo_clone = ''x''"
  using lfs_request_token [of "[]" "[]"]
  by (simp add: gitTokenFromRequest_def BasicAuth_def demo_clone_def lfs_request_def demo_request_def
      cong: option.case_cong)

theorem revoked_token_refused_over_http_witness:
  "\<exists>w log'. demo_server (demo_env 0 10) demo_clone (new_writer, [], newMemoryIdempotencyStore, demo_store3, demo_world) =
     Some (w, log', newMemoryIdempotencyStore, demo_store3, demo_world) \<and> 400 \<le> resp_status w"
proof -
  let ?t = "demo_token\<lparr>tok_Token := [], tok_RevokedAt := 9\<rparr>"
  have t: "presented_token (lib_sha256 demo_lib) demo_store3 ''x'' ?t" "tok_RevokedAt ?t \<noteq> 0"
    by (simp_all add: presented_token_def demo_store3_def)
  have "store_ok demo_store3"
    using memory_RevokeRepoToken_ok [OF demo_store_ok(2) demo_run_revoke] .
  from revoked_token_refused_over_http [OF this t, of demo_system demo_config "[]" "[]" newMemoryIdempotencyStore demo_world
      "[]" newMemoryIdempotencyStore demo_store3 demo_world, OF _ _ demo_clone_found _ demo_clone_token, of "demo_env 0 10"]
  show ?thesis by (simp add: git_routes_def)
qed

end
