(* ===== verification/Postgres_Server_Demo.thy ===== *)
theory Postgres_Server_Demo
  imports Postgres_Demo Postgres_Server Server_Demo
begin

text \<open>
  A server on a pool that opens and executes every migration, over the database of \<open>Postgres_Demo\<close>;
  the state of the pool is the list of what was executed.
\<close>

definition demo_pool :: "(unit, string list) pgxpool" where
  "demo_pool = \<lparr>pool_New = (\<lambda>url s. (Inr (), s)), pool_Exec = (\<lambda>db q s. (None, s @ [q])), pool_Close = (\<lambda>db s. s @ [''close''])\<rparr>"

definition demo_postgres_server :: "string list pgServerState handler" where
  "demo_postgres_server = postgresServer demo_lib demo_system demo_config demo_pg"

lemma demo_pool_fields [simp]:
  "pool_New demo_pool url s = (Inr (), s)" "pool_Exec demo_pool db q s = (None, s @ [q])"
  "pool_Close demo_pool db s = s @ [''close'']"
  by (simp_all add: demo_pool_def)

lemma demo_exec_all: "exec_all demo_pool db qs s = (None, s @ qs)"
  by (induction qs arbitrary: s) simp_all

lemma demo_postgres_opens:
  "NewPostgresServer demo_pool (\<lambda>db. demo_pg) demo_lib demo_system demo_config ''postgres://'' [] =
     (Inr (demo_postgres_server, \<lambda>s. (None, s @ [''close''])), postgresMigrations)"
  by (simp add: NewPostgresServer_def openPostgresPool_def migratePostgres_def demo_exec_all demo_postgres_server_def)

definition demo_rows :: pgState where
  "demo_rows = empty_db\<lparr>pg_db := (pg_db empty_db)\<lparr>pg_repos := [demo_row]\<rparr>\<rparr>"

lemma demo_postgres_refuses:
  "\<exists>log'. demo_postgres_server env (demo_post []) (new_writer, log, st) = Some (rw_WriteHeader 401 new_writer, log', st)"
  unfolding demo_postgres_server_def postgresServer_def
proof (rule stores_found [OF demo_post_found])
  let ?handlers = "server_handlers demo_lib (tools_on (sys_tools demo_system))
      (\<lambda>root. lfs_on (filesystemLFSObjectStore (sys_files demo_system) (lib_sha256 demo_lib) root)) demo_config
      (postgresStore demo_pg (lib_sha256 demo_lib)
        (filesystemGitStorage (sys_host demo_system) (newFilesystemGitStorage (cfg_StorageRoot demo_config))))
      (postgresIdempotency demo_pg)"
  obtain h where h: "route_handler ?handlers CreateRepoRoute = controlAuth (cfg_ControlBearer demo_config) h"
    by (rule control_route [OF create_route])
  have "\<not> carries_control demo_config ((demo_post [])\<lparr>r_PathValues := []\<rparr>)"
    using demo_post_no_control by (simp add: carries_control_def)
  then show "route_handler ?handlers CreateRepoRoute env ((demo_post [])\<lparr>r_PathValues := []\<rparr>) (new_writer, st) =
      Some (rw_WriteHeader 401 new_writer, st)"
    unfolding h by (rule controlAuth_refuses)
qed

theorem postgres_no_control_no_change_witness:
  "\<exists>log' u' st' w'. serve_all demo_postgres_server [(demo_env 0 5, demo_post [])] ([], (), demo_rows, []) =
     Some (log', u', st', w') \<and> only_used_rows (pg_db demo_rows) (pg_db st') \<and> pg_repos (pg_db st') = [demo_row]"
proof -
  obtain log1 where "demo_postgres_server (demo_env 0 5) (demo_post []) (new_writer, [], (), demo_rows, []) =
      Some (rw_WriteHeader 401 new_writer, log1, (), demo_rows, [])" using demo_postgres_refuses by blast
  then have run: "serve_all demo_postgres_server [(demo_env 0 5, demo_post [])] ([], (), demo_rows, []) =
      Some (log1, (), demo_rows, [])" by simp
  have "list_all (\<lambda>(env, r). \<not> carries_control demo_config r) [(demo_env 0 5, demo_post [])]"
    using demo_post_no_control by simp
  from postgres_no_control_no_change [OF demo_postgres_opens run this] run show ?thesis
    by (simp add: only_used_rows_def demo_rows_def)
qed

end
